(* ===== verification/Prelude.thy ===== *)
theory Prelude
  imports Main "HOL-Library.Sublist" "HOL-Library.Char_ord" "HOL-Library.List_Lexorder" "HOL-Library.Product_Lexorder" "HOL-Library.Multiset"
begin

section \<open>Prelude: shared types, string functions and automation\<close>

text \<open>
  What every component uses. The exceptions the program raises are the values of one datatype,
  \<open>exn\<close>; a fallible function returns \<open>exn + 'a\<close>, with \<open>Inl\<close> for a raised exception. A Python
  \<open>str\<close> is a \<open>string\<close> whose characters are code points below 256; the string operations the
  source calls (\<open>startswith\<close>, \<open>split\<close>, \<open>strip\<close>, \<open>join\<close>, \<open>str\<close> of an integer) are functions on
  lists. The collection \<open>wp\<close> holds the rules that run a monadic program symbolically,
  \<open>frame\<close> the facts that an operation leaves a part of the state alone.
\<close>

named_theorems wp \<open>rules that run a program symbolically\<close>
named_theorems frame \<open>an operation leaves a component of the state unchanged\<close>
named_theorems keep \<open>a program keeps an invariant, whatever it returns\<close>

subsection \<open>Exceptions\<close>

text \<open>\<open>Exit\<close> is \<open>typer.Exit\<close>, \<open>HTTPError\<close> and \<open>HTTPStatusError\<close> are those of the HTTP client, the second with
  the body of the response and the message. \<open>OutOfFuel\<close> is no exception of the program: it is the value of a
  loop that is cut short by the bound the model gives it.\<close>

datatype exn =
    KeyError string
  | ValueError string
  | TypeError string
  | LookupError string
  | AssertionError
  | RuntimeError string
  | OSError string
  | TarError string
  | DockerException string
  | TimeoutExpired
  | Exit nat
  | HTTPError string
  | HTTPStatusError string string
  | JSONDecodeError
  | OutOfFuel
  | SecretNotFoundError string
  | SecretLeaseStateError string
  | ExportSourceNotFoundError string
  | ExportPolicyError string
  | ExportStateError string
  | SnapshotMetadataError string
  | UnsupportedSnapshotRuntimeError string
  | SchedulerQuotaExceededError
  | ResourceNotFoundError string
  | ConflictError string "string option"
  | HTTPException nat string

subsection \<open>Results\<close>

definition result_bind :: "exn + 'a \<Rightarrow> ('a \<Rightarrow> exn + 'b) \<Rightarrow> exn + 'b" where
  "result_bind r f = (case r of Inl e \<Rightarrow> Inl e | Inr x \<Rightarrow> f x)"

lemma result_bind_simps [simp]:
  "result_bind (Inl e) f = Inl e"
  "result_bind (Inr x) f = f x"
  by (simp_all add: result_bind_def)

lemma result_bind_Inr_iff:
  "result_bind r f = Inr y \<longleftrightarrow> (\<exists>x. r = Inr x \<and> f x = Inr y)"
  by (cases r) simp_all

lemma result_bind_Inl_iff:
  "result_bind r f = Inl e \<longleftrightarrow> r = Inl e \<or> (\<exists>x. r = Inr x \<and> f x = Inl e)"
  by (cases r) auto

definition check :: "bool \<Rightarrow> exn \<Rightarrow> exn + unit" where
  "check ok e = (if ok then Inr () else Inl e)"

lemma check_iff [simp]:
  "check ok e = Inr u \<longleftrightarrow> ok"
  "check ok e = Inl e' \<longleftrightarrow> \<not> ok \<and> e' = e"
  by (auto simp: check_def)

text \<open>A loop that runs a check on every element and stops at the first exception.\<close>

fun check_all :: "('a \<Rightarrow> exn + unit) \<Rightarrow> 'a list \<Rightarrow> exn + unit" where
  "check_all f [] = Inr ()"
| "check_all f (x # xs) = result_bind (f x) (\<lambda>_. check_all f xs)"

lemma check_all_ok_iff: "check_all f xs = Inr () \<longleftrightarrow> (\<forall>x\<in>set xs. f x = Inr ())"
  by (induction xs) (auto simp: result_bind_Inr_iff)

subsection \<open>Strings\<close>

definition startswith :: "string \<Rightarrow> string \<Rightarrow> bool" where
  "startswith s pre = prefix pre s"

definition startswith_any :: "string \<Rightarrow> string list \<Rightarrow> bool" where
  "startswith_any s pres = list_ex (startswith s) pres"

text \<open>\<open>s.split(c, 1)\<close> when \<open>c in s\<close>: the parts before and after the first \<open>c\<close>.\<close>

definition split_once :: "char \<Rightarrow> string \<Rightarrow> string \<times> string" where
  "split_once c s = (takeWhile (\<lambda>x. x \<noteq> c) s, tl (dropWhile (\<lambda>x. x \<noteq> c) s))"

fun split_on :: "char \<Rightarrow> string \<Rightarrow> string list" where
  "split_on c [] = [[]]"
| "split_on c (x # xs) =
     (if x = c then [] # split_on c xs
      else (case split_on c xs of [] \<Rightarrow> [[x]] | y # ys \<Rightarrow> (x # y) # ys))"

fun join :: "string \<Rightarrow> string list \<Rightarrow> string" where
  "join sep [] = []"
| "join sep [x] = x"
| "join sep (x # y # zs) = x @ sep @ join sep (y # zs)"

text \<open>The characters \<open>str.strip()\<close> removes, among the code points below 256.\<close>

definition is_space :: "char \<Rightarrow> bool" where
  "is_space c = (let n = (of_char c :: nat)
     in (9 \<le> n \<and> n \<le> 13) \<or> (28 \<le> n \<and> n \<le> 32) \<or> n = 133 \<or> n = 160)"

definition strip :: "string \<Rightarrow> string" where
  "strip s = rev (dropWhile is_space (rev (dropWhile is_space s)))"

fun show_nat :: "nat \<Rightarrow> string" where
  "show_nat n =
     (if n < 10 then [char_of (48 + n)] else show_nat (n div 10) @ [char_of (48 + n mod 10)])"

declare show_nat.simps [simp del]

definition show_int :: "int \<Rightarrow> string" where
  "show_int i = (if i < 0 then CHR ''-'' # show_nat (nat (- i)) else show_nat (nat i))"

text \<open>\<open>repr\<close> of a string: single quotes unless the string holds one and no double quote.\<close>

definition repr_str :: "string \<Rightarrow> string" where
  "repr_str s =
     (let q = (if CHR 39 \<in> set s \<and> CHR 34 \<notin> set s then CHR 34 else CHR 39)
      in [q] @ concat (map (\<lambda>c. if c = CHR 92 \<or> c = q then [CHR 92, c] else [c]) s) @ [q])"

text \<open>\<open>str(exc)\<close>. A \<open>KeyError\<close> prints the \<open>repr\<close> of its key; an HTTP exception its status and detail.
  The program prints no text of \<open>TimeoutExpired\<close>, \<open>Exit\<close> and \<open>JSONDecodeError\<close>; they have the empty one.\<close>

fun exn_str :: "exn \<Rightarrow> string" where
  "exn_str (KeyError s) = repr_str s"
| "exn_str (SecretNotFoundError s) = repr_str s"
| "exn_str (ValueError s) = s"
| "exn_str (TypeError s) = s"
| "exn_str (LookupError s) = s"
| "exn_str AssertionError = []"
| "exn_str (RuntimeError s) = s"
| "exn_str (OSError s) = s"
| "exn_str (TarError s) = s"
| "exn_str (DockerException s) = s"
| "exn_str TimeoutExpired = []"
| "exn_str (Exit n) = []"
| "exn_str (HTTPError s) = s"
| "exn_str (HTTPStatusError t s) = s"
| "exn_str JSONDecodeError = []"
| "exn_str OutOfFuel = []"
| "exn_str (SecretLeaseStateError s) = s"
| "exn_str (ExportSourceNotFoundError s) = s"
| "exn_str (ExportPolicyError s) = s"
| "exn_str (ExportStateError s) = s"
| "exn_str (SnapshotMetadataError s) = s"
| "exn_str (UnsupportedSnapshotRuntimeError s) = s"
| "exn_str SchedulerQuotaExceededError = []"
| "exn_str (ResourceNotFoundError s) = s"
| "exn_str (ConflictError s r) = s"
| "exn_str (HTTPException n s) = show_nat n @ '': '' @ s"

lemma split_on_nonempty [simp]: "split_on c s \<noteq> []"
  by (cases s) (auto split: list.splits)

lemma split_on_no_sep: "p \<in> set (split_on c s) \<Longrightarrow> c \<notin> set p"
proof (induction s arbitrary: p)
  case Nil
  then show ?case by simp
next
  case (Cons x xs)
  then show ?case
    by (cases "split_on c xs") (auto split: if_splits)
qed

lemma split_on_no_sep_id: "c \<notin> set s \<Longrightarrow> split_on c s = [s]"
  by (induction s) auto

lemma split_on_append: "c \<notin> set s \<Longrightarrow> split_on c (s @ c # t) = s # split_on c t"
  by (induction s) auto

lemma split_on_join:
  "xs \<noteq> [] \<Longrightarrow> \<forall>x\<in>set xs. c \<notin> set x \<Longrightarrow> split_on c (join [c] xs) = xs"
  by (induction "[c]" xs rule: join.induct) (auto simp: split_on_no_sep_id split_on_append)

lemma startswith_Nil [simp]: "startswith s []"
  by (simp add: startswith_def)

lemma strip_empty_iff: "strip s = [] \<longleftrightarrow> list_all is_space s"
proof
  assume "strip s = []"
  then have all: "\<forall>x\<in>set (dropWhile is_space s). is_space x"
    by (simp add: strip_def)
  have "dropWhile is_space s = []"
  proof (rule ccontr)
    assume ne: "dropWhile is_space s \<noteq> []"
    then have "\<not> is_space (hd (dropWhile is_space s))" by (rule hd_dropWhile)
    with all ne show False by auto
  qed
  then show "list_all is_space s" by (simp add: list_all_iff)
next
  assume "list_all is_space s"
  then have "dropWhile is_space s = []" by (simp add: list_all_iff)
  then show "strip s = []" by (simp only: strip_def rev.simps dropWhile.simps)
qed

subsection \<open>Counting\<close>

lemma length_filter_map_le:
  "(\<And>x. x \<in> set xs \<Longrightarrow> P (f x) \<Longrightarrow> P x) \<Longrightarrow> length (filter P (map f xs)) \<le> length (filter P xs)"
proof (induction xs)
  case (Cons x xs)
  from Cons.prems have "P (f x) \<Longrightarrow> P x" by simp
  moreover have "length (filter P (map f xs)) \<le> length (filter P xs)"
    using Cons.prems by (intro Cons.IH) simp
  ultimately show ?case by simp
qed simp

end
