(* ===== verification/Datetime.thy ===== *)
theory Datetime
  imports Prelude
begin

section \<open>Datetimes\<close>

text \<open>
  Python's \<open>datetime\<close>: a wall clock in microseconds since 1970-01-01T00:00, and for an aware
  value its UTC offset in microseconds. A value read back from SQLite is naive, one read back
  from PostgreSQL is aware; \<open>_normalize_datetime\<close>, which the reconciler and the secret lease
  service share, reads a naive value as UTC. The year range of Python (1 to 9999) is not modelled.
\<close>

datatype datetime = Naive int | Aware int int

fun is_aware :: "datetime \<Rightarrow> bool" where
  "is_aware (Naive w) = False"
| "is_aware (Aware w off) = True"

text \<open>The instant, in microseconds since the epoch in UTC, with a naive value read as UTC. This is
  the value a \<open>DateTime\<close> column compares by in a query.\<close>

fun instant :: "datetime \<Rightarrow> int" where
  "instant (Naive w) = w"
| "instant (Aware w off) = w - off"

definition utc :: "int \<Rightarrow> datetime" where
  "utc t = Aware t 0"

fun normalize_datetime :: "datetime \<Rightarrow> datetime" where
  "normalize_datetime (Naive w) = utc w"
| "normalize_datetime (Aware w off) = Aware w off"

text \<open>Comparison: Python refuses to order a naive against an aware datetime.\<close>

fun py_less :: "datetime \<Rightarrow> datetime \<Rightarrow> exn + bool" where
  "py_less (Naive a) (Naive b) = Inr (a < b)"
| "py_less (Aware a x) (Aware b y) = Inr (a - x < b - y)"
| "py_less _ _ = Inl (TypeError ''can't compare offset-naive and offset-aware datetimes'')"

text \<open>The comparisons of the program, each between two normalised values.\<close>

definition later :: "datetime \<Rightarrow> datetime \<Rightarrow> bool" where
  "later a b \<longleftrightarrow> instant b < instant a"

definition minutes :: "int \<Rightarrow> int" where
  "minutes n = n * 60000000"

definition hours :: "int \<Rightarrow> int" where
  "hours n = n * 3600000000"

definition days :: "int \<Rightarrow> int" where
  "days n = n * 86400000000"

fun plus_delta :: "datetime \<Rightarrow> int \<Rightarrow> datetime" where
  "plus_delta (Naive w) d = Naive (w + d)"
| "plus_delta (Aware w off) d = Aware (w + d) off"

text \<open>\<open>datetime.now(tz)\<close>: an aware instant in the zone of another aware value.\<close>

fun in_zone_of :: "datetime \<Rightarrow> datetime \<Rightarrow> datetime" where
  "in_zone_of (Aware w off) t = Aware (instant t + off) off"
| "in_zone_of (Naive w) t = t"

subsection \<open>isoformat\<close>

text \<open>The civil date of a day number (days since 1970-01-01), in the proleptic Gregorian calendar.\<close>

definition civil_from_days :: "int \<Rightarrow> int \<times> int \<times> int" where
  "civil_from_days n =
     (let z = n + 719468; era = z div 146097; doe = z mod 146097;
          yoe = (doe - doe div 1460 + doe div 36524 - doe div 146096) div 365;
          doy = doe - (365 * yoe + yoe div 4 - yoe div 100);
          mp = (5 * doy + 2) div 153;
          d = doy - (153 * mp + 2) div 5 + 1;
          m = (if mp < 10 then mp + 3 else mp - 9)
      in (yoe + era * 400 + (if m \<le> 2 then 1 else 0), m, d))"

definition pad :: "nat \<Rightarrow> int \<Rightarrow> string" where
  "pad k n = (let s = show_int n in replicate (k - length s) (CHR ''0'') @ s)"

definition iso_wall :: "int \<Rightarrow> string" where
  "iso_wall w =
     (let secs = w div 1000000; us = w mod 1000000; day = secs div 86400; sod = secs mod 86400
      in case civil_from_days day of (y, m, d) \<Rightarrow>
        pad 4 y @ ''-'' @ pad 2 m @ ''-'' @ pad 2 d @ ''T'' @
        pad 2 (sod div 3600) @ '':'' @ pad 2 (sod div 60 mod 60) @ '':'' @ pad 2 (sod mod 60) @
        (if us = 0 then [] else ''.'' @ pad 6 us))"

definition iso_offset :: "int \<Rightarrow> string" where
  "iso_offset off =
     (let a = \<bar>off\<bar> div 1000000
      in (if off < 0 then ''-'' else ''+'') @ pad 2 (a div 3600) @ '':'' @ pad 2 (a div 60 mod 60) @
         (if a mod 60 = 0 then [] else '':'' @ pad 2 (a mod 60)))"

fun isoformat :: "datetime \<Rightarrow> string" where
  "isoformat (Naive w) = iso_wall w"
| "isoformat (Aware w off) = iso_wall w @ iso_offset off"

subsection \<open>Facts\<close>

lemma instant_utc [simp]: "instant (utc t) = t"
  by (simp add: utc_def)

lemma is_aware_utc [simp]: "is_aware (utc t)"
  by (simp add: utc_def)

lemma instant_normalize [simp]: "instant (normalize_datetime t) = instant t"
  by (cases t) simp_all

lemma is_aware_normalize [simp]: "is_aware (normalize_datetime t)"
  by (cases t) simp_all

lemma normalize_aware [simp]: "is_aware t \<Longrightarrow> normalize_datetime t = t"
  by (cases t) simp_all

lemma normalize_idem [simp]: "normalize_datetime (normalize_datetime t) = normalize_datetime t"
  by simp

lemma instant_plus_delta [simp]: "instant (plus_delta t d) = instant t + d"
  by (cases t) simp_all

lemma py_less_aware: "is_aware a \<Longrightarrow> is_aware b \<Longrightarrow> py_less a b = Inr (instant a < instant b)"
  by (cases a; cases b) simp_all

text \<open>\<open>later\<close> is Python's comparison on values that are both aware, so it never raises there.\<close>

lemma later_is_py_less: "is_aware a \<Longrightarrow> is_aware b \<Longrightarrow> py_less b a = Inr (later a b)"
  by (simp add: py_less_aware later_def)

lemma later_normalize [simp]:
  "later (normalize_datetime a) b = later a b"
  "later a (normalize_datetime b) = later a b"
  by (simp_all add: later_def)

lemma isoformat_epoch: "isoformat (utc 0) = ''1970-01-01T00:00:00+00:00''"
  by code_simp

lemma isoformat_example: "isoformat (Aware 1778716800000001 7200000000) = ''2026-05-14T00:00:00.000001+02:00''"
  by code_simp

end
