(* ===== verification/Enums.thy ===== *)
theory Enums
  imports Prelude
begin

section \<open>Lifecycle enumerations\<close>

text \<open>
  The \<open>StrEnum\<close> classes of \<open>labos/core/enums.py\<close>. A row stores the \<open>.value\<close> of a member as a
  string, so each enumeration comes with its \<open>value\<close> function; calling the class on a string
  (\<open>ExportState(row.state)\<close>) is the inverse, and raises \<open>ValueError\<close> on any other string. The
  value functions are injective, which is what lets the component proofs compare stored states.
\<close>

datatype LabState =
    LAB_REQUESTED | LAB_PENDING_APPROVAL | LAB_APPROVED | LAB_PROVISIONING | LAB_RUNNING
  | LAB_STOPPED | LAB_FAILED | LAB_DESTROYING | LAB_DESTROYED | LAB_ARCHIVED

datatype RunState =
    RUN_QUEUED | RUN_STARTING | RUN_RUNNING | RUN_COMPLETED | RUN_FAILED | RUN_CANCELLED
  | RUN_TIMED_OUT

datatype ApprovalState =
    APPROVAL_REQUESTED | APPROVAL_APPROVED | APPROVAL_REJECTED | APPROVAL_EXPIRED

datatype ExportState =
    EXPORT_REQUESTED | EXPORT_QUARANTINED | EXPORT_APPROVED | EXPORT_RELEASED | EXPORT_REJECTED

datatype SnapshotState =
    SNAPSHOT_PENDING | SNAPSHOT_CREATED | SNAPSHOT_FAILED | SNAPSHOT_RESTORED

datatype SchedulerAction = CREATE_LAB | START_RUN

datatype SchedulerJobState = JOB_QUEUED | JOB_DISPATCHED | JOB_SUCCEEDED | JOB_FAILED

datatype ActorType = ACTOR_HUMAN | ACTOR_AGENT | ACTOR_SCHEDULER | ACTOR_SYSTEM

datatype AuditLevel = AUDIT_BASIC | AUDIT_DETAILED | AUDIT_FORENSIC

fun lab_value :: "LabState \<Rightarrow> string" where
  "lab_value LAB_REQUESTED = ''requested''"
| "lab_value LAB_PENDING_APPROVAL = ''pending_approval''"
| "lab_value LAB_APPROVED = ''approved''"
| "lab_value LAB_PROVISIONING = ''provisioning''"
| "lab_value LAB_RUNNING = ''running''"
| "lab_value LAB_STOPPED = ''stopped''"
| "lab_value LAB_FAILED = ''failed''"
| "lab_value LAB_DESTROYING = ''destroying''"
| "lab_value LAB_DESTROYED = ''destroyed''"
| "lab_value LAB_ARCHIVED = ''archived''"

fun run_value :: "RunState \<Rightarrow> string" where
  "run_value RUN_QUEUED = ''queued''"
| "run_value RUN_STARTING = ''starting''"
| "run_value RUN_RUNNING = ''running''"
| "run_value RUN_COMPLETED = ''completed''"
| "run_value RUN_FAILED = ''failed''"
| "run_value RUN_CANCELLED = ''cancelled''"
| "run_value RUN_TIMED_OUT = ''timed_out''"

fun approval_value :: "ApprovalState \<Rightarrow> string" where
  "approval_value APPROVAL_REQUESTED = ''requested''"
| "approval_value APPROVAL_APPROVED = ''approved''"
| "approval_value APPROVAL_REJECTED = ''rejected''"
| "approval_value APPROVAL_EXPIRED = ''expired''"

fun export_value :: "ExportState \<Rightarrow> string" where
  "export_value EXPORT_REQUESTED = ''requested''"
| "export_value EXPORT_QUARANTINED = ''quarantined''"
| "export_value EXPORT_APPROVED = ''approved''"
| "export_value EXPORT_RELEASED = ''released''"
| "export_value EXPORT_REJECTED = ''rejected''"

fun snapshot_value :: "SnapshotState \<Rightarrow> string" where
  "snapshot_value SNAPSHOT_PENDING = ''pending''"
| "snapshot_value SNAPSHOT_CREATED = ''created''"
| "snapshot_value SNAPSHOT_FAILED = ''failed''"
| "snapshot_value SNAPSHOT_RESTORED = ''restored''"

fun action_value :: "SchedulerAction \<Rightarrow> string" where
  "action_value CREATE_LAB = ''create_lab''"
| "action_value START_RUN = ''start_run''"

fun job_value :: "SchedulerJobState \<Rightarrow> string" where
  "job_value JOB_QUEUED = ''queued''"
| "job_value JOB_DISPATCHED = ''dispatched''"
| "job_value JOB_SUCCEEDED = ''succeeded''"
| "job_value JOB_FAILED = ''failed''"

fun actor_value :: "ActorType \<Rightarrow> string" where
  "actor_value ACTOR_HUMAN = ''human''"
| "actor_value ACTOR_AGENT = ''agent''"
| "actor_value ACTOR_SCHEDULER = ''scheduler''"
| "actor_value ACTOR_SYSTEM = ''system''"

fun audit_value :: "AuditLevel \<Rightarrow> string" where
  "audit_value AUDIT_BASIC = ''basic''"
| "audit_value AUDIT_DETAILED = ''detailed''"
| "audit_value AUDIT_FORENSIC = ''forensic''"

lemma lab_value_inject [simp]: "lab_value a = lab_value b \<longleftrightarrow> a = b"
  by (cases a; cases b; simp)

lemma run_value_inject [simp]: "run_value a = run_value b \<longleftrightarrow> a = b"
  by (cases a; cases b; simp)

lemma approval_value_inject [simp]: "approval_value a = approval_value b \<longleftrightarrow> a = b"
  by (cases a; cases b; simp)

lemma export_value_inject [simp]: "export_value a = export_value b \<longleftrightarrow> a = b"
  by (cases a; cases b; simp)

lemma snapshot_value_inject [simp]: "snapshot_value a = snapshot_value b \<longleftrightarrow> a = b"
  by (cases a; cases b; simp)

lemma action_value_inject [simp]: "action_value a = action_value b \<longleftrightarrow> a = b"
  by (cases a; cases b; simp)

lemma job_value_inject [simp]: "job_value a = job_value b \<longleftrightarrow> a = b"
  by (cases a; cases b; simp)

lemma actor_value_inject [simp]: "actor_value a = actor_value b \<longleftrightarrow> a = b"
  by (cases a; cases b; simp)

lemma audit_value_inject [simp]: "audit_value a = audit_value b \<longleftrightarrow> a = b"
  by (cases a; cases b; simp)

declare lab_value.simps [simp del] run_value.simps [simp del] approval_value.simps [simp del]
  export_value.simps [simp del] snapshot_value.simps [simp del] action_value.simps [simp del]
  job_value.simps [simp del] actor_value.simps [simp del] audit_value.simps [simp del]

lemmas enum_values =
  lab_value.simps run_value.simps approval_value.simps export_value.simps snapshot_value.simps
  action_value.simps job_value.simps actor_value.simps audit_value.simps

subsection \<open>Calling the class on a string\<close>

definition enum_of :: "('e \<Rightarrow> string) \<Rightarrow> 'e list \<Rightarrow> string \<Rightarrow> string \<Rightarrow> exn + 'e" where
  "enum_of val members cls s =
     (case find (\<lambda>m. val m = s) members of
        Some m \<Rightarrow> Inr m
      | None \<Rightarrow> Inl (ValueError (repr_str s @ '' is not a valid '' @ cls)))"

definition export_state_of :: "string \<Rightarrow> exn + ExportState" where
  "export_state_of = enum_of export_value
     [EXPORT_REQUESTED, EXPORT_QUARANTINED, EXPORT_APPROVED, EXPORT_RELEASED, EXPORT_REJECTED]
     ''ExportState''"

definition scheduler_action_of :: "string \<Rightarrow> exn + SchedulerAction" where
  "scheduler_action_of = enum_of action_value [CREATE_LAB, START_RUN] ''SchedulerAction''"

definition scheduler_job_state_of :: "string \<Rightarrow> exn + SchedulerJobState" where
  "scheduler_job_state_of =
     enum_of job_value [JOB_QUEUED, JOB_DISPATCHED, JOB_SUCCEEDED, JOB_FAILED] ''SchedulerJobState''"

definition actor_type_of :: "string \<Rightarrow> exn + ActorType" where
  "actor_type_of =
     enum_of actor_value [ACTOR_HUMAN, ACTOR_AGENT, ACTOR_SCHEDULER, ACTOR_SYSTEM] ''ActorType''"

lemma find_unique:
  "m \<in> set xs \<Longrightarrow> (\<And>y. y \<in> set xs \<Longrightarrow> P y \<longleftrightarrow> y = m) \<Longrightarrow> find P xs = Some m"
  by (induction xs) auto

lemma enum_of_value:
  assumes "m \<in> set members" and "\<And>y. val y = val m \<longleftrightarrow> y = m"
  shows "enum_of val members cls (val m) = Inr m"
proof -
  have "find (\<lambda>y. val y = val m) members = Some m"
    using assms by (intro find_unique) auto
  then show ?thesis by (simp add: enum_of_def)
qed

lemma enum_of_Inr: "enum_of val members cls s = Inr m \<Longrightarrow> s = val m \<and> m \<in> set members"
  by (auto simp: enum_of_def find_Some_iff split: option.splits)

lemma export_state_of_value [simp]: "export_state_of (export_value s) = Inr s"
  unfolding export_state_of_def by (rule enum_of_value) (cases s; simp)+

lemma scheduler_action_of_value [simp]: "scheduler_action_of (action_value a) = Inr a"
  unfolding scheduler_action_of_def by (rule enum_of_value) (cases a; simp)+

lemma scheduler_job_state_of_value [simp]: "scheduler_job_state_of (job_value s) = Inr s"
  unfolding scheduler_job_state_of_def by (rule enum_of_value) (cases s; simp)+

lemma actor_type_of_value [simp]: "actor_type_of (actor_value a) = Inr a"
  unfolding actor_type_of_def by (rule enum_of_value) (cases a; simp)+

lemma enum_of_InrD:
  "export_state_of x = Inr e \<Longrightarrow> x = export_value e"
  "scheduler_action_of x = Inr a \<Longrightarrow> x = action_value a"
  "scheduler_job_state_of x = Inr j \<Longrightarrow> x = job_value j"
  "actor_type_of x = Inr t \<Longrightarrow> x = actor_value t"
  by (auto simp: export_state_of_def scheduler_action_of_def scheduler_job_state_of_def
      actor_type_of_def dest: enum_of_Inr)

lemma enum_of_Inl:
  "export_state_of x = Inl e \<Longrightarrow> \<exists>s. e = ValueError s"
  "scheduler_action_of x = Inl e \<Longrightarrow> \<exists>s. e = ValueError s"
  "scheduler_job_state_of x = Inl e \<Longrightarrow> \<exists>s. e = ValueError s"
  "actor_type_of x = Inl e \<Longrightarrow> \<exists>s. e = ValueError s"
  by (auto simp: enum_of_def export_state_of_def scheduler_action_of_def scheduler_job_state_of_def
      actor_type_of_def split: option.splits)

end
