(* ===== verification/Schema.thy ===== *)
theory Schema
  imports Datetime Enums
begin

section \<open>Database schema\<close>

text \<open>
  The tables of \<open>labos/db/schema.py\<close>: one record per mapped class, extending the record of
  \<open>TimestampedRow\<close>, and a \<open>database\<close> of nine tables. A table is the list of its rows in insertion
  order; the primary key is the \<open>id\<close> column. States are stored as strings, as in the source. A
  select is a filter followed by a stable sort on \<open>(created_at, id)\<close>. The locale \<open>db_table\<close> is what
  the rest of the development relies on of a table; it is interpreted for all nine.

  Not modelled: foreign keys as a constraint the database enforces (SQLite does not by default; that
  the handlers never store a dangling reference is proved instead), column lengths, the
  loss of the UTC offset that SQLite imposes on a stored datetime.
\<close>

record timestamped =
  created_at :: datetime
  updated_at :: datetime

record LabRow = timestamped +
  lab_id :: string
  lab_profile_name :: string
  lab_state :: string
  lab_runtime_class :: string
  lab_destroy_attempts :: int
  lab_last_destroy_error :: "string option"

record LabStorageRow = timestamped +
  sto_id :: string
  sto_lab_id :: string
  sto_persistence_mode :: string
  sto_root_path :: string
  sto_workspace_path :: string
  sto_exports_path :: string
  sto_quarantine_path :: string
  sto_snapshots_path :: string
  sto_workspace_mount_target :: string

record RunRow = timestamped +
  run_id :: string
  run_lab_id :: string
  run_state :: string
  run_command :: string
  run_timeout_at :: "datetime option"
  run_finished_at :: "datetime option"

record ApprovalRow = timestamped +
  apr_id :: string
  apr_lab_id :: "string option"
  apr_resource_type :: string
  apr_resource_id :: string
  apr_action :: string
  apr_reason :: string
  apr_requested_by :: string
  apr_state :: string
  apr_approved :: bool
  apr_decision_comment :: "string option"
  apr_decided_by :: "string option"
  apr_expires_at :: "datetime option"
  apr_decided_at :: "datetime option"

record ExportRow = timestamped +
  exp_id :: string
  exp_lab_id :: string
  exp_run_id :: "string option"
  exp_source_path :: string
  exp_state :: string
  exp_quarantine_path :: string
  exp_released_path :: "string option"
  exp_approval_required :: bool
  exp_sha256 :: string
  exp_size_bytes :: int
  exp_denial_reason :: "string option"

record SnapshotRow = timestamped +
  snap_id :: string
  snap_lab_id :: string
  snap_backend_ref :: string

record SecretLeaseRow = timestamped +
  lease_id :: string
  lease_lab_id :: string
  lease_secret_name :: string
  lease_approved :: bool
  lease_expires_at :: datetime
  lease_revoked_at :: "datetime option"

record EventRow = timestamped +
  ev_id :: string
  ev_lab_id :: "string option"
  ev_run_id :: "string option"
  ev_event_type :: string
  ev_actor_type :: string
  ev_actor_id :: "string option"
  ev_resource_type :: "string option"
  ev_resource_id :: "string option"
  ev_payload_json :: string

record SchedulerJobRow = timestamped +
  job_id :: string
  job_action :: string
  job_state :: string
  job_requester_id :: string
  job_profile_name :: "string option"
  job_lab_id :: "string option"
  job_command :: "string option"
  job_scheduled_for :: datetime
  job_attempt_count :: int
  job_max_attempts :: int
  job_last_error :: "string option"
  job_result_resource_type :: "string option"
  job_result_resource_id :: "string option"
  job_dispatched_at :: "datetime option"
  job_completed_at :: "datetime option"

record database =
  labs :: "LabRow list"
  storages :: "LabStorageRow list"
  runs :: "RunRow list"
  approvals :: "ApprovalRow list"
  exports :: "ExportRow list"
  snapshots :: "SnapshotRow list"
  leases :: "SecretLeaseRow list"
  events :: "EventRow list"
  jobs :: "SchedulerJobRow list"

definition empty_database :: database where
  "empty_database = \<lparr>labs = [], storages = [], runs = [], approvals = [], exports = [],
     snapshots = [], leases = [], events = [], jobs = []\<rparr>"

text \<open>The timestamps of a row object that the session has not flushed yet.\<close>

definition unset :: datetime where
  "unset = utc 0"

subsection \<open>Rows of a table\<close>

definition row_get :: "('r \<Rightarrow> string) \<Rightarrow> string \<Rightarrow> 'r list \<Rightarrow> 'r option" where
  "row_get key k t = find (\<lambda>r. key r = k) t"

definition row_put :: "('r \<Rightarrow> string) \<Rightarrow> 'r \<Rightarrow> 'r list \<Rightarrow> 'r list" where
  "row_put key r t = map (\<lambda>x. if key x = key r then r else x) t"

definition select_rows :: "('b timestamped_scheme \<Rightarrow> string) \<Rightarrow> ('b timestamped_scheme \<Rightarrow> bool) \<Rightarrow>
    'b timestamped_scheme list \<Rightarrow> 'b timestamped_scheme list" where
  "select_rows key P t = sort_key (\<lambda>r. (instant (created_at r), key r)) (filter P t)"

text \<open>Appending rows, as a function on the table; two appends in a row are one.\<close>

definition app :: "'r list \<Rightarrow> 'r list \<Rightarrow> 'r list" where
  "app rs t = t @ rs"

lemma app_apply [simp]: "app rs t = t @ rs"
  by (simp add: app_def)

lemma app_comp [simp]: "app qs \<circ> app rs = app (rs @ qs)"
  by (rule ext) simp

lemma row_get_Some: "row_get key k t = Some r \<Longrightarrow> r \<in> set t \<and> key r = k"
  by (auto simp: row_get_def find_Some_iff)

lemma row_get_None: "row_get key k t = None \<longleftrightarrow> k \<notin> key ` set t"
  by (auto simp: row_get_def find_None_iff)

lemma row_get_in: "row_get key k t = Some r \<Longrightarrow> k \<in> key ` set t"
  by (auto dest: row_get_Some)

lemma row_get_append:
  "row_get key k (t @ [r]) =
     (case row_get key k t of Some x \<Rightarrow> Some x | None \<Rightarrow> if key r = k then Some r else None)"
  by (induction t) (auto simp: row_get_def)

lemma row_get_distinct:
  "distinct (map key t) \<Longrightarrow> row_get key k t = Some r \<longleftrightarrow> r \<in> set t \<and> key r = k"
  by (induction t) (auto simp: row_get_def)

lemma map_key_put [simp]: "map key (row_put key r t) = map key t"
  by (auto simp: row_put_def)

lemma key_image_put [simp]: "key ` set (row_put key r t) = key ` set t"
  by (metis list.set_map map_key_put)

lemma length_put [simp]: "length (row_put key r t) = length t"
  by (simp add: row_put_def)

lemma set_put: "x \<in> set (row_put key r t) \<longleftrightarrow>
    (x = r \<and> key r \<in> key ` set t) \<or> (x \<in> set t \<and> key x \<noteq> key r)"
proof -
  have "key r \<in> key ` set t \<longleftrightarrow> (\<exists>y \<in> set t. key y = key r)"
    by (metis (no_types, lifting) image_iff)
  then show ?thesis by (auto simp: row_put_def)
qed

lemma in_put_self: "r \<in> set t \<Longrightarrow> key r' = key r \<Longrightarrow> r' \<in> set (row_put key r' t)"
  by (auto simp: set_put)

lemma in_put_other: "x \<in> set t \<Longrightarrow> key x \<noteq> key r \<Longrightarrow> x \<in> set (row_put key r t)"
  by (simp add: set_put)

lemma in_putE:
  "x \<in> set (row_put key r t) \<Longrightarrow> (x = r \<Longrightarrow> P) \<Longrightarrow> (x \<in> set t \<Longrightarrow> key x \<noteq> key r \<Longrightarrow> P) \<Longrightarrow> P"
  by (auto simp: set_put)

lemma row_get_put:
  "row_get key k (row_put key r t) =
     (if k = key r \<and> k \<in> key ` set t then Some r else row_get key k t)"
  by (induction t) (auto simp: row_put_def row_get_def)

lemma row_put_put: "key r = key r' \<Longrightarrow> row_put key r (row_put key r' t) = row_put key r t"
  by (auto simp: row_put_def)

lemma row_key_inj:
  "distinct (map key t) \<Longrightarrow> x \<in> set t \<Longrightarrow> y \<in> set t \<Longrightarrow> key x = key y \<Longrightarrow> x = y"
  by (simp add: distinct_map inj_on_def)

lemma row_put_absent: "key r \<notin> key ` set t \<Longrightarrow> row_put key r t = t"
  unfolding row_put_def by (rule map_idI) (metis image_eqI)

text \<open>An unrelated column is not affected by a put that keeps its value.\<close>

lemma map_put_same:
  "(\<And>x. x \<in> set t \<Longrightarrow> key x = key r \<Longrightarrow> f x = f r) \<Longrightarrow> map f (row_put key r t) = map f t"
  by (auto simp: row_put_def)

lemma set_select [simp]: "set (select_rows key P t) = {r \<in> set t. P r}"
  by (auto simp: select_rows_def)

lemma mset_select: "mset (select_rows key P t) = filter_mset P (mset t)"
  by (simp add: select_rows_def)

lemma distinct_select: "distinct (map key t) \<Longrightarrow> distinct (map key (select_rows key P t))"
proof -
  assume "distinct (map key t)"
  then have "distinct t" and "inj_on key (set t)" by (auto simp: distinct_map)
  then show ?thesis
    by (auto simp: distinct_map select_rows_def intro: inj_on_subset)
qed

lemma sorted_select: "sorted (map (\<lambda>r. (instant (created_at r), key r)) (select_rows key P t))"
  by (simp add: select_rows_def)

subsection \<open>The interface of a table\<close>

text \<open>
  What the services use of a table: its reader and its updater form a lens on the database, and the
  stamping of a row leaves its key alone.
\<close>

locale db_table =
  fixes key :: "'b timestamped_scheme \<Rightarrow> string"
    and tab :: "database \<Rightarrow> 'b timestamped_scheme list"
    and upd :: "('b timestamped_scheme list \<Rightarrow> 'b timestamped_scheme list) \<Rightarrow> database \<Rightarrow> database"
  assumes tab_upd: "tab (upd f d) = f (tab d)"
    and upd_id: "upd (\<lambda>t. t) d = d"
    and upd_upd: "upd f (upd g d) = upd (f \<circ> g) d"
    and key_stamp: "key (r\<lparr>created_at := c\<rparr>) = key r" "key (r\<lparr>updated_at := u\<rparr>) = key r"
begin

lemma get_after_insert:
  "key r \<notin> key ` set (tab d) \<Longrightarrow> row_get key (key r) (tab (upd (app [r]) d)) = Some r"
  by (simp add: tab_upd row_get_append row_get_None [THEN iffD2])

lemma get_other_after_insert:
  "k \<noteq> key r \<Longrightarrow> row_get key k (tab (upd (app [r]) d)) = row_get key k (tab d)"
  by (simp add: tab_upd row_get_append split: option.splits)

lemma get_after_put:
  "key r \<in> key ` set (tab d) \<Longrightarrow> row_get key (key r) (tab (upd (row_put key r) d)) = Some r"
  by (simp add: tab_upd row_get_put)

lemma get_other_after_put:
  "k \<noteq> key r \<Longrightarrow> row_get key k (tab (upd (row_put key r) d)) = row_get key k (tab d)"
  by (simp add: tab_upd row_get_put)

lemma keys_after_put: "map key (tab (upd (row_put key r) d)) = map key (tab d)"
  by (simp add: tab_upd)

lemma distinct_after_insert:
  "distinct (map key (tab d)) \<Longrightarrow> key r \<notin> key ` set (tab d) \<Longrightarrow>
   distinct (map key (tab (upd (app [r]) d)))"
  by (auto simp: tab_upd)

end

interpretation labs_t: db_table lab_id labs labs_update
  by unfold_locales (simp_all add: comp_def)

interpretation storages_t: db_table sto_id storages storages_update
  by unfold_locales (simp_all add: comp_def)

interpretation runs_t: db_table run_id runs runs_update
  by unfold_locales (simp_all add: comp_def)

interpretation approvals_t: db_table apr_id approvals approvals_update
  by unfold_locales (simp_all add: comp_def)

interpretation exports_t: db_table exp_id exports exports_update
  by unfold_locales (simp_all add: comp_def)

interpretation snapshots_t: db_table snap_id snapshots snapshots_update
  by unfold_locales (simp_all add: comp_def)

interpretation leases_t: db_table lease_id leases leases_update
  by unfold_locales (simp_all add: comp_def)

interpretation events_t: db_table ev_id events events_update
  by unfold_locales (simp_all add: comp_def)

interpretation jobs_t: db_table job_id jobs jobs_update
  by unfold_locales (simp_all add: comp_def)

end
