(* ===== verification/Paths.thy ===== *)
theory Paths
  imports Prelude
begin

section \<open>Paths and the managed file system\<close>

text \<open>
  Two kinds of path. A \<open>PurePosixPath\<close> is text: a root and components, with no look at the disk.
  A concrete path is an absolute list of components; the file system maps such a path to a
  directory, a file with its bytes, or a symbolic link with its target. \<open>Path.resolve()\<close> follows
  links; on a link cycle it raises, and the model's \<open>resolve\<close> has the value \<open>None\<close>. The operations
  are the ones the program calls: \<open>exists\<close>, \<open>is_file\<close>, \<open>mkdir(parents=True, exist_ok=True)\<close>,
  \<open>shutil.copy2\<close>, \<open>shutil.rmtree\<close>. Permissions, times and hard links are not modelled.
\<close>

subsection \<open>Lexical paths\<close>

datatype ppath = PPath (pp_root: string) (pp_parts: "string list")

definition path_parts :: "string \<Rightarrow> string list" where
  "path_parts s = filter (\<lambda>c. c \<noteq> [] \<and> c \<noteq> ''.'') (split_on (CHR ''/'') s)"

definition posix_path :: "string \<Rightarrow> ppath" where
  "posix_path s =
     PPath (if startswith s ''//'' \<and> \<not> startswith s ''///'' then ''//''
            else if startswith s ''/'' then ''/'' else [])
       (path_parts s)"

definition pp_parents :: "ppath \<Rightarrow> ppath list" where
  "pp_parents p = map (\<lambda>k. PPath (pp_root p) (take k (pp_parts p))) (rev [0..<length (pp_parts p)])"

definition pp_relative_to :: "ppath \<Rightarrow> ppath \<Rightarrow> exn + string list" where
  "pp_relative_to p base =
     (if pp_root p = pp_root base \<and> prefix (pp_parts base) (pp_parts p)
      then Inr (drop (length (pp_parts base)) (pp_parts p))
      else Inl (ValueError ''path is not in the subpath of the base''))"

text \<open>A prefix test as the policy engine writes it: the path is the prefix or has it as a parent.\<close>

definition at_or_under :: "ppath \<Rightarrow> ppath \<Rightarrow> bool" where
  "at_or_under p base \<longleftrightarrow> p = base \<or> base \<in> set (pp_parents p)"

lemma at_or_under_iff:
  "at_or_under p base \<longleftrightarrow> pp_root p = pp_root base \<and> prefix (pp_parts base) (pp_parts p)"
proof
  assume "at_or_under p base"
  then show "pp_root p = pp_root base \<and> prefix (pp_parts base) (pp_parts p)"
    by (auto simp: at_or_under_def pp_parents_def take_is_prefix)
next
  assume asm: "pp_root p = pp_root base \<and> prefix (pp_parts base) (pp_parts p)"
  then obtain rest where rest: "pp_parts p = pp_parts base @ rest" by (auto elim: prefixE)
  show "at_or_under p base"
  proof (cases rest)
    case Nil
    with asm rest show ?thesis by (cases p; cases base) (simp add: at_or_under_def)
  next
    case (Cons c cs)
    let ?k = "length (pp_parts base)"
    have "?k < length (pp_parts p)" using rest Cons by simp
    moreover have "base = PPath (pp_root p) (take ?k (pp_parts p))"
      using asm rest by (cases base) simp
    ultimately show ?thesis unfolding at_or_under_def pp_parents_def by auto
  qed
qed

subsection \<open>Concrete paths\<close>

type_synonym path = "string list"

datatype node = Dir | File string | Symlink string

type_synonym fs = "path \<Rightarrow> node option"

text \<open>A component as it comes out of a parsed path: not empty, not a dot, no slash.\<close>

definition name_ok :: "string \<Rightarrow> bool" where
  "name_ok c \<longleftrightarrow> c \<noteq> [] \<and> c \<noteq> ''.'' \<and> CHR ''/'' \<notin> set c"

definition path_str :: "path \<Rightarrow> string" where
  "path_str p = CHR ''/'' # join ''/'' p"

text \<open>\<open>Path(s)\<close> as the operating system reads it: a relative path starts at the working directory.\<close>

definition os_path :: "path \<Rightarrow> string \<Rightarrow> path" where
  "os_path cwd s = (if startswith s ''/'' then path_parts s else cwd @ path_parts s)"

definition path_join :: "path \<Rightarrow> string \<Rightarrow> path" where
  "path_join p s = (if startswith s ''/'' then path_parts s else p @ path_parts s)"

lemma path_parts_names: "c \<in> set (path_parts s) \<Longrightarrow> name_ok c"
  by (auto simp: path_parts_def name_ok_def dest: split_on_no_sep)

lemma path_parts_name: "name_ok c \<Longrightarrow> path_parts c = [c]"
  by (simp add: path_parts_def name_ok_def split_on_no_sep_id)

lemma path_parts_join:
  assumes "list_all name_ok p"
  shows "path_parts (CHR ''/'' # join ''/'' p) = p"
proof (cases "p = []")
  case False
  with assms have "split_on (CHR ''/'') (join ''/'' p) = p"
    by (intro split_on_join) (auto simp: list_all_iff name_ok_def)
  with assms show ?thesis
    by (simp add: path_parts_def list_all_iff name_ok_def filter_id_conv)
qed (simp add: path_parts_def)

lemma name_ok_not_slash: "name_ok c \<Longrightarrow> \<not> startswith c ''/''"
  by (cases c) (auto simp: name_ok_def startswith_def)

lemma path_join_name: "name_ok c \<Longrightarrow> path_join p c = p @ [c]"
  by (simp add: path_join_def name_ok_not_slash path_parts_name)

lemma os_path_str [simp]: "list_all name_ok p \<Longrightarrow> os_path cwd (path_str p) = p"
  by (simp add: os_path_def path_str_def startswith_def path_parts_join)

lemma path_str_inject:
  "list_all name_ok p \<Longrightarrow> list_all name_ok q \<Longrightarrow> path_str p = path_str q \<longleftrightarrow> p = q"
  by (metis os_path_str)

subsection \<open>Resolving links\<close>

partial_function (option) resolve :: "fs \<Rightarrow> path \<Rightarrow> string list \<Rightarrow> path option" where
  "resolve fs acc cs =
     (case cs of
        [] \<Rightarrow> Some acc
      | c # rest \<Rightarrow>
          (if c = ''..'' then resolve fs (butlast acc) rest
           else (case fs (acc @ [c]) of
                   Some (Symlink t) \<Rightarrow>
                     resolve fs (if startswith t ''/'' then [] else acc) (path_parts t @ rest)
                 | _ \<Rightarrow> resolve fs (acc @ [c]) rest)))"

definition realpath :: "fs \<Rightarrow> path \<Rightarrow> path option" where
  "realpath fs p = resolve fs [] p"

lemma resolve_Nil [simp]: "resolve fs acc [] = Some acc"
  by (simp add: resolve.simps)

lemma resolve_Cons [simp]:
  "resolve fs acc (c # rest) =
     (if c = ''..'' then resolve fs (butlast acc) rest
      else (case fs (acc @ [c]) of
              Some (Symlink t) \<Rightarrow>
                resolve fs (if startswith t ''/'' then [] else acc) (path_parts t @ rest)
            | _ \<Rightarrow> resolve fs (acc @ [c]) rest))"
  by (subst resolve.simps) simp

definition is_link :: "fs \<Rightarrow> path \<Rightarrow> bool" where
  "is_link fs p \<longleftrightarrow> (\<exists>t. fs p = Some (Symlink t))"

text \<open>A canonical path: no component is a parent step and no prefix is a link.\<close>

definition canonical :: "fs \<Rightarrow> path \<Rightarrow> bool" where
  "canonical fs p \<longleftrightarrow> ''..'' \<notin> set p \<and> (\<forall>q. prefix q p \<and> q \<noteq> [] \<longrightarrow> \<not> is_link fs q)"

lemma canonical_Nil [simp]: "canonical fs []"
  by (simp add: canonical_def)

lemma canonical_snoc:
  "canonical fs (p @ [c]) \<longleftrightarrow> canonical fs p \<and> c \<noteq> ''..'' \<and> \<not> is_link fs (p @ [c])"
  by (auto simp: canonical_def)

lemma canonical_prefix: "canonical fs p \<Longrightarrow> prefix q p \<Longrightarrow> canonical fs q"
  by (auto simp: canonical_def dest: prefix_order.trans set_mono_prefix)

lemma canonical_butlast: "canonical fs p \<Longrightarrow> canonical fs (butlast p)"
  by (blast intro: canonical_prefix prefixeq_butlast)

lemma resolve_canonical:
  assumes "resolve fs acc cs = Some q" and "canonical fs acc"
  shows "canonical fs q"
proof (rule mp [OF resolve.raw_induct
    [where P = "\<lambda>fs acc cs q. canonical fs acc \<longrightarrow> canonical fs q", OF _ assms(1)] assms(2)])
  fix res fs acc cs r
  assume IH: "\<And>fs acc cs q. res fs acc cs = Some q \<Longrightarrow> canonical fs acc \<longrightarrow> canonical fs q"
    and eq: "(case cs of [] \<Rightarrow> Some acc
        | c # rest \<Rightarrow> if c = ''..'' then res fs (butlast acc) rest
            else (case fs (acc @ [c]) of
                   Some (Symlink t) \<Rightarrow> res fs (if startswith t ''/'' then [] else acc) (path_parts t @ rest)
                 | _ \<Rightarrow> res fs (acc @ [c]) rest)) = Some r"
  show "canonical fs acc \<longrightarrow> canonical fs r"
  proof (cases cs)
    case Nil
    with eq show ?thesis by simp
  next
    case (Cons c rest)
    with eq show ?thesis
      by (auto simp: canonical_snoc is_link_def canonical_butlast
          split: if_splits option.splits node.splits dest!: IH)
  qed
qed

lemma realpath_canonical: "realpath fs p = Some q \<Longrightarrow> canonical fs q"
  by (simp add: realpath_def resolve_canonical)

lemma resolve_of_canonical: "canonical fs (acc @ cs) \<Longrightarrow> resolve fs acc cs = Some (acc @ cs)"
proof (induction cs arbitrary: acc)
  case Nil
  then show ?case by simp
next
  case (Cons c cs)
  from Cons.prems have "canonical fs ((acc @ [c]) @ cs)" by simp
  then have "canonical fs (acc @ [c])" by (rule canonical_prefix) simp
  then have "c \<noteq> ''..''" and "\<not> is_link fs (acc @ [c])" by (simp_all add: canonical_snoc)
  then show ?case
    using Cons.IH [of "acc @ [c]"] Cons.prems
    by (auto simp: is_link_def split: option.splits node.splits)
qed

lemma realpath_of_canonical: "canonical fs p \<Longrightarrow> realpath fs p = Some p"
  by (simp add: realpath_def resolve_of_canonical)

lemma realpath_idem: "realpath fs p = Some q \<Longrightarrow> realpath fs q = Some q"
  by (simp add: realpath_canonical realpath_of_canonical)

text \<open>Resolution always returns where no link is met.\<close>

lemma resolve_link_free: "(\<And>p. \<not> is_link fs p) \<Longrightarrow> \<exists>q. resolve fs acc cs = Some q"
  by (induction cs arbitrary: acc) (auto simp: is_link_def split: option.splits node.splits)

end
