(* ===== verification/Filesystem.thy ===== *)
theory Filesystem
  imports Paths
begin

section \<open>File system operations\<close>

text \<open>
  The calls the program makes on concrete paths, over the entries of \<open>Paths\<close>. Each operation that
  can raise \<open>OSError\<close> returns a sum. The lemmas say which entries an operation can change: this is
  what confines storage operations to the managed root.
\<close>

text \<open>The entry at a canonical path; the root is always a directory.\<close>

definition entry :: "fs \<Rightarrow> path \<Rightarrow> node option" where
  "entry fs p = (if p = [] then Some Dir else fs p)"

definition stat :: "fs \<Rightarrow> path \<Rightarrow> node option" where
  "stat fs p = Option.bind (realpath fs p) (entry fs)"

definition path_exists :: "fs \<Rightarrow> path \<Rightarrow> bool" where
  "path_exists fs p \<longleftrightarrow> stat fs p \<noteq> None"

definition is_dir :: "fs \<Rightarrow> path \<Rightarrow> bool" where
  "is_dir fs p \<longleftrightarrow> stat fs p = Some Dir"

definition read_file :: "fs \<Rightarrow> path \<Rightarrow> string option" where
  "read_file fs p = (case stat fs p of Some (File c) \<Rightarrow> Some c | _ \<Rightarrow> None)"

definition add_entry :: "fs \<Rightarrow> path \<Rightarrow> node \<Rightarrow> fs" where
  "add_entry fs p n = fs(p \<mapsto> n)"

definition is_file :: "fs \<Rightarrow> path \<Rightarrow> bool" where
  "is_file fs p \<longleftrightarrow> read_file fs p \<noteq> None"

text \<open>\<open>mkdir(parents=True, exist_ok=True)\<close>, from the directory \<open>cur\<close> down the components.\<close>

fun mkdirs :: "fs \<Rightarrow> path \<Rightarrow> string list \<Rightarrow> exn + fs" where
  "mkdirs fs cur [] = Inr fs"
| "mkdirs fs cur (c # cs) =
     (if c = ''..'' then mkdirs fs (butlast cur) cs
      else (case fs (cur @ [c]) of
              None \<Rightarrow> mkdirs (add_entry fs (cur @ [c]) Dir) (cur @ [c]) cs
            | Some Dir \<Rightarrow> mkdirs fs (cur @ [c]) cs
            | Some (File _) \<Rightarrow> Inl (OSError ''File exists'')
            | Some (Symlink _) \<Rightarrow>
                (case realpath fs (cur @ [c]) of
                   Some q \<Rightarrow> (if entry fs q = Some Dir then mkdirs fs q cs
                              else Inl (OSError ''File exists''))
                 | None \<Rightarrow> Inl (OSError ''File exists''))))"

definition mkdir_p :: "fs \<Rightarrow> path \<Rightarrow> exn + fs" where
  "mkdir_p fs p = mkdirs fs [] p"

fun mkdir_all :: "fs \<Rightarrow> path list \<Rightarrow> exn + fs" where
  "mkdir_all fs [] = Inr fs"
| "mkdir_all fs (p # ps) = result_bind (mkdir_p fs p) (\<lambda>fs'. mkdir_all fs' ps)"

definition write_file :: "fs \<Rightarrow> path \<Rightarrow> string \<Rightarrow> exn + fs" where
  "write_file fs p c =
     (case realpath fs p of
        None \<Rightarrow> Inl (OSError ''Too many levels of symbolic links'')
      | Some q \<Rightarrow>
          (if entry fs q = Some Dir then Inl (OSError ''Is a directory'')
           else if entry fs (butlast q) \<noteq> Some Dir then Inl (OSError ''No such file or directory'')
           else Inr (add_entry fs q (File c))))"

text \<open>\<open>shutil.copy2\<close>: into a directory under the source's name; never a file onto itself.\<close>

definition copy2 :: "fs \<Rightarrow> path \<Rightarrow> path \<Rightarrow> exn + fs" where
  "copy2 fs src dst =
     (let target = (if is_dir fs dst then dst @ [last src] else dst)
      in case read_file fs src of
           None \<Rightarrow> Inl (OSError ''No such file or directory'')
         | Some c \<Rightarrow>
             (if realpath fs target = realpath fs src then Inl (OSError ''are the same file'')
              else write_file fs target c))"

text \<open>A path with its parent resolved and its last component taken as it is (\<open>lstat\<close>).\<close>

definition lresolve :: "fs \<Rightarrow> path \<Rightarrow> path option" where
  "lresolve fs p =
     (if p = [] \<or> last p = ''..'' then realpath fs p
      else map_option (\<lambda>d. d @ [last p]) (realpath fs (butlast p)))"

definition rmtree :: "fs \<Rightarrow> path \<Rightarrow> exn + fs" where
  "rmtree fs p =
     (case Option.bind (lresolve fs p) (\<lambda>q. map_option (Pair q) (entry fs q)) of
        Some (q, Dir) \<Rightarrow> Inr (\<lambda>x. if prefix q x then None else fs x)
      | Some (q, Symlink t) \<Rightarrow> Inl (OSError ''Cannot call rmtree on a symbolic link'')
      | Some (q, File c) \<Rightarrow> Inl (OSError ''Not a directory'')
      | None \<Rightarrow> Inl (OSError ''No such file or directory''))"

text \<open>The operations raise \<open>OSError\<close> and nothing else.\<close>

lemma mkdir_p_Inl: "mkdir_p fs p = Inl e \<Longrightarrow> \<exists>s. e = OSError s"
proof -
  have "mkdirs fs cur cs = Inl e \<Longrightarrow> \<exists>s. e = OSError s" for cur cs
    by (induction fs cur cs rule: mkdirs.induct) (auto split: if_splits option.splits node.splits)
  then show "mkdir_p fs p = Inl e \<Longrightarrow> \<exists>s. e = OSError s" by (simp add: mkdir_p_def)
qed

lemma copy2_Inl: "copy2 fs src dst = Inl e \<Longrightarrow> \<exists>s. e = OSError s"
  by (auto simp: copy2_def write_file_def Let_def split: if_splits option.splits)

lemma rmtree_Inl: "rmtree fs p = Inl e \<Longrightarrow> \<exists>s. e = OSError s"
  by (auto simp: rmtree_def split: option.splits node.splits prod.splits)

subsection \<open>What an operation can change\<close>

text \<open>Every entry outside the subtree at \<open>base\<close> is as before.\<close>

definition confined :: "path \<Rightarrow> fs \<Rightarrow> fs \<Rightarrow> bool" where
  "confined base fs fs' \<longleftrightarrow> (\<forall>q. \<not> prefix base q \<longrightarrow> fs' q = fs q)"

lemma confined_refl [simp]: "confined base fs fs"
  by (simp add: confined_def)

lemma confined_trans: "confined base f g \<Longrightarrow> confined base g h \<Longrightarrow> confined base f h"
  by (simp add: confined_def)

lemma add_entry_apply: "add_entry fs p n q = (if q = p then Some n else fs q)"
  by (simp add: add_entry_def)

lemma confined_upd: "prefix base q \<Longrightarrow> confined base fs (add_entry fs q n)"
  by (auto simp: confined_def add_entry_apply)

lemma confined_mono: "confined sub fs fs' \<Longrightarrow> prefix base sub \<Longrightarrow> confined base fs fs'"
  by (auto simp: confined_def dest: prefix_order.trans)

text \<open>Creating directories only adds directories.\<close>

definition only_adds_dirs :: "fs \<Rightarrow> fs \<Rightarrow> bool" where
  "only_adds_dirs fs fs' \<longleftrightarrow> (\<forall>q. fs' q = fs q \<or> fs q = None \<and> fs' q = Some Dir)"

lemma only_adds_dirs_refl [simp]: "only_adds_dirs fs fs"
  by (simp add: only_adds_dirs_def)

lemma only_adds_dirs_trans: "only_adds_dirs f g \<Longrightarrow> only_adds_dirs g h \<Longrightarrow> only_adds_dirs f h"
  unfolding only_adds_dirs_def
proof
  fix q
  assume "\<forall>q. g q = f q \<or> f q = None \<and> g q = Some Dir"
    and "\<forall>q. h q = g q \<or> g q = None \<and> h q = Some Dir"
  then have "g q = f q \<or> f q = None \<and> g q = Some Dir"
    and "h q = g q \<or> g q = None \<and> h q = Some Dir" by blast+
  then show "h q = f q \<or> f q = None \<and> h q = Some Dir" by auto
qed

lemma mkdirs_only_adds_dirs: "mkdirs fs cur cs = Inr fs' \<Longrightarrow> only_adds_dirs fs fs'"
proof (induction fs cur cs rule: mkdirs.induct)
  case (1 fs cur)
  then show ?case by simp
next
  case (2 fs cur c cs)
  have add: "fs (cur @ [c]) = None \<Longrightarrow> only_adds_dirs fs (add_entry fs (cur @ [c]) Dir)"
    by (simp add: only_adds_dirs_def add_entry_apply)
  from 2 show ?case
    by (auto split: if_splits option.splits node.splits dest: add elim: only_adds_dirs_trans)
qed

lemma mkdir_p_only_adds_dirs: "mkdir_p fs p = Inr fs' \<Longrightarrow> only_adds_dirs fs fs'"
  by (simp add: mkdir_p_def mkdirs_only_adds_dirs)

lemma only_adds_dirs_is_link: "only_adds_dirs fs fs' \<Longrightarrow> is_link fs' p = is_link fs p"
proof -
  assume "only_adds_dirs fs fs'"
  then have "fs' p = fs p \<or> fs p = None \<and> fs' p = Some Dir" by (simp add: only_adds_dirs_def)
  then show "is_link fs' p = is_link fs p" by (elim disjE) (simp_all add: is_link_def)
qed

lemma only_adds_dirs_canonical: "only_adds_dirs fs fs' \<Longrightarrow> canonical fs' p = canonical fs p"
  by (simp add: canonical_def only_adds_dirs_is_link)

text \<open>Along a canonical path, \<open>mkdirs\<close> creates exactly the missing directories on the way.\<close>

lemma mkdirs_canonical:
  assumes "mkdirs fs cur cs = Inr fs'" and "canonical fs (cur @ cs)"
  shows "fs' q = (if strict_prefix cur q \<and> prefix q (cur @ cs) then Some Dir else fs q)"
  using assms
proof (induction fs cur cs rule: mkdirs.induct)
  case (1 fs cur)
  then show ?case by (auto simp: strict_prefix_def dest: prefix_order.antisym)
next
  case (2 fs cur c cs)
  from "2.prems"(2) have can: "canonical fs ((cur @ [c]) @ cs)" by simp
  then have "canonical fs (cur @ [c])" by (rule canonical_prefix) simp
  then have c: "c \<noteq> ''..''" and nolink: "\<not> is_link fs (cur @ [c])"
    by (simp_all add: canonical_snoc)
  have way: "strict_prefix cur q \<and> prefix q (cur @ c # cs) \<longleftrightarrow>
      q = cur @ [c] \<or> strict_prefix (cur @ [c]) q \<and> prefix q (cur @ c # cs)"
    by (auto simp: strict_prefix_def prefix_def append_eq_append_conv2 append_eq_Cons_conv Cons_eq_append_conv)
  consider (new) "fs (cur @ [c]) = None" | (old) "fs (cur @ [c]) = Some Dir"
    using "2.prems"(1) c nolink by (auto simp: is_link_def split: option.splits node.splits)
  then show ?case
  proof cases
    case new
    let ?g = "add_entry fs (cur @ [c]) Dir"
    have "only_adds_dirs fs ?g" using new by (simp add: only_adds_dirs_def add_entry_apply)
    then have "canonical ?g ((cur @ [c]) @ cs)" using can only_adds_dirs_canonical by blast
    with "2.IH"(2) [OF c new] "2.prems"(1) c new
    have "fs' q = (if strict_prefix (cur @ [c]) q \<and> prefix q (cur @ c # cs) then Some Dir else ?g q)"
      by simp
    then show ?thesis unfolding way by (auto simp: add_entry_apply)
  next
    case old
    have "fs' q = (if strict_prefix (cur @ [c]) q \<and> prefix q (cur @ c # cs) then Some Dir else fs q)"
      using "2.IH"(3) [OF c old] "2.prems"(1) can c old by simp
    then show ?thesis unfolding way using old by auto
  qed
qed

lemma mkdir_p_canonical:
  assumes "mkdir_p fs p = Inr fs'" and "canonical fs p"
  shows "fs' q = (if q \<noteq> [] \<and> prefix q p then Some Dir else fs q)"
  using mkdirs_canonical [of fs "[]" p fs' q] assms
  by (simp add: mkdir_p_def strict_prefix_def)

lemma write_file_confined:
  assumes "write_file fs p c = Inr fs'" and "realpath fs p = Some q"
  shows "fs' = add_entry fs q (File c)"
  using assms by (auto simp: write_file_def split: if_splits)

lemma rmtree_Inr:
  assumes "rmtree fs p = Inr fs'"
  shows "\<exists>q. lresolve fs p = Some q \<and> entry fs q = Some Dir \<and> fs' = (\<lambda>x. if prefix q x then None else fs x)"
  using assms
  by (auto simp: rmtree_def split: option.splits node.splits bind_splits)

text \<open>A directory entry reached through its resolved parent is where the whole path resolves to.\<close>

lemma resolve_append:
  "resolve fs acc cs = Some d \<Longrightarrow> resolve fs acc (cs @ ds) = resolve fs d ds"
proof -
  assume res: "resolve fs acc cs = Some d"
  show ?thesis
  proof (rule resolve.raw_induct
      [where P = "\<lambda>fs acc cs d. resolve fs acc (cs @ ds) = resolve fs d ds", OF _ res])
    fix f fs acc cs r
    assume IH: "\<And>fs acc cs q. f fs acc cs = Some q \<Longrightarrow> resolve fs acc (cs @ ds) = resolve fs q ds"
      and eq: "(case cs of [] \<Rightarrow> Some acc
        | c # rest \<Rightarrow> if c = ''..'' then f fs (butlast acc) rest
            else (case fs (acc @ [c]) of
                   Some (Symlink t) \<Rightarrow> f fs (if startswith t ''/'' then [] else acc) (path_parts t @ rest)
                 | _ \<Rightarrow> f fs (acc @ [c]) rest)) = Some r"
    show "resolve fs acc (cs @ ds) = resolve fs r ds"
    proof (cases cs)
      case Nil
      with eq show ?thesis by simp
    next
      case (Cons c rest)
      with eq show ?thesis
        by (auto split: if_splits option.splits node.splits dest!: IH)
    qed
  qed
qed

lemma lresolve_dir:
  assumes "lresolve fs p = Some q" and "entry fs q = Some Dir"
  shows "realpath fs p = Some q"
proof (cases "p = [] \<or> last p = ''..''")
  case True
  with assms show ?thesis by (simp add: lresolve_def split: if_splits)
next
  case False
  with assms(1) obtain d where d: "realpath fs (butlast p) = Some d" and q: "q = d @ [last p]"
    by (auto simp: lresolve_def split: if_splits)
  have "realpath fs p = resolve fs [] (butlast p @ [last p])" using False by (simp add: realpath_def)
  also have "\<dots> = resolve fs d [last p]" using d by (simp add: realpath_def resolve_append)
  also have "\<dots> = Some q" using False q assms(2) by (simp add: entry_def split: option.splits)
  finally show ?thesis .
qed

text \<open>What \<open>rmtree\<close> removes is the subtree where its path resolves to, nothing else.\<close>

lemma rmtree_confined:
  assumes "rmtree fs p = Inr fs'"
  shows "\<exists>q. realpath fs p = Some q \<and> fs' = (\<lambda>x. if prefix q x then None else fs x)"
  using rmtree_Inr [OF assms] lresolve_dir by blast

subsection \<open>Resolution depends on the links alone\<close>

definition link_at :: "fs \<Rightarrow> path \<Rightarrow> string option" where
  "link_at fs p = (case fs p of Some (Symlink t) \<Rightarrow> Some t | _ \<Rightarrow> None)"

lemma link_at_step:
  "(case fs p of Some (Symlink t) \<Rightarrow> f t | _ \<Rightarrow> g) = (case link_at fs p of Some t \<Rightarrow> f t | None \<Rightarrow> g)"
  by (simp add: link_at_def split: option.splits node.splits)

lemma resolve_same_links_Some:
  assumes res: "resolve fs acc cs = Some q" and same: "link_at fs = link_at fs'"
  shows "resolve fs' acc cs = Some q"
proof (rule mp [OF resolve.raw_induct
    [where P = "\<lambda>fs acc cs q. link_at fs = link_at fs' \<longrightarrow> resolve fs' acc cs = Some q", OF _ res] same])
  fix f fs acc cs r
  assume IH: "\<And>fs acc cs q. f fs acc cs = Some q \<Longrightarrow>
      link_at fs = link_at fs' \<longrightarrow> resolve fs' acc cs = Some q"
    and eq: "(case cs of [] \<Rightarrow> Some acc
        | c # rest \<Rightarrow> if c = ''..'' then f fs (butlast acc) rest
            else (case fs (acc @ [c]) of
                   Some (Symlink t) \<Rightarrow> f fs (if startswith t ''/'' then [] else acc) (path_parts t @ rest)
                 | _ \<Rightarrow> f fs (acc @ [c]) rest)) = Some r"
  show "link_at fs = link_at fs' \<longrightarrow> resolve fs' acc cs = Some r"
  proof (cases cs)
    case Nil
    with eq show ?thesis by simp
  next
    case (Cons c rest)
    with eq show ?thesis
      unfolding link_at_step
      by (auto simp: link_at_step split: if_splits option.splits dest!: IH)
  qed
qed

lemma resolve_same_links: "link_at fs = link_at fs' \<Longrightarrow> resolve fs acc cs = resolve fs' acc cs"
  by (metis not_None_eq resolve_same_links_Some)

lemma realpath_same_links: "link_at fs = link_at fs' \<Longrightarrow> realpath fs p = realpath fs' p"
  unfolding realpath_def by (rule resolve_same_links)

lemma link_at_only_adds_dirs: "only_adds_dirs fs fs' \<Longrightarrow> link_at fs' = link_at fs"
proof
  fix p
  assume "only_adds_dirs fs fs'"
  then have "fs' p = fs p \<or> fs p = None \<and> fs' p = Some Dir" by (simp add: only_adds_dirs_def)
  then show "link_at fs' p = link_at fs p" by (elim disjE) (simp_all add: link_at_def)
qed

lemma read_file_only_adds_dirs:
  assumes "only_adds_dirs fs fs'" and "read_file fs p = Some c"
  shows "read_file fs' p = Some c"
proof -
  from assms(2) obtain q where q: "realpath fs p = Some q" and c: "entry fs q = Some (File c)"
    by (auto simp: read_file_def stat_def split: option.splits node.splits bind_splits)
  have "realpath fs' p = Some q"
    using q realpath_same_links [OF link_at_only_adds_dirs [OF assms(1)]] by simp
  moreover have "entry fs' q = Some (File c)"
  proof -
    have "fs' q = fs q \<or> fs q = None \<and> fs' q = Some Dir"
      using assms(1) by (simp add: only_adds_dirs_def)
    with c show ?thesis by (auto simp: entry_def split: if_splits)
  qed
  ultimately show ?thesis by (simp add: read_file_def stat_def)
qed

text \<open>A file that was written reads back, and the write changed the entry it resolves to only.\<close>

lemma write_file_Inr:
  assumes "write_file fs p c = Inr fs'"
  shows "\<exists>q. realpath fs p = Some q \<and> q \<noteq> [] \<and> fs' = add_entry fs q (File c) \<and> link_at fs' = link_at fs"
proof -
  from assms obtain q where q: "realpath fs p = Some q" and "entry fs q \<noteq> Some Dir"
    and fs': "fs' = add_entry fs q (File c)"
    by (auto simp: write_file_def split: option.splits if_splits)
  then have "q \<noteq> []" by (auto simp: entry_def)
  moreover have "canonical fs q" using q by (rule realpath_canonical)
  ultimately have "\<not> is_link fs q" by (auto simp: canonical_def)
  then have "link_at fs' = link_at fs"
    unfolding fs' by (auto simp: link_at_def add_entry_apply is_link_def split: option.splits node.splits)
  with q fs' \<open>q \<noteq> []\<close> show ?thesis by blast
qed

lemma read_after_write:
  assumes "write_file fs p c = Inr fs'"
  shows "read_file fs' p = Some c"
proof -
  from write_file_Inr [OF assms] obtain q where "realpath fs p = Some q" "q \<noteq> []"
    "fs' = add_entry fs q (File c)" "link_at fs' = link_at fs" by blast
  moreover from this have "realpath fs' p = Some q" by (metis realpath_same_links)
  ultimately show ?thesis by (simp add: read_file_def stat_def entry_def add_entry_apply)
qed

lemma copy2_Inr:
  assumes "copy2 fs src dst = Inr fs'" and "\<not> is_dir fs dst"
  shows "\<exists>c. read_file fs src = Some c \<and> write_file fs dst c = Inr fs' \<and> read_file fs' dst = Some c"
  using assms by (auto simp: copy2_def Let_def read_after_write split: option.splits if_splits)

lemma is_dir_not_file: "is_dir fs p \<Longrightarrow> read_file fs p = None"
  by (simp add: is_dir_def read_file_def)

text \<open>A copy into a directory leaves the directory a directory.\<close>

lemma copy2_keeps_dir:
  assumes "copy2 fs src dst = Inr fs'" and "is_dir fs dst"
  shows "is_dir fs' dst"
proof -
  from assms obtain c where w: "write_file fs (dst @ [last src]) c = Inr fs'"
    by (auto simp: copy2_def Let_def split: option.splits if_splits)
  from write_file_Inr [OF w] obtain q where q: "realpath fs (dst @ [last src]) = Some q"
    and fs': "fs' = add_entry fs q (File c)" and links: "link_at fs' = link_at fs" by blast
  have ne: "entry fs q \<noteq> Some Dir" using w q by (auto simp: write_file_def)
  from assms(2) obtain d where d: "realpath fs dst = Some d" and dir: "entry fs d = Some Dir"
    by (auto simp: is_dir_def stat_def split: bind_splits)
  have "d \<noteq> q" using ne dir by auto
  then have "entry fs' d = Some Dir" using dir by (auto simp: fs' entry_def add_entry_apply split: if_splits)
  moreover have "realpath fs' dst = Some d" using d links by (metis realpath_same_links)
  ultimately show ?thesis by (simp add: is_dir_def stat_def)
qed

end
