(* ===== verification/Archive.thy ===== *)
theory Archive
  imports Filesystem
begin

section \<open>Archives of a directory tree\<close>

text \<open>
  What snapshots use of \<open>tarfile\<close> and of the remaining calls on paths. An archive is a list of members,
  a name with a directory, a file or a link; how members are written to bytes is left to the
  environment. \<open>tar_add\<close> is \<open>TarFile.add\<close>: it goes down a tree, the names of each directory sorted, and
  leaves out the archive that is being written. \<open>data_filter\<close> is the extraction filter of that name, and
  \<open>extract_steps\<close> the calls that extract a member it has passed. The order in which the system lists a
  directory is not fixed: it is an argument \<open>ls\<close>. The recursion limit of the interpreter bounds the
  depth of a tree. Hard links, devices, modes and times are not modelled.
\<close>

subsection \<open>More operations on entries\<close>

type_synonym lister = "fs \<Rightarrow> path \<Rightarrow> string list"

definition iterdir :: "lister \<Rightarrow> fs \<Rightarrow> path \<Rightarrow> exn + string list" where
  "iterdir ls fs p =
     (case realpath fs p of
        None \<Rightarrow> Inl (OSError ''Too many levels of symbolic links'')
      | Some q \<Rightarrow>
          (case entry fs q of
             None \<Rightarrow> Inl (OSError ''No such file or directory'')
           | Some Dir \<Rightarrow> Inr (ls fs q)
           | Some _ \<Rightarrow> Inl (OSError ''Not a directory'')))"

definition lentry :: "fs \<Rightarrow> path \<Rightarrow> (path \<times> node) option" where
  "lentry fs p = Option.bind (lresolve fs p) (\<lambda>q. map_option (Pair q) (entry fs q))"

definition unlink :: "fs \<Rightarrow> path \<Rightarrow> exn + fs" where
  "unlink fs p =
     (case lentry fs p of
        None \<Rightarrow> Inl (OSError ''No such file or directory'')
      | Some (q, Dir) \<Rightarrow> Inl (OSError ''Is a directory'')
      | Some (q, n) \<Rightarrow> Inr (\<lambda>x. if x = q then None else fs x))"

text \<open>\<open>os.mkdir\<close> where an existing directory is accepted.\<close>

definition make_dir :: "fs \<Rightarrow> path \<Rightarrow> exn + fs" where
  "make_dir fs p =
     (case lresolve fs p of
        None \<Rightarrow> Inl (OSError ''Too many levels of symbolic links'')
      | Some q \<Rightarrow>
          if entry fs q \<noteq> None then (if is_dir fs p then Inr fs else Inl (OSError ''File exists''))
          else if entry fs (butlast q) = Some Dir then Inr (add_entry fs q Dir)
          else Inl (OSError ''No such file or directory''))"

text \<open>\<open>os.symlink\<close> in place of whatever entry has the name.\<close>

definition make_link :: "fs \<Rightarrow> path \<Rightarrow> string \<Rightarrow> exn + fs" where
  "make_link fs p t =
     result_bind (if lentry fs p \<noteq> None then unlink fs p else Inr fs) (\<lambda>fs.
     (case lresolve fs p of
        None \<Rightarrow> Inl (OSError ''Too many levels of symbolic links'')
      | Some q \<Rightarrow>
          if entry fs (butlast q) = Some Dir then Inr (add_entry fs q (Symlink t))
          else Inl (OSError ''No such file or directory'')))"

text \<open>\<open>Path.replace\<close> and \<open>Path.rmdir\<close>.\<close>

definition replace_path :: "lister \<Rightarrow> fs \<Rightarrow> path \<Rightarrow> path \<Rightarrow> exn + fs" where
  "replace_path ls fs src dst =
     (case (lentry fs src, lresolve fs dst) of
        (Some (a, n), Some b) \<Rightarrow>
          if a = b then Inr fs
          else if entry fs (butlast b) \<noteq> Some Dir then Inl (OSError ''No such file or directory'')
          else if n = Dir \<and> prefix a b then Inl (OSError ''Invalid argument'')
          else if n = Dir \<and> entry fs b \<noteq> None \<and> entry fs b \<noteq> Some Dir then Inl (OSError ''Not a directory'')
          else if n = Dir \<and> entry fs b = Some Dir \<and> ls fs b \<noteq> [] then Inl (OSError ''Directory not empty'')
          else if n \<noteq> Dir \<and> entry fs b = Some Dir then Inl (OSError ''Is a directory'')
          else Inr (\<lambda>x. if prefix b x then fs (a @ drop (length b) x) else if prefix a x then None else fs x)
      | _ \<Rightarrow> Inl (OSError ''No such file or directory''))"

definition rmdir :: "lister \<Rightarrow> fs \<Rightarrow> path \<Rightarrow> exn + fs" where
  "rmdir ls fs p =
     (case lentry fs p of
        None \<Rightarrow> Inl (OSError ''No such file or directory'')
      | Some (q, Dir) \<Rightarrow> if ls fs q = [] then Inr (\<lambda>x. if x = q then None else fs x)
                        else Inl (OSError ''Directory not empty'')
      | Some (q, n) \<Rightarrow> Inl (OSError ''Not a directory''))"

subsection \<open>Writing\<close>

type_synonym tar_member = "string \<times> node"

definition recursion_limit :: nat where
  "recursion_limit = 1000"

fun concat_results :: "(exn + 'a list) list \<Rightarrow> exn + 'a list" where
  "concat_results [] = Inr []"
| "concat_results (r # rs) = result_bind r (\<lambda>xs. result_bind (concat_results rs) (\<lambda>ys. Inr (xs @ ys)))"

fun tar_add :: "lister \<Rightarrow> fs \<Rightarrow> path \<Rightarrow> nat \<Rightarrow> path \<Rightarrow> string \<Rightarrow> exn + tar_member list" where
  "tar_add ls fs archive 0 p arcname = Inl (RuntimeError ''maximum recursion depth exceeded'')"
| "tar_add ls fs archive (Suc n) p arcname =
     (if p = archive then Inr []
      else (case entry fs p of
              None \<Rightarrow> Inl (OSError ''No such file or directory'')
            | Some Dir \<Rightarrow>
                result_bind (concat_results (map (\<lambda>c. tar_add ls fs archive n (p @ [c]) (arcname @ CHR ''/'' # c))
                               (sort (ls fs p))))
                  (\<lambda>ms. Inr ((arcname, Dir) # ms))
            | Some nd \<Rightarrow> Inr [(arcname, nd)]))"

definition tar_members :: "lister \<Rightarrow> fs \<Rightarrow> path \<Rightarrow> path \<Rightarrow> string \<Rightarrow> exn + tar_member list" where
  "tar_members ls fs archive p arcname =
     (case lresolve fs p of
        None \<Rightarrow> Inl (OSError ''Too many levels of symbolic links'')
      | Some q \<Rightarrow> tar_add ls fs archive recursion_limit q arcname)"

subsection \<open>Extracting\<close>

definition member_parts :: "tar_member \<Rightarrow> string list" where
  "member_parts m = path_parts (dropWhile (\<lambda>c. c = CHR ''/'') (fst m))"

definition inside :: "fs \<Rightarrow> path \<Rightarrow> path \<Rightarrow> string \<Rightarrow> exn + unit" where
  "inside fs dest p message =
     (case realpath fs p of
        None \<Rightarrow> Inl (OSError ''Too many levels of symbolic links'')
      | Some q \<Rightarrow> check (prefix dest q) (TarError message))"

definition data_filter :: "fs \<Rightarrow> path \<Rightarrow> tar_member \<Rightarrow> exn + unit" where
  "data_filter fs dest m =
     result_bind (inside fs dest (dest @ member_parts m) ''would be extracted outside the destination'') (\<lambda>_.
     (case snd m of
        Symlink t \<Rightarrow>
          result_bind (check (\<not> startswith t ''/'') (TarError ''is a link to an absolute path'')) (\<lambda>_.
          inside fs dest (dest @ butlast (member_parts m) @ path_parts t)
            ''would link to a path outside the destination'')
      | _ \<Rightarrow> Inr ()))"

definition make_upper :: "path \<Rightarrow> tar_member \<Rightarrow> fs \<Rightarrow> exn + fs" where
  "make_upper dest m fs =
     (let upper = butlast (dest @ member_parts m) in if path_exists fs upper then Inr fs else mkdir_p fs upper)"

definition make_member :: "path \<Rightarrow> tar_member \<Rightarrow> fs \<Rightarrow> exn + fs" where
  "make_member dest m fs =
     (case snd m of
        Dir \<Rightarrow> make_dir fs (dest @ member_parts m)
      | File c \<Rightarrow> write_file fs (dest @ member_parts m) c
      | Symlink t \<Rightarrow> make_link fs (dest @ member_parts m) t)"

text \<open>The calls for one member, and for a list, when none of them raises.\<close>

definition extract_steps :: "path \<Rightarrow> tar_member \<Rightarrow> fs \<Rightarrow> exn + fs" where
  "extract_steps dest m fs =
     result_bind (data_filter fs dest m) (\<lambda>_.
     result_bind (make_upper dest m fs) (\<lambda>fs.
     make_member dest m fs))"

fun extract_list :: "path \<Rightarrow> tar_member list \<Rightarrow> fs \<Rightarrow> exn + fs" where
  "extract_list dest [] fs = Inr fs"
| "extract_list dest (m # ms) fs = result_bind (extract_steps dest m fs) (extract_list dest ms)"

lemma extract_list_append:
  "extract_list dest (ms @ ms') fs = result_bind (extract_list dest ms fs) (extract_list dest ms')"
proof (induction ms arbitrary: fs)
  case (Cons m ms)
  show ?case by (cases "extract_steps dest m fs") (simp_all add: Cons.IH)
qed simp


subsection \<open>What goes in comes out\<close>

text \<open>What every listing satisfies: the names of the entries, each once, in any order.\<close>

definition faithful_listing :: "lister \<Rightarrow> bool" where
  "faithful_listing ls \<longleftrightarrow> (\<forall>fs q. finite {c. fs (q @ [c]) \<noteq> None} \<longrightarrow>
     distinct (ls fs q) \<and> set (ls fs q) = {c. fs (q @ [c]) \<noteq> None})"

text \<open>A finite tree of directories and files: below \<open>q\<close> every entry has a proper name and lies in a directory.\<close>

definition tree_ok :: "fs \<Rightarrow> path \<Rightarrow> bool" where
  "tree_ok fs q \<longleftrightarrow> finite {r. fs (q @ r) \<noteq> None} \<and>
     (\<forall>r c. fs (q @ r @ [c]) \<noteq> None \<longrightarrow>
        entry fs (q @ r) = Some Dir \<and> name_ok c \<and> c \<noteq> ''..'' \<and> \<not> is_link fs (q @ r @ [c]))"

lemma tree_ok_entry:
  "tree_ok fs q \<Longrightarrow> fs (q @ r @ [c]) \<noteq> None \<Longrightarrow>
   entry fs (q @ r) = Some Dir \<and> name_ok c \<and> c \<noteq> ''..'' \<and> \<not> is_link fs (q @ r @ [c])"
  unfolding tree_ok_def by blast

lemma tree_ok_child: "tree_ok fs q \<Longrightarrow> tree_ok fs (q @ [c])"
proof -
  assume t: "tree_ok fs q"
  have "inj_on (Cons c) {r. fs ((q @ [c]) @ r) \<noteq> None}" and
    "Cons c ` {r. fs ((q @ [c]) @ r) \<noteq> None} \<subseteq> {r. fs (q @ r) \<noteq> None}" by auto
  then have "finite {r. fs ((q @ [c]) @ r) \<noteq> None}"
    using t finite_subset finite_imageD unfolding tree_ok_def by blast
  moreover have "entry fs ((q @ [c]) @ r) = Some Dir \<and> name_ok d \<and> d \<noteq> ''..'' \<and> \<not> is_link fs ((q @ [c]) @ r @ [d])"
    if "fs ((q @ [c]) @ r @ [d]) \<noteq> None" for r d
    using tree_ok_entry [OF t, of "c # r" d] that by simp
  ultimately show ?thesis unfolding tree_ok_def by blast
qed

lemma tree_ok_children:
  assumes "faithful_listing ls" and "tree_ok fs q"
  shows "distinct (ls fs q) \<and> set (ls fs q) = {c. fs (q @ [c]) \<noteq> None}"
proof -
  have "(\<lambda>c. [c]) ` {c. fs (q @ [c]) \<noteq> None} \<subseteq> {r. fs (q @ r) \<noteq> None}" by auto
  moreover have "inj_on (\<lambda>c. [c]) {c. fs (q @ [c]) \<noteq> None}" by (simp add: inj_on_def)
  ultimately have "finite {c. fs (q @ [c]) \<noteq> None}"
    using assms(2) finite_subset finite_imageD unfolding tree_ok_def by blast
  then show ?thesis using assms(1) unfolding faithful_listing_def by blast
qed

text \<open>The tree at \<open>p\<close> put in place of the one at \<open>t\<close>.\<close>

definition graft :: "fs \<Rightarrow> path \<Rightarrow> path \<Rightarrow> fs \<Rightarrow> fs" where
  "graft fs p t g = (\<lambda>x. if prefix t x then entry fs (p @ drop (length t) x) else g x)"

definition vacant :: "fs \<Rightarrow> path \<Rightarrow> bool" where
  "vacant g t \<longleftrightarrow> (\<forall>r. r \<noteq> [] \<longrightarrow> g (t @ r) = None)"

text \<open>A place where a member can be extracted without meeting a link or an entry of another kind.\<close>

definition ready :: "fs \<Rightarrow> path \<Rightarrow> bool" where
  "ready g t \<longleftrightarrow> t \<noteq> [] \<and> canonical g t \<and> entry g (butlast t) = Some Dir"

lemma ready_lresolve: "ready g t \<Longrightarrow> realpath g t = Some t \<and> lresolve g t = Some t \<and> path_exists g (butlast t)"
proof -
  assume r: "ready g t"
  then have can: "canonical g t" and ne: "t \<noteq> []" by (simp_all add: ready_def)
  have "last t \<noteq> ''..''" using can last_in_set [OF ne] by (auto simp: canonical_def)
  moreover have "realpath g (butlast t) = Some (butlast t)"
    using can by (simp add: realpath_of_canonical canonical_butlast)
  moreover have "entry g (butlast t) = Some Dir" using r by (simp add: ready_def)
  ultimately show ?thesis
    using ne realpath_of_canonical [OF can] by (simp add: lresolve_def path_exists_def stat_def)
qed

lemma extract_member_ready:
  assumes r: "ready g t" and t: "t = dest @ member_parts m" and "prefix dest (butlast t)"
    and nolink: "\<And>l. snd m \<noteq> Symlink l" and "g t = None \<or> g t = Some Dir \<and> snd m = Dir"
  shows "extract_steps dest m g = Inr (g(t \<mapsto> snd m))"
proof -
  note loc = ready_lresolve [OF r]
  have ne: "t \<noteq> []" using r by (simp add: ready_def)
  then have entry: "entry g t = g t" by (simp add: entry_def)
  have "prefix dest t" using assms(3) by (meson prefix_order.trans prefixeq_butlast)
  then have "data_filter g dest m = Inr ()"
    using loc t nolink by (auto simp: data_filter_def inside_def check_def split: node.splits)
  moreover have "make_upper dest m g = Inr g"
    using loc t by (simp add: make_upper_def Let_def)
  moreover have "make_member dest m g = Inr (g(t \<mapsto> snd m))"
  proof (cases "snd m")
    case Dir
    then show ?thesis
      using assms(5) loc entry r t
      by (auto simp: make_member_def make_dir_def add_entry_def is_dir_def stat_def ready_def fun_upd_idem_iff)
  next
    case (File c)
    then show ?thesis
      using assms(5) loc entry r t by (auto simp: make_member_def write_file_def add_entry_def ready_def)
  qed (use nolink in blast)
  ultimately show ?thesis by (simp add: extract_steps_def)
qed

text \<open>Names inside an archive.\<close>

definition arcname_ok :: "string \<Rightarrow> bool" where
  "arcname_ok arc \<longleftrightarrow> arc \<noteq> [] \<and> \<not> startswith arc ''/''"

lemma arcname_parts: "arcname_ok arc \<Longrightarrow> member_parts (arc, n) = path_parts arc"
  by (cases arc) (simp_all add: arcname_ok_def member_parts_def startswith_def)

lemma split_on_snoc: "c \<notin> set t \<Longrightarrow> split_on c (s @ c # t) = split_on c s @ [t]"
proof (induction s)
  case Nil
  then show ?case by (simp add: split_on_no_sep_id)
next
  case (Cons x xs)
  then show ?case by (cases "split_on c xs") auto
qed

lemma path_parts_snoc: "name_ok c \<Longrightarrow> path_parts (arc @ CHR ''/'' # c) = path_parts arc @ [c]"
  by (simp add: path_parts_def name_ok_def split_on_snoc)

lemma arcname_child: "arcname_ok arc \<Longrightarrow> arcname_ok (arc @ CHR ''/'' # c)"
  by (cases arc) (simp_all add: arcname_ok_def startswith_def)


lemma graft_Dir:
  assumes "tree_ok fs p" and "fs p = Some Dir \<or> p = []" and "vacant g t"
  shows "graft fs p t g = (\<lambda>x. if \<exists>c \<in> {c. fs (p @ [c]) \<noteq> None}. prefix (t @ [c]) x
      then entry fs (p @ drop (length t) x) else (g(t \<mapsto> Dir)) x)"
proof
  fix x
  show "graft fs p t g x = (if \<exists>c \<in> {c. fs (p @ [c]) \<noteq> None}. prefix (t @ [c]) x
      then entry fs (p @ drop (length t) x) else (g(t \<mapsto> Dir)) x)"
  proof (cases "prefix t x")
    case False
    then have "\<not> prefix (t @ [c]) x" for c by (auto dest: append_prefixD)
    with False show ?thesis by (auto simp: graft_def)
  next
    case True
    then obtain r where x: "x = t @ r" by (auto elim: prefixE)
    show ?thesis
    proof (cases r)
      case Nil
      with assms(2) x show ?thesis by (auto simp: graft_def entry_def)
    next
      case (Cons c r')
      have none: "fs (p @ c # r') = None" if "fs (p @ [c]) = None"
        using that
      proof (induction r' rule: rev_induct)
        case (snoc d r')
        then show ?case
          using tree_ok_entry [OF assms(1), of "c # r'" d] by (fastforce simp: entry_def)
      qed simp
      show ?thesis using Cons x none assms(3) by (auto simp: graft_def vacant_def entry_def)
    qed
  qed
qed

theorem extract_tar_add:
  assumes "faithful_listing ls" and "tar_add ls fs archive n p arc = Inr ms"
    and "tree_ok fs p" and "\<not> prefix p archive" and "\<not> is_link fs p" and "arcname_ok arc"
    and "ready g (dest @ path_parts arc)" and "prefix dest (butlast (dest @ path_parts arc))"
    and "vacant g (dest @ path_parts arc)"
    and "g (dest @ path_parts arc) = None \<or> g (dest @ path_parts arc) = Some Dir \<and> entry fs p = Some Dir"
  shows "extract_list dest ms g = Inr (graft fs p (dest @ path_parts arc) g)"
  using assms(2-)
proof (induction n arbitrary: p arc ms g)
  case (Suc n)
  let ?t = "dest @ path_parts arc"
  have arch: "p \<noteq> archive" using Suc.prems by auto
  have parts: "member_parts (arc, nd) = path_parts arc" for nd
    using Suc.prems(5) by (rule arcname_parts)
  show ?case
  proof (cases "entry fs p = Some Dir")
    case False
    then obtain c where c: "entry fs p = Some (File c)" and ms: "ms = [(arc, File c)]"
      using Suc.prems(1,4) arch
      by (auto simp: is_link_def entry_def split: option.splits node.splits if_splits)
    have "extract_steps dest (arc, File c) g = Inr (g(?t \<mapsto> File c))"
      using extract_member_ready [OF Suc.prems(6), of dest "(arc, File c)"] Suc.prems(7,9) parts c by simp
    moreover have "g(?t \<mapsto> File c) = graft fs p ?t g"
    proof
      fix x
      show "(g(?t \<mapsto> File c)) x = graft fs p ?t g x"
      proof (cases "prefix ?t x")
        case True
        then obtain r where x: "x = ?t @ r" by (auto elim: prefixE)
        have "fs (p @ r) = None" if "r \<noteq> []"
          using that
        proof (induction r rule: rev_induct)
          case (snoc d r)
          then have "entry fs (p @ r) \<noteq> Some Dir" using c by (cases "r = []") (auto simp: entry_def)
          then show ?case using tree_ok_entry [OF Suc.prems(2), of r d] by blast
        qed simp
        then show ?thesis
          using x c Suc.prems(8) by (auto simp: graft_def vacant_def entry_def)
      qed (auto simp: graft_def)
    qed
    ultimately show ?thesis by (simp add: ms)
  next
    case True
    let ?cs = "sort (ls fs p)"
    from Suc.prems(1) arch True obtain mss where
      mss: "concat_results (map (\<lambda>c. tar_add ls fs archive n (p @ [c]) (arc @ CHR ''/'' # c)) ?cs) = Inr mss"
      and ms: "ms = (arc, Dir) # mss"
      by (auto simp: result_bind_Inr_iff)
    note kids = tree_ok_children [OF assms(1) Suc.prems(2)]
    have first: "extract_steps dest (arc, Dir) g = Inr (g(?t \<mapsto> Dir))"
      using extract_member_ready [OF Suc.prems(6), of dest "(arc, Dir)"] Suc.prems(7,9) parts by auto
    have loop: "extract_list dest mss h =
        Inr (\<lambda>x. if \<exists>c \<in> set cs. prefix (?t @ [c]) x then entry fs (p @ drop (length ?t) x) else h x)"
      if "concat_results (map (\<lambda>c. tar_add ls fs archive n (p @ [c]) (arc @ CHR ''/'' # c)) cs) = Inr mss"
        and "distinct cs" and "set cs \<subseteq> {c. fs (p @ [c]) \<noteq> None}" and "canonical h ?t" and "h ?t = Some Dir"
        and "\<forall>c \<in> set cs. \<forall>r. h (?t @ c # r) = None" for cs mss h
      using that
    proof (induction cs arbitrary: mss h)
      case Nil
      then show ?case by simp
    next
      case (Cons c cs)
      from Cons.prems(1) obtain ms1 ms2 where
        ms1: "tar_add ls fs archive n (p @ [c]) (arc @ CHR ''/'' # c) = Inr ms1" and
        ms2: "concat_results (map (\<lambda>c. tar_add ls fs archive n (p @ [c]) (arc @ CHR ''/'' # c)) cs) = Inr ms2" and
        mss: "mss = ms1 @ ms2" by (auto simp: result_bind_Inr_iff)
      have "fs (p @ [] @ [c]) \<noteq> None" using Cons.prems(3) by simp
      note c = tree_ok_entry [OF Suc.prems(2) this]
      have place: "dest @ path_parts (arc @ CHR ''/'' # c) = ?t @ [c]"
        using c by (simp add: path_parts_snoc)
      let ?h = "graft fs (p @ [c]) (?t @ [c]) h"
      have "extract_list dest ms1 h = Inr (graft fs (p @ [c]) (dest @ path_parts (arc @ CHR ''/'' # c)) h)"
      proof (rule Suc.IH [OF ms1])
        show "tree_ok fs (p @ [c])" by (rule tree_ok_child [OF Suc.prems(2)])
        show "\<not> prefix (p @ [c]) archive" using Suc.prems(3) by (meson append_prefixD)
        show "\<not> is_link fs (p @ [c])" using c by simp
        show "arcname_ok (arc @ CHR ''/'' # c)" by (rule arcname_child [OF Suc.prems(5)])
        have none: "h (?t @ [c] @ r) = None" for r using Cons.prems(6) by simp
        have "canonical h (?t @ [c])"
          using Cons.prems(4) c none [of "[]"] unfolding canonical_snoc by (simp add: is_link_def)
        then show "ready h (dest @ path_parts (arc @ CHR ''/'' # c))"
          unfolding place using Cons.prems(5) Suc.prems(6) by (simp add: ready_def entry_def butlast_append)
        show "prefix dest (butlast (dest @ path_parts (arc @ CHR ''/'' # c)))"
          unfolding place by (simp add: butlast_append)
        show "vacant h (dest @ path_parts (arc @ CHR ''/'' # c))"
          unfolding place vacant_def using none by simp
        show "h (dest @ path_parts (arc @ CHR ''/'' # c)) = None \<or>
            h (dest @ path_parts (arc @ CHR ''/'' # c)) = Some Dir \<and> entry fs (p @ [c]) = Some Dir"
          unfolding place using none [of "[]"] by simp
      qed
      then have one: "extract_list dest ms1 h = Inr ?h" unfolding place .
      have same: "?h x = h x" if "\<not> prefix (?t @ [c]) x" for x using that by (simp add: graft_def)
      have "extract_list dest ms2 ?h =
          Inr (\<lambda>x. if \<exists>c \<in> set cs. prefix (?t @ [c]) x then entry fs (p @ drop (length ?t) x) else ?h x)"
      proof (rule Cons.IH [OF ms2])
        show "distinct cs" and "set cs \<subseteq> {c. fs (p @ [c]) \<noteq> None}" using Cons.prems(2,3) by simp_all
        have up: "\<not> prefix (?t @ [c]) q" if "prefix q ?t" for q
          using that by (auto dest!: prefix_length_le)
        show "canonical ?h ?t"
          using Cons.prems(4) same [OF up] unfolding canonical_def is_link_def by metis
        show "?h ?t = Some Dir" using Cons.prems(5) same [OF up, of ?t] by simp
        show "\<forall>d \<in> set cs. \<forall>r. ?h (?t @ d # r) = None"
          using Cons.prems(2,6) by (auto simp: graft_def)
      qed
      moreover have "(\<lambda>x. if \<exists>c \<in> set cs. prefix (?t @ [c]) x then entry fs (p @ drop (length ?t) x) else ?h x) =
          (\<lambda>x. if \<exists>c \<in> set (c # cs). prefix (?t @ [c]) x then entry fs (p @ drop (length ?t) x) else h x)"
        by (auto simp: graft_def fun_eq_iff elim!: prefixE)
      ultimately show ?case by (simp add: mss extract_list_append one)
    qed
    have "extract_list dest mss (g(?t \<mapsto> Dir)) =
        Inr (\<lambda>x. if \<exists>c \<in> set ?cs. prefix (?t @ [c]) x then entry fs (p @ drop (length ?t) x) else (g(?t \<mapsto> Dir)) x)"
    proof (rule loop [OF mss])
      show "distinct ?cs" "set ?cs \<subseteq> {c. fs (p @ [c]) \<noteq> None}" using kids by simp_all
      show "canonical (g(?t \<mapsto> Dir)) ?t"
        using Suc.prems(6) by (auto simp: ready_def canonical_def is_link_def)
      show "\<forall>c \<in> set ?cs. \<forall>r. (g(?t \<mapsto> Dir)) (?t @ c # r) = None"
        using Suc.prems(8) by (simp add: vacant_def)
    qed simp
    moreover have "graft fs p ?t g = (\<lambda>x. if \<exists>c \<in> set ?cs. prefix (?t @ [c]) x
        then entry fs (p @ drop (length ?t) x) else (g(?t \<mapsto> Dir)) x)"
      using graft_Dir [OF Suc.prems(2) _ Suc.prems(8)] True kids by (auto simp: entry_def split: if_splits)
    ultimately show ?thesis by (simp add: ms first)
  qed
qed simp


text \<open>Reading a tree raises nothing as long as it is not deeper than the recursion limit.\<close>

lemma concat_results_Inr: "(\<forall>r \<in> set rs. \<exists>xs. r = Inr xs) \<Longrightarrow> \<exists>ys. concat_results rs = Inr ys"
  by (induction rs) auto

lemma tar_add_Inr:
  assumes "faithful_listing ls" and "tree_ok fs p" and "entry fs p \<noteq> None"
    and "\<And>r. fs (p @ r) \<noteq> None \<Longrightarrow> length r < n" and "0 < n"
  shows "\<exists>ms. tar_add ls fs archive n p arc = Inr ms"
  using assms(2-)
proof (induction n arbitrary: p arc)
  case (Suc n)
  have "\<exists>xs. tar_add ls fs archive n (p @ [c]) (arc @ CHR ''/'' # c) = Inr xs" if "c \<in> set (ls fs p)" for c
  proof (rule Suc.IH)
    have c: "fs (p @ [c]) \<noteq> None" using that tree_ok_children [OF assms(1) Suc.prems(1)] by simp
    then show "entry fs (p @ [c]) \<noteq> None" by (simp add: entry_def)
    show "tree_ok fs (p @ [c])" by (rule tree_ok_child [OF Suc.prems(1)])
    show "length r < n" if "fs ((p @ [c]) @ r) \<noteq> None" for r using Suc.prems(3) [of "c # r"] that by simp
    show "0 < n" using Suc.prems(3) [of "[c]"] c by simp
  qed
  then have "\<exists>ys. concat_results (map (\<lambda>c. tar_add ls fs archive n (p @ [c]) (arc @ CHR ''/'' # c)) (sort (ls fs p))) = Inr ys"
    by (intro concat_results_Inr) auto
  then show ?case using Suc.prems(2) by (auto split: option.splits node.splits)
qed simp

end
