(* ===== verification/Policy_Models.thy ===== *)
theory Policy_Models
  imports Enums
begin

section \<open>Policy models and the built-in profiles\<close>

text \<open>
  \<open>labos/core/policy_models.py\<close>: the policy enumerations, the \<open>Profile\<close> model with its field
  constraints (\<open>Field(ge=...)\<close>) and its cross-field validator, and \<open>DEFAULT_PROFILES\<close> of
  \<open>labos/config/profiles/base.py\<close>.
\<close>

datatype RuntimeClass = CONTAINER | MICROVM
datatype NetworkMode = NET_DENY | NET_RESTRICTED | NET_ALLOWLIST
datatype FilesystemMode = FS_MANAGED | FS_READ_ONLY_ROOT
datatype PersistenceMode = EPHEMERAL | PERSISTENT
datatype ExportMode = EXPORT_REQUEST | EXPORT_APPROVAL
datatype RiskClass = RISK_LOW | RISK_MEDIUM | RISK_HIGH | RISK_CRITICAL
datatype RequesterType = REQ_HUMAN | REQ_AGENT | REQ_SCHEDULER

fun runtime_value :: "RuntimeClass \<Rightarrow> string" where
  "runtime_value CONTAINER = ''container''"
| "runtime_value MICROVM = ''microvm''"

fun network_value :: "NetworkMode \<Rightarrow> string" where
  "network_value NET_DENY = ''deny''"
| "network_value NET_RESTRICTED = ''restricted''"
| "network_value NET_ALLOWLIST = ''allowlist''"

fun filesystem_value :: "FilesystemMode \<Rightarrow> string" where
  "filesystem_value FS_MANAGED = ''managed''"
| "filesystem_value FS_READ_ONLY_ROOT = ''read-only-root''"

fun persistence_value :: "PersistenceMode \<Rightarrow> string" where
  "persistence_value EPHEMERAL = ''ephemeral''"
| "persistence_value PERSISTENT = ''persistent''"

fun export_mode_value :: "ExportMode \<Rightarrow> string" where
  "export_mode_value EXPORT_REQUEST = ''request''"
| "export_mode_value EXPORT_APPROVAL = ''approval''"

fun risk_value :: "RiskClass \<Rightarrow> string" where
  "risk_value RISK_LOW = ''low''"
| "risk_value RISK_MEDIUM = ''medium''"
| "risk_value RISK_HIGH = ''high''"
| "risk_value RISK_CRITICAL = ''critical''"

fun requester_value :: "RequesterType \<Rightarrow> string" where
  "requester_value REQ_HUMAN = ''human''"
| "requester_value REQ_AGENT = ''agent''"
| "requester_value REQ_SCHEDULER = ''scheduler''"

definition requester_type_of :: "string \<Rightarrow> exn + RequesterType" where
  "requester_type_of = enum_of requester_value [REQ_HUMAN, REQ_AGENT, REQ_SCHEDULER] ''RequesterType''"

definition persistence_mode_of :: "string \<Rightarrow> exn + PersistenceMode" where
  "persistence_mode_of = enum_of persistence_value [EPHEMERAL, PERSISTENT] ''PersistenceMode''"

lemma requester_value_inject [simp]: "requester_value a = requester_value b \<longleftrightarrow> a = b"
  by (cases a; cases b; simp)

lemma persistence_value_inject [simp]: "persistence_value a = persistence_value b \<longleftrightarrow> a = b"
  by (cases a; cases b; simp)

lemma runtime_value_inject [simp]: "runtime_value a = runtime_value b \<longleftrightarrow> a = b"
  by (cases a; cases b; simp)

declare runtime_value.simps [simp del] requester_value.simps [simp del] persistence_value.simps [simp del]

lemma requester_type_of_value [simp]: "requester_type_of (requester_value r) = Inr r"
  unfolding requester_type_of_def by (rule enum_of_value) (cases r; simp)+

lemma persistence_mode_of_value [simp]: "persistence_mode_of (persistence_value r) = Inr r"
  unfolding persistence_mode_of_def by (rule enum_of_value) (cases r; simp)+

text \<open>Risk classes are ordered, so that posture can be compared.\<close>

fun risk_rank :: "RiskClass \<Rightarrow> nat" where
  "risk_rank RISK_LOW = 0" | "risk_rank RISK_MEDIUM = 1" | "risk_rank RISK_HIGH = 2"
| "risk_rank RISK_CRITICAL = 3"

lemma risk_rank_inject: "risk_rank a = risk_rank b \<longleftrightarrow> a = b"
  by (cases a; cases b; simp)

instantiation RiskClass :: linorder
begin

definition less_eq_RiskClass :: "RiskClass \<Rightarrow> RiskClass \<Rightarrow> bool" where
  "less_eq_RiskClass a b \<longleftrightarrow> risk_rank a \<le> risk_rank b"

definition less_RiskClass :: "RiskClass \<Rightarrow> RiskClass \<Rightarrow> bool" where
  "less_RiskClass a b \<longleftrightarrow> risk_rank a < risk_rank b"

instance
  by standard (auto simp: less_eq_RiskClass_def less_RiskClass_def risk_rank_inject)

end

lemma high_risk_iff: "r \<in> {RISK_HIGH, RISK_CRITICAL} \<longleftrightarrow> RISK_HIGH \<le> r"
  by (cases r) (simp_all add: less_eq_RiskClass_def)

subsection \<open>Profiles\<close>

record Profile =
  p_name :: string
  p_runtime_class :: RuntimeClass
  p_risk_class :: RiskClass
  p_network_mode :: NetworkMode
  p_filesystem_mode :: FilesystemMode
  p_persistence_mode :: PersistenceMode
  p_export_mode :: ExportMode
  p_cpu_limit :: int
  p_memory_mb :: int
  p_disk_mb :: int
  p_max_runtime_minutes :: int
  p_approval_on_start :: bool
  p_approval_on_export :: bool
  p_audit_level :: AuditLevel
  p_retention_days :: int
  p_allow_host_mounts :: bool
  p_allowed_secret_names :: "string list"

definition field_constraints :: "Profile \<Rightarrow> bool" where
  "field_constraints p \<longleftrightarrow> 1 \<le> p_cpu_limit p \<and> 256 \<le> p_memory_mb p \<and> 1024 \<le> p_disk_mb p \<and>
     1 \<le> p_max_runtime_minutes p \<and> 1 \<le> p_retention_days p"

definition validate_combinations :: "Profile \<Rightarrow> exn + Profile" where
  "validate_combinations p =
     (if p_runtime_class p = MICROVM \<and> p_network_mode p \<noteq> NET_DENY
      then Inl (ValueError ''microVM profiles must deny network egress'')
      else if p_runtime_class p = MICROVM \<and> p_export_mode p \<noteq> EXPORT_APPROVAL
      then Inl (ValueError ''microVM profiles must require approval-based exports'')
      else if p_runtime_class p = MICROVM \<and> \<not> p_approval_on_start p
      then Inl (ValueError ''microVM profiles must require approval on start'')
      else if p_runtime_class p = MICROVM \<and> p_allow_host_mounts p
      then Inl (ValueError ''microVM profiles cannot allow host mounts'')
      else if p_risk_class p \<in> {RISK_HIGH, RISK_CRITICAL} \<and> \<not> p_approval_on_export p
      then Inl (ValueError ''high-risk profiles must require export approval'')
      else if p_risk_class p = RISK_LOW \<and> p_runtime_class p = MICROVM
      then Inl (ValueError ''low-risk profiles cannot require a microVM runtime'')
      else Inr p)"

text \<open>What constructing a \<open>Profile\<close> accepts.\<close>

definition valid_profile :: "Profile \<Rightarrow> bool" where
  "valid_profile p \<longleftrightarrow> field_constraints p \<and> validate_combinations p = Inr p"

definition safe_dev :: Profile where
  "safe_dev = \<lparr>p_name = ''safe-dev'', p_runtime_class = CONTAINER, p_risk_class = RISK_LOW,
     p_network_mode = NET_RESTRICTED, p_filesystem_mode = FS_MANAGED,
     p_persistence_mode = EPHEMERAL, p_export_mode = EXPORT_REQUEST, p_cpu_limit = 2,
     p_memory_mb = 2048, p_disk_mb = 8192, p_max_runtime_minutes = 60,
     p_approval_on_start = False, p_approval_on_export = False, p_audit_level = AUDIT_BASIC,
     p_retention_days = 3, p_allow_host_mounts = False, p_allowed_secret_names = []\<rparr>"

definition model_local :: Profile where
  "model_local = \<lparr>p_name = ''model-local'', p_runtime_class = CONTAINER, p_risk_class = RISK_MEDIUM,
     p_network_mode = NET_RESTRICTED, p_filesystem_mode = FS_MANAGED,
     p_persistence_mode = PERSISTENT, p_export_mode = EXPORT_REQUEST, p_cpu_limit = 4,
     p_memory_mb = 8192, p_disk_mb = 51200, p_max_runtime_minutes = 480,
     p_approval_on_start = False, p_approval_on_export = True, p_audit_level = AUDIT_DETAILED,
     p_retention_days = 14, p_allow_host_mounts = False, p_allowed_secret_names = []\<rparr>"

definition research_persistent :: Profile where
  "research_persistent = \<lparr>p_name = ''research-persistent'', p_runtime_class = CONTAINER,
     p_risk_class = RISK_HIGH, p_network_mode = NET_RESTRICTED, p_filesystem_mode = FS_MANAGED,
     p_persistence_mode = PERSISTENT, p_export_mode = EXPORT_APPROVAL, p_cpu_limit = 8,
     p_memory_mb = 16384, p_disk_mb = 102400, p_max_runtime_minutes = 4320,
     p_approval_on_start = False, p_approval_on_export = True, p_audit_level = AUDIT_FORENSIC,
     p_retention_days = 30, p_allow_host_mounts = False, p_allowed_secret_names = []\<rparr>"

definition red_zone :: Profile where
  "red_zone = \<lparr>p_name = ''red-zone'', p_runtime_class = MICROVM, p_risk_class = RISK_CRITICAL,
     p_network_mode = NET_DENY, p_filesystem_mode = FS_READ_ONLY_ROOT,
     p_persistence_mode = EPHEMERAL, p_export_mode = EXPORT_APPROVAL, p_cpu_limit = 4,
     p_memory_mb = 4096, p_disk_mb = 16384, p_max_runtime_minutes = 120,
     p_approval_on_start = True, p_approval_on_export = True, p_audit_level = AUDIT_FORENSIC,
     p_retention_days = 7, p_allow_host_mounts = False, p_allowed_secret_names = []\<rparr>"

text \<open>A profile table: the dict from names to profiles that a policy engine holds.\<close>

type_synonym profiles = "string \<rightharpoonup> Profile"

definition DEFAULT_PROFILES :: profiles where
  "DEFAULT_PROFILES = [''safe-dev'' \<mapsto> safe_dev, ''model-local'' \<mapsto> model_local,
     ''research-persistent'' \<mapsto> research_persistent, ''red-zone'' \<mapsto> red_zone]"

lemmas builtin_defs = safe_dev_def model_local_def research_persistent_def red_zone_def

lemma default_profiles_cases:
  assumes "DEFAULT_PROFILES name = Some p"
  obtains "p = safe_dev" "name = ''safe-dev''" | "p = model_local" "name = ''model-local''"
    | "p = research_persistent" "name = ''research-persistent''" | "p = red_zone" "name = ''red-zone''"
  using assms by (auto simp: DEFAULT_PROFILES_def split: if_splits)

lemma validate_combinations_iff:
  "validate_combinations p = Inr q \<longleftrightarrow> q = p \<and>
     (p_runtime_class p = MICROVM \<longrightarrow> p_network_mode p = NET_DENY \<and> p_export_mode p = EXPORT_APPROVAL \<and>
        p_approval_on_start p \<and> \<not> p_allow_host_mounts p \<and> p_risk_class p \<noteq> RISK_LOW) \<and>
     (RISK_HIGH \<le> p_risk_class p \<longrightarrow> p_approval_on_export p)"
  unfolding high_risk_iff [symmetric] validate_combinations_def by auto

end
