(* ===== verification/Py_Value.thy ===== *)
theory Py_Value
  imports Prelude
begin

section \<open>Python values and their JSON text\<close>

text \<open>
  The untyped values the program handles: the overrides of a lab request
  (\<open>dict[str, object]\<close>) and the payload of an audit event, which \<open>EventWriter.write\<close> stores as
  \<open>json.dumps(payload, sort_keys=True)\<close>. Floats do not occur in a payload and are left out of the
  overrides.
\<close>

datatype pyval =
    PNone
  | PBool bool
  | PInt int
  | PStr string
  | PList "pyval list"
  | PDict "(string \<times> pyval) list"

text \<open>Python's \<open>==\<close>: \<open>True == 1\<close>, lists element by element, dicts regardless of order.\<close>

primrec py_norm :: "pyval \<Rightarrow> pyval" where
  "py_norm PNone = PNone"
| "py_norm (PBool b) = PInt (if b then 1 else 0)"
| "py_norm (PInt i) = PInt i"
| "py_norm (PStr s) = PStr s"
| "py_norm (PList xs) = PList (map py_norm xs)"
| "py_norm (PDict kvs) = PDict (sort_key fst (map (map_prod id py_norm) kvs))"

definition py_eq :: "pyval \<Rightarrow> pyval \<Rightarrow> bool" where
  "py_eq a b \<longleftrightarrow> py_norm a = py_norm b"

text \<open>The truth value of \<open>if x:\<close>.\<close>

fun truthy :: "pyval \<Rightarrow> bool" where
  "truthy PNone = False"
| "truthy (PBool b) = b"
| "truthy (PInt i) = (i \<noteq> 0)"
| "truthy (PStr s) = (s \<noteq> [])"
| "truthy (PList xs) = (xs \<noteq> [])"
| "truthy (PDict kvs) = (kvs \<noteq> [])"

fun is_str :: "pyval \<Rightarrow> bool" where
  "is_str (PStr s) = True"
| "is_str _ = False"

fun str_of :: "pyval \<Rightarrow> string" where
  "str_of (PStr s) = s"
| "str_of _ = []"

definition opt_str :: "string option \<Rightarrow> pyval" where
  "opt_str x = (case x of None \<Rightarrow> PNone | Some s \<Rightarrow> PStr s)"

text \<open>\<open>repr(value)\<close> and \<open>str(value)\<close>.\<close>

primrec py_repr :: "pyval \<Rightarrow> string" where
  "py_repr PNone = ''None''"
| "py_repr (PBool b) = (if b then ''True'' else ''False'')"
| "py_repr (PInt i) = show_int i"
| "py_repr (PStr s) = repr_str s"
| "py_repr (PList xs) = ''['' @ join '', '' (map py_repr xs) @ '']''"
| "py_repr (PDict kvs) =
     ''{'' @ join '', '' (map (\<lambda>(k, v). repr_str k @ '': '' @ v) (map (map_prod id py_repr) kvs)) @ ''}''"

definition py_str :: "pyval \<Rightarrow> string" where
  "py_str v = (case v of PStr s \<Rightarrow> s | _ \<Rightarrow> py_repr v)"

lemma py_str_simps [simp]: "py_str (PStr s) = s"
  by (simp add: py_str_def)

lemma py_eq_refl [simp]: "py_eq x x"
  by (simp add: py_eq_def)

lemma py_eq_str_iff [simp]:
  "py_eq (PStr s) x \<longleftrightarrow> x = PStr s"
  "py_eq x (PStr s) \<longleftrightarrow> x = PStr s"
  by (cases x; auto simp: py_eq_def)+

lemma py_eq_none_iff [simp]: "py_eq x PNone \<longleftrightarrow> x = PNone"
  by (cases x) (auto simp: py_eq_def)

lemma py_eq_nil_iff [simp]: "py_eq x (PList []) \<longleftrightarrow> x = PList []"
  by (cases x) (auto simp: py_eq_def)

subsection \<open>json.dumps\<close>

definition hex_digit :: "nat \<Rightarrow> char" where
  "hex_digit n = (if n < 10 then char_of (48 + n) else char_of (87 + n))"

text \<open>The escapes of the default encoder (\<open>ensure_ascii\<close>): the short ones, and \<open>u00xx\<close> for the
  other control characters and for code points above 126.\<close>

definition json_char :: "char \<Rightarrow> string" where
  "json_char c = (let n = (of_char c :: nat) in
     if c = CHR 34 then [CHR 92, CHR 34]
     else if c = CHR 92 then [CHR 92, CHR 92]
     else if n = 10 then [CHR 92, CHR ''n'']
     else if n = 13 then [CHR 92, CHR ''r'']
     else if n = 9 then [CHR 92, CHR ''t'']
     else if n = 12 then [CHR 92, CHR ''f'']
     else if n = 8 then [CHR 92, CHR ''b'']
     else if n < 32 \<or> 126 < n then [CHR 92] @ ''u00'' @ [hex_digit (n div 16), hex_digit (n mod 16)]
     else [c])"

definition json_str :: "string \<Rightarrow> string" where
  "json_str s = [CHR 34] @ concat (map json_char s) @ [CHR 34]"

primrec json_dumps :: "pyval \<Rightarrow> string" where
  "json_dumps PNone = ''null''"
| "json_dumps (PBool b) = (if b then ''true'' else ''false'')"
| "json_dumps (PInt i) = show_int i"
| "json_dumps (PStr s) = json_str s"
| "json_dumps (PList xs) = ''['' @ join '', '' (map json_dumps xs) @ '']''"
| "json_dumps (PDict kvs) = ''{'' @
     join '', '' (map (\<lambda>(k, v). json_str k @ '': '' @ v) (sort_key fst (map (map_prod id json_dumps) kvs)))
     @ ''}''"

lemma json_dumps_sorts_keys:
  "json_dumps (PDict [(''b'', PInt 1), (''a'', PStr ''x'')]) =
     ''{'' @ json_str ''a'' @ '': '' @ json_str ''x'' @ '', '' @ json_str ''b'' @ '': 1}''"
  by code_simp

end
