(* ===== verification/Policy_Engine.thy ===== *)
theory Policy_Engine
  imports Policy_Models Py_Value Paths
begin

section \<open>The policy engine\<close>

text \<open>
  \<open>labos/core/policy_engine.py\<close>. A policy engine holds a profile table; a request names a profile,
  a requester and a dict of overrides, and comes back as a \<open>RequestDecision\<close> or an exception. The
  checks are made in the order of the source: profile, requester, host environment, host mounts,
  the nine profile-locked fields, secrets.
\<close>

type_synonym overrides = "string \<rightharpoonup> pyval"

record RequestDecision =
  d_profile_name :: string
  d_runtime_class :: RuntimeClass
  d_network_mode :: NetworkMode
  d_filesystem_mode :: FilesystemMode
  d_persistence_mode :: PersistenceMode
  d_export_mode :: ExportMode
  d_cpu_limit :: int
  d_memory_mb :: int
  d_disk_mb :: int
  d_max_runtime_minutes :: int
  d_approval_required :: bool
  d_approval_reasons :: "string list"
  d_risk_class :: RiskClass
  d_injected_secrets :: "pyval list"
  d_host_mounts_allowed :: bool
  d_audit_level :: AuditLevel
  d_retention_days :: int

record ExportDecision =
  ed_allowed :: bool
  ed_approval_required :: bool
  ed_quarantine_required :: bool
  ed_reason :: string

definition MANAGED_EXPORT_PREFIXES :: "string list" where
  "MANAGED_EXPORT_PREFIXES = [''/lab/exports/'', ''/artifacts/approved/'']"

definition FORBIDDEN_HOST_MOUNT_PATHS :: "ppath list" where
  "FORBIDDEN_HOST_MOUNT_PATHS = [posix_path ''/var/run/docker.sock'', posix_path ''/run/docker.sock'']"

definition FORBIDDEN_HOST_MOUNT_PREFIXES :: "ppath list" where
  "FORBIDDEN_HOST_MOUNT_PREFIXES = [posix_path ''/home'', posix_path ''/root'', posix_path ''/Users'']"

text \<open>\<open>overrides.get(key, default)\<close>.\<close>

definition ov_get :: "overrides \<Rightarrow> string \<Rightarrow> pyval \<Rightarrow> pyval" where
  "ov_get ov k d = (case ov k of None \<Rightarrow> d | Some v \<Rightarrow> v)"

definition get_profile :: "profiles \<Rightarrow> string \<Rightarrow> exn + Profile" where
  "get_profile profiles name =
     (case profiles name of
        Some p \<Rightarrow> Inr p
      | None \<Rightarrow> Inl (KeyError (''unknown profile: '' @ name)))"

definition enforce_profile_locked_field :: "overrides \<Rightarrow> string \<times> pyval \<Rightarrow> exn + unit" where
  "enforce_profile_locked_field ov = (\<lambda>(field_name, expected).
     (case ov field_name of
        None \<Rightarrow> Inr ()
      | Some v \<Rightarrow> check (py_eq v expected) (ValueError (field_name @ '' is fixed by profile''))))"

definition check_mount_entry :: "pyval \<Rightarrow> exn + unit" where
  "check_mount_entry mount_entry =
     (if \<not> is_str mount_entry \<or> CHR '':'' \<notin> set (str_of mount_entry)
      then Inl (ValueError ''host_mounts entries must use SOURCE:TARGET format'')
      else (let host_path = posix_path (fst (split_once (CHR '':'') (str_of mount_entry)))
            in if host_path \<in> set FORBIDDEN_HOST_MOUNT_PATHS
               then Inl (ValueError ''Docker socket mounts are forbidden'')
               else if list_ex (at_or_under host_path) FORBIDDEN_HOST_MOUNT_PREFIXES
               then Inl (ValueError ''host mounts under home directories are forbidden'')
               else Inr ()))"

fun validate_host_mounts :: "pyval \<Rightarrow> bool \<Rightarrow> exn + unit" where
  "validate_host_mounts PNone host_mounts_allowed = Inr ()"
| "validate_host_mounts (PList []) host_mounts_allowed = Inr ()"
| "validate_host_mounts (PList (m # ms)) host_mounts_allowed =
     (if \<not> host_mounts_allowed
      then Inl (ValueError ''host mounts are forbidden unless the profile explicitly allows them'')
      else check_all check_mount_entry (m # ms))"
| "validate_host_mounts _ host_mounts_allowed =
     Inl (ValueError ''host_mounts must be a list of SOURCE:TARGET entries'')"

text \<open>The fields a request cannot change, with the value the profile fixes, in source order.\<close>

definition locked_fields :: "Profile \<Rightarrow> (string \<times> pyval) list" where
  "locked_fields p =
     [(''network_mode'', PStr (network_value (p_network_mode p))),
      (''runtime_class'', PStr (runtime_value (p_runtime_class p))),
      (''filesystem_mode'', PStr (filesystem_value (p_filesystem_mode p))),
      (''persistence_mode'', PStr (persistence_value (p_persistence_mode p))),
      (''export_mode'', PStr (export_mode_value (p_export_mode p))),
      (''cpu_limit'', PInt (p_cpu_limit p)),
      (''memory_mb'', PInt (p_memory_mb p)),
      (''disk_mb'', PInt (p_disk_mb p)),
      (''max_runtime_minutes'', PInt (p_max_runtime_minutes p))]"

text \<open>
  The secrets of a request. A name outside the allowlist is refused with the sorted list of such
  names; an element that is no string raises \<open>TypeError\<close> from \<open>set\<close>, \<open>sorted\<close> or \<open>join\<close>.
\<close>

definition unknown_secrets :: "string list \<Rightarrow> pyval list \<Rightarrow> string list" where
  "unknown_secrets allowed xs = sort (remdups (filter (\<lambda>s. s \<notin> set allowed) (map str_of xs)))"

fun check_secrets :: "string list \<Rightarrow> pyval \<Rightarrow> exn + pyval list" where
  "check_secrets allowed (PList xs) =
     (if list_ex (\<lambda>x. \<not> is_str x) xs then Inl (TypeError ''secret names must be strings'')
      else if unknown_secrets allowed xs \<noteq> []
      then Inl (ValueError (''requested secrets are not allowed by profile: '' @
                  join '', '' (unknown_secrets allowed xs)))
      else Inr xs)"
| "check_secrets allowed _ = Inl (ValueError ''requested secrets must be a list of names'')"

definition approval_reasons :: "Profile \<Rightarrow> RequesterType \<Rightarrow> string list" where
  "approval_reasons p requester =
     (if p_approval_on_start p then [''profile requires start approval''] else []) @
     (if requester \<noteq> REQ_HUMAN \<and> p_risk_class p \<in> {RISK_HIGH, RISK_CRITICAL}
      then [''non-human requesters need approval for high-risk profiles''] else [])"

definition make_decision :: "Profile \<Rightarrow> RequesterType \<Rightarrow> pyval list \<Rightarrow> RequestDecision" where
  "make_decision p requester secrets =
     \<lparr>d_profile_name = p_name p, d_runtime_class = p_runtime_class p,
      d_network_mode = p_network_mode p, d_filesystem_mode = p_filesystem_mode p,
      d_persistence_mode = p_persistence_mode p, d_export_mode = p_export_mode p,
      d_cpu_limit = p_cpu_limit p, d_memory_mb = p_memory_mb p, d_disk_mb = p_disk_mb p,
      d_max_runtime_minutes = p_max_runtime_minutes p,
      d_approval_required = (approval_reasons p requester \<noteq> []),
      d_approval_reasons = approval_reasons p requester, d_risk_class = p_risk_class p,
      d_injected_secrets = secrets, d_host_mounts_allowed = p_allow_host_mounts p,
      d_audit_level = p_audit_level p, d_retention_days = p_retention_days p\<rparr>"

definition validate_request :: "profiles \<Rightarrow> string \<Rightarrow> overrides \<Rightarrow> string \<Rightarrow> exn + RequestDecision" where
  "validate_request profiles profile_name ov requester_type =
     result_bind (get_profile profiles profile_name) (\<lambda>p.
     result_bind (requester_type_of requester_type) (\<lambda>requester.
     result_bind (check (\<not> truthy (ov_get ov ''inherit_host_env'' PNone))
                    (ValueError ''host environment inheritance is forbidden'')) (\<lambda>_.
     result_bind (validate_host_mounts (ov_get ov ''host_mounts'' (PList []))
                    (p_allow_host_mounts p)) (\<lambda>_.
     result_bind (check_all (enforce_profile_locked_field ov) (locked_fields p)) (\<lambda>_.
     result_bind (check_secrets (p_allowed_secret_names p)
                    (ov_get ov ''secrets'' (PList []))) (\<lambda>secrets.
     Inr (make_decision p requester secrets)))))))"

definition validate_export :: "profiles \<Rightarrow> string \<Rightarrow> string \<Rightarrow> exn + ExportDecision" where
  "validate_export profiles profile_name export_path =
     result_bind (get_profile profiles profile_name) (\<lambda>p.
       if \<not> startswith_any export_path MANAGED_EXPORT_PREFIXES
       then Inr \<lparr>ed_allowed = False, ed_approval_required = True, ed_quarantine_required = True,
                 ed_reason = ''exports must originate from managed LabOS paths''\<rparr>
       else Inr \<lparr>ed_allowed = True, ed_approval_required = p_approval_on_export p,
                 ed_quarantine_required = (p_risk_class p \<in> {RISK_HIGH, RISK_CRITICAL}),
                 ed_reason = ''managed export path accepted''\<rparr>)"

subsection \<open>Lemmas\<close>

lemma get_profile_Inr [simp]: "get_profile profiles name = Inr p \<longleftrightarrow> profiles name = Some p"
  by (auto simp: get_profile_def split: option.splits)

lemma get_profile_Inl: "get_profile profiles name = Inl e \<longleftrightarrow>
    profiles name = None \<and> e = KeyError (''unknown profile: '' @ name)"
  by (auto simp: get_profile_def split: option.splits)

lemma check_mount_entry_ok:
  "check_mount_entry m = Inr () \<longleftrightarrow>
     (\<exists>s. m = PStr s \<and> CHR '':'' \<in> set s \<and>
        (let h = posix_path (takeWhile (\<lambda>c. c \<noteq> CHR '':'') s)
         in h \<notin> set FORBIDDEN_HOST_MOUNT_PATHS \<and>
            (\<forall>base \<in> set FORBIDDEN_HOST_MOUNT_PREFIXES. \<not> at_or_under h base)))"
  by (cases m) (auto simp: check_mount_entry_def split_once_def Let_def list_ex_iff split: if_splits)

lemma validate_host_mounts_ok:
  "validate_host_mounts v allowed = Inr () \<longleftrightarrow>
     v = PNone \<or> v = PList [] \<or>
     (\<exists>ms. v = PList ms \<and> allowed \<and> (\<forall>m \<in> set ms. check_mount_entry m = Inr ()))"
  by (induction v allowed rule: validate_host_mounts.induct)
     (auto simp: check_all_ok_iff result_bind_Inr_iff)

lemma enforce_locked_ok:
  "enforce_profile_locked_field ov (f, x) = Inr () \<longleftrightarrow> (\<forall>v. ov f = Some v \<longrightarrow> py_eq v x)"
  by (auto simp: enforce_profile_locked_field_def split: option.splits)

lemma locked_fields_ok:
  "check_all (enforce_profile_locked_field ov) fs = Inr () \<longleftrightarrow>
     (\<forall>(f, x) \<in> set fs. \<forall>v. ov f = Some v \<longrightarrow> py_eq v x)"
  by (auto simp: check_all_ok_iff enforce_locked_ok)

lemma unknown_secrets_Nil:
  "unknown_secrets allowed xs = [] \<longleftrightarrow> (\<forall>x \<in> set xs. str_of x \<in> set allowed)"
proof -
  have "unknown_secrets allowed xs = [] \<longleftrightarrow> set (unknown_secrets allowed xs) = {}"
    by (simp only: set_empty)
  also have "\<dots> \<longleftrightarrow> (\<forall>x \<in> set xs. str_of x \<in> set allowed)"
    by (auto simp: unknown_secrets_def)
  finally show ?thesis .
qed

lemma check_secrets_ok:
  "check_secrets allowed v = Inr xs \<longleftrightarrow>
     v = PList xs \<and> (\<forall>x \<in> set xs. \<exists>s \<in> set allowed. x = PStr s)"
proof -
  have str: "is_str x \<and> str_of x \<in> A \<longleftrightarrow> (\<exists>s \<in> A. x = PStr s)" for x and A :: "string set"
    by (cases x) auto
  show ?thesis
    unfolding str [symmetric]
    by (cases v) (auto simp: list_ex_iff unknown_secrets_Nil split: if_splits)
qed

declare check_secrets.simps [simp del] validate_host_mounts.simps [simp del]

text \<open>Acceptance, condition by condition.\<close>

lemma validate_request_Inr:
  "validate_request profiles name ov req = Inr d \<longleftrightarrow>
     (\<exists>p r secrets. profiles name = Some p \<and> requester_type_of req = Inr r \<and>
        \<not> truthy (ov_get ov ''inherit_host_env'' PNone) \<and>
        validate_host_mounts (ov_get ov ''host_mounts'' (PList [])) (p_allow_host_mounts p) = Inr () \<and>
        (\<forall>(f, x) \<in> set (locked_fields p). \<forall>v. ov f = Some v \<longrightarrow> py_eq v x) \<and>
        check_secrets (p_allowed_secret_names p) (ov_get ov ''secrets'' (PList [])) = Inr secrets \<and>
        d = make_decision p r secrets)"
  unfolding validate_request_def
  by (simp add: result_bind_Inr_iff locked_fields_ok) blast

lemma approval_reasons_Nil:
  "approval_reasons p r = [] \<longleftrightarrow>
     \<not> p_approval_on_start p \<and> (r = REQ_HUMAN \<or> p_risk_class p < RISK_HIGH)"
  using high_risk_iff [of "p_risk_class p"] by (auto simp: approval_reasons_def not_le)

text \<open>A request with no overrides is decided by the profile and the requester alone.\<close>

lemma validate_request_plain:
  "profiles name = Some p \<Longrightarrow>
   validate_request profiles name Map.empty (requester_value r) = Inr (make_decision p r [])"
  by (simp add: validate_request_Inr check_secrets_ok validate_host_mounts_ok ov_get_def)

lemma validate_request_no_overrides:
  "validate_request profiles name Map.empty (requester_value r) =
     (case profiles name of
        None \<Rightarrow> Inl (KeyError (''unknown profile: '' @ name))
      | Some p \<Rightarrow> Inr (make_decision p r []))"
  by (auto simp: validate_request_plain split: option.splits)
     (simp add: validate_request_def get_profile_def)

lemma validate_export_Inr:
  "validate_export profiles name path = Inr d \<longleftrightarrow>
     (\<exists>p. profiles name = Some p \<and>
        (if startswith_any path MANAGED_EXPORT_PREFIXES
         then d = \<lparr>ed_allowed = True, ed_approval_required = p_approval_on_export p,
                   ed_quarantine_required = (RISK_HIGH \<le> p_risk_class p),
                   ed_reason = ''managed export path accepted''\<rparr>
         else d = \<lparr>ed_allowed = False, ed_approval_required = True, ed_quarantine_required = True,
                   ed_reason = ''exports must originate from managed LabOS paths''\<rparr>))"
  unfolding high_risk_iff [symmetric] validate_export_def
  by (auto simp: result_bind_Inr_iff)

lemma validate_export_allowed:
  "validate_export profiles name path = Inr d \<Longrightarrow> ed_allowed d \<Longrightarrow>
     \<exists>p. profiles name = Some p \<and> startswith_any path MANAGED_EXPORT_PREFIXES \<and>
        ed_approval_required d = p_approval_on_export p"
  by (cases "startswith_any path MANAGED_EXPORT_PREFIXES") (auto simp: validate_export_Inr)

text \<open>
  The mount check reads a path as text: a parent step, a doubled leading slash or a parent of the
  socket's directory gets past it.
\<close>

lemma mount_check_is_lexical:
  "check_mount_entry (PStr ''/tmp/../home/alice:/mnt'') = Inr ()"
  "check_mount_entry (PStr ''//home/alice:/mnt'') = Inr ()"
  "check_mount_entry (PStr ''/var/run:/mnt'') = Inr ()"
  by code_simp+

end
