(* ===== verification/Program.thy ===== *)
theory Program
  imports Prelude
begin

section \<open>Programs with state and exceptions\<close>

text \<open>
  What every part of the development that works on a state is written in: a program takes a state and
  returns a value, or raises, with the state it leaves. An exception keeps the state reached so far.
  \<open>wp m Q w\<close> says that \<open>m\<close>, run on \<open>w\<close>, ends in \<open>Q\<close>; the collection \<open>wp\<close> has one equation per construct,
  so that a program is run symbolically by rewriting. \<open>keeps I m\<close>: the program \<open>m\<close> keeps \<open>I\<close>, whether it
  returns or raises; the collection \<open>keep\<close> has one rule per construct.
\<close>

type_synonym ('s, 'a) program = "'s \<Rightarrow> (exn + 'a) \<times> 's"

subsection \<open>The monad\<close>

definition returns :: "'a \<Rightarrow> ('s, 'a) program" where
  "returns x w = (Inr x, w)"

definition throw :: "exn \<Rightarrow> ('s, 'a) program" where
  "throw e w = (Inl e, w)"

definition bnd :: "('s, 'a) program \<Rightarrow> ('a \<Rightarrow> ('s, 'b) program) \<Rightarrow> ('s, 'b) program" where
  "bnd m f w = (case m w of (Inl e, w') \<Rightarrow> (Inl e, w') | (Inr x, w') \<Rightarrow> f x w')"

text \<open>\<open>try: m except e: h e\<close>.\<close>

definition attempt :: "('s, 'a) program \<Rightarrow> (exn \<Rightarrow> ('s, 'a) program) \<Rightarrow> ('s, 'a) program" where
  "attempt m h w = (case m w of (Inl e, w') \<Rightarrow> h e w' | (Inr x, w') \<Rightarrow> (Inr x, w'))"

text \<open>\<open>try\<close> with an \<open>except Exception\<close> that goes on: the outcome as a value.\<close>

definition captured :: "('s, 'a) program \<Rightarrow> ('s, exn + 'a) program" where
  "captured m w = (case m w of (r, w') \<Rightarrow> (Inr r, w'))"

definition gets :: "('s \<Rightarrow> 'a) \<Rightarrow> ('s, 'a) program" where
  "gets f w = (Inr (f w), w)"

definition modify :: "('s \<Rightarrow> 's) \<Rightarrow> ('s, unit) program" where
  "modify f w = (Inr (), f w)"

definition liftR :: "exn + 'a \<Rightarrow> ('s, 'a) program" where
  "liftR r w = (r, w)"

definition require :: "'a option \<Rightarrow> exn \<Rightarrow> ('s, 'a) program" where
  "require x e w = (case x of None \<Rightarrow> Inl e | Some y \<Rightarrow> Inr y, w)"

definition guard :: "bool \<Rightarrow> exn \<Rightarrow> ('s, unit) program" where
  "guard ok e w = (check ok e, w)"

fun for_each :: "('a \<Rightarrow> ('s, unit) program) \<Rightarrow> 'a list \<Rightarrow> ('s, unit) program" where
  "for_each f [] = returns ()"
| "for_each f (x # xs) = bnd (f x) (\<lambda>_. for_each f xs)"

fun mapM :: "('a \<Rightarrow> ('s, 'b) program) \<Rightarrow> 'a list \<Rightarrow> ('s, 'b list) program" where
  "mapM f [] = returns []"
| "mapM f (x # xs) = bnd (f x) (\<lambda>y. bnd (mapM f xs) (\<lambda>ys. returns (y # ys)))"

text \<open>A loop that threads a value, such as a report that its iterations fill.\<close>

fun foldM :: "('r \<Rightarrow> 'a \<Rightarrow> ('s, 'r) program) \<Rightarrow> 'r \<Rightarrow> 'a list \<Rightarrow> ('s, 'r) program" where
  "foldM f r [] = returns r"
| "foldM f r (x # xs) = bnd (f r x) (\<lambda>r'. foldM f r' xs)"

lemma bnd_run: "m w = (Inr x, w') \<Longrightarrow> bnd m f w = f x w'"
  by (simp add: bnd_def)

lemma bnd_no_effect: "bnd (gets f) (\<lambda>_. m) = m" "bnd (returns x) g = g x"
  by (simp_all add: bnd_def gets_def returns_def fun_eq_iff)

subsection \<open>Running a program symbolically\<close>

definition wp :: "('s, 'a) program \<Rightarrow> (exn + 'a \<Rightarrow> 's \<Rightarrow> bool) \<Rightarrow> 's \<Rightarrow> bool" where
  "wp m Q w = (case m w of (r, w') \<Rightarrow> Q r w')"

abbreviation on_value :: "('a \<Rightarrow> 's \<Rightarrow> bool) \<Rightarrow> (exn \<Rightarrow> 's \<Rightarrow> bool) \<Rightarrow> exn + 'a \<Rightarrow> 's \<Rightarrow> bool" where
  "on_value Q R r w \<equiv> (case r of Inl e \<Rightarrow> R e w | Inr x \<Rightarrow> Q x w)"

lemma wp_returns [wp]: "wp (returns x) Q w = Q (Inr x) w"
  by (simp add: wp_def returns_def)

lemma wp_throw [wp]: "wp (throw e) Q w = Q (Inl e) w"
  by (simp add: wp_def throw_def)

lemma wp_bnd [wp]:
  "wp (bnd m f) Q w = wp m (\<lambda>r w'. case r of Inl e \<Rightarrow> Q (Inl e) w' | Inr x \<Rightarrow> wp (f x) Q w') w"
  by (auto simp: wp_def bnd_def split: prod.splits sum.splits)

lemma wp_attempt [wp]:
  "wp (attempt m h) Q w = wp m (\<lambda>r w'. case r of Inl e \<Rightarrow> wp (h e) Q w' | Inr x \<Rightarrow> Q (Inr x) w') w"
  by (auto simp: wp_def attempt_def split: prod.splits sum.splits)

lemma wp_captured [wp]: "wp (captured m) Q w = wp m (\<lambda>r w'. Q (Inr r) w') w"
  by (simp add: wp_def captured_def split: prod.splits)

lemma wp_gets [wp]: "wp (gets f) Q w = Q (Inr (f w)) w"
  by (simp add: wp_def gets_def)

lemma wp_modify [wp]: "wp (modify f) Q w = Q (Inr ()) (f w)"
  by (simp add: wp_def modify_def)

lemma wp_liftR [wp]: "wp (liftR r) Q w = Q r w"
  by (simp add: wp_def liftR_def)

lemma wp_require [wp]:
  "wp (require x e) Q w = (case x of None \<Rightarrow> Q (Inl e) w | Some y \<Rightarrow> Q (Inr y) w)"
  by (simp add: wp_def require_def split: option.splits)

lemma wp_guard [wp]: "wp (guard ok e) Q w = (if ok then Q (Inr ()) w else Q (Inl e) w)"
  by (simp add: wp_def guard_def check_def)

lemma wp_if [wp]: "wp (if b then m else m') Q w = (if b then wp m Q w else wp m' Q w)"
  by simp

lemma wp_let [wp]: "wp (let x = t in f x) Q w = (let x = t in wp (f x) Q w)"
  by simp

lemma wp_option [wp]:
  "wp (case x of None \<Rightarrow> m | Some y \<Rightarrow> f y) Q w = (case x of None \<Rightarrow> wp m Q w | Some y \<Rightarrow> wp (f y) Q w)"
  by (simp split: option.splits)

lemma wp_sum [wp]:
  "wp (case x of Inl e \<Rightarrow> h e | Inr y \<Rightarrow> f y) Q w = (case x of Inl e \<Rightarrow> wp (h e) Q w | Inr y \<Rightarrow> wp (f y) Q w)"
  by (simp split: sum.splits)

lemma wp_mono: "wp m Q w \<Longrightarrow> (\<And>r w'. Q r w' \<Longrightarrow> Q' r w') \<Longrightarrow> wp m Q' w"
  by (auto simp: wp_def split: prod.splits)

text \<open>The invariant rule of a loop.\<close>

lemma wp_foldM:
  assumes "I r w"
    and step: "\<And>r x w. x \<in> set xs \<Longrightarrow> I r w \<Longrightarrow> wp (f r x) (\<lambda>res w'. case res of Inl e \<Rightarrow> Q (Inl e) w' | Inr r' \<Rightarrow> I r' w') w"
    and "\<And>r w. I r w \<Longrightarrow> Q (Inr r) w"
  shows "wp (foldM f r xs) Q w"
  using assms(1) step
proof (induction xs arbitrary: r w)
  case Nil
  then show ?case by (simp add: wp_returns assms(3))
next
  case (Cons x xs)
  have "wp (f r x) (\<lambda>res w'. case res of Inl e \<Rightarrow> Q (Inl e) w' | Inr r' \<Rightarrow> I r' w') w"
    using Cons.prems by simp
  moreover have "I r' w' \<Longrightarrow> wp (foldM f r' xs) Q w'" for r' w'
    by (rule Cons.IH) (simp_all add: Cons.prems(2))
  ultimately show ?case
    unfolding foldM.simps wp_bnd by (elim wp_mono) (auto split: sum.splits)
qed

lemma wp_conj: "wp m Q w \<Longrightarrow> wp m Q' w \<Longrightarrow> wp m (\<lambda>r w'. Q r w' \<and> Q' r w') w"
  by (auto simp: wp_def split: prod.splits)

lemma wp_result: "wp m Q w \<Longrightarrow> m w = (r, w') \<Longrightarrow> Q r w'"
  by (simp add: wp_def)

lemma wpI: "(\<And>r w'. m w = (r, w') \<Longrightarrow> Q r w') \<Longrightarrow> wp m Q w"
  by (simp add: wp_def split: prod.splits)

subsection \<open>Programs that keep an invariant\<close>

definition keeps :: "('s \<Rightarrow> bool) \<Rightarrow> ('s, 'a) program \<Rightarrow> bool" where
  "keeps I m \<longleftrightarrow> (\<forall>w. I w \<longrightarrow> I (snd (m w)))"

lemma keeps_wp: "keeps I m \<longleftrightarrow> (\<forall>w. I w \<longrightarrow> wp m (\<lambda>_ w'. I w') w)"
  by (simp add: keeps_def wp_def case_prod_beta)

lemma keeps_returns [keep]: "keeps I (returns x)"
  and keeps_throw [keep]: "keeps I (throw e)"
  and keeps_gets [keep]: "keeps I (gets f)"
  and keeps_liftR [keep]: "keeps I (liftR r)"
  and keeps_require [keep]: "keeps I (require y e)"
  and keeps_guard [keep]: "keeps I (guard b e)"
  by (simp_all add: keeps_wp wp split: option.splits)

lemma keeps_bnd [keep]:
  assumes "keeps I m" and "\<And>x. keeps I (f x)"
  shows "keeps I (bnd m f)"
  unfolding keeps_wp wp_bnd
proof (intro allI impI)
  fix w
  assume "I w"
  with assms(1) have "wp m (\<lambda>_ w'. I w') w" by (simp add: keeps_wp)
  then show "wp m (\<lambda>r w'. case r of Inl e \<Rightarrow> I w' | Inr x \<Rightarrow> wp (f x) (\<lambda>_ w'. I w') w') w"
    by (rule wp_mono) (use assms(2) in \<open>auto simp: keeps_wp split: sum.splits\<close>)
qed

lemma keeps_attempt [keep]:
  assumes "keeps I m" and "\<And>e. keeps I (h e)"
  shows "keeps I (attempt m h)"
  unfolding keeps_wp wp_attempt
proof (intro allI impI)
  fix w
  assume "I w"
  with assms(1) have "wp m (\<lambda>_ w'. I w') w" by (simp add: keeps_wp)
  then show "wp m (\<lambda>r w'. case r of Inl e \<Rightarrow> wp (h e) (\<lambda>_ w'. I w') w' | Inr x \<Rightarrow> I w') w"
    by (rule wp_mono) (use assms(2) in \<open>auto simp: keeps_wp split: sum.splits\<close>)
qed

lemma keeps_captured [keep]: "keeps I m \<Longrightarrow> keeps I (captured m)"
  by (simp add: keeps_wp wp)

lemma keeps_foldM [keep]: "(\<And>r x. keeps I (f r x)) \<Longrightarrow> keeps I (foldM f r xs)"
  by (induction xs arbitrary: r) (auto intro!: keep)

lemma keeps_mapM [keep]: "(\<And>x. keeps I (f x)) \<Longrightarrow> keeps I (mapM f xs)"
  by (induction xs) (auto intro!: keep)

lemma keeps_for_each [keep]: "(\<And>x. keeps I (f x)) \<Longrightarrow> keeps I (for_each f xs)"
  by (induction xs) (auto intro!: keep)

lemma keeps_if [keep]: "keeps I m \<Longrightarrow> keeps I m' \<Longrightarrow> keeps I (if b then m else m')"
  by simp

lemma keeps_option [keep]: "keeps I m \<Longrightarrow> (\<And>x. keeps I (f x)) \<Longrightarrow> keeps I (case y of None \<Rightarrow> m | Some x \<Rightarrow> f x)"
  by (cases y) simp_all

lemma keeps_sum [keep]: "(\<And>x. keeps I (f x)) \<Longrightarrow> (\<And>x. keeps I (g x)) \<Longrightarrow> keeps I (case y of Inl x \<Rightarrow> f x | Inr x \<Rightarrow> g x)"
  by (cases y) simp_all

lemma keeps_prod [keep]: "(\<And>x y. keeps I (f x y)) \<Longrightarrow> keeps I (case p of (x, y) \<Rightarrow> f x y)"
  by (cases p) simp

lemma keeps_let [keep]: "(\<And>x. keeps I (f x)) \<Longrightarrow> keeps I (let x = y in f x)"
  by simp

subsection \<open>What a program yields\<close>

text \<open>\<open>yields P m\<close>: a value that \<open>m\<close> returns satisfies \<open>P\<close>, from any state.\<close>

definition yields :: "('a \<Rightarrow> bool) \<Rightarrow> ('s, 'a) program \<Rightarrow> bool" where
  "yields P m \<longleftrightarrow> (\<forall>w x w'. m w = (Inr x, w') \<longrightarrow> P x)"

lemma yieldsD: "yields P m \<Longrightarrow> m w = (Inr x, w') \<Longrightarrow> P x"
  unfolding yields_def by blast

lemma yields_returns: "P x \<Longrightarrow> yields P (returns x)"
  by (simp add: yields_def returns_def)

lemma yields_bnd: "(\<And>x. yields P (f x)) \<Longrightarrow> yields P (bnd m f)"
  unfolding yields_def bnd_def by (fastforce split: prod.splits sum.splits)

lemma yields_let: "(\<And>x. x = y \<Longrightarrow> yields P (f x)) \<Longrightarrow> yields P (let x = y in f x)"
  by simp

lemma yields_option: "(x = None \<Longrightarrow> yields P m) \<Longrightarrow> (\<And>y. x = Some y \<Longrightarrow> yields P (f y)) \<Longrightarrow>
    yields P (case x of None \<Rightarrow> m | Some y \<Rightarrow> f y)"
  by (cases x) simp_all

lemma yields_sum: "(\<And>e. x = Inl e \<Longrightarrow> yields P (f e)) \<Longrightarrow> (\<And>y. x = Inr y \<Longrightarrow> yields P (g y)) \<Longrightarrow>
    yields P (case x of Inl e \<Rightarrow> f e | Inr y \<Rightarrow> g y)"
  by (cases x) simp_all

subsection \<open>Programs that always return\<close>

definition returning :: "('s, 'a) program \<Rightarrow> bool" where
  "returning m \<longleftrightarrow> (\<forall>w. \<exists>x w'. m w = (Inr x, w'))"

lemma returning_returns: "returning (returns x)"
  by (simp add: returning_def returns_def)

lemma returning_captured: "returning (captured m)"
  by (simp add: returning_def captured_def split: prod.splits)

lemma returning_bnd: "returning m \<Longrightarrow> (\<And>x. returning (f x)) \<Longrightarrow> returning (bnd m f)"
  unfolding returning_def
proof
  fix w
  assume m: "\<forall>w. \<exists>x w'. m w = (Inr x, w')" and f: "\<And>x. \<forall>w. \<exists>y w'. f x w = (Inr y, w')"
  from m obtain x w1 where "m w = (Inr x, w1)" by blast
  with f [of x] show "\<exists>y w'. bnd m f w = (Inr y, w')" by (simp add: bnd_def)
qed

lemma returning_option: "returning m \<Longrightarrow> (\<And>y. returning (f y)) \<Longrightarrow> returning (case x of None \<Rightarrow> m | Some y \<Rightarrow> f y)"
  by (cases x) simp_all

lemma returning_sum: "(\<And>e. returning (f e)) \<Longrightarrow> (\<And>y. returning (g y)) \<Longrightarrow> returning (case x of Inl e \<Rightarrow> f e | Inr y \<Rightarrow> g y)"
  by (cases x) simp_all

lemma returning_let: "(\<And>x. returning (f x)) \<Longrightarrow> returning (let x = y in f x)"
  by simp

lemma returning_if: "returning m \<Longrightarrow> returning m' \<Longrightarrow> returning (if b then m else m')"
  by simp

lemma returning_mapM: "(\<And>x. returning (f x)) \<Longrightarrow> returning (mapM f xs)"
  by (induction xs) (auto intro!: returning_returns returning_bnd)

end
