(* ===== verification/Session.thy ===== *)
theory Session
  imports Schema Archive Policy_Engine Program
begin

section \<open>Sessions: the world, its programs and how they are run symbolically\<close>

text \<open>
  The state the services work on. A session sees \<open>db\<close>; \<open>commit\<close> publishes it as \<open>committed\<close>, and
  leaving \<open>with session_factory() as session\<close> drops what was not committed; \<open>begin_nested\<close> is a
  savepoint. The file system is not transactional: what a failed handler copied or removed stays so.
  The two sources of nondeterminism are streams of the environment: \<open>uuid4 E n\<close> is the text of the
  \<open>n\<close>-th identifier, \<open>clock E n\<close> the \<open>n\<close>-th reading of the clock in microseconds; \<open>uuids\<close> and
  \<open>ticks\<close> count what was consumed. A handler runs as one step. SQLAlchemy reads the column defaults
  \<open>created_at\<close> and \<open>updated_at\<close> when it flushes; the model reads them where the row is added or
  changed. \<open>listdir E\<close> is the order in which the system lists a directory, \<open>tar_pack E\<close> the bytes of a
  compressed archive with the given members and \<open>tar_unpack E\<close> the members of an archive file, if it is one.
\<close>

record env =
  uuid4 :: "nat \<Rightarrow> string"
  clock :: "nat \<Rightarrow> int"
  environ :: "string \<Rightarrow> string option"
  cwd :: path
  storage_root :: path
  default_run_timeout_minutes :: int
  policy_profiles :: profiles
  listdir :: lister
  tar_pack :: "tar_member list \<Rightarrow> string"
  tar_unpack :: "string \<Rightarrow> tar_member list option"

record world =
  db :: database
  committed :: database
  fsys :: fs
  uuids :: nat
  ticks :: nat

type_synonym 'a prog = "(world, 'a) program"

subsection \<open>Effects\<close>

definition fresh_uuid :: "env \<Rightarrow> string prog" where
  "fresh_uuid E w = (Inr (uuid4 E (uuids w)), w\<lparr>uuids := Suc (uuids w)\<rparr>)"

definition utc_now :: "env \<Rightarrow> datetime prog" where
  "utc_now E w = (Inr (utc (clock E (ticks w))), w\<lparr>ticks := Suc (ticks w)\<rparr>)"

definition set_db :: "(database \<Rightarrow> database) \<Rightarrow> unit prog" where
  "set_db f = modify (\<lambda>w. w\<lparr>db := f (db w)\<rparr>)"

definition commit :: "unit prog" where
  "commit = modify (\<lambda>w. w\<lparr>committed := db w\<rparr>)"

definition with_session :: "'a prog \<Rightarrow> 'a prog" where
  "with_session m w =
     (case m (w\<lparr>db := committed w\<rparr>) of (r, w') \<Rightarrow> (r, w'\<lparr>db := committed w'\<rparr>))"

definition begin_nested :: "'a prog \<Rightarrow> 'a prog" where
  "begin_nested m w =
     (case m w of (Inl e, w') \<Rightarrow> (Inl e, w'\<lparr>db := db w\<rparr>) | (Inr x, w') \<Rightarrow> (Inr x, w'))"

text \<open>A file system call; one that raises leaves the tree as it was.\<close>

definition fs_call :: "(fs \<Rightarrow> exn + fs) \<Rightarrow> unit prog" where
  "fs_call f w = (case f (fsys w) of Inl e \<Rightarrow> (Inl e, w) | Inr g \<Rightarrow> (Inr (), w\<lparr>fsys := g\<rparr>))"

text \<open>\<open>session.add\<close> and the assignment of attributes to a row object the session holds.\<close>

definition add_row :: "env \<Rightarrow> (('b timestamped_scheme list \<Rightarrow> 'b timestamped_scheme list) \<Rightarrow> database \<Rightarrow> database) \<Rightarrow>
    'b timestamped_scheme \<Rightarrow> 'b timestamped_scheme prog" where
  "add_row E upd r =
     bnd (utc_now E) (\<lambda>c. bnd (utc_now E) (\<lambda>u.
     (let r' = r\<lparr>created_at := c, updated_at := u\<rparr>
      in bnd (set_db (upd (app [r']))) (\<lambda>_. returns r'))))"

definition put_row :: "env \<Rightarrow> ('b timestamped_scheme \<Rightarrow> string) \<Rightarrow>
    (('b timestamped_scheme list \<Rightarrow> 'b timestamped_scheme list) \<Rightarrow> database \<Rightarrow> database) \<Rightarrow>
    'b timestamped_scheme \<Rightarrow> 'b timestamped_scheme prog" where
  "put_row E key upd r =
     bnd (utc_now E) (\<lambda>u.
     (let r' = r\<lparr>updated_at := u\<rparr>
      in bnd (set_db (upd (row_put key r'))) (\<lambda>_. returns r')))"

definition session_get :: "('r \<Rightarrow> string) \<Rightarrow> (database \<Rightarrow> 'r list) \<Rightarrow> string \<Rightarrow> 'r option prog" where
  "session_get key tab k = gets (\<lambda>w. row_get key k (tab (db w)))"

definition get_or_404 :: "('r \<Rightarrow> string) \<Rightarrow> (database \<Rightarrow> 'r list) \<Rightarrow> string \<Rightarrow> string \<Rightarrow> 'r prog" where
  "get_or_404 key tab k what =
     bnd (session_get key tab k) (\<lambda>x. require x (ResourceNotFoundError what))"

definition select :: "('b timestamped_scheme \<Rightarrow> string) \<Rightarrow> (database \<Rightarrow> 'b timestamped_scheme list) \<Rightarrow>
    ('b timestamped_scheme \<Rightarrow> bool) \<Rightarrow> 'b timestamped_scheme list prog" where
  "select key tab P = gets (\<lambda>w. select_rows key P (tab (db w)))"

text \<open>A loop over row objects. An iteration sees what earlier ones did to its row, so the row is read
  again by its key.\<close>

definition fold_rows :: "('b timestamped_scheme \<Rightarrow> string) \<Rightarrow> (database \<Rightarrow> 'b timestamped_scheme list) \<Rightarrow>
    ('r \<Rightarrow> 'b timestamped_scheme \<Rightarrow> 'r prog) \<Rightarrow> 'r \<Rightarrow> 'b timestamped_scheme list \<Rightarrow> 'r prog" where
  "fold_rows key tab f r rows =
     foldM (\<lambda>r k. bnd (session_get key tab k) (\<lambda>found.
        (case found of None \<Rightarrow> returns r | Some row \<Rightarrow> f r row))) r (map key rows)"

subsection \<open>Running a program symbolically\<close>

lemma wp_fresh_uuid [wp]:
  "wp (fresh_uuid E) Q w = Q (Inr (uuid4 E (uuids w))) (w\<lparr>uuids := Suc (uuids w)\<rparr>)"
  by (simp add: wp_def fresh_uuid_def)

lemma wp_utc_now [wp]:
  "wp (utc_now E) Q w = Q (Inr (utc (clock E (ticks w)))) (w\<lparr>ticks := Suc (ticks w)\<rparr>)"
  by (simp add: wp_def utc_now_def)

lemma wp_set_db [wp]: "wp (set_db f) Q w = Q (Inr ()) (w\<lparr>db := f (db w)\<rparr>)"
  by (simp add: set_db_def wp)

lemma wp_commit [wp]: "wp commit Q w = Q (Inr ()) (w\<lparr>committed := db w\<rparr>)"
  by (simp add: commit_def wp)

lemma wp_with_session [wp]:
  "wp (with_session m) Q w =
     wp m (\<lambda>r w'. Q r (w'\<lparr>db := committed w'\<rparr>)) (w\<lparr>db := committed w\<rparr>)"
  by (simp add: wp_def with_session_def split: prod.splits)

lemma wp_begin_nested [wp]:
  "wp (begin_nested m) Q w =
     wp m (\<lambda>r w'. case r of Inl e \<Rightarrow> Q (Inl e) (w'\<lparr>db := db w\<rparr>) | Inr x \<Rightarrow> Q (Inr x) w') w"
  by (auto simp: wp_def begin_nested_def split: prod.splits sum.splits)

lemma wp_fs_call [wp]:
  "wp (fs_call f) Q w =
     (case f (fsys w) of Inl e \<Rightarrow> Q (Inl e) w | Inr g \<Rightarrow> Q (Inr ()) (w\<lparr>fsys := g\<rparr>))"
  by (simp add: wp_def fs_call_def split: sum.splits)

lemma wp_add_row [wp]:
  "wp (add_row E upd r) Q w =
     (let r' = r\<lparr>created_at := utc (clock E (ticks w)), updated_at := utc (clock E (Suc (ticks w)))\<rparr>
      in Q (Inr r') (w\<lparr>ticks := Suc (Suc (ticks w)), db := upd (app [r']) (db w)\<rparr>))"
  by (simp add: add_row_def wp Let_def)

lemma wp_put_row [wp]:
  "wp (put_row E key upd r) Q w =
     (let r' = r\<lparr>updated_at := utc (clock E (ticks w))\<rparr>
      in Q (Inr r') (w\<lparr>ticks := Suc (ticks w), db := upd (row_put key r') (db w)\<rparr>))"
  by (simp add: put_row_def wp Let_def)

lemma wp_session_get [wp]: "wp (session_get key tab k) Q w = Q (Inr (row_get key k (tab (db w)))) w"
  by (simp add: session_get_def wp)

lemma wp_get_or_404 [wp]:
  "wp (get_or_404 key tab k what) Q w =
     (case row_get key k (tab (db w)) of
        None \<Rightarrow> Q (Inl (ResourceNotFoundError what)) w | Some r \<Rightarrow> Q (Inr r) w)"
  by (simp add: get_or_404_def wp)

lemma wp_select [wp]: "wp (select key tab P) Q w = Q (Inr (select_rows key P (tab (db w)))) w"
  by (simp add: select_def wp)

text \<open>
  The rule of a loop over rows with distinct keys whose iterations change no other row of the table:
  each iteration meets its row as it was when the loop began.
\<close>

lemma wp_fold_rows:
  assumes ks_def: "ks = map key rows" and dist: "distinct ks" and there: "\<And>k. k \<in> set ks \<Longrightarrow> row_get key k (tab (db w)) \<noteq> None"
    and start: "I [] r w"
    and step: "\<And>done k row r v. I done r v \<Longrightarrow> k \<in> set ks \<Longrightarrow> row_get key k (tab (db v)) = Some row \<Longrightarrow>
      row_get key k (tab (db w)) = Some row \<Longrightarrow>
      wp (f r row) (\<lambda>res v'. case res of Inl e \<Rightarrow> Q (Inl e) v'
         | Inr r' \<Rightarrow> I (done @ [k]) r' v' \<and>
             (\<forall>k'. k' \<noteq> k \<longrightarrow> row_get key k' (tab (db v')) = row_get key k' (tab (db v)))) v"
    and finish: "\<And>r v. I ks r v \<Longrightarrow> Q (Inr r) v"
  shows "wp (fold_rows key tab f r rows) Q w"
proof -
  let ?body = "\<lambda>r k. bnd (session_get key tab k) (\<lambda>found.
     (case found of None \<Rightarrow> returns r | Some row \<Rightarrow> f r row))"
  have "wp (foldM ?body r rest) Q v"
    if "past @ rest = ks" "I past r v" "\<And>k. k \<in> set rest \<Longrightarrow> row_get key k (tab (db v)) = row_get key k (tab (db w))"
    for past rest r v
    using that
  proof (induction rest arbitrary: past r v)
    case Nil
    then show ?case by (simp add: wp finish)
  next
    case (Cons k rest)
    then have k: "k \<in> set ks" and fresh: "k \<notin> set rest" using dist by auto
    from there [OF k] obtain row where row: "row_get key k (tab (db w)) = Some row" by auto
    then have "row_get key k (tab (db v)) = Some row" using Cons.prems(3) by simp
    then have "wp (f r row) (\<lambda>res v'. case res of Inl e \<Rightarrow> Q (Inl e) v'
         | Inr r' \<Rightarrow> I (past @ [k]) r' v' \<and>
             (\<forall>k'. k' \<noteq> k \<longrightarrow> row_get key k' (tab (db v')) = row_get key k' (tab (db v)))) v"
      using step [OF Cons.prems(2) k _ row] by simp
    moreover have "wp (foldM ?body r' rest) Q v'"
      if inv: "I (past @ [k]) r' v'"
        and same: "\<forall>k'. k' \<noteq> k \<longrightarrow> row_get key k' (tab (db v')) = row_get key k' (tab (db v))" for r' v'
    proof (rule Cons.IH [OF _ inv])
      show "(past @ [k]) @ rest = ks" using Cons.prems(1) by simp
      show "row_get key k' (tab (db v')) = row_get key k' (tab (db w))" if "k' \<in> set rest" for k'
        using that fresh same Cons.prems(3) [of k'] by auto
    qed
    ultimately show ?case
      unfolding foldM.simps wp_bnd wp_session_get
      using Cons.prems(3) [of k] row by (simp add: wp) (elim wp_mono, auto split: sum.splits)
  qed
  from this [of "[]" ks r w] show ?thesis using start by (simp add: fold_rows_def ks_def)
qed

subsection \<open>Programs that touch the file system only\<close>

text \<open>
  \<open>touches_fs R m\<close>: \<open>m\<close> leaves the databases and the counters alone, and the tree before and after
  are related by \<open>R\<close>. The collection \<open>frame\<close> has one rule per construct of the monad.
\<close>

definition touches_fs :: "(fs \<Rightarrow> fs \<Rightarrow> bool) \<Rightarrow> 'a prog \<Rightarrow> bool" where
  "touches_fs R m \<longleftrightarrow> (\<forall>w. \<exists>r g. m w = (r, w\<lparr>fsys := g\<rparr>) \<and> R (fsys w) g)"

lemma touches_fs_pure:
  assumes "reflp R" and "\<And>w. snd (m w) = w"
  shows "touches_fs R m"
  unfolding touches_fs_def
proof
  fix w
  have "m w = (fst (m w), w\<lparr>fsys := fsys w\<rparr>)" using assms(2) [of w] by (metis prod.collapse world.surjective world.update_convs(3))
  then show "\<exists>r g. m w = (r, w\<lparr>fsys := g\<rparr>) \<and> R (fsys w) g"
    using reflpD [OF assms(1)] by blast
qed

lemma touches_fs_returns [frame]: "reflp R \<Longrightarrow> touches_fs R (returns x)"
  by (rule touches_fs_pure) (simp_all add: returns_def)

lemma touches_fs_throw [frame]: "reflp R \<Longrightarrow> touches_fs R (throw e)"
  by (rule touches_fs_pure) (simp_all add: throw_def)

lemma touches_fs_gets [frame]: "reflp R \<Longrightarrow> touches_fs R (gets f)"
  by (rule touches_fs_pure) (simp_all add: gets_def)

lemma touches_fs_liftR [frame]: "reflp R \<Longrightarrow> touches_fs R (liftR r)"
  by (rule touches_fs_pure) (simp_all add: liftR_def)

lemma touches_fs_require [frame]: "reflp R \<Longrightarrow> touches_fs R (require x e)"
  by (rule touches_fs_pure) (simp_all add: require_def)

lemma touches_fs_guard [frame]: "reflp R \<Longrightarrow> touches_fs R (guard b e)"
  by (rule touches_fs_pure) (simp_all add: guard_def)

lemma touches_fs_call [frame]:
  assumes "reflp R" and "\<And>fs g. f fs = Inr g \<Longrightarrow> R fs g"
  shows "touches_fs R (fs_call f)"
  unfolding touches_fs_def
proof
  fix w
  show "\<exists>r g. fs_call f w = (r, w\<lparr>fsys := g\<rparr>) \<and> R (fsys w) g"
  proof (cases "f (fsys w)")
    case (Inl e)
    then have "fs_call f w = (Inl e, w\<lparr>fsys := fsys w\<rparr>)" by (simp add: fs_call_def)
    then show ?thesis using reflpD [OF assms(1)] by blast
  next
    case (Inr g)
    then have "fs_call f w = (Inr (), w\<lparr>fsys := g\<rparr>)" by (simp add: fs_call_def)
    then show ?thesis using assms(2) [OF Inr] by blast
  qed
qed

lemma touches_fs_bnd [frame]:
  assumes "transp R" and "touches_fs R m" and "\<And>x. touches_fs R (f x)"
  shows "touches_fs R (bnd m f)"
  unfolding touches_fs_def
proof
  fix w
  obtain r g where m: "m w = (r, w\<lparr>fsys := g\<rparr>)" and g: "R (fsys w) g"
    using assms(2) unfolding touches_fs_def by blast
  show "\<exists>r g. bnd m f w = (r, w\<lparr>fsys := g\<rparr>) \<and> R (fsys w) g"
  proof (cases r)
    case (Inl e)
    then have "bnd m f w = (Inl e, w\<lparr>fsys := g\<rparr>)" using m by (simp add: bnd_def)
    then show ?thesis using g by blast
  next
    case (Inr x)
    obtain r' h where f: "f x (w\<lparr>fsys := g\<rparr>) = (r', w\<lparr>fsys := g\<rparr>\<lparr>fsys := h\<rparr>)" and h: "R g h"
      using assms(3) [of x] unfolding touches_fs_def by fastforce
    then have "bnd m f w = (r', w\<lparr>fsys := h\<rparr>)" using m Inr by (simp add: bnd_def)
    moreover have "R (fsys w) h" using assms(1) g h unfolding transp_def by blast
    ultimately show ?thesis by blast
  qed
qed

lemma touches_fs_if [frame]:
  "(b \<Longrightarrow> touches_fs R m) \<Longrightarrow> (\<not> b \<Longrightarrow> touches_fs R m') \<Longrightarrow> touches_fs R (if b then m else m')"
  by simp

lemma touches_fs_option [frame]:
  "touches_fs R m \<Longrightarrow> (\<And>y. touches_fs R (f y)) \<Longrightarrow>
   touches_fs R (case x of None \<Rightarrow> m | Some y \<Rightarrow> f y)"
  by (cases x) simp_all

lemma touches_fs_sum [frame]:
  "(\<And>e. touches_fs R (h e)) \<Longrightarrow> (\<And>y. touches_fs R (f y)) \<Longrightarrow>
   touches_fs R (case x of Inl e \<Rightarrow> h e | Inr y \<Rightarrow> f y)"
  by (cases x) simp_all

lemma touches_fs_let [frame]: "touches_fs R (f t) \<Longrightarrow> touches_fs R (let x = t in f x)"
  by simp

lemma touches_fs_for_each [frame]:
  "reflp R \<Longrightarrow> transp R \<Longrightarrow> (\<And>x. touches_fs R (f x)) \<Longrightarrow> touches_fs R (for_each f xs)"
  by (induction xs) (auto intro!: frame)

lemma touches_fs_mono: "touches_fs R m \<Longrightarrow> (\<And>f g. R f g \<Longrightarrow> R' f g) \<Longrightarrow> touches_fs R' m"
  unfolding touches_fs_def by blast

text \<open>The rule that brings such a program into a symbolic run.\<close>

lemma wp_touches_fs:
  assumes "touches_fs R m" and "\<And>r g. m w = (r, w\<lparr>fsys := g\<rparr>) \<Longrightarrow> R (fsys w) g \<Longrightarrow> Q r (w\<lparr>fsys := g\<rparr>)"
  shows "wp m Q w"
proof -
  obtain r g where "m w = (r, w\<lparr>fsys := g\<rparr>)" and "R (fsys w) g"
    using assms(1) unfolding touches_fs_def by blast
  then show ?thesis using assms(2) by (simp add: wp_def)
qed

subsection \<open>Exception classes\<close>

text \<open>\<open>except C\<close> for the classes with subclasses: \<open>SecretNotFoundError\<close> is a \<open>KeyError\<close>, which is a
  \<open>LookupError\<close>; \<open>SecretLeaseStateError\<close> is a \<open>ValueError\<close>.\<close>

fun is_KeyError :: "exn \<Rightarrow> bool" where
  "is_KeyError (KeyError s) = True"
| "is_KeyError (SecretNotFoundError s) = True"
| "is_KeyError _ = False"

fun is_LookupError :: "exn \<Rightarrow> bool" where
  "is_LookupError (LookupError s) = True"
| "is_LookupError (KeyError s) = True"
| "is_LookupError (SecretNotFoundError s) = True"
| "is_LookupError _ = False"

fun is_ValueError :: "exn \<Rightarrow> bool" where
  "is_ValueError (ValueError s) = True"
| "is_ValueError (SecretLeaseStateError s) = True"
| "is_ValueError _ = False"

end
