(* ===== verification/Storage.thy ===== *)
theory Storage
  imports Session
begin

section \<open>Managed storage\<close>

text \<open>
  \<open>labos/storage/allocator.py\<close> and \<open>labos/storage/models.py\<close>. The allocator has one state, its
  resolved root; allocation makes four directories under \<open>root/labs/<lab_id>\<close>, destruction checks
  that the resolved path is under the root and removes the tree. The lemmas give the layout, and
  that neither operation changes an entry outside the managed root.
\<close>

record StoragePolicy =
  sp_filesystem_mode :: FilesystemMode
  sp_persistence_mode :: PersistenceMode
  sp_disk_mb :: int
  sp_retention_days :: int
  sp_snapshot_capable :: bool
  sp_workspace_mount_target :: string

record StorageAllocation =
  sa_lab_id :: string
  sa_root_path :: path
  sa_workspace_path :: path
  sa_exports_path :: path
  sa_quarantine_path :: path
  sa_snapshots_path :: path
  sa_persistence_mode :: PersistenceMode
  sa_retention_days :: int
  sa_workspace_mount_target :: string

definition storage_policy :: "FilesystemMode \<Rightarrow> PersistenceMode \<Rightarrow> int \<Rightarrow> int \<Rightarrow> StoragePolicy" where
  "storage_policy fm pm disk ret =
     \<lparr>sp_filesystem_mode = fm, sp_persistence_mode = pm, sp_disk_mb = disk, sp_retention_days = ret,
      sp_snapshot_capable = True, sp_workspace_mount_target = ''/workspace''\<rparr>"

definition storage_policy_from_profile :: "Profile \<Rightarrow> StoragePolicy" where
  "storage_policy_from_profile p =
     storage_policy (p_filesystem_mode p) (p_persistence_mode p) (p_disk_mb p) (p_retention_days p)"

text \<open>\<open>ManagedStorageAllocator.__init__\<close>: the configured root, resolved once.\<close>

definition allocator_init :: "fs \<Rightarrow> path \<Rightarrow> string \<Rightarrow> exn + path" where
  "allocator_init fs here root =
     (case realpath fs (os_path here root) of
        None \<Rightarrow> Inl (RuntimeError ''Symlink loop'') | Some q \<Rightarrow> Inr q)"

definition lab_root :: "path \<Rightarrow> string \<Rightarrow> path" where
  "lab_root root lab = path_join (path_join root ''labs'') lab"

definition allocation_of :: "path \<Rightarrow> string \<Rightarrow> StoragePolicy \<Rightarrow> StorageAllocation" where
  "allocation_of root lab policy =
     (let r = lab_root root lab in
      \<lparr>sa_lab_id = lab, sa_root_path = r, sa_workspace_path = path_join r ''workspace'',
       sa_exports_path = path_join r ''exports'', sa_quarantine_path = path_join r ''quarantine'',
       sa_snapshots_path = path_join r ''snapshots'',
       sa_persistence_mode = sp_persistence_mode policy,
       sa_retention_days = sp_retention_days policy,
       sa_workspace_mount_target = sp_workspace_mount_target policy\<rparr>)"

definition allocate :: "path \<Rightarrow> string \<Rightarrow> StoragePolicy \<Rightarrow> StorageAllocation prog" where
  "allocate root lab policy =
     (let a = allocation_of root lab policy in
      bnd (for_each (\<lambda>p. fs_call (\<lambda>fs. mkdir_p fs p))
             [sa_workspace_path a, sa_exports_path a, sa_quarantine_path a, sa_snapshots_path a])
        (\<lambda>_. returns a))"

definition assert_managed_path :: "path \<Rightarrow> path \<Rightarrow> unit prog" where
  "assert_managed_path root p =
     bnd (gets fsys) (\<lambda>fs.
       (case realpath fs p of
          None \<Rightarrow> throw (RuntimeError ''Symlink loop'')
        | Some resolved \<Rightarrow>
            guard (prefix root resolved) (ValueError ''path must stay under the managed storage root'')))"

definition destroy_storage :: "path \<Rightarrow> StorageAllocation \<Rightarrow> unit prog" where
  "destroy_storage root a =
     bnd (assert_managed_path root (sa_root_path a)) (\<lambda>_.
     bnd (gets fsys) (\<lambda>fs.
       if path_exists fs (sa_root_path a) then fs_call (\<lambda>fs. rmtree fs (sa_root_path a))
       else returns ()))"

definition retention_deadline :: "StorageAllocation \<Rightarrow> datetime \<Rightarrow> datetime" where
  "retention_deadline a released_at =
     (if sa_persistence_mode a = EPHEMERAL then released_at
      else plus_delta released_at (days (sa_retention_days a)))"

definition cleanup :: "path \<Rightarrow> StorageAllocation \<Rightarrow> datetime \<Rightarrow> datetime \<Rightarrow> bool prog" where
  "cleanup root a released_at as_of =
     bnd (assert_managed_path root (sa_root_path a)) (\<lambda>_.
     bnd (liftR (py_less as_of (retention_deadline a released_at))) (\<lambda>early.
       if early then returns False
       else bnd (gets fsys) (\<lambda>fs.
         bnd (if path_exists fs (sa_root_path a) then fs_call (\<lambda>fs. rmtree fs (sa_root_path a))
              else returns ()) (\<lambda>_. returns True))))"

subsection \<open>Where paths lie\<close>

text \<open>For an identifier that is a single path component the layout is the documented one.\<close>

lemma name_ok_layout [simp]:
  "name_ok ''labs''" "name_ok ''workspace''" "name_ok ''exports''" "name_ok ''quarantine''"
  "name_ok ''snapshots''" "name_ok ''released''"
  by (simp_all add: name_ok_def)

lemma lab_root_eq: "name_ok lab \<Longrightarrow> lab_root root lab = root @ [''labs'', lab]"
  by (simp add: lab_root_def path_join_name)

lemma allocation_of_paths:
  assumes "name_ok lab"
  shows "sa_root_path (allocation_of root lab policy) = root @ [''labs'', lab]"
    and "sa_workspace_path (allocation_of root lab policy) = root @ [''labs'', lab, ''workspace'']"
    and "sa_exports_path (allocation_of root lab policy) = root @ [''labs'', lab, ''exports'']"
    and "sa_quarantine_path (allocation_of root lab policy) = root @ [''labs'', lab, ''quarantine'']"
    and "sa_snapshots_path (allocation_of root lab policy) = root @ [''labs'', lab, ''snapshots'']"
  using assms by (simp_all add: allocation_of_def Let_def lab_root_eq path_join_name)

lemma allocation_of_modes [simp]:
  "sa_lab_id (allocation_of root lab policy) = lab"
  "sa_persistence_mode (allocation_of root lab policy) = sp_persistence_mode policy"
  "sa_retention_days (allocation_of root lab policy) = sp_retention_days policy"
  "sa_workspace_mount_target (allocation_of root lab policy) = sp_workspace_mount_target policy"
  by (simp_all add: allocation_of_def Let_def)

subsection \<open>What the operations change\<close>

lemma reflp_only_adds_dirs: "reflp only_adds_dirs"
  by (rule reflpI) (simp add: only_adds_dirs_def)

lemma transp_only_adds_dirs: "transp only_adds_dirs"
  by (rule transpI) (rule only_adds_dirs_trans)

lemma reflp_confined: "reflp (confined root)"
  by (rule reflpI) (simp add: confined_def)

lemma transp_confined: "transp (confined root)"
  by (rule transpI) (simp add: confined_def)

lemmas fs_preorders = reflp_only_adds_dirs transp_only_adds_dirs reflp_confined transp_confined

text \<open>Allocation only adds directories.\<close>

lemma allocate_adds_dirs: "touches_fs only_adds_dirs (allocate root lab policy)"
  unfolding allocate_def by (intro frame fs_preorders mkdir_p_only_adds_dirs)

lemma allocate_result:
  "wp (allocate root lab policy) (\<lambda>r w'. r = Inr a \<longrightarrow> a = allocation_of root lab policy \<and>
     mkdir_all (fsys w) [sa_workspace_path a, sa_exports_path a, sa_quarantine_path a, sa_snapshots_path a]
       = Inr (fsys w')) w"
  by (auto simp: allocate_def Let_def wp split: sum.splits)

lemma wp_allocate:
  assumes "\<And>e g. only_adds_dirs (fsys w) g \<Longrightarrow> Q (Inl e) (w\<lparr>fsys := g\<rparr>)"
    and "\<And>g. only_adds_dirs (fsys w) g \<Longrightarrow> Q (Inr (allocation_of root lab policy)) (w\<lparr>fsys := g\<rparr>)"
  shows "wp (allocate root lab policy) Q w"
proof (rule wp_touches_fs [OF allocate_adds_dirs])
  fix r g
  assume run: "allocate root lab policy w = (r, w\<lparr>fsys := g\<rparr>)" and adds: "only_adds_dirs (fsys w) g"
  show "Q r (w\<lparr>fsys := g\<rparr>)"
  proof (cases r)
    case (Inr a)
    then have "a = allocation_of root lab policy"
      using wp_result [OF allocate_result run] by blast
    then show ?thesis using Inr assms(2) [OF adds] by simp
  qed (use assms(1) [OF adds] in simp)
qed

text \<open>Along a canonical path, what allocation makes are exactly the missing directories.\<close>

lemma mkdir_all_canonical:
  assumes "mkdir_all fs ps = Inr g" and "\<forall>p \<in> set ps. canonical fs p"
  shows "g q = (if q \<noteq> [] \<and> (\<exists>p \<in> set ps. prefix q p) then Some Dir else fs q)"
  using assms
proof (induction ps arbitrary: fs)
  case Nil
  then show ?case by simp
next
  case (Cons p ps)
  then obtain f1 where f1: "mkdir_p fs p = Inr f1" and rest: "mkdir_all f1 ps = Inr g"
    by (auto simp: result_bind_Inr_iff)
  have "only_adds_dirs fs f1" using f1 by (rule mkdir_p_only_adds_dirs)
  then have "\<forall>p \<in> set ps. canonical f1 p" using Cons.prems(2) by (simp add: only_adds_dirs_canonical)
  with Cons.IH [OF rest] mkdir_p_canonical [OF f1, of q] Cons.prems(2) show ?case by auto
qed

lemma mkdir_all_is_dir:
  assumes "mkdir_all fs ps = Inr g" and "\<forall>p \<in> set ps. canonical fs p" and "p \<in> set ps"
  shows "is_dir g p"
proof -
  have adds: "mkdir_all fs ps = Inr g \<Longrightarrow> only_adds_dirs fs g" for fs
  proof (induction ps arbitrary: fs)
    case Nil
    then show ?case by (simp add: only_adds_dirs_def)
  next
    case (Cons p ps)
    then show ?case
      by (auto simp: result_bind_Inr_iff dest: mkdir_p_only_adds_dirs intro: only_adds_dirs_trans)
  qed
  have "canonical fs p" using assms(2,3) by blast
  then have "canonical g p" using only_adds_dirs_canonical [OF adds [OF assms(1)]] by simp
  then have "stat g p = entry g p" by (simp add: stat_def realpath_of_canonical)
  also have "\<dots> = Some Dir"
    using mkdir_all_canonical [OF assms(1,2), of p] assms(3) by (auto simp: entry_def)
  finally show ?thesis by (simp add: is_dir_def)
qed

subsection \<open>Destruction\<close>

text \<open>The tree with the subtree at \<open>q\<close> gone.\<close>

definition without :: "path \<Rightarrow> fs \<Rightarrow> fs" where
  "without q fs = (\<lambda>x. if prefix q x then None else fs x)"

lemma without_confined: "prefix root q \<Longrightarrow> confined root fs (without q fs)"
  by (auto simp: confined_def without_def dest: prefix_order.trans)

lemma wp_destroy_storage:
  "wp (destroy_storage root a) (\<lambda>r w'. \<exists>g. w' = w\<lparr>fsys := g\<rparr> \<and> confined root (fsys w) g \<and>
     (r = Inr () \<longrightarrow> (\<exists>q. realpath (fsys w) (sa_root_path a) = Some q \<and> prefix root q \<and>
        g = (if path_exists (fsys w) (sa_root_path a) then without q (fsys w) else fsys w)))) w"
proof -
  have same: "w = w\<lparr>fsys := fsys w\<rparr>" by simp
  show ?thesis
  proof (cases "realpath (fsys w) (sa_root_path a)")
    case None
    then show ?thesis
      using same by (auto simp: destroy_storage_def assert_managed_path_def wp simp del: world.update_convs intro!: exI [of _ "fsys w"])
  next
    case (Some q)
    show ?thesis
    proof (cases "prefix root q \<and> path_exists (fsys w) (sa_root_path a)")
      case False
      with Some same show ?thesis
        by (auto simp: destroy_storage_def assert_managed_path_def wp intro!: exI [of _ "fsys w"])
    next
      case True
      show ?thesis
      proof (cases "rmtree (fsys w) (sa_root_path a)")
        case (Inl e)
        with Some True same show ?thesis
          by (auto simp: destroy_storage_def assert_managed_path_def wp intro!: exI [of _ "fsys w"])
      next
        case (Inr g)
        then have "g = without q (fsys w)"
          using rmtree_confined [OF Inr] Some by (auto simp: without_def)
        with Some True Inr show ?thesis
          by (auto simp: destroy_storage_def assert_managed_path_def wp without_confined
              intro!: exI [of _ g])
      qed
    qed
  qed
qed

lemma destroy_storage_confined: "touches_fs (confined root) (destroy_storage root a)"
  unfolding touches_fs_def using wp_destroy_storage [of root a] by (fastforce simp: wp_def split: prod.splits)

text \<open>What was destroyed is gone: nothing is found at the path afterwards.\<close>

lemma without_not_exists:
  assumes "canonical fs q" and "q \<noteq> []"
  shows "\<not> path_exists (without q fs) q"
proof -
  have "canonical (without q fs) q"
    using assms by (auto simp: canonical_def is_link_def without_def)
  then show ?thesis using assms(2)
    by (simp add: path_exists_def stat_def realpath_of_canonical entry_def without_def)
qed

subsection \<open>Retention\<close>

lemma cleanup_early:
  assumes "is_aware released_at" and "is_aware as_of" and "instant as_of < instant (retention_deadline a released_at)"
    and "realpath (fsys w) (sa_root_path a) = Some q" and "prefix root q"
  shows "cleanup root a released_at as_of w = (Inr False, w)"
proof -
  have "is_aware (retention_deadline a released_at)"
    using assms(1) by (cases released_at) (simp_all add: retention_deadline_def)
  then have "py_less as_of (retention_deadline a released_at) = Inr True"
    using assms by (simp add: py_less_aware)
  then show ?thesis using assms
    by (simp add: cleanup_def bnd_def assert_managed_path_def gets_def guard_def liftR_def returns_def check_def)
qed

end
