(* ===== verification/Sha256.thy ===== *)
theory Sha256
  imports Prelude "HOL-Library.Word"
begin

section \<open>SHA-256\<close>

text \<open>
  \<open>hashlib.sha256\<close> of the standard library, as FIPS 180-4 defines it, on byte strings: the artifact
  hash of an export and of a snapshot. \<open>digest.update\<close> appends to the message, \<open>hexdigest\<close> hashes
  what was appended.
\<close>

unbundle bit_operations_syntax

type_synonym word32 = "32 word"

text \<open>
  The constants are the first 32 bits of the fractional parts of roots of the first primes: cube roots
  for the rounds, square roots for the initial state. \<open>root_bits k m n 0\<close> is the integer part of the
  \<open>k\<close>-th root of \<open>m\<close> when that is below \<open>2 ^ n\<close>, found bit by bit from the top.
\<close>

fun root_bits :: "nat \<Rightarrow> nat \<Rightarrow> nat \<Rightarrow> nat \<Rightarrow> nat" where
  "root_bits k m 0 r = r"
| "root_bits k m (Suc n) r = root_bits k m n (if (r + 2 ^ n) ^ k \<le> m then r + 2 ^ n else r)"

definition primes_below :: "nat \<Rightarrow> nat list" where
  "primes_below n = filter (\<lambda>p. list_all (\<lambda>d. p mod d \<noteq> 0) [2..<p]) [2..<n]"

definition root_fraction :: "nat \<Rightarrow> nat \<Rightarrow> word32" where
  "root_fraction k p = of_nat (root_bits k (p * 2 ^ (32 * k)) 35 0)"

definition sha_k :: "word32 list" where
  "sha_k = map (root_fraction 3) (primes_below 312)"

definition sha_h0 :: "word32 list" where
  "sha_h0 = map (root_fraction 2) (primes_below 20)"

definition rotr32 :: "nat \<Rightarrow> word32 \<Rightarrow> word32" where
  "rotr32 n x = (drop_bit n x) OR (push_bit (32 - n) x)"

definition small_sigma0 :: "word32 \<Rightarrow> word32" where
  "small_sigma0 x = rotr32 7 x XOR rotr32 18 x XOR drop_bit 3 x"

definition small_sigma1 :: "word32 \<Rightarrow> word32" where
  "small_sigma1 x = rotr32 17 x XOR rotr32 19 x XOR drop_bit 10 x"

definition big_sigma0 :: "word32 \<Rightarrow> word32" where
  "big_sigma0 x = rotr32 2 x XOR rotr32 13 x XOR rotr32 22 x"

definition big_sigma1 :: "word32 \<Rightarrow> word32" where
  "big_sigma1 x = rotr32 6 x XOR rotr32 11 x XOR rotr32 25 x"

text \<open>The message schedule, built from the last sixteen words.\<close>

fun sha_schedule :: "nat \<Rightarrow> word32 list \<Rightarrow> word32 list" where
  "sha_schedule 0 ws = ws"
| "sha_schedule (Suc n) ws =
     (let t = length ws
      in sha_schedule n (ws @ [small_sigma1 (ws ! (t - 2)) + ws ! (t - 7) +
                                 small_sigma0 (ws ! (t - 15)) + ws ! (t - 16)]))"

fun sha_round :: "word32 list \<Rightarrow> word32 \<times> word32 \<Rightarrow> word32 list" where
  "sha_round [a, b, c, d, e, f, g, h] (k, w) =
     (let t1 = h + big_sigma1 e + ((e AND f) XOR (NOT e AND g)) + k + w;
          t2 = big_sigma0 a + ((a AND b) XOR (a AND c) XOR (b AND c))
      in [t1 + t2, a, b, c, d + t1, e, f, g])"
| "sha_round s _ = s"

definition word_of_bytes :: "string \<Rightarrow> word32" where
  "word_of_bytes bs = foldl (\<lambda>acc c. acc * 256 + of_nat (of_char c)) 0 bs"

fun chunks :: "nat \<Rightarrow> 'a list \<Rightarrow> 'a list list" where
  "chunks n [] = []"
| "chunks n (x # xs) = take (Suc n) (x # xs) # chunks n (drop n xs)"

definition sha_block :: "word32 list \<Rightarrow> string \<Rightarrow> word32 list" where
  "sha_block h block =
     (let ws = sha_schedule 48 (map word_of_bytes (chunks 3 block))
      in map2 (+) h (foldl sha_round h (zip sha_k ws)))"

definition byte_be :: "nat \<Rightarrow> nat \<Rightarrow> char" where
  "byte_be n i = char_of ((n div 256 ^ i) mod 256)"

definition sha_pad :: "string \<Rightarrow> string" where
  "sha_pad m =
     (let n = length m; z = (119 - n mod 64) mod 64
      in m @ [char_of (128::nat)] @ replicate z (char_of (0::nat)) @
         map (byte_be (8 * n)) (rev [0..<8]))"

definition hex_of :: "nat \<Rightarrow> char" where
  "hex_of n = (if n < 10 then char_of (48 + n) else char_of (87 + n))"

definition hex_word :: "word32 \<Rightarrow> string" where
  "hex_word x = map (\<lambda>i. hex_of ((unat x div 16 ^ i) mod 16)) (rev [0..<8])"

definition sha256_hex :: "string \<Rightarrow> string" where
  "sha256_hex m = concat (map hex_word (foldl sha_block sha_h0 (chunks 63 (sha_pad m))))"

text \<open>A digest is 64 hexadecimal digits, what the column \<open>String(64)\<close> holds.\<close>

lemma length_sha_round: "length s = 8 \<Longrightarrow> length (sha_round s kw) = 8"
  by (induction s kw rule: sha_round.induct) (simp_all add: Let_def)

lemma length_sha_rounds: "length s = 8 \<Longrightarrow> length (foldl sha_round s kws) = 8"
  by (induction kws arbitrary: s) (simp_all add: length_sha_round)

lemma length_sha_blocks: "length h = 8 \<Longrightarrow> length (foldl sha_block h bs) = 8"
  by (induction bs arbitrary: h) (simp_all add: sha_block_def Let_def length_sha_rounds)

lemma length_primes: "length (primes_below 20) = 8"
  by (simp add: primes_below_def upt_rec)

lemma length_sha256_hex: "length (sha256_hex m) = 64"
proof -
  have "length (foldl sha_block sha_h0 bs) = 8" for bs
    by (rule length_sha_blocks) (simp add: sha_h0_def length_primes)
  moreover have "length (concat (map hex_word ws)) = 8 * length ws" for ws
    by (induction ws) (simp_all add: hex_word_def)
  ultimately show ?thesis by (simp add: sha256_hex_def)
qed

end
