(* ===== verification/Export_Gate.thy ===== *)
theory Export_Gate
  imports Storage Sha256
begin

section \<open>The export gate\<close>

text \<open>
  \<open>labos/security/export_gate.py\<close>. Staging resolves the guest path under the lab's exports
  directory, refuses what escapes it, copies the file into quarantine and hashes the copy; release
  copies the quarantined file out, if the state and the approval allow it; denial is a decision on
  the row. The rows come in as arguments and the results go back to the handlers, which update the
  database.
\<close>

record ArtifactHash =
  algorithm :: string
  digest :: string

record ExportProvenance =
  pv_lab_id :: string
  pv_run_id :: "string option"
  pv_source_path :: string
  pv_quarantine_path :: string
  pv_released_path :: "string option"
  pv_size_bytes :: int
  pv_artifact_hash :: ArtifactHash

record ExportStageResult =
  sr_provenance :: ExportProvenance
  sr_approval_required :: bool
  sr_state :: ExportState
  sr_denial_reason :: "string option"

definition GUEST_EXPORT_ROOT :: ppath where
  "GUEST_EXPORT_ROOT = posix_path ''/lab/exports''"

definition RELEASED_DIRNAME :: string where
  "RELEASED_DIRNAME = ''released''"

text \<open>\<open>Path.name\<close>: the last component, empty for the root.\<close>

definition path_name :: "path \<Rightarrow> string" where
  "path_name p = (if p = [] then [] else last p)"

text \<open>\<open>Path.resolve()\<close> in a program, with the error of a link cycle.\<close>

definition resolve_path :: "path \<Rightarrow> path prog" where
  "resolve_path p = bnd (gets fsys) (\<lambda>fs. require (realpath fs p) (RuntimeError ''Symlink loop''))"

definition resolve_managed_source :: "path \<Rightarrow> LabStorageRow \<Rightarrow> string \<Rightarrow> path prog" where
  "resolve_managed_source here storage source_path =
     (case pp_relative_to (posix_path source_path) GUEST_EXPORT_ROOT of
        Inl e \<Rightarrow> throw (ExportPolicyError ''exports must use a managed guest export path'')
      | Inr relative_guest_path \<Rightarrow>
          bnd (resolve_path (os_path here (sto_exports_path storage))) (\<lambda>exports_root.
          bnd (resolve_path (exports_root @ relative_guest_path)) (\<lambda>source.
          bnd (guard (prefix exports_root source)
                 (ExportPolicyError ''export path escapes managed exports root'')) (\<lambda>_.
          returns source))))"

text \<open>The loop over \<open>handle.read(n)\<close> up to the first empty read, feeding the digest.\<close>

function read_loop :: "nat \<Rightarrow> string \<Rightarrow> string \<Rightarrow> string" where
  "read_loop n fed rest =
     (if take n rest = [] then fed else read_loop n (fed @ take n rest) (drop n rest))"
  by pat_completeness auto
termination by (relation "measure (\<lambda>(n, fed, rest). length rest)") auto

declare read_loop.simps [simp del]

definition hash_file :: "path \<Rightarrow> string prog" where
  "hash_file p =
     bnd (gets fsys) (\<lambda>fs.
     bnd (require (read_file fs p) (OSError ''No such file or directory'')) (\<lambda>c.
     returns (sha256_hex (read_loop (1024 * 1024) [] c))))"

definition stat_size :: "path \<Rightarrow> int prog" where
  "stat_size p =
     bnd (gets fsys) (\<lambda>fs.
     bnd (require (read_file fs p) (OSError ''No such file or directory'')) (\<lambda>c.
     returns (int (length c))))"

definition stage_export :: "profiles \<Rightarrow> path \<Rightarrow> string \<Rightarrow> LabRow \<Rightarrow> LabStorageRow \<Rightarrow> string \<Rightarrow>
    string option \<Rightarrow> ExportStageResult prog" where
  "stage_export profiles here export_id lab storage source_path rid =
     bnd (liftR (validate_export profiles (lab_profile_name lab) source_path)) (\<lambda>decision.
     bnd (guard (ed_allowed decision) (ExportPolicyError (ed_reason decision))) (\<lambda>_.
     bnd (resolve_managed_source here storage source_path) (\<lambda>source.
     bnd (gets fsys) (\<lambda>fs.
     bnd (guard (path_exists fs source \<and> is_file fs source)
            (ExportSourceNotFoundError source_path)) (\<lambda>_.
     (let quarantine_dir = path_join (os_path here (sto_quarantine_path storage)) export_id;
          quarantine_path = quarantine_dir @ [path_name source]
      in bnd (fs_call (\<lambda>fs. mkdir_p fs quarantine_dir)) (\<lambda>_.
         bnd (fs_call (\<lambda>fs. copy2 fs source quarantine_path)) (\<lambda>_.
         bnd (hash_file quarantine_path) (\<lambda>hexdigest.
         bnd (stat_size quarantine_path) (\<lambda>size.
         returns
           \<lparr>sr_provenance =
              \<lparr>pv_lab_id = lab_id lab, pv_run_id = rid, pv_source_path = source_path,
               pv_quarantine_path = path_str quarantine_path, pv_released_path = None,
               pv_size_bytes = size,
               pv_artifact_hash = \<lparr>algorithm = ''sha256'', digest = hexdigest\<rparr>\<rparr>,
            sr_approval_required = ed_approval_required decision,
            sr_state = EXPORT_QUARANTINED, sr_denial_reason = None\<rparr>))))))))))"

text \<open>The provenance that release and denial build from the row.\<close>

definition row_provenance :: "ExportRow \<Rightarrow> string option \<Rightarrow> ExportProvenance" where
  "row_provenance row released =
     \<lparr>pv_lab_id = exp_lab_id row, pv_run_id = exp_run_id row, pv_source_path = exp_source_path row,
      pv_quarantine_path = exp_quarantine_path row, pv_released_path = released,
      pv_size_bytes = exp_size_bytes row,
      pv_artifact_hash = \<lparr>algorithm = ''sha256'', digest = exp_sha256 row\<rparr>\<rparr>"

definition release_export :: "path \<Rightarrow> ExportRow \<Rightarrow> LabStorageRow \<Rightarrow> ExportStageResult prog" where
  "release_export here row storage =
     bnd (liftR (export_state_of (exp_state row))) (\<lambda>state.
     bnd (guard (state \<noteq> EXPORT_REJECTED) (ExportStateError ''export_already_rejected'')) (\<lambda>_.
     bnd (guard (state \<noteq> EXPORT_RELEASED) (ExportStateError ''export_already_released'')) (\<lambda>_.
     bnd (guard (\<not> exp_approval_required row) (ExportPolicyError ''export_approval_required'')) (\<lambda>_.
     (let quarantine_path = os_path here (exp_quarantine_path row)
      in bnd (gets fsys) (\<lambda>fs.
         bnd (guard (path_exists fs quarantine_path \<and> is_file fs quarantine_path)
                (ExportSourceNotFoundError (exp_source_path row))) (\<lambda>_.
         (let released_dir = path_join (path_join (os_path here (sto_root_path storage))
                               RELEASED_DIRNAME) (exp_id row);
              released_path = released_dir @ [path_name quarantine_path]
          in bnd (fs_call (\<lambda>fs. mkdir_p fs released_dir)) (\<lambda>_.
             bnd (fs_call (\<lambda>fs. copy2 fs quarantine_path released_path)) (\<lambda>_.
             returns
               \<lparr>sr_provenance = row_provenance row (Some (path_str released_path)),
                sr_approval_required = exp_approval_required row,
                sr_state = EXPORT_RELEASED, sr_denial_reason = None\<rparr>))))))))))"

definition deny_export_gate :: "ExportRow \<Rightarrow> string \<Rightarrow> exn + ExportStageResult" where
  "deny_export_gate row reason =
     result_bind (export_state_of (exp_state row)) (\<lambda>state.
     result_bind (check (state \<noteq> EXPORT_RELEASED) (ExportStateError ''export_already_released'')) (\<lambda>_.
     result_bind (check (state \<noteq> EXPORT_REJECTED) (ExportStateError ''export_already_rejected'')) (\<lambda>_.
     result_bind (check (strip reason \<noteq> []) (ExportStateError ''export_denial_reason_required'')) (\<lambda>_.
     Inr \<lparr>sr_provenance = row_provenance row None, sr_approval_required = exp_approval_required row,
          sr_state = EXPORT_REJECTED, sr_denial_reason = Some reason\<rparr>))))"

subsection \<open>Hashing in chunks\<close>

lemma read_loop_all: "0 < n \<Longrightarrow> read_loop n fed rest = fed @ rest"
proof (induction n fed rest rule: read_loop.induct)
  case (1 n fed rest)
  then show ?case by (subst read_loop.simps) auto
qed

lemma hash_file_eq:
  "hash_file p w = (case read_file (fsys w) p of
      None \<Rightarrow> (Inl (OSError ''No such file or directory''), w) | Some c \<Rightarrow> (Inr (sha256_hex c), w))"
  by (simp add: hash_file_def bnd_def gets_def require_def returns_def read_loop_all split: option.splits)

lemma wp_hash_file [wp]:
  "wp (hash_file p) Q w = (case read_file (fsys w) p of
      None \<Rightarrow> Q (Inl (OSError ''No such file or directory'')) w | Some c \<Rightarrow> Q (Inr (sha256_hex c)) w)"
  by (simp add: wp_def hash_file_eq split: option.splits)

lemma wp_stat_size [wp]:
  "wp (stat_size p) Q w = (case read_file (fsys w) p of
      None \<Rightarrow> Q (Inl (OSError ''No such file or directory'')) w | Some c \<Rightarrow> Q (Inr (int (length c))) w)"
  by (simp add: stat_size_def wp split: option.splits)

lemma wp_resolve_path [wp]:
  "wp (resolve_path p) Q w =
     (case realpath (fsys w) p of None \<Rightarrow> Q (Inl (RuntimeError ''Symlink loop'')) w | Some q \<Rightarrow> Q (Inr q) w)"
  by (simp add: resolve_path_def wp)

subsection \<open>Frame\<close>

lemma any_preorder: "reflp (\<lambda>f g. True)" "transp (\<lambda>f g. True)"
  by (simp_all add: reflp_def transp_def)

lemma stage_export_frame: "touches_fs (\<lambda>f g. True) (stage_export profiles here i lab storage src rid)"
  unfolding stage_export_def resolve_managed_source_def resolve_path_def hash_file_def stat_size_def
  by (intro frame any_preorder TrueI)

lemma release_export_frame: "touches_fs (\<lambda>f g. True) (release_export here row storage)"
  unfolding release_export_def by (intro frame any_preorder TrueI)

subsection \<open>Staging\<close>

text \<open>Where a guest path leads: inside the exports directory, or to an error.\<close>

lemma wp_resolve_managed_source [wp]:
  "wp (resolve_managed_source here storage src) Q w =
     (case pp_relative_to (posix_path src) GUEST_EXPORT_ROOT of
        Inl e \<Rightarrow> Q (Inl (ExportPolicyError ''exports must use a managed guest export path'')) w
      | Inr rel \<Rightarrow>
         (case realpath (fsys w) (os_path here (sto_exports_path storage)) of
            None \<Rightarrow> Q (Inl (RuntimeError ''Symlink loop'')) w
          | Some exports_root \<Rightarrow>
             (case realpath (fsys w) (exports_root @ rel) of
                None \<Rightarrow> Q (Inl (RuntimeError ''Symlink loop'')) w
              | Some source \<Rightarrow>
                 if prefix exports_root source then Q (Inr source) w
                 else Q (Inl (ExportPolicyError ''export path escapes managed exports root'')) w)))"
  by (auto simp: resolve_managed_source_def wp split: sum.splits option.splits)

text \<open>The copy in quarantine: what a completed copy followed by a read gives.\<close>

lemma copy_then_read:
  assumes "mkdir_p fs dir = Inr f1" and "copy2 f1 src dst = Inr f2" and "read_file f2 dst = Some c"
    and "read_file fs src = Some c0"
  shows "c = c0"
proof -
  have "\<not> is_dir f1 dst"
    using copy2_keeps_dir [OF assms(2)] is_dir_not_file [of f2 dst] assms(3) by auto
  with copy2_Inr [OF assms(2)] have "read_file f1 src = Some c" using assms(3) by auto
  moreover have "read_file f1 src = Some c0"
    using read_file_only_adds_dirs [OF mkdir_p_only_adds_dirs [OF assms(1)] assms(4)] .
  ultimately show ?thesis by simp
qed

definition quarantine_target :: "path \<Rightarrow> LabStorageRow \<Rightarrow> string \<Rightarrow> path \<Rightarrow> path" where
  "quarantine_target here storage i source =
     path_join (os_path here (sto_quarantine_path storage)) i @ [path_name source]"

lemma stage_export_ok:
  assumes "stage_export profiles here i lab storage src rid w = (Inr res, w')"
  shows "\<exists>p rel exports_root source c.
     profiles (lab_profile_name lab) = Some p \<and>
     pp_relative_to (posix_path src) GUEST_EXPORT_ROOT = Inr rel \<and>
     realpath (fsys w) (os_path here (sto_exports_path storage)) = Some exports_root \<and>
     realpath (fsys w) (exports_root @ rel) = Some source \<and> prefix exports_root source \<and>
     read_file (fsys w) source = Some c \<and>
     read_file (fsys w') (quarantine_target here storage i source) = Some c \<and>
     res = \<lparr>sr_provenance =
              \<lparr>pv_lab_id = lab_id lab, pv_run_id = rid, pv_source_path = src,
               pv_quarantine_path = path_str (quarantine_target here storage i source),
               pv_released_path = None, pv_size_bytes = int (length c),
               pv_artifact_hash = \<lparr>algorithm = ''sha256'', digest = sha256_hex c\<rparr>\<rparr>,
            sr_approval_required = p_approval_on_export p,
            sr_state = EXPORT_QUARANTINED, sr_denial_reason = None\<rparr>"
proof -
  have "wp (stage_export profiles here i lab storage src rid) (\<lambda>r w1. r = Inr res \<and> w1 = w' \<longrightarrow> ?thesis) w"
    unfolding stage_export_def quarantine_target_def
    apply (clarsimp simp: wp Let_def is_file_def split: sum.splits option.splits if_splits)
    apply (frule (3) copy_then_read)
    apply (drule (1) validate_export_allowed)
    apply clarsimp
    done
  then show ?thesis using assms by (simp add: wp_def)
qed

text \<open>A path under the second managed prefix passes the policy and is then always refused.\<close>

lemma approved_prefix_refused:
  "pp_relative_to (posix_path (''/artifacts/approved/'' @ rest)) GUEST_EXPORT_ROOT = Inl e \<longleftrightarrow>
   e = ValueError ''path is not in the subpath of the base''"
proof -
  have "split_on (CHR ''/'') (''/artifacts/approved/'' @ rest) =
      [] # ''artifacts'' # ''approved'' # split_on (CHR ''/'') rest"
    by (simp split: list.splits)
  then have "path_parts (''/artifacts/approved/'' @ rest) = ''artifacts'' # ''approved'' # path_parts rest"
    by (simp add: path_parts_def)
  moreover have "pp_parts GUEST_EXPORT_ROOT = [''lab'', ''exports'']"
    by (simp add: GUEST_EXPORT_ROOT_def posix_path_def path_parts_def)
  ultimately show ?thesis
    by (auto simp: pp_relative_to_def posix_path_def)
qed

subsection \<open>Release and denial\<close>

lemma release_export_ok:
  assumes "release_export here row storage w = (Inr res, w')"
  shows "\<exists>c. exp_state row \<noteq> export_value EXPORT_REJECTED \<and> exp_state row \<noteq> export_value EXPORT_RELEASED \<and>
     \<not> exp_approval_required row \<and>
     read_file (fsys w) (os_path here (exp_quarantine_path row)) = Some c \<and>
     sr_state res = EXPORT_RELEASED \<and>
     pv_released_path (sr_provenance res) =
       Some (path_str (path_join (path_join (os_path here (sto_root_path storage)) RELEASED_DIRNAME)
               (exp_id row) @ [path_name (os_path here (exp_quarantine_path row))]))"
proof -
  have "wp (release_export here row storage) (\<lambda>r w1. r = Inr res \<and> w1 = w' \<longrightarrow> ?thesis) w"
    unfolding release_export_def row_provenance_def
    by (auto simp: wp Let_def is_file_def dest!: enum_of_InrD split: sum.splits option.splits if_splits)
  then show ?thesis using assms by (simp add: wp_def)
qed

lemma release_export_refused:
  "exp_state row = export_value EXPORT_REJECTED \<Longrightarrow>
   release_export here row storage w = (Inl (ExportStateError ''export_already_rejected''), w)"
  "exp_state row = export_value EXPORT_RELEASED \<Longrightarrow>
   release_export here row storage w = (Inl (ExportStateError ''export_already_released''), w)"
  "exp_state row = export_value s \<Longrightarrow> s \<notin> {EXPORT_REJECTED, EXPORT_RELEASED} \<Longrightarrow> exp_approval_required row \<Longrightarrow>
   release_export here row storage w = (Inl (ExportPolicyError ''export_approval_required''), w)"
  by (simp_all add: release_export_def bnd_def liftR_def guard_def check_def)

lemma deny_export_gate_Inr:
  "deny_export_gate row reason = Inr res \<longleftrightarrow>
     (\<exists>s. exp_state row = export_value s \<and> s \<notin> {EXPORT_RELEASED, EXPORT_REJECTED}) \<and> strip reason \<noteq> [] \<and>
     res = \<lparr>sr_provenance = row_provenance row None, sr_approval_required = exp_approval_required row,
            sr_state = EXPORT_REJECTED, sr_denial_reason = Some reason\<rparr>"
  by (auto simp: deny_export_gate_def result_bind_Inr_iff dest: enum_of_InrD)

end
