(* ===== verification/Json.thy ===== *)
theory Json
  imports Py_Value "HOL-Library.AList"
begin

section \<open>Indented JSON and its reader\<close>

text \<open>
  \<open>json.dumps(payload, indent=2, sort_keys=True)\<close>, which writes snapshot manifests, and the
  \<open>json.loads\<close> that reads them back. The reader follows the grammar of the standard decoder: white
  space, literals, strings with their escapes, integers, arrays, objects in which the last of two equal
  keys wins, and nothing after the document. Where the decoder raises \<open>JSONDecodeError\<close> its value is
  \<open>None\<close>. Two kinds of document are refused although the decoder reads them: numbers with a fraction
  or an exponent, and escapes of code points above 255, which the model's strings do not hold. The
  writer produces neither. That the two agree is shown in \<open>Json_Roundtrip\<close>.
\<close>

subsection \<open>Writing\<close>

definition newline :: "nat \<Rightarrow> string" where
  "newline k = CHR 10 # replicate k (CHR '' '')"

primrec json_pretty :: "nat \<Rightarrow> pyval \<Rightarrow> nat \<Rightarrow> string" where
  "json_pretty k PNone = (\<lambda>level. ''null'')"
| "json_pretty k (PBool b) = (\<lambda>level. if b then ''true'' else ''false'')"
| "json_pretty k (PInt i) = (\<lambda>level. show_int i)"
| "json_pretty k (PStr s) = (\<lambda>level. json_str s)"
| "json_pretty k (PList xs) = (\<lambda>level. if xs = [] then ''[]'' else
     ''['' @ newline (k * Suc level) @
     join ('','' @ newline (k * Suc level)) (map (\<lambda>x. x (Suc level)) (map (json_pretty k) xs)) @
     newline (k * level) @ '']'')"
| "json_pretty k (PDict kvs) = (\<lambda>level. if kvs = [] then ''{}'' else
     ''{'' @ newline (k * Suc level) @
     join ('','' @ newline (k * Suc level))
       (map (\<lambda>(key, v). json_str key @ '': '' @ v (Suc level)) (sort_key fst (map (map_prod id (json_pretty k)) kvs))) @
     newline (k * level) @ ''}'')"

definition json_dumps_indent :: "nat \<Rightarrow> pyval \<Rightarrow> string" where
  "json_dumps_indent k v = json_pretty k v 0"

subsection \<open>Reading\<close>

definition json_space :: "char \<Rightarrow> bool" where
  "json_space c \<longleftrightarrow> c \<in> {CHR '' '', CHR 9, CHR 10, CHR 13}"

definition skip_space :: "string \<Rightarrow> string" where
  "skip_space s = dropWhile json_space s"

definition is_digit :: "char \<Rightarrow> bool" where
  "is_digit c \<longleftrightarrow> (48::nat) \<le> of_char c \<and> of_char c \<le> (57::nat)"

definition digit_value :: "char \<Rightarrow> nat" where
  "digit_value c = of_char c - 48"

definition nat_of_digits :: "string \<Rightarrow> nat" where
  "nat_of_digits = foldl (\<lambda>n c. 10 * n + digit_value c) 0"

definition hex_value :: "char \<Rightarrow> nat option" where
  "hex_value c = (let n = (of_char c :: nat) in
     if 48 \<le> n \<and> n \<le> 57 then Some (n - 48)
     else if 97 \<le> n \<and> n \<le> 102 then Some (n - 87)
     else if 65 \<le> n \<and> n \<le> 70 then Some (n - 55) else None)"

definition hex4 :: "char \<Rightarrow> char \<Rightarrow> char \<Rightarrow> char \<Rightarrow> nat option" where
  "hex4 a b c d = Option.bind (hex_value a) (\<lambda>i. Option.bind (hex_value b) (\<lambda>j.
     Option.bind (hex_value c) (\<lambda>k. Option.bind (hex_value d) (\<lambda>l.
     Some (((i * 16 + j) * 16 + k) * 16 + l)))))"

definition unescape :: "char \<Rightarrow> char option" where
  "unescape e = map_of [(CHR 34, CHR 34), (CHR 92, CHR 92), (CHR ''/'', CHR ''/''), (CHR ''b'', CHR 8),
     (CHR ''f'', CHR 12), (CHR ''n'', CHR 10), (CHR ''r'', CHR 13), (CHR ''t'', CHR 9)] e"

text \<open>A string literal after its opening quote: the string and what follows the closing quote.\<close>

fun json_string :: "string \<Rightarrow> (string \<times> string) option" where
  "json_string [] = None"
| "json_string (c # s) =
     (if c = CHR 34 then Some ([], s)
      else if c = CHR 92 then
        (case s of
           [] \<Rightarrow> None
         | e # t \<Rightarrow>
             if e = CHR ''u'' then
               (case t of
                  h1 # h2 # h3 # h4 # r \<Rightarrow>
                    (case hex4 h1 h2 h3 h4 of
                       None \<Rightarrow> None
                     | Some n \<Rightarrow> if n < 256 then map_option (apfst ((#) (char_of n))) (json_string r) else None)
                | _ \<Rightarrow> None)
             else (case unescape e of None \<Rightarrow> None | Some x \<Rightarrow> map_option (apfst ((#) x)) (json_string t)))
      else if (of_char c :: nat) < 32 then None
      else map_option (apfst ((#) c)) (json_string s))"

definition starts_fraction :: "string \<Rightarrow> bool" where
  "starts_fraction r = (case r of
     c # d # t \<Rightarrow> (c = CHR ''.'' \<and> is_digit d) \<or>
       (c \<in> {CHR ''e'', CHR ''E''} \<and>
         (is_digit d \<or> d \<in> {CHR ''+'', CHR ''-''} \<and> (case t of [] \<Rightarrow> False | x # _ \<Rightarrow> is_digit x)))
   | _ \<Rightarrow> False)"

definition json_digits :: "string \<Rightarrow> (nat \<times> string) option" where
  "json_digits s =
     (case s of
        [] \<Rightarrow> None
      | c # t \<Rightarrow>
          if \<not> is_digit c then None
          else if c = CHR ''0'' then (if starts_fraction t then None else Some (0, t))
          else (let r = dropWhile is_digit s
                in if starts_fraction r then None else Some (nat_of_digits (takeWhile is_digit s), r)))"

definition json_number :: "string \<Rightarrow> (pyval \<times> string) option" where
  "json_number s =
     (if startswith s ''-'' then map_option (\<lambda>(n, r). (PInt (- int n), r)) (json_digits (tl s))
      else map_option (\<lambda>(n, r). (PInt (int n), r)) (json_digits s))"

text \<open>\<open>dict(pairs)\<close>: a key keeps its first place and takes its last value.\<close>

definition dict_of :: "(string \<times> pyval) list \<Rightarrow> (string \<times> pyval) list" where
  "dict_of kvs = foldl (\<lambda>d (k, v). AList.update k v d) [] kvs"

fun json_value :: "nat \<Rightarrow> string \<Rightarrow> (pyval \<times> string) option"
  and json_items :: "nat \<Rightarrow> string \<Rightarrow> (pyval list \<times> string) option"
  and json_members :: "nat \<Rightarrow> string \<Rightarrow> ((string \<times> pyval) list \<times> string) option" where
  "json_value 0 s = None"
| "json_value (Suc n) s =
     (case s of
        [] \<Rightarrow> None
      | c # t \<Rightarrow>
          if c = CHR 34 then map_option (apfst PStr) (json_string t)
          else if c = CHR ''{'' then
            (if startswith (skip_space t) ''}'' then Some (PDict [], tl (skip_space t))
             else map_option (apfst (\<lambda>kvs. PDict (dict_of kvs))) (json_members n (skip_space t)))
          else if c = CHR ''['' then
            (if startswith (skip_space t) '']'' then Some (PList [], tl (skip_space t))
             else map_option (apfst PList) (json_items n (skip_space t)))
          else if startswith s ''null'' then Some (PNone, drop 4 s)
          else if startswith s ''true'' then Some (PBool True, drop 4 s)
          else if startswith s ''false'' then Some (PBool False, drop 5 s)
          else json_number s)"
| "json_items 0 s = None"
| "json_items (Suc n) s =
     (case json_value n s of
        None \<Rightarrow> None
      | Some (v, r) \<Rightarrow>
          (case skip_space r of
             [] \<Rightarrow> None
           | e # u \<Rightarrow>
               if e = CHR '']'' then Some ([v], u)
               else if e = CHR '','' then map_option (apfst ((#) v)) (json_items n (skip_space u))
               else None))"
| "json_members 0 s = None"
| "json_members (Suc n) s =
     (case s of
        [] \<Rightarrow> None
      | q # t \<Rightarrow>
          if q \<noteq> CHR 34 then None
          else (case json_string t of
             None \<Rightarrow> None
           | Some (k, r) \<Rightarrow>
               (case skip_space r of
                  [] \<Rightarrow> None
                | d # r' \<Rightarrow>
                    if d \<noteq> CHR '':'' then None
                    else (case json_value n (skip_space r') of
                       None \<Rightarrow> None
                     | Some (v, r'') \<Rightarrow>
                         (case skip_space r'' of
                            [] \<Rightarrow> None
                          | e # u \<Rightarrow>
                              if e = CHR ''}'' then Some ([(k, v)], u)
                              else if e = CHR '','' then
                                map_option (apfst ((#) (k, v))) (json_members n (skip_space u))
                              else None)))))"

text \<open>The nesting of a document is at most its length, which is the fuel.\<close>

definition json_loads :: "string \<Rightarrow> pyval option" where
  "json_loads s =
     (case json_value (Suc (length s)) (skip_space s) of
        Some (v, r) \<Rightarrow> if skip_space r = [] then Some v else None
      | None \<Rightarrow> None)"

lemma json_loads_examples:
  "json_loads ''{ }'' = Some (PDict [])"
  "json_loads ''[1, -20, null ,true]'' = Some (PList [PInt 1, PInt (- 20), PNone, PBool True])"
  "json_loads ''01'' = None"
  "json_loads ''1.5'' = None"
  "json_loads ''[1,]'' = None"
  by code_simp+

subsection \<open>Strings and numbers read back\<close>

lemma hex_value_digit: "k < 16 \<Longrightarrow> hex_value (hex_digit k) = Some k"
  by (simp add: hex_value_def hex_digit_def Let_def of_char_of take_bit_eq_mod)

lemma hex4_digits: "n < 256 \<Longrightarrow> hex4 (CHR ''0'') (CHR ''0'') (hex_digit (n div 16)) (hex_digit (n mod 16)) = Some n"
proof -
  assume "n < 256"
  then have "hex_value (hex_digit (n div 16)) = Some (n div 16)" "hex_value (hex_digit (n mod 16)) = Some (n mod 16)"
    by (simp_all add: hex_value_digit)
  moreover have "hex_value (CHR ''0'') = Some 0" by code_simp
  ultimately show ?thesis by (simp add: hex4_def)
qed

lemma of_char_less: "(of_char c :: nat) < 256"
  using nat_of_char_less_256 [of c] by simp

lemma char_of_numerals:
  "char_of (10::nat) = CHR 10" "char_of (13::nat) = CHR 13" "char_of (9::nat) = CHR 9"
  "char_of (12::nat) = CHR 12" "char_of (8::nat) = CHR 8" "char_of (48::nat) = CHR ''0''"
  by code_simp+

lemma of_char_eq: "(of_char c :: nat) = k \<Longrightarrow> c = char_of k"
  using char_of_char [of c, where 'a = nat] by simp

lemma json_string_char:
  "json_string (json_char c @ t) = map_option (apfst ((#) c)) (json_string t)"
proof -
  let ?n = "of_char c :: nat"
  consider "c = CHR 34" | "c = CHR 92" | "c = CHR 10" | "c = CHR 13" | "c = CHR 9" | "c = CHR 12" | "c = CHR 8"
    | (u) "c \<notin> {CHR 34, CHR 92, CHR 10, CHR 13, CHR 9, CHR 12, CHR 8}" "?n < 32 \<or> 126 < ?n"
    | (plain) "c \<notin> {CHR 34, CHR 92, CHR 10, CHR 13, CHR 9, CHR 12, CHR 8}" "32 \<le> ?n" "?n \<le> 126"
    by fastforce
  then show ?thesis
  proof cases
    case u
    have ne: "?n \<noteq> 10" "?n \<noteq> 13" "?n \<noteq> 9" "?n \<noteq> 12" "?n \<noteq> 8"
      using u(1) by (auto dest!: of_char_eq simp: char_of_numerals)
    have "json_char c = [CHR 92] @ ''u00'' @ [hex_digit (?n div 16), hex_digit (?n mod 16)]"
      using u ne by (simp add: json_char_def Let_def)
    then show ?thesis by (simp add: hex4_digits of_char_less)
  next
    case plain
    have ne: "?n \<noteq> 10" "?n \<noteq> 13" "?n \<noteq> 9" "?n \<noteq> 12" "?n \<noteq> 8" using plain(2) by simp_all
    have "json_char c = [c]" using plain ne by (simp add: json_char_def Let_def)
    then show ?thesis using plain by simp
  qed (simp_all add: json_char_def unescape_def)
qed

lemma json_string_str: "json_string (concat (map json_char s) @ CHR 34 # r) = Some (s, r)"
  by (induction s) (simp_all add: json_string_char)


text \<open>What may follow a number in a document the writer made.\<close>

definition ends_number :: "string \<Rightarrow> bool" where
  "ends_number r \<longleftrightarrow> (case r of [] \<Rightarrow> True | c # t \<Rightarrow> \<not> is_digit c \<and> c \<notin> {CHR ''.'', CHR ''e'', CHR ''E''})"

lemma ends_number_fraction: "ends_number r \<Longrightarrow> \<not> starts_fraction r"
  by (auto simp: ends_number_def starts_fraction_def split: list.splits)

lemma ends_number_drop: "ends_number r \<Longrightarrow> dropWhile is_digit r = r \<and> takeWhile is_digit r = []"
  by (cases r) (simp_all add: ends_number_def)

lemma is_digit_char: "d < 10 \<Longrightarrow> is_digit (char_of (48 + d)) \<and> digit_value (char_of (48 + d)) = d"
  by (simp add: is_digit_def digit_value_def of_char_of take_bit_eq_mod)

lemma show_nat_digits: "list_all is_digit (show_nat n) \<and> show_nat n \<noteq> [] \<and> nat_of_digits (show_nat n) = n"
proof (induction n rule: show_nat.induct)
  case (1 n)
  show ?case
  proof (cases "n < 10")
    case True
    with is_digit_char [OF True] show ?thesis by (subst (1 2 3) show_nat.simps) (simp add: nat_of_digits_def)
  next
    case False
    with 1 is_digit_char [of "n mod 10"] show ?thesis
      by (subst (1 2 3) show_nat.simps) (simp add: nat_of_digits_def)
  qed
qed

lemma show_nat_lead: "0 < n \<Longrightarrow> hd (show_nat n) \<noteq> CHR ''0''"
proof (induction n rule: show_nat.induct)
  case (1 n)
  show ?case
  proof (cases "n < 10")
    case True
    have "char_of (48 + n) \<noteq> CHR ''0''"
    proof
      assume zero: "char_of (48 + n) = CHR ''0''"
      have "digit_value (CHR ''0'') = n" using is_digit_char [OF True] unfolding zero by blast
      moreover have "digit_value (CHR ''0'') = 0" by code_simp
      ultimately show False using "1.prems" by simp
    qed
    with True show ?thesis by (subst show_nat.simps) simp
  next
    case False
    then have "hd (show_nat n) = hd (show_nat (n div 10))"
      using show_nat_digits [of "n div 10"] by (subst show_nat.simps) simp
    with 1 False show ?thesis by (simp add: div_greater_zero_iff)
  qed
qed

lemma json_digits_show: "ends_number r \<Longrightarrow> json_digits (show_nat n @ r) = Some (n, r)"
proof (cases "n = 0")
  case True
  then show "ends_number r \<Longrightarrow> ?thesis"
    by (simp add: show_nat.simps json_digits_def is_digit_def ends_number_fraction char_of_numerals)
next
  case False
  assume r: "ends_number r"
  obtain c t where s: "show_nat n = c # t" using show_nat_digits by (cases "show_nat n") auto
  with False show_nat_lead [of n] have c: "c \<noteq> CHR ''0''" by simp
  have all: "list_all is_digit (c # t)" and v: "nat_of_digits (c # t) = n"
    using show_nat_digits [of n] s by simp_all
  have "dropWhile is_digit ((c # t) @ r) = r" and "takeWhile is_digit ((c # t) @ r) = c # t"
    using all ends_number_drop [OF r] by (simp_all add: list_all_iff dropWhile_append2 takeWhile_append2)
  then show ?thesis using c all v r by (simp add: json_digits_def s ends_number_fraction)
qed

lemma json_number_show: "ends_number r \<Longrightarrow> json_number (show_int i @ r) = Some (PInt i, r)"
proof (cases "i < 0")
  case True
  then show "ends_number r \<Longrightarrow> ?thesis" by (simp add: json_number_def show_int_def startswith_def json_digits_show)
next
  case False
  assume r: "ends_number r"
  obtain c t where s: "show_nat (nat i) = c # t" using show_nat_digits by (cases "show_nat (nat i)") auto
  then have "is_digit c" using show_nat_digits [of "nat i"] by simp
  then have minus: "c \<noteq> CHR ''-''" by (auto simp: is_digit_def)
  have int: "show_int i = show_nat (nat i)" using False by (simp add: show_int_def)
  have "\<not> startswith (show_int i @ r) ''-''" using minus by (simp add: int s startswith_def)
  then show ?thesis using r False by (simp add: json_number_def int json_digits_show)
qed


subsection \<open>Scalars\<close>

text \<open>What the reader makes of a value that is no array and no object.\<close>

fun json_scalar :: "pyval \<Rightarrow> bool" where
  "json_scalar (PList xs) = False"
| "json_scalar (PDict kvs) = False"
| "json_scalar v = True"

lemma json_value_scalar:
  assumes "json_scalar v" and "ends_number r"
  shows "json_value (Suc n) (json_pretty k v l @ r) = Some (v, r)"
proof (cases v)
  case (PInt i)
  obtain c t where s: "show_int i = c # t" and c: "is_digit c \<or> c = CHR ''-''"
  proof (cases "show_nat (nat \<bar>i\<bar>)")
    case Nil
    then show thesis using show_nat_digits [of "nat \<bar>i\<bar>"] by simp
  next
    case (Cons c t)
    then have "is_digit c" using show_nat_digits [of "nat \<bar>i\<bar>"] by simp
    then show thesis using that Cons by (cases "i < 0") (auto simp: show_int_def)
  qed
  have "c \<notin> {CHR 34, CHR ''{'', CHR ''['', CHR ''n'', CHR ''t'', CHR ''f''}"
    using c by (auto simp: is_digit_def)
  then have "json_value (Suc n) ((c # t) @ r) = json_number ((c # t) @ r)"
    by (auto simp: startswith_def)
  then have "json_value (Suc n) (show_int i @ r) = json_number (show_int i @ r)" by (simp only: s)
  with PInt assms(2) show ?thesis by (simp add: json_number_show)
qed (use assms in \<open>auto simp: startswith_def json_str_def json_string_str\<close>)

lemma json_pretty_nonspace: "json_scalar v \<Longrightarrow> skip_space (json_pretty k v l @ r) = json_pretty k v l @ r"
proof (cases v)
  case (PInt i)
  obtain c t where "show_nat (nat \<bar>i\<bar>) = c # t" and "is_digit c"
    using show_nat_digits [of "nat \<bar>i\<bar>"] by (cases "show_nat (nat \<bar>i\<bar>)") auto
  then have "\<exists>c t. show_int i = c # t \<and> \<not> json_space c"
    by (cases "i < 0") (auto simp: show_int_def json_space_def is_digit_def)
  with PInt show ?thesis by (auto simp: skip_space_def)
qed (auto simp: skip_space_def json_space_def json_str_def)

lemma insort_key_map: "insort_key f (g x) (map g xs) = map g (insort_key (\<lambda>a. f (g a)) x xs)"
  by (induction xs) simp_all

lemma sort_key_of_map: "sort_key f (map g xs) = map g (sort_key (\<lambda>a. f (g a)) xs)"
  by (induction xs) (simp_all add: insort_key_map)

lemma dict_of_append: "dict_of (kvs @ [(k, v)]) = AList.update k v (dict_of kvs)"
  by (simp add: dict_of_def)

lemma dict_of_distinct: "distinct (map fst kvs) \<Longrightarrow> dict_of kvs = kvs"
proof (induction kvs rule: rev_induct)
  case (snoc kv kvs)
  obtain k v where kv: "kv = (k, v)" by (cases kv)
  have "k \<notin> fst ` set kvs" using snoc.prems kv by simp
  then have "AList.update k v kvs = kvs @ [(k, v)]" by (induction kvs) auto
  with snoc kv show ?case by (simp add: dict_of_append)
qed (simp add: dict_of_def)

end
