(* ===== verification/Iso_Format.thy ===== *)
theory Iso_Format
  imports Datetime Json
begin

section \<open>Reading timestamps\<close>

text \<open>
  \<open>datetime.fromisoformat\<close>, with which a handler reads the timestamp of a manifest, on the format that
  \<open>isoformat\<close> writes; the other notations the library reads are refused. A date is accepted when the
  day it names is that date. What \<open>isoformat\<close> writes for a year between 1 and 9999 reads back as the
  same timestamp; the calendar computation of \<open>Datetime\<close> is inverted for that.
\<close>

definition days_from_civil :: "int \<Rightarrow> int \<Rightarrow> int \<Rightarrow> int" where
  "days_from_civil y m d =
     (let y' = (if m \<le> 2 then y - 1 else y); era = y' div 400; yoe = y' mod 400;
          doy = (153 * (if m > 2 then m - 3 else m + 9) + 2) div 5 + d - 1
      in era * 146097 + (yoe * 365 + yoe div 4 - yoe div 100 + doy) - 719468)"

definition fixed_digits :: "nat \<Rightarrow> string \<Rightarrow> (int \<times> string) option" where
  "fixed_digits k s = (if length (take k s) = k \<and> list_all is_digit (take k s)
     then Some (int (nat_of_digits (take k s)), drop k s) else None)"

definition expect :: "char \<Rightarrow> string \<Rightarrow> string option" where
  "expect c s = (case s of [] \<Rightarrow> None | x # t \<Rightarrow> if x = c then Some t else None)"

definition read_date :: "string \<Rightarrow> (int \<times> string) option" where
  "read_date s =
     Option.bind (fixed_digits 4 s) (\<lambda>(y, s). Option.bind (expect (CHR ''-'') s) (\<lambda>s.
     Option.bind (fixed_digits 2 s) (\<lambda>(m, s). Option.bind (expect (CHR ''-'') s) (\<lambda>s.
     Option.bind (fixed_digits 2 s) (\<lambda>(d, s).
       if 1 \<le> y \<and> civil_from_days (days_from_civil y m d) = (y, m, d)
       then Some (days_from_civil y m d, s) else None)))))"

definition read_time :: "string \<Rightarrow> (int \<times> string) option" where
  "read_time s =
     Option.bind (fixed_digits 2 s) (\<lambda>(h, s). Option.bind (expect (CHR '':'') s) (\<lambda>s.
     Option.bind (fixed_digits 2 s) (\<lambda>(m, s).
       if 24 \<le> h \<or> 60 \<le> m then None
       else Some (h * 3600 + m * 60, s))))"

definition read_seconds :: "string \<Rightarrow> (int \<times> string) option" where
  "read_seconds s =
     Option.bind (expect (CHR '':'') s) (\<lambda>s. Option.bind (fixed_digits 2 s) (\<lambda>(sec, s).
       if 60 \<le> sec then None else Some (sec, s)))"

definition read_fraction :: "string \<Rightarrow> (int \<times> string) option" where
  "read_fraction s = (case expect (CHR ''.'') s of None \<Rightarrow> Some (0, s) | Some s \<Rightarrow> fixed_digits 6 s)"

text \<open>The offset at the end, in microseconds.\<close>

definition read_offset :: "string \<Rightarrow> int option option" where
  "read_offset s =
     (case s of
        [] \<Rightarrow> Some None
      | sign # s \<Rightarrow>
          if sign \<notin> {CHR ''+'', CHR ''-''} then None
          else Option.bind (read_time s) (\<lambda>(hm, s).
            Option.bind (if s = [] then Some (0, s) else read_seconds s) (\<lambda>(sec, s).
            if s = [] then Some (Some ((if sign = CHR ''-'' then -1 else 1) * (hm + sec) * 1000000)) else None)))"

definition read_iso :: "string \<Rightarrow> datetime option" where
  "read_iso s =
     Option.bind (read_date s) (\<lambda>(day, s). Option.bind (expect (CHR ''T'') s) (\<lambda>s.
     Option.bind (read_time s) (\<lambda>(hm, s). Option.bind (read_seconds s) (\<lambda>(sec, s).
     Option.bind (read_fraction s) (\<lambda>(us, s). Option.bind (read_offset s) (\<lambda>off.
       let w = (day * 86400 + hm + sec) * 1000000 + us
       in Some (case off of None \<Rightarrow> Naive w | Some off \<Rightarrow> Aware w off)))))))"

definition fromisoformat :: "string \<Rightarrow> exn + datetime" where
  "fromisoformat s =
     (case read_iso s of
        None \<Rightarrow> Inl (ValueError (''Invalid isoformat string: '' @ repr_str s)) | Some t \<Rightarrow> Inr t)"

lemma fromisoformat_examples:
  "fromisoformat ''2026-05-14T00:00:00.000001+02:00'' = Inr (Aware 1778716800000001 7200000000)"
  "read_iso ''2026-02-29T00:00:00'' = None"
  by code_simp+

subsection \<open>The calendar, inverted\<close>

lemma year_of_era:
  fixes doe :: int
  assumes "0 \<le> doe" "doe < 146097"
  defines "yoe \<equiv> (doe - doe div 1460 + doe div 36524 - doe div 146096) div 365"
  defines "doy \<equiv> doe - (365 * yoe + yoe div 4 - yoe div 100)"
  shows "0 \<le> yoe \<and> yoe \<le> 399 \<and> 0 \<le> doy \<and> doy \<le> 365"
proof (cases "doe = 146096")
  case True
  then show ?thesis by (simp add: yoe_def doy_def)
next
  case False
  then have h: "doe div 146096 = 0" using assms by simp
  define a c p q where "a = doe div 1460" and "c = doe div 36524" and "p = yoe div 4" and "q = yoe div 100"
  have a: "1460 * a \<le> doe" "doe < 1460 * a + 1460" unfolding a_def by linarith+
  have c: "36524 * c \<le> doe" "doe < 36524 * c + 36524" unfolding c_def by linarith+
  have y: "365 * yoe \<le> doe - a + c" "doe - a + c < 365 * yoe + 365"
    unfolding yoe_def h a_def c_def by linarith+
  have p: "4 * p \<le> yoe" "yoe < 4 * p + 4" unfolding p_def by linarith+
  have q: "100 * q \<le> yoe" "yoe < 100 * q + 100" unfolding q_def by linarith+
  have "0 \<le> c" "c \<le> 3" using c assms(1,2) False by linarith+
  then consider "c = 0" | "c = 1" | "c = 2" | "c = 3" by linarith
  then have "q = c \<and> p \<le> a \<and> a \<le> p + 1"
  proof cases
    case 1
    with a c y p q assms(1) show ?thesis by linarith
  next
    case 2
    with a c y p q show ?thesis by linarith
  next
    case 3
    with a c y p q show ?thesis by linarith
  next
    case 4
    with a c y p q assms(2) False show ?thesis by linarith
  qed
  moreover have "doy = doe - 365 * yoe - p + q" by (simp add: doy_def p_def q_def)
  ultimately show ?thesis using y q \<open>0 \<le> c\<close> \<open>c \<le> 3\<close> by linarith
qed


lemma civil_from_days_inverse:
  assumes "civil_from_days n = (y, m, d)"
  shows "days_from_civil y m d = n \<and> 1 \<le> m \<and> m \<le> 12 \<and> 1 \<le> d \<and> d \<le> 31"
proof -
  define z era doe yoe doy mp where "z = n + 719468" and "era = z div 146097" and "doe = z mod 146097"
    and "yoe = (doe - doe div 1460 + doe div 36524 - doe div 146096) div 365"
    and "doy = doe - (365 * yoe + yoe div 4 - yoe div 100)" and "mp = (5 * doy + 2) div 153"
  note defs = z_def era_def doe_def yoe_def doy_def mp_def
  have "0 \<le> doe" "doe < 146097" by (simp_all add: doe_def)
  from year_of_era [OF this] have yoe: "0 \<le> yoe" "yoe \<le> 399" and doy: "0 \<le> doy" "doy \<le> 365"
    by (simp_all add: yoe_def doy_def)
  have mp: "0 \<le> mp" "mp \<le> 11" "153 * mp \<le> 5 * doy + 2" "5 * doy + 2 < 153 * mp + 153"
    using doy unfolding mp_def by linarith+
  have "civil_from_days n = (let d = doy - (153 * mp + 2) div 5 + 1; m = (if mp < 10 then mp + 3 else mp - 9)
      in (yoe + era * 400 + (if m \<le> 2 then 1 else 0), m, d))"
    unfolding civil_from_days_def Let_def defs by (rule refl)
  then have m: "m = (if mp < 10 then mp + 3 else mp - 9)" and d: "d = doy - (153 * mp + 2) div 5 + 1"
    and y: "y = yoe + era * 400 + (if m \<le> 2 then 1 else 0)"
    using assms by (simp_all add: Let_def)
  have y': "(if m \<le> 2 then y - 1 else y) = yoe + era * 400" using y by simp
  have mp': "(if m > 2 then m - 3 else m + 9) = mp" using m mp by auto
  have "z = era * 146097 + doe" by (simp add: era_def doe_def)
  moreover have "(yoe + era * 400) div 400 = era" "(yoe + era * 400) mod 400 = yoe" using yoe by simp_all
  ultimately have "days_from_civil y m d = n"
    unfolding days_from_civil_def Let_def y' mp' by (simp add: d doy_def z_def)
  moreover have "1 \<le> d \<and> d \<le> 31" using mp unfolding d by linarith
  ultimately show ?thesis using m mp by auto
qed

subsection \<open>Digits of a fixed width\<close>

lemma length_show_nat: "n < 10 ^ k \<Longrightarrow> 0 < k \<Longrightarrow> length (show_nat n) \<le> k"
proof (induction n arbitrary: k rule: show_nat.induct)
  case (1 n)
  show ?case
  proof (cases "n < 10")
    case True
    then show ?thesis using "1.prems" by (subst show_nat.simps) simp
  next
    case False
    then have "1 < k" using "1.prems" by (cases "k = 1") auto
    then obtain j where j: "k = Suc j" "0 < j" by (cases k) auto
    have "n div 10 < 10 ^ j" using "1.prems" j by (simp add: div_less_iff_less_mult mult.commute)
    then show ?thesis using "1.IH" [OF False] False j by (subst show_nat.simps) simp
  qed
qed

lemma nat_of_digits_zeros: "nat_of_digits (replicate k (CHR ''0'') @ s) = nat_of_digits s"
proof -
  have "foldl (\<lambda>n c. 10 * n + digit_value c) 0 (replicate k (CHR ''0'')) = 0"
    by (induction k) (simp_all add: digit_value_def)
  then show ?thesis by (simp add: nat_of_digits_def)
qed

lemma pad_digits:
  assumes "0 \<le> i" and "i < 10 ^ k" and "0 < k"
  shows "fixed_digits k (pad k i @ s) = Some (i, s)"
proof -
  have "show_int i = show_nat (nat i)" using assms(1) by (simp add: show_int_def)
  moreover have "nat i < 10 ^ k" using assms by (metis nat_less_iff of_nat_numeral of_nat_power)
  ultimately have len: "length (pad k i) = k"
    using length_show_nat [of "nat i" k] assms(3) by (simp add: pad_def Let_def)
  moreover have "list_all is_digit (replicate j (CHR ''0''))" for j by (simp add: list_all_iff is_digit_def)
  then have "list_all is_digit (pad k i)" "nat_of_digits (pad k i) = nat i"
    using show_nat_digits [of "nat i"] \<open>show_int i = show_nat (nat i)\<close>
    by (simp_all add: pad_def Let_def nat_of_digits_zeros)
  ultimately show ?thesis using assms(1) by (simp add: fixed_digits_def)
qed

lemma pad_Cons: "\<exists>c t. pad k i = c # t"
proof (cases "pad k i")
  case Nil
  then have "show_int i = []" by (simp add: pad_def Let_def)
  then show ?thesis using show_nat_digits [of "nat i"] show_nat_digits [of "nat (- i)"]
    by (simp add: show_int_def split: if_splits)
qed simp

subsection \<open>Round trip\<close>

definition iso_year_ok :: "int \<Rightarrow> bool" where
  "iso_year_ok w = (case civil_from_days (w div 1000000 div 86400) of (y, m, d) \<Rightarrow> 1 \<le> y \<and> y \<le> 9999)"

lemma expect_hd [simp]: "expect c (c # s) = Some s"
  by (simp add: expect_def)

lemma read_date_pad:
  assumes "civil_from_days n = (y, m, d)" and "1 \<le> y" and "y \<le> 9999"
  shows "read_date (pad 4 y @ CHR ''-'' # pad 2 m @ CHR ''-'' # pad 2 d @ s) = Some (n, s)"
  using civil_from_days_inverse [OF assms(1)] assms by (simp add: read_date_def pad_digits)

lemma read_time_digits:
  assumes "0 \<le> h" "h < 24" "0 \<le> m" "m < 60"
  shows "read_time (pad 2 h @ CHR '':'' # pad 2 m @ s) = Some (h * 3600 + m * 60, s)"
  using assms by (simp add: read_time_def pad_digits)

lemma read_time_pad:
  assumes "0 \<le> t" and "t < 86400"
  shows "read_time (pad 2 (t div 3600) @ CHR '':'' # pad 2 (t div 60 mod 60) @ s) = Some (t - t mod 60, s)"
proof -
  have "t div 3600 = t div 60 div 60" using zdiv_zmult2_eq [of 60 t 60] by simp
  moreover have "t div 60 div 60 * 60 + t div 60 mod 60 = t div 60" "t div 60 * 60 + t mod 60 = t"
    by (rule div_mult_mod_eq)+
  ultimately have sum: "t div 3600 * 3600 + t div 60 mod 60 * 60 = t - t mod 60" by linarith
  have "0 \<le> t div 3600" "t div 3600 < 24" using assms by linarith+
  moreover have "0 \<le> t div 60 mod 60" "t div 60 mod 60 < 60" by (rule pos_mod_sign, simp) (rule pos_mod_bound, simp)
  ultimately show ?thesis using read_time_digits sum by metis
qed

lemma read_seconds_pad: "read_seconds (CHR '':'' # pad 2 (t mod 60) @ s) = Some (t mod 60, s)"
proof -
  have "0 \<le> t mod 60" "t mod 60 < 60" by simp_all
  then show ?thesis by (simp add: read_seconds_def pad_digits)
qed

lemma read_fraction_pad:
  assumes "0 \<le> us" and "us < 1000000" and "s = [] \<or> hd s \<noteq> CHR ''.''"
  shows "read_fraction ((if us = 0 then [] else CHR ''.'' # pad 6 us) @ s) = Some (us, s)"
  using assms by (cases s) (auto simp: read_fraction_def expect_def pad_digits pad_digits [where s = "[]", simplified])

lemma read_offset_iso:
  assumes "off mod 1000000 = 0" and "\<bar>off\<bar> < 86400000000"
  shows "read_offset (iso_offset off) = Some (Some off)"
proof -
  define a where "a = \<bar>off\<bar> div 1000000"
  have a: "0 \<le> a" "a < 86400" using assms(2) by (auto simp: a_def)
  have off: "off = (if off < 0 then - 1 else 1) * a * 1000000"
    using assms(1) by (cases "off < 0") (auto simp: a_def)
  have "iso_offset off = (if off < 0 then CHR ''-'' else CHR ''+'') # pad 2 (a div 3600) @ CHR '':'' #
      pad 2 (a div 60 mod 60) @ (if a mod 60 = 0 then [] else CHR '':'' # pad 2 (a mod 60))"
    by (simp add: iso_offset_def Let_def a_def)
  moreover have "read_seconds (CHR '':'' # pad 2 (a mod 60)) = Some (a mod 60, [])"
    using read_seconds_pad [of a "[]"] by simp
  ultimately have "read_offset (iso_offset off) = Some (Some ((if off < 0 then - 1 else 1) * a * 1000000))"
    using read_time_pad [OF a] by (auto simp: read_offset_def algebra_simps)
  then show ?thesis using off by simp
qed

lemma iso_wall_shape:
  assumes "civil_from_days (w div 1000000 div 86400) = (y, m, d)"
  defines "t \<equiv> w div 1000000 mod 86400" and "us \<equiv> w mod 1000000"
  shows "iso_wall w @ s = pad 4 y @ CHR ''-'' # pad 2 m @ CHR ''-'' # pad 2 d @ CHR ''T'' # pad 2 (t div 3600) @
    CHR '':'' # pad 2 (t div 60 mod 60) @ CHR '':'' # pad 2 (t mod 60) @ (if us = 0 then [] else CHR ''.'' # pad 6 us) @ s"
  using assms by (simp add: iso_wall_def Let_def)

lemma read_iso_wall:
  assumes "iso_year_ok w" and "s = [] \<or> hd s \<noteq> CHR ''.''"
  shows "read_iso (iso_wall w @ s) =
    map_option (\<lambda>off. case off of None \<Rightarrow> Naive w | Some off \<Rightarrow> Aware w off) (read_offset s)"
proof -
  obtain y m d where civil: "civil_from_days (w div 1000000 div 86400) = (y, m, d)" using prod_cases3 by blast
  have y: "1 \<le> y" "y \<le> 9999" using assms(1) civil by (simp_all add: iso_year_ok_def)
  let ?t = "w div 1000000 mod 86400"
  have t: "0 \<le> ?t" "?t < 86400" by simp_all
  have us: "0 \<le> w mod 1000000" "w mod 1000000 < 1000000" by simp_all
  have w: "86400000000 * (w div 1000000 div 86400) + w div 1000000 mod 86400 * 1000000 + w mod 1000000 = w"
  proof -
    have "w div 1000000 div 86400 * 86400 + w div 1000000 mod 86400 = w div 1000000"
      "w div 1000000 * 1000000 + w mod 1000000 = w" by (rule div_mult_mod_eq)+
    then show ?thesis by linarith
  qed
  show ?thesis
    unfolding iso_wall_shape [OF civil] read_iso_def
    by (simp add: read_date_pad [OF civil y] read_time_pad [OF t] read_seconds_pad
        read_fraction_pad [OF us assms(2)] map_option_case Let_def w split: option.split)
qed

theorem fromisoformat_isoformat:
  "iso_year_ok w \<Longrightarrow> fromisoformat (isoformat (Naive w)) = Inr (Naive w)"
  "iso_year_ok w \<Longrightarrow> off mod 1000000 = 0 \<Longrightarrow> \<bar>off\<bar> < 86400000000 \<Longrightarrow>
     fromisoformat (isoformat (Aware w off)) = Inr (Aware w off)"
proof -
  show "iso_year_ok w \<Longrightarrow> fromisoformat (isoformat (Naive w)) = Inr (Naive w)"
    using read_iso_wall [of w "[]"] by (simp add: fromisoformat_def read_offset_def)
  have "hd (iso_offset off) \<noteq> CHR ''.''" by (simp add: iso_offset_def Let_def)
  then show "iso_year_ok w \<Longrightarrow> off mod 1000000 = 0 \<Longrightarrow> \<bar>off\<bar> < 86400000000 \<Longrightarrow>
     fromisoformat (isoformat (Aware w off)) = Inr (Aware w off)"
    using read_iso_wall [of w "iso_offset off"] read_offset_iso [of off] by (simp add: fromisoformat_def)
qed

end
