(* ===== verification/Json_Roundtrip.thy ===== *)
theory Json_Roundtrip
  imports Json
begin

section \<open>A document that was written reads back\<close>

text \<open>
  For any value, however nested, whose objects have distinct keys: \<open>json.loads\<close> of what
  \<open>json.dumps(..., indent=k, sort_keys=True)\<close> wrote is the value with the keys of its objects sorted. The
  reader's fuel, the length of the text, is enough.
\<close>

subsection \<open>Canonical values\<close>

primrec json_sorted :: "pyval \<Rightarrow> pyval" where
  "json_sorted PNone = PNone"
| "json_sorted (PBool b) = PBool b"
| "json_sorted (PInt i) = PInt i"
| "json_sorted (PStr s) = PStr s"
| "json_sorted (PList xs) = PList (map json_sorted xs)"
| "json_sorted (PDict kvs) = PDict (sort_key fst (map (map_prod id json_sorted) kvs))"

primrec keys_distinct :: "pyval \<Rightarrow> bool" where
  "keys_distinct PNone = True"
| "keys_distinct (PBool b) = True"
| "keys_distinct (PInt i) = True"
| "keys_distinct (PStr s) = True"
| "keys_distinct (PList xs) = list_all id (map keys_distinct xs)"
| "keys_distinct (PDict kvs) = (distinct (map fst kvs) \<and> list_all snd (map (map_prod id keys_distinct) kvs))"

primrec canonical_json :: "pyval \<Rightarrow> bool" where
  "canonical_json PNone = True"
| "canonical_json (PBool b) = True"
| "canonical_json (PInt i) = True"
| "canonical_json (PStr s) = True"
| "canonical_json (PList xs) = list_all id (map canonical_json xs)"
| "canonical_json (PDict kvs) =
     (sorted (map fst kvs) \<and> distinct (map fst kvs) \<and> list_all snd (map (map_prod id canonical_json) kvs))"

lemma sort_key_empty [simp]: "sort_key f xs = [] \<longleftrightarrow> xs = []"
  using set_sort [of f xs] by (metis set_empty)

lemma distinct_sorted_keys: "distinct (map fst (sort_key fst kvs)) = distinct (map fst kvs)"
  by (rule mset_eq_imp_distinct_iff) simp

lemma sorted_canonical: "keys_distinct v \<Longrightarrow> canonical_json (json_sorted v)"
proof (induction v)
  case (PList xs)
  then show ?case by (auto simp: list_all_iff)
next
  case (PDict kvs)
  have "map fst (map (map_prod id json_sorted) kvs) = map fst kvs" by simp
  then have "distinct (map fst (sort_key fst (map (map_prod id json_sorted) kvs)))"
    using PDict.prems by (simp add: distinct_sorted_keys)
  moreover have "canonical_json (json_sorted w)" if "(key, w) \<in> set kvs" for key w
    using PDict.IH [of "(key, w)" w] PDict.prems that by (force simp: list_all_iff)
  ultimately show ?case by (auto simp: list_all_iff)
qed simp_all

lemma canonical_sorted: "canonical_json v \<Longrightarrow> json_sorted v = v"
proof (induction v)
  case (PDict kvs)
  then have "map (map_prod id json_sorted) kvs = kvs"
    by (intro map_idI) (force simp: list_all_iff)
  then show ?case using PDict.prems by (simp add: sort_key_id_if_sorted)
qed (simp_all add: list_all_iff map_idI)

lemma pretty_sorted: "json_pretty k (json_sorted v) = json_pretty k v"
proof (induction v)
  case (PList xs)
  then show ?case by (auto simp: fun_eq_iff comp_def cong: map_cong)
next
  case (PDict kvs)
  have "map (map_prod id (json_pretty k)) (map (map_prod id json_sorted) kvs) = map (map_prod id (json_pretty k)) kvs"
    using PDict by (auto simp: comp_def map_prod_def)
  then have "sort_key fst (map (map_prod id (json_pretty k)) (sort_key fst (map (map_prod id json_sorted) kvs))) =
      sort_key fst (map (map_prod id (json_pretty k)) kvs)"
    by (simp add: sort_key_of_map comp_def sort_key_id_if_sorted cong: map_cong)
  then show ?case by (simp add: fun_eq_iff)
qed simp_all

subsection \<open>Reading\<close>

text \<open>\<open>reads T v\<close>: in front of any text that does not continue a number, \<open>T\<close> is read as \<open>v\<close>, and it starts a
  value.\<close>

definition reads :: "string \<Rightarrow> pyval \<Rightarrow> bool" where
  "reads T v \<longleftrightarrow> T \<noteq> [] \<and> (\<forall>r. skip_space (T @ r) = T @ r) \<and>
     (\<forall>n r. length T \<le> n \<longrightarrow> ends_number r \<longrightarrow> json_value n (T @ r) = Some (v, r))"

lemma readsD:
  assumes "reads T v"
  shows "T \<noteq> []" "skip_space (T @ r) = T @ r" "length T \<le> n \<Longrightarrow> ends_number r \<Longrightarrow> json_value n (T @ r) = Some (v, r)"
  using assms by (simp_all add: reads_def)

text \<open>Space, and what closes an array or an object after it.\<close>

definition blank :: "string \<Rightarrow> bool" where
  "blank ws \<longleftrightarrow> list_all json_space ws"

lemma skip_blank: "blank ws \<Longrightarrow> skip_space (ws @ s) = skip_space s"
  by (simp add: blank_def skip_space_def dropWhile_append2 list_all_iff)

lemma blank_newline: "blank (newline k)"
  by (auto simp: blank_def newline_def json_space_def list_all_iff)

lemma space_ends: "json_space c \<Longrightarrow> ends_number (c # s)"
  by (auto simp: json_space_def ends_number_def is_digit_def)

lemma delimiter_ends: "blank ws \<Longrightarrow> c \<in> {CHR '','', CHR '']'', CHR ''}''} \<Longrightarrow> ends_number (ws @ c # s)"
  by (cases ws) (auto simp: blank_def space_ends, auto simp: ends_number_def is_digit_def)

lemma delimiter_skip: "blank ws \<Longrightarrow> c \<in> {CHR '','', CHR '']'', CHR ''}'', CHR '':''} \<Longrightarrow> skip_space (ws @ c # s) = c # s"
  by (auto simp: skip_blank) (auto simp: skip_space_def json_space_def)

lemma length_join_Cons: "length x \<le> length (join sep (x # xs))"
    "xs \<noteq> [] \<Longrightarrow> length (join sep (x # xs)) = length x + length sep + length (join sep xs)"
  by (cases xs; simp)+

lemma join_starts: "\<forall>x \<in> set xs. x \<noteq> [] \<and> (\<forall>r. skip_space (x @ r) = x @ r) \<Longrightarrow> xs \<noteq> [] \<Longrightarrow>
    skip_space (join sep xs @ r) = join sep xs @ r"
  by (cases xs; cases "tl xs") auto

lemma items_read:
  assumes "xs \<noteq> []" and "list_all2 reads Ts xs" and ws: "blank ws1" "blank ws2" and "length (join ('','' @ ws1) Ts) < n"
  shows "json_items n (join ('','' @ ws1) Ts @ ws2 @ CHR '']'' # r) = Some (xs, r)"
  using assms(1,2,5)
proof (induction xs arbitrary: Ts n)
  case (Cons v vs)
  then obtain T Us where Ts: "Ts = T # Us" and T: "reads T v" and Us: "list_all2 reads Us vs"
    by (auto simp: list_all2_Cons2)
  obtain j where n: "n = Suc j" using Cons.prems(3) by (cases n) auto
  have j: "length T \<le> j" using Cons.prems(3) length_join_Cons(1) [of T "'','' @ ws1" Us] n Ts by simp
  show ?case
  proof (cases vs)
    case Nil
    with Us have "Us = []" by simp
    then show ?thesis
      using readsD(3) [OF T j delimiter_ends [OF ws(2)], of "CHR '']''" r] delimiter_skip [OF ws(2), of "CHR '']''" r]
      by (simp add: n Ts Nil)
  next
    case (Cons a b)
    then obtain U Vs where UV: "Us = U # Vs" using Us by (cases Us) auto
    let ?rest = "join ('','' @ ws1) Us @ ws2 @ CHR '']'' # r"
    have more: "length (join ('','' @ ws1) Us) < j"
      using Cons.prems(3) UV readsD(1) [OF T] unfolding n Ts by (cases T) simp_all
    have IH: "json_items j ?rest = Some (vs, r)"
      using Cons.IH [OF _ Us more] Cons by simp
    have "\<forall>x \<in> set Us. x \<noteq> [] \<and> (\<forall>r. skip_space (x @ r) = x @ r)"
      using Us by (auto simp: list_all2_conv_all_nth in_set_conv_nth reads_def)
    then have skip: "skip_space (ws1 @ ?rest) = ?rest"
      using skip_blank [OF ws(1)] join_starts [of Us "'','' @ ws1" "ws2 @ CHR '']'' # r"] UV by simp
    have "json_value j (T @ CHR '','' # ws1 @ ?rest) = Some (v, CHR '','' # ws1 @ ?rest)"
      using readsD(3) [OF T j delimiter_ends [of "[]"]] by (simp add: blank_def)
    moreover have "skip_space (CHR '','' # ws1 @ ?rest) = CHR '','' # ws1 @ ?rest"
      using delimiter_skip [of "[]"] by (simp add: blank_def)
    ultimately show ?thesis
      using IH skip UV by (simp add: n Ts)
  qed
qed simp

text \<open>A member is a quoted key, a colon with space after it, and a value.\<close>

definition member_text :: "string \<Rightarrow> string \<Rightarrow> string \<Rightarrow> string" where
  "member_text ws key T = json_str key @ CHR '':'' # ws @ T"

lemma member_text_starts: "member_text ws key T \<noteq> []" "skip_space (member_text ws key T @ r) = member_text ws key T @ r"
  by (simp_all add: member_text_def json_str_def skip_space_def json_space_def)

lemma member_step:
  assumes T: "reads T v" "length T \<le> n" and ws: "blank ws" "blank ws'" and e: "e = CHR ''}'' \<or> e = CHR '',''"
  shows "json_members (Suc n) (member_text ws key T @ ws' @ e # u) =
      (if e = CHR ''}'' then Some ([(key, v)], u)
       else map_option (apfst ((#) (key, v))) (json_members n (skip_space u)))"
proof -
  have lhs: "member_text ws key T @ ws' @ e # u =
      CHR 34 # concat (map json_char key) @ CHR 34 # CHR '':'' # ws @ T @ ws' @ e # u"
    by (simp add: member_text_def json_str_def)
  have colon: "skip_space (CHR '':'' # s) = CHR '':'' # s" for s using delimiter_skip [of "[]"] by (simp add: blank_def)
  have inner: "skip_space (ws @ T @ ws' @ e # u) = T @ ws' @ e # u" using skip_blank [OF ws(1)] readsD(2) [OF T(1)] by simp
  have e1: "e \<in> {CHR '','', CHR '']'', CHR ''}''}" and e2: "e \<in> {CHR '','', CHR '']'', CHR ''}'', CHR '':''}"
    using e by auto
  have v: "json_value n (T @ ws' @ e # u) = Some (v, ws' @ e # u)" and d: "skip_space (ws' @ e # u) = e # u"
    by (rule readsD(3) [OF T delimiter_ends [OF ws(2) e1]], rule delimiter_skip [OF ws(2) e2])
  have "json_members (Suc n) (CHR 34 # concat (map json_char key) @ CHR 34 # CHR '':'' # ws @ T @ ws' @ e # u) =
      (if e = CHR ''}'' then Some ([(key, v)], u)
       else if e = CHR '','' then map_option (apfst ((#) (key, v))) (json_members n (skip_space u)) else None)"
    by (simp add: json_string_str colon inner v d del: json_value.simps)
  then show ?thesis using e unfolding lhs by (simp split: if_splits)
qed

lemma members_read:
  assumes "kvs \<noteq> []" and "list_all2 (\<lambda>T kv. reads T (snd kv)) Ts kvs" and ws: "blank ws" "blank ws1" "blank ws2"
    and "length (join ('','' @ ws1) (map2 (\<lambda>T kv. member_text ws (fst kv) T) Ts kvs)) < n"
  shows "json_members n (join ('','' @ ws1) (map2 (\<lambda>T kv. member_text ws (fst kv) T) Ts kvs) @ ws2 @ CHR ''}'' # r) = Some (kvs, r)"
  using assms(1,2,6)
proof (induction kvs arbitrary: Ts n)
  case (Cons kv kvs)
  let ?text = "\<lambda>Ts kvs. map2 (\<lambda>T kv. member_text ws (fst kv) T) Ts kvs"
  obtain key v where kv: "kv = (key, v)" by (cases kv)
  from Cons.prems kv obtain T Us where Ts: "Ts = T # Us" and T: "reads T v" and Us: "list_all2 (\<lambda>T kv. reads T (snd kv)) Us kvs"
    by (auto simp: list_all2_Cons2)
  obtain j where n: "n = Suc j" using Cons.prems(3) by (cases n) auto
  have "length (member_text ws key T) \<le> j"
    using Cons.prems(3) length_join_Cons(1) [of "member_text ws key T" "'','' @ ws1" "?text Us kvs"] n Ts kv by simp
  then have j: "length T \<le> j" by (simp add: member_text_def)
  show ?case
  proof (cases kvs)
    case Nil
    then show ?thesis
      using member_step [OF T j ws(1,3), of "CHR ''}''" key r] Us by (simp add: n Ts kv)
  next
    case (Cons a b)
    then obtain U Vs where UV: "Us = U # Vs" using Us by (cases Us) auto
    let ?rest = "join ('','' @ ws1) (?text Us kvs) @ ws2 @ CHR ''}'' # r"
    have more: "length (join ('','' @ ws1) (?text Us kvs)) < j"
      using Cons.prems(3) UV Cons unfolding n Ts kv by (simp add: member_text_def)
    have IH: "json_members j ?rest = Some (kvs, r)"
      using Cons.IH [OF _ Us more] Cons by simp
    have "skip_space (ws1 @ ?rest) = ?rest"
      using member_text_starts
      by (intro trans [OF skip_blank [OF ws(2)]] join_starts) (auto simp: UV Cons)
    moreover have "join ('','' @ ws1) (?text Ts (kv # kvs)) @ ws2 @ CHR ''}'' # r = member_text ws key T @ [] @ CHR '','' # ws1 @ ?rest"
      by (simp add: Ts kv UV Cons)
    ultimately show ?thesis
      using member_step [OF T j ws(1), of "[]" "CHR '',''" key "ws1 @ ?rest"] IH by (simp add: n kv blank_def)
  qed
qed simp

subsection \<open>The writer's texts are read\<close>

lemma reads_scalar: "json_scalar v \<Longrightarrow> reads (json_pretty k v l) v"
proof -
  assume v: "json_scalar v"
  have ne: "json_pretty k v l \<noteq> []"
    using json_pretty_nonspace [OF v, of k l] show_nat_digits [of "nat \<bar>i\<bar>" for i]
    by (cases v) (auto simp: json_str_def show_int_def show_nat_digits split: if_splits)
  have "json_value n (json_pretty k v l @ r) = Some (v, r)" if "length (json_pretty k v l) \<le> n" "ends_number r" for n r
    using ne that json_value_scalar [OF v that(2), of "n - 1" k l] by (cases n) simp_all
  then show ?thesis using ne json_pretty_nonspace [OF v] by (simp add: reads_def)
qed

lemma bracket_skip: "skip_space (CHR ''['' # s) = CHR ''['' # s" "skip_space (CHR ''{'' # s) = CHR ''{'' # s"
  by (simp_all add: skip_space_def json_space_def)

text \<open>An array and an object whose parts are read, with any spaces between them.\<close>

lemma reads_array:
  assumes "xs \<noteq> []" and Ts: "list_all2 reads Ts xs" and ws: "blank ws0" "blank ws1" "blank ws2"
    and close: "\<And>r. \<not> startswith (hd Ts @ r) '']''"
  shows "reads (''['' @ ws0 @ join ('','' @ ws1) Ts @ ws2 @ '']'') (PList xs)"
proof -
  let ?body = "join ('','' @ ws1) Ts"
  obtain T Us where T: "Ts = T # Us" using assms(1) Ts by (cases Ts) auto
  have "\<forall>x \<in> set Ts. x \<noteq> [] \<and> (\<forall>r. skip_space (x @ r) = x @ r)"
    using Ts by (auto simp: list_all2_conv_all_nth in_set_conv_nth reads_def)
  then have skip: "skip_space (ws0 @ ?body @ r) = ?body @ r" for r
    using skip_blank [OF ws(1)] join_starts [of Ts] T by simp
  have hd: "\<not> startswith (?body @ r) '']''" for r
  proof -
    obtain q where "?body @ r = hd Ts @ q" using T by (cases Us) auto
    then show ?thesis using close [of q] by (simp only: not_False_eq_True)
  qed
  have "json_value n (CHR ''['' # ws0 @ ?body @ ws2 @ CHR '']'' # r) = Some (PList xs, r)"
    if "length (''['' @ ws0 @ ?body @ ws2 @ '']'') \<le> n" for n r
  proof -
    from that obtain m where n: "n = Suc m" by (cases n) auto
    have "json_items m (?body @ ws2 @ CHR '']'' # r) = Some (xs, r)"
      using that n by (intro items_read [OF assms(1) Ts ws(2,3)]) simp
    then show ?thesis using skip hd by (simp add: n del: json_items.simps)
  qed
  then show ?thesis by (simp add: reads_def bracket_skip)
qed

lemma reads_object:
  assumes "kvs \<noteq> []" and "distinct (map fst kvs)" and Ts: "list_all2 (\<lambda>T kv. reads T (snd kv)) Ts kvs"
    and ws: "blank ws" "blank ws0" "blank ws1" "blank ws2"
  shows "reads (''{'' @ ws0 @ join ('','' @ ws1) (map2 (\<lambda>T kv. member_text ws (fst kv) T) Ts kvs) @ ws2 @ ''}'') (PDict kvs)"
proof -
  let ?ms = "map2 (\<lambda>T kv. member_text ws (fst kv) T) Ts kvs"
  let ?body = "join ('','' @ ws1) ?ms"
  obtain m ms where M: "?ms = m # ms" using assms(1) Ts by (cases Ts; cases kvs) auto
  have "\<forall>x \<in> set ?ms. x \<noteq> [] \<and> (\<forall>r. skip_space (x @ r) = x @ r)" using member_text_starts by auto
  then have skip: "skip_space (ws0 @ ?body @ r) = ?body @ r" for r
    using skip_blank [OF ws(2)] join_starts [of ?ms "'','' @ ws1" r] M by simp
  have "\<exists>q. m = CHR 34 # q" using M assms(1) Ts by (cases Ts; cases kvs) (auto simp: member_text_def json_str_def)
  then have hd: "\<not> startswith (?body @ r) ''}''" for r
    unfolding M by (cases ms) (auto simp: startswith_def)
  have "json_value n (CHR ''{'' # ws0 @ ?body @ ws2 @ CHR ''}'' # r) = Some (PDict kvs, r)"
    if "length (''{'' @ ws0 @ ?body @ ws2 @ ''}'') \<le> n" for n r
  proof -
    from that obtain m where n: "n = Suc m" by (cases n) auto
    have "json_members m (?body @ ws2 @ CHR ''}'' # r) = Some (kvs, r)"
      using that n by (intro members_read [OF assms(1) Ts ws(1,3,4)]) simp
    then show ?thesis using skip hd dict_of_distinct [OF assms(2)] by (simp add: n del: json_members.simps)
  qed
  then show ?thesis by (simp add: reads_def bracket_skip)
qed

lemma pretty_open: "\<not> startswith (json_pretty k v l @ r) '']''"
proof (cases "json_scalar v")
  case True
  then have "reads (json_pretty k v l) v" by (rule reads_scalar)
  then have "json_value (length (json_pretty k v l)) (json_pretty k v l) = Some (v, [])"
    using readsD(3) [of "json_pretty k v l" v _ "[]"] by (simp add: ends_number_def)
  show ?thesis
  proof
    assume "startswith (json_pretty k v l @ r) '']''"
    moreover obtain c t where ct: "json_pretty k v l = c # t"
      using readsD(1) [OF \<open>reads (json_pretty k v l) v\<close>] by (cases "json_pretty k v l") auto
    ultimately have "c = CHR '']''" by (simp add: startswith_def)
    then show False
      using \<open>json_value _ _ = _\<close> ct by (simp add: startswith_def json_number_def json_digits_def is_digit_def)
  qed
next
  case False
  then show ?thesis by (cases v) (auto simp: startswith_def)
qed

theorem reads_pretty: "canonical_json v \<Longrightarrow> reads (json_pretty k v l) v"
proof (induction v arbitrary: l)
  case (PList xs)
  show ?case
  proof (cases "xs = []")
    case True
    have "json_value n (CHR ''['' # CHR '']'' # r) = Some (PList [], r)" if "2 \<le> n" for n r
      using that by (cases n) (simp_all add: skip_space_def json_space_def startswith_def)
    then show ?thesis using True by (simp add: reads_def bracket_skip)
  next
    case False
    let ?Ts = "map (\<lambda>x. json_pretty k x (Suc l)) xs"
    have "list_all2 reads ?Ts xs"
      using PList by (auto simp: list_all2_conv_all_nth list_all_iff in_set_conv_nth)
    moreover have "hd ?Ts = json_pretty k (hd xs) (Suc l)" using False by (cases xs) simp_all
    ultimately have "reads (''['' @ newline (k * Suc l) @ join ('','' @ newline (k * Suc l)) ?Ts @ newline (k * l) @ '']'') (PList xs)"
      using reads_array [OF False _ blank_newline blank_newline blank_newline] pretty_open by metis
    then show ?thesis using False by (simp add: comp_def)
  qed
next
  case (PDict kvs)
  show ?case
  proof (cases "kvs = []")
    case True
    have "json_value n (CHR ''{'' # CHR ''}'' # r) = Some (PDict [], r)" if "2 \<le> n" for n r
      using that by (cases n) (simp_all add: skip_space_def json_space_def startswith_def)
    then show ?thesis using True by (simp add: reads_def bracket_skip)
  next
    case False
    have canon: "sorted (map fst kvs)" "distinct (map fst kvs)" "\<forall>(key, v) \<in> set kvs. canonical_json v"
      using PDict.prems by (auto simp: list_all_iff)
    let ?Ts = "map (\<lambda>kv. json_pretty k (snd kv) (Suc l)) kvs"
    have "reads (json_pretty k v (Suc l)) v" if "(key, v) \<in> set kvs" for key v
      using PDict.IH [of "(key, v)" v] canon(3) that by (auto intro: snds.intros)
    then have "list_all2 (\<lambda>T kv. reads T (snd kv)) ?Ts kvs"
      by (auto simp: list_all2_conv_all_nth) (metis nth_mem prod.collapse)
    then have "reads (''{'' @ newline (k * Suc l) @ join ('','' @ newline (k * Suc l))
        (map2 (\<lambda>T kv. member_text '' '' (fst kv) T) ?Ts kvs) @ newline (k * l) @ ''}'') (PDict kvs)"
      by (intro reads_object [OF False canon(2)] blank_newline) (simp_all add: blank_def json_space_def)
    moreover have "map2 (\<lambda>T kv. member_text '' '' (fst kv) T) ?Ts kvs =
        map (\<lambda>(key, v). json_str key @ '': '' @ v (Suc l)) (map (map_prod id (json_pretty k)) kvs)"
      by (auto simp: member_text_def map2_map_map zip_map1 zip_same_conv_map)
    moreover have "sort_key fst (map (map_prod id (json_pretty k)) kvs) = map (map_prod id (json_pretty k)) kvs"
      using canon(1) by (simp add: sort_key_id_if_sorted comp_def)
    ultimately show ?thesis using False by simp
  qed
qed (rule reads_scalar, simp)+

theorem json_loads_printed:
  assumes "keys_distinct v" and ws: "blank ws"
  shows "json_loads (json_dumps_indent k v @ ws) = Some (json_sorted v)"
proof -
  let ?T = "json_pretty k (json_sorted v) 0"
  have T: "reads ?T (json_sorted v)" using reads_pretty [OF sorted_canonical [OF assms(1)]] .
  have "json_dumps_indent k v = ?T" by (simp add: json_dumps_indent_def pretty_sorted)
  moreover have "ends_number ws" using ws by (cases ws) (auto simp: blank_def space_ends, simp add: ends_number_def)
  moreover have "skip_space ws = []" using skip_blank [OF ws, of "[]"] by (simp add: skip_space_def)
  ultimately show ?thesis
    using readsD(2) [OF T, of ws] readsD(3) [OF T, of "Suc (length (?T @ ws))" ws] by (simp add: json_loads_def)
qed

theorem json_loads_pretty:
  "keys_distinct v \<Longrightarrow> json_loads (json_dumps_indent k v) = Some (json_sorted v)"
  using json_loads_printed [of v "[]" k] by (simp add: blank_def)

text \<open>A flat object, such as a manifest.\<close>

corollary json_loads_dumps:
  assumes "kvs \<noteq> []" and "distinct (map fst kvs)" and scalars: "\<forall>(key, v) \<in> set kvs. json_scalar v"
  shows "json_loads (json_dumps_indent k (PDict kvs)) = Some (PDict (sort_key fst kvs))"
proof -
  have flat: "json_scalar v \<Longrightarrow> json_sorted v = v \<and> keys_distinct v" for v by (cases v) simp_all
  then have "map (map_prod id json_sorted) kvs = kvs"
    using scalars by (auto intro!: map_idI)
  moreover have "keys_distinct (PDict kvs)" using assms(2) scalars flat by (auto simp: list_all_iff)
  ultimately show ?thesis by (simp add: json_loads_pretty)
qed

end
