(* ===== verification/Snapshots.thy ===== *)
theory Snapshots
  imports Export_Gate Iso_Format Json_Roundtrip
begin

section \<open>Snapshots\<close>

text \<open>
  \<open>labos/storage/snapshots.py\<close>. A snapshot is an archive of a lab's workspace with a manifest beside it;
  restoring empties the workspace of the target lab and extracts the archive into it. What is left of
  an archive whose writing failed is modelled as an empty file. Text files are ASCII, as the manifests
  the manager writes.
\<close>

subsection \<open>Manifests\<close>

record SnapshotMetadata =
  sm_snapshot_id :: string
  sm_lab_id :: string
  sm_run_id :: "string option"
  sm_profile_name :: string
  sm_runtime_class :: string
  sm_state :: string
  sm_backend_ref :: string
  sm_manifest_path :: string
  sm_sha256 :: string
  sm_size_bytes :: int
  sm_workspace_path :: string
  sm_created_at :: string
  sm_restored_at :: "string option"
  sm_restored_lab_id :: "string option"

definition to_dict :: "SnapshotMetadata \<Rightarrow> (string \<times> pyval) list" where
  "to_dict m =
     [(''snapshot_id'', PStr (sm_snapshot_id m)),
      (''lab_id'', PStr (sm_lab_id m)),
      (''run_id'', opt_str (sm_run_id m)),
      (''profile_name'', PStr (sm_profile_name m)),
      (''runtime_class'', PStr (sm_runtime_class m)),
      (''state'', PStr (sm_state m)),
      (''backend_ref'', PStr (sm_backend_ref m)),
      (''manifest_path'', PStr (sm_manifest_path m)),
      (''sha256'', PStr (sm_sha256 m)),
      (''size_bytes'', PInt (sm_size_bytes m)),
      (''workspace_path'', PStr (sm_workspace_path m)),
      (''created_at'', PStr (sm_created_at m)),
      (''restored_at'', opt_str (sm_restored_at m)),
      (''restored_lab_id'', opt_str (sm_restored_lab_id m))]"

text \<open>\<open>int(value)\<close> of what a JSON document can hold.\<close>

definition unsigned_int :: "string \<Rightarrow> int option" where
  "unsigned_int s =
     (let groups = split_on (CHR ''_'') s
      in if list_all (\<lambda>g. g \<noteq> [] \<and> list_all is_digit g) groups then Some (int (nat_of_digits (concat groups)))
         else None)"

definition int_of_string :: "string \<Rightarrow> int option" where
  "int_of_string s =
     (let t = strip s
      in if startswith t ''-'' then map_option uminus (unsigned_int (tl t))
         else if startswith t ''+'' then unsigned_int (tl t) else unsigned_int t)"

definition py_int :: "pyval \<Rightarrow> exn + int" where
  "py_int v =
     (case v of
        PInt i \<Rightarrow> Inr i
      | PBool b \<Rightarrow> Inr (if b then 1 else 0)
      | PStr s \<Rightarrow>
          (case int_of_string s of
             None \<Rightarrow> Inl (ValueError (''invalid literal for int() with base 10: '' @ repr_str s)) | Some i \<Rightarrow> Inr i)
      | _ \<Rightarrow> Inl (TypeError ''int() argument must be a string, a bytes-like object or a real number''))"

text \<open>\<open>payload[key]\<close> and \<open>payload.get(key)\<close>.\<close>

definition item :: "pyval \<Rightarrow> string \<Rightarrow> exn + pyval" where
  "item payload key =
     (case payload of
        PDict kvs \<Rightarrow> (case map_of kvs key of None \<Rightarrow> Inl (KeyError key) | Some v \<Rightarrow> Inr v)
      | _ \<Rightarrow> Inl (TypeError ''object is not subscriptable by a string''))"

definition optional_string :: "pyval \<Rightarrow> string option" where
  "optional_string v = (if v = PNone then None else Some (py_str v))"

definition str_item :: "pyval \<Rightarrow> string \<Rightarrow> exn + string" where
  "str_item payload key = result_bind (item payload key) (\<lambda>v. Inr (py_str v))"

definition opt_item :: "pyval \<Rightarrow> string \<Rightarrow> string option" where
  "opt_item payload key = (case item payload key of Inl e \<Rightarrow> None | Inr v \<Rightarrow> optional_string v)"

definition from_dict :: "pyval \<Rightarrow> exn + SnapshotMetadata" where
  "from_dict payload =
     result_bind (str_item payload ''snapshot_id'') (\<lambda>snapshot_id.
     result_bind (str_item payload ''lab_id'') (\<lambda>lab.
     result_bind (str_item payload ''profile_name'') (\<lambda>profile_name.
     result_bind (str_item payload ''runtime_class'') (\<lambda>runtime_class.
     result_bind (str_item payload ''state'') (\<lambda>state.
     result_bind (str_item payload ''backend_ref'') (\<lambda>backend_ref.
     result_bind (str_item payload ''manifest_path'') (\<lambda>manifest_path.
     result_bind (str_item payload ''sha256'') (\<lambda>sha256.
     result_bind (result_bind (item payload ''size_bytes'') py_int) (\<lambda>size_bytes.
     result_bind (str_item payload ''workspace_path'') (\<lambda>workspace_path.
     result_bind (str_item payload ''created_at'') (\<lambda>created.
     Inr \<lparr>sm_snapshot_id = snapshot_id, sm_lab_id = lab, sm_run_id = opt_item payload ''run_id'',
          sm_profile_name = profile_name, sm_runtime_class = runtime_class, sm_state = state,
          sm_backend_ref = backend_ref, sm_manifest_path = manifest_path, sm_sha256 = sha256,
          sm_size_bytes = size_bytes, sm_workspace_path = workspace_path, sm_created_at = created,
          sm_restored_at = opt_item payload ''restored_at'',
          sm_restored_lab_id = opt_item payload ''restored_lab_id''\<rparr>)))))))))))"

definition manifest_text :: "SnapshotMetadata \<Rightarrow> string" where
  "manifest_text m = json_dumps_indent 2 (PDict (to_dict m))"

subsection \<open>Where a manifest lies\<close>

text \<open>\<open>PurePath.suffixes\<close>, \<open>suffix\<close> and \<open>with_suffix\<close>, on the last component.\<close>

definition suffixes :: "string \<Rightarrow> string list" where
  "suffixes n = (if n \<noteq> [] \<and> last n = CHR ''.'' then []
     else map ((#) (CHR ''.'')) (tl (split_on (CHR ''.'') (dropWhile (\<lambda>c. c = CHR ''.'') n))))"

definition suffix_of :: "string \<Rightarrow> string" where
  "suffix_of n =
     (let s = last (split_on (CHR ''.'') n)
      in if CHR ''.'' \<in> set n \<and> s \<noteq> [] \<and> Suc (length s) < length n then CHR ''.'' # s else [])"

definition with_suffix :: "path \<Rightarrow> string \<Rightarrow> exn + path" where
  "with_suffix p s =
     (if p = [] then Inl (ValueError ''path has an empty name'')
      else Inr (butlast p @ [take (length (last p) - length (suffix_of (last p))) (last p) @ s]))"

definition manifest_path_for :: "path \<Rightarrow> string \<Rightarrow> exn + path" where
  "manifest_path_for here backend_ref =
     (let p = os_path here backend_ref; ss = suffixes (path_name p)
      in if drop (length ss - 2) ss = [''.tar'', ''.gz'']
         then result_bind (with_suffix p []) (\<lambda>p. with_suffix p ''.json'')
         else with_suffix p ''.json'')"

subsection \<open>The snapshot manager\<close>

definition ensure_runtime_supported :: "string \<Rightarrow> exn + unit" where
  "ensure_runtime_supported runtime_class =
     check (runtime_class = runtime_value CONTAINER)
       (UnsupportedSnapshotRuntimeError ''only container snapshots are supported in Phase 1'')"

definition clear_entry :: "path \<Rightarrow> unit prog" where
  "clear_entry child =
     bnd (gets fsys) (\<lambda>fs.
       if is_dir fs child then fs_call (\<lambda>fs. rmtree fs child) else fs_call (\<lambda>fs. unlink fs child))"

definition clear_directory :: "env \<Rightarrow> path \<Rightarrow> unit prog" where
  "clear_directory E p =
     bnd (gets fsys) (\<lambda>fs.
     bnd (liftR (iterdir (listdir E) fs p)) (\<lambda>names.
     for_each (\<lambda>c. clear_entry (p @ [c])) names))"

definition hash_snapshot_file :: "path \<Rightarrow> string prog" where
  "hash_snapshot_file p =
     bnd (gets fsys) (\<lambda>fs.
     bnd (require (read_file fs p) (OSError ''No such file or directory'')) (\<lambda>c.
     returns (sha256_hex (read_loop (1024 * 1024) [] c))))"

definition create_snapshot :: "env \<Rightarrow> string \<Rightarrow> LabRow \<Rightarrow> LabStorageRow \<Rightarrow> string option \<Rightarrow> SnapshotMetadata prog" where
  "create_snapshot E snapshot_id lab storage rid =
     bnd (liftR (ensure_runtime_supported (lab_runtime_class lab))) (\<lambda>_.
     (let snapshots_root = os_path (cwd E) (sto_snapshots_path storage);
          archive_path = path_join snapshots_root (snapshot_id @ ''.tar.gz'');
          manifest_path = path_join snapshots_root (snapshot_id @ ''.json'');
          workspace_path = os_path (cwd E) (sto_workspace_path storage)
      in bnd (fs_call (\<lambda>fs. mkdir_p fs snapshots_root)) (\<lambda>_.
         bnd (fs_call (\<lambda>fs. write_file fs archive_path [])) (\<lambda>_.
         bnd (gets fsys) (\<lambda>fs.
         bnd (liftR (tar_members (listdir E) fs archive_path workspace_path ''workspace'')) (\<lambda>members.
         bnd (fs_call (\<lambda>fs. write_file fs archive_path (tar_pack E members))) (\<lambda>_.
         bnd (hash_snapshot_file archive_path) (\<lambda>hexdigest.
         bnd (stat_size archive_path) (\<lambda>size.
         bnd (utc_now E) (\<lambda>now.
         (let metadata =
            \<lparr>sm_snapshot_id = snapshot_id, sm_lab_id = lab_id lab, sm_run_id = rid,
             sm_profile_name = lab_profile_name lab, sm_runtime_class = lab_runtime_class lab,
             sm_state = ''created'', sm_backend_ref = path_str archive_path,
             sm_manifest_path = path_str manifest_path, sm_sha256 = hexdigest, sm_size_bytes = size,
             sm_workspace_path = path_str workspace_path, sm_created_at = isoformat now,
             sm_restored_at = None, sm_restored_lab_id = None\<rparr>
          in bnd (fs_call (\<lambda>fs. write_file fs manifest_path (manifest_text metadata))) (\<lambda>_.
             returns metadata))))))))))))"

definition load_metadata :: "env \<Rightarrow> SnapshotRow \<Rightarrow> SnapshotMetadata option prog" where
  "load_metadata E row =
     bnd (liftR (manifest_path_for (cwd E) (snap_backend_ref row))) (\<lambda>manifest_path.
     bnd (gets fsys) (\<lambda>fs.
       if \<not> path_exists fs manifest_path then returns None
       else bnd (require (read_file fs manifest_path) (OSError ''Is a directory'')) (\<lambda>content.
            bnd (require (json_loads content)
                   (SnapshotMetadataError ''snapshot manifest is not valid JSON'')) (\<lambda>payload.
            bnd (liftR (from_dict payload)) (\<lambda>metadata.
            returns (Some metadata))))))"

text \<open>The two loops over the members of an archive.\<close>

definition check_member :: "path \<Rightarrow> tar_member \<Rightarrow> unit prog" where
  "check_member extract_root m =
     bnd (resolve_path (path_join extract_root (fst m))) (\<lambda>member_path.
     guard (prefix extract_root member_path) (SnapshotMetadataError ''snapshot archive contains an unsafe path''))"

definition extract_member :: "path \<Rightarrow> tar_member \<Rightarrow> unit prog" where
  "extract_member dest m =
     bnd (gets fsys) (\<lambda>fs.
     bnd (liftR (data_filter fs dest m)) (\<lambda>_.
     bnd (fs_call (make_upper dest m)) (\<lambda>_.
     fs_call (make_member dest m))))"

text \<open>What is done when the workspace of the target has another name than the archived one.\<close>

definition move_extracted :: "env \<Rightarrow> path \<Rightarrow> path \<Rightarrow> unit prog" where
  "move_extracted E workspace_path extracted_workspace =
     bnd (clear_directory E workspace_path) (\<lambda>_.
     bnd (gets fsys) (\<lambda>fs.
     bnd (liftR (iterdir (listdir E) fs extracted_workspace)) (\<lambda>names.
     bnd (for_each (\<lambda>c. fs_call (\<lambda>fs.
            replace_path (listdir E) fs (extracted_workspace @ [c]) (workspace_path @ [c]))) names) (\<lambda>_.
     fs_call (\<lambda>fs. rmdir (listdir E) fs extracted_workspace)))))"

definition restore_snapshot :: "env \<Rightarrow> SnapshotRow \<Rightarrow> LabRow \<Rightarrow> LabStorageRow \<Rightarrow> SnapshotMetadata prog" where
  "restore_snapshot E row target_lab target_storage =
     bnd (load_metadata E row) (\<lambda>found.
     bnd (require found (SnapshotMetadataError ''snapshot manifest is missing'')) (\<lambda>metadata.
     bnd (liftR (ensure_runtime_supported (sm_runtime_class metadata))) (\<lambda>_.
     bnd (liftR (ensure_runtime_supported (lab_runtime_class target_lab))) (\<lambda>_.
     (let archive_path = os_path (cwd E) (sm_backend_ref metadata);
          workspace_path = os_path (cwd E) (sto_workspace_path target_storage)
      in bnd (gets fsys) (\<lambda>fs.
         bnd (guard (path_exists fs archive_path) (SnapshotMetadataError ''snapshot archive is missing'')) (\<lambda>_.
         bnd (fs_call (\<lambda>fs. mkdir_p fs workspace_path)) (\<lambda>_.
         bnd (clear_directory E workspace_path) (\<lambda>_.
         bnd (resolve_path (butlast workspace_path)) (\<lambda>extract_root.
         bnd (gets fsys) (\<lambda>fs.
         bnd (require (read_file fs archive_path) (OSError ''No such file or directory'')) (\<lambda>bytes.
         bnd (require (tar_unpack E bytes) (TarError ''not a gzip file'')) (\<lambda>members.
         bnd (for_each (check_member extract_root) members) (\<lambda>_.
         bnd (for_each (extract_member extract_root) members) (\<lambda>_.
         bnd (gets fsys) (\<lambda>fs.
         bnd (if butlast workspace_path @ [''workspace''] \<noteq> workspace_path \<and>
                 path_exists fs (butlast workspace_path @ [''workspace''])
              then move_extracted E workspace_path (butlast workspace_path @ [''workspace''])
              else returns ()) (\<lambda>_.
         bnd (utc_now E) (\<lambda>now.
         (let restored = metadata\<lparr>sm_state := ''restored'', sm_restored_at := Some (isoformat now),
                                  sm_restored_lab_id := Some (lab_id target_lab)\<rparr>
          in bnd (fs_call (\<lambda>fs. write_file fs (os_path (cwd E) (sm_manifest_path metadata))
                     (manifest_text restored))) (\<lambda>_.
             returns restored))))))))))))))))))))"


subsection \<open>A manifest reads back\<close>

lemma to_dict_keys: "distinct (map fst (to_dict m))"
  by (simp add: to_dict_def)

lemma to_dict_scalars: "\<forall>(key, v) \<in> set (to_dict m). json_scalar v"
  by (simp add: to_dict_def opt_str_def split: option.splits)

lemma map_of_sort_key:
  assumes "distinct (map fst kvs)"
  shows "map_of (sort_key fst kvs) = map_of kvs"
proof (rule map_of_inject_set [THEN iffD2])
  show "distinct (map fst (sort_key fst kvs))" using assms by (simp add: distinct_map)
qed (simp_all add: assms)

lemma optional_opt_str [simp]: "optional_string (opt_str x) = x"
  by (simp add: optional_string_def opt_str_def split: option.splits)

lemma from_dict_to_dict:
  assumes "map_of kvs = map_of (to_dict m)"
  shows "from_dict (PDict kvs) = Inr m"
proof -
  have "item (PDict kvs) k = (case map_of (to_dict m) k of None \<Rightarrow> Inl (KeyError k) | Some v \<Rightarrow> Inr v)" for k
    by (simp add: item_def assms)
  then show ?thesis
    by (simp add: from_dict_def str_item_def opt_item_def to_dict_def py_int_def)
qed

lemma manifest_round_trip:
  "json_loads (manifest_text m) = Some (PDict (sort_key fst (to_dict m)))"
  "from_dict (PDict (sort_key fst (to_dict m))) = Inr m"
proof -
  have "to_dict m \<noteq> []" by (simp add: to_dict_def)
  then show "json_loads (manifest_text m) = Some (PDict (sort_key fst (to_dict m)))"
    unfolding manifest_text_def using json_loads_dumps to_dict_keys to_dict_scalars by blast
  show "from_dict (PDict (sort_key fst (to_dict m))) = Inr m"
    by (rule from_dict_to_dict) (rule map_of_sort_key [OF to_dict_keys])
qed

subsection \<open>The manifest lies beside the archive\<close>

definition snapshot_name :: "string \<Rightarrow> bool" where
  "snapshot_name i \<longleftrightarrow> name_ok i \<and> CHR ''.'' \<notin> set i"

lemma snapshot_file_names:
  assumes "snapshot_name i"
  shows "name_ok (i @ ''.tar.gz'')" and "name_ok (i @ ''.json'')" and "name_ok (i @ ''.tar'')"
  using assms by (auto simp: snapshot_name_def name_ok_def)

lemma archive_suffixes: "snapshot_name i \<Longrightarrow> suffixes (i @ ''.tar.gz'') = [''.tar'', ''.gz'']"
proof -
  assume i: "snapshot_name i"
  then obtain c t where ct: "i = c # t" and "c \<noteq> CHR ''.''"
    by (cases i) (auto simp: snapshot_name_def name_ok_def)
  then have "dropWhile (\<lambda>c. c = CHR ''.'') (i @ ''.tar.gz'') = i @ CHR ''.'' # ''tar.gz''" by simp
  moreover have "split_on (CHR ''.'') (i @ CHR ''.'' # ''tar.gz'') = [i, ''tar'', ''gz'']"
    using i by (subst split_on_append) (simp_all add: snapshot_name_def)
  ultimately show ?thesis by (simp add: suffixes_def)
qed

lemma suffix_of_append:
  assumes "x \<noteq> []" and "CHR ''.'' \<notin> set s" and "s \<noteq> []"
  shows "suffix_of (x @ CHR ''.'' # s) = CHR ''.'' # s"
  using assms by (simp add: suffix_of_def split_on_snoc Let_def)

lemma with_suffix_append:
  assumes "x \<noteq> []" and "CHR ''.'' \<notin> set s" and "s \<noteq> []"
  shows "with_suffix (p @ [x @ CHR ''.'' # s]) t = Inr (p @ [x @ t])"
  using assms by (simp add: with_suffix_def suffix_of_append)

lemma manifest_path_for_archive:
  assumes "snapshot_name i" and "list_all name_ok p"
  shows "manifest_path_for here (path_str (p @ [i @ ''.tar.gz''])) = Inr (p @ [i @ ''.json''])"
proof -
  have i: "i \<noteq> []" using assms(1) by (simp add: snapshot_name_def name_ok_def)
  have "os_path here (path_str (p @ [i @ ''.tar.gz''])) = p @ [i @ ''.tar.gz'']"
    using assms snapshot_file_names [OF assms(1)] by (intro os_path_str) simp
  moreover have "with_suffix (p @ [i @ ''.tar.gz'']) [] = Inr (p @ [i @ ''.tar''])"
    using with_suffix_append [of "i @ ''.tar''" "''gz''" p "[]"] i by simp
  moreover have "with_suffix (p @ [i @ ''.tar'']) ''.json'' = Inr (p @ [i @ ''.json''])"
    using with_suffix_append [of i "''tar''" p "''.json''"] i by simp
  ultimately show ?thesis
    by (simp add: manifest_path_for_def path_name_def archive_suffixes [OF assms(1)])
qed

end
