(* ===== verification/Snapshot_Restore.thy ===== *)
theory Snapshot_Restore
  imports Snapshots
begin

section \<open>A restored workspace is the archived one\<close>

text \<open>
  The two halves of a snapshot put together. Under the layout the allocator makes, and for a workspace
  of directories and files, creating a snapshot writes an archive and a manifest and nothing else, and
  restoring it, at any later time at which both files are still there, makes the workspace of the target
  lab equal to the workspace that was archived, entry by entry.
\<close>

subsection \<open>Places\<close>

text \<open>A path that leads down directories only.\<close>

definition dir_path :: "fs \<Rightarrow> path \<Rightarrow> bool" where
  "dir_path fs p \<longleftrightarrow> canonical fs p \<and> (\<forall>q. prefix q p \<longrightarrow> entry fs q = Some Dir)"

lemma dir_path_prefix: "dir_path fs p \<Longrightarrow> prefix q p \<Longrightarrow> dir_path fs q"
  unfolding dir_path_def by (meson canonical_prefix prefix_order.trans)

lemma dir_path_entry: "dir_path fs p \<Longrightarrow> entry fs p = Some Dir"
  by (simp add: dir_path_def)

lemma dir_path_canonical: "dir_path fs p \<Longrightarrow> canonical fs p"
  by (simp add: dir_path_def)

lemma dir_path_realpath: "dir_path fs p \<Longrightarrow> realpath fs p = Some p"
  by (simp add: dir_path_def realpath_of_canonical)

lemma mkdirs_existing:
  "dir_path fs (cur @ cs) \<Longrightarrow> mkdirs fs cur cs = Inr fs"
proof (induction cs arbitrary: cur)
  case (Cons c cs)
  have pre: "prefix (cur @ [c]) (cur @ c # cs)" by simp
  have "entry fs (cur @ [c]) = Some Dir" using Cons.prems pre unfolding dir_path_def by blast
  then have "fs (cur @ [c]) = Some Dir" by (simp add: entry_def)
  moreover have "c \<noteq> ''..''" using Cons.prems by (auto simp: dir_path_def canonical_def)
  ultimately show ?case using Cons.IH [of "cur @ [c]"] Cons.prems by simp
qed simp

lemma mkdir_p_existing: "dir_path fs p \<Longrightarrow> mkdir_p fs p = Inr fs"
  by (simp add: mkdir_p_def mkdirs_existing)

lemma ready_in_dir:
  assumes "dir_path fs p" and "c \<noteq> ''..''" and "\<not> is_link fs (p @ [c])"
  shows "ready fs (p @ [c])"
  using assms by (simp add: ready_def canonical_snoc dir_path_canonical dir_path_entry)

lemma write_ready:
  "ready fs t \<Longrightarrow> fs t \<noteq> Some Dir \<Longrightarrow> write_file fs t c = Inr (fs(t \<mapsto> File c))"
  using ready_lresolve [of fs t] by (auto simp: write_file_def ready_def entry_def add_entry_def)

lemma read_canonical: "canonical fs t \<Longrightarrow> read_file fs t = (case entry fs t of Some (File c) \<Rightarrow> Some c | _ \<Rightarrow> None)"
  by (simp add: read_file_def stat_def realpath_of_canonical)

text \<open>An entry that is no link, written somewhere else, leaves canonical paths canonical.\<close>

lemma canonical_same: "canonical fs p \<Longrightarrow> (\<And>q. prefix q p \<Longrightarrow> is_link g q \<Longrightarrow> is_link fs q) \<Longrightarrow> canonical g p"
  unfolding canonical_def by blast

lemma dir_path_same: "dir_path fs p \<Longrightarrow> (\<And>q. prefix q p \<Longrightarrow> g q = fs q) \<Longrightarrow> dir_path g p"
  unfolding dir_path_def entry_def by (auto intro: canonical_same simp: is_link_def)

subsection \<open>Emptying a directory\<close>

definition removed :: "fs \<Rightarrow> path \<Rightarrow> string set \<Rightarrow> fs" where
  "removed fs q cs = (\<lambda>x. if \<exists>c \<in> cs. prefix (q @ [c]) x then None else fs x)"

definition emptied :: "fs \<Rightarrow> path \<Rightarrow> fs" where
  "emptied fs q = (\<lambda>x. if strict_prefix q x then None else fs x)"

lemma file_below:
  assumes "tree_ok fs q" and "fs (q @ [c]) \<noteq> Some Dir" and "r \<noteq> []"
  shows "fs (q @ c # r) = None"
proof -
  have "fs (q @ [c] @ r) = None"
    using assms(3)
  proof (induction r rule: rev_induct)
    case (snoc d r)
    have "fs (q @ c # r) \<noteq> Some Dir" using snoc.IH assms(2) by (cases "r = []") auto
    then have "entry fs (q @ c # r) \<noteq> Some Dir" by (simp add: entry_def)
    then show ?case using tree_ok_entry [OF assms(1), of "c # r" d] by (cases "fs (q @ c # r @ [d])") auto
  qed simp
  then show ?thesis by simp
qed

lemma removed_all:
  assumes "tree_ok fs q"
  shows "removed fs q {c. fs (q @ [c]) \<noteq> None} = emptied fs q"
proof
  fix x
  show "removed fs q {c. fs (q @ [c]) \<noteq> None} x = emptied fs q x"
  proof (cases "strict_prefix q x")
    case False
    then have "\<not> prefix (q @ [c]) x" for c
      by (auto simp: strict_prefix_def elim!: prefixE)
    with False show ?thesis by (simp add: removed_def emptied_def)
  next
    case True
    then obtain c r where x: "x = q @ c # r" by (auto elim: strict_prefixE')
    have "fs x = None" if "fs (q @ [c]) = None"
      using file_below [OF assms, of c r] that x by (cases "r = []") auto
    with True x show ?thesis by (auto simp: removed_def emptied_def)
  qed
qed

lemma clear_loop:
  assumes "tree_ok fs q" and "dir_path fs q" and "distinct cs" and "set cs \<subseteq> {c. fs (q @ [c]) \<noteq> None}"
    and "gone \<inter> set cs = {}" and "fsys w = removed fs q gone"
  shows "for_each (\<lambda>c. clear_entry (q @ [c])) cs w = (Inr (), w\<lparr>fsys := removed fs q (gone \<union> set cs)\<rparr>)"
  using assms(3-)
proof (induction cs arbitrary: gone w)
  case Nil
  have "w\<lparr>fsys := fsys w\<rparr> = w" by simp
  then show ?case using Nil.prems by (simp add: returns_def)
next
  case (Cons c cs)
  let ?g = "removed fs q gone"
  have there: "fs (q @ [] @ [c]) \<noteq> None" using Cons.prems(2) by simp
  note c = tree_ok_entry [OF assms(1) this]
  have same: "?g (q @ c # r) = fs (q @ c # r)" for r using Cons.prems(3) by (auto simp: removed_def)
  have up: "?g x = fs x" if "prefix x q" for x
    using that by (auto simp: removed_def dest!: prefix_length_le)
  have "dir_path ?g q" using assms(2) up by (rule dir_path_same)
  moreover have "\<not> is_link ?g (q @ [c])" using c same [of "[]"] by (simp add: is_link_def)
  ultimately have ready: "ready ?g (q @ [c])" using c by (intro ready_in_dir) simp_all
  note loc = ready_lresolve [OF ready]
  let ?h = "removed fs q (insert c gone)"
  have step: "(if is_dir ?g (q @ [c]) then rmtree ?g (q @ [c]) else unlink ?g (q @ [c])) = Inr ?h"
  proof (cases "fs (q @ [c]) = Some Dir")
    case True
    then have "is_dir ?g (q @ [c])" using loc same [of "[]"] by (simp add: is_dir_def stat_def entry_def)
    moreover have "rmtree ?g (q @ [c]) = Inr ?h"
      using True loc same [of "[]"] by (auto simp: rmtree_def entry_def removed_def fun_eq_iff)
    ultimately show ?thesis by simp
  next
    case False
    then obtain b where b: "fs (q @ [c]) = Some (File b)"
      using there c by (cases "fs (q @ [c])"; cases "the (fs (q @ [c]))") (auto simp: is_link_def)
    then have "\<not> is_dir ?g (q @ [c])" using loc same [of "[]"] by (simp add: is_dir_def stat_def entry_def)
    moreover have below: "r = []" if "fs (q @ c # r) = Some y" for r y
      using file_below [OF assms(1) False, of r] that by (cases "r = []") simp_all
    have "(\<lambda>x. if x = q @ [c] then None else ?g x) = ?h"
      by (auto simp: removed_def fun_eq_iff elim!: prefixE dest: below)
    then have "unlink ?g (q @ [c]) = Inr ?h"
      using b loc same [of "[]"] by (simp add: unlink_def lentry_def entry_def)
    ultimately show ?thesis by simp
  qed
  then have "clear_entry (q @ [c]) w = (Inr (), w\<lparr>fsys := ?h\<rparr>)"
    using Cons.prems(4) by (auto simp: clear_entry_def bnd_def gets_def fs_call_def split: if_splits)
  moreover have "for_each (\<lambda>c. clear_entry (q @ [c])) cs (w\<lparr>fsys := ?h\<rparr>) =
    (Inr (), w\<lparr>fsys := ?h\<rparr>\<lparr>fsys := removed fs q (insert c gone \<union> set cs)\<rparr>)"
    using Cons.prems by (intro Cons.IH) auto
  ultimately show ?case by (simp add: bnd_run)
qed

lemma clear_directory_run:
  assumes "faithful_listing (listdir E)" and "tree_ok (fsys w) q" and "dir_path (fsys w) q"
  shows "clear_directory E q w = (Inr (), w\<lparr>fsys := emptied (fsys w) q\<rparr>)"
proof -
  note kids = tree_ok_children [OF assms(1,2)]
  have "iterdir (listdir E) (fsys w) q = Inr (listdir E (fsys w) q)"
    using assms(3) by (simp add: iterdir_def dir_path_realpath dir_path_entry)
  moreover have "removed (fsys w) q {} = fsys w" by (simp add: removed_def)
  ultimately show ?thesis
    using clear_loop [OF assms(2,3), of "listdir E (fsys w) q" "{}" w] kids removed_all [OF assms(2)]
    by (simp add: clear_directory_def bnd_def gets_def liftR_def)
qed


subsection \<open>Extracting\<close>

lemma extract_loop:
  "extract_list dest ms (fsys w) = Inr g \<Longrightarrow> for_each (extract_member dest) ms w = (Inr (), w\<lparr>fsys := g\<rparr>)"
proof (induction ms arbitrary: w)
  case Nil
  then have "w\<lparr>fsys := g\<rparr> = w" by simp
  then show ?case by (simp add: returns_def)
next
  case (Cons m ms)
  then obtain h where h: "extract_steps dest m (fsys w) = Inr h" and rest: "extract_list dest ms h = Inr g"
    by (auto simp: result_bind_Inr_iff)
  then have "extract_member dest m w = (Inr (), w\<lparr>fsys := h\<rparr>)"
    by (auto simp: extract_steps_def extract_member_def result_bind_Inr_iff bnd_def gets_def liftR_def fs_call_def)
  moreover have "for_each (extract_member dest) ms (w\<lparr>fsys := h\<rparr>) = (Inr (), w\<lparr>fsys := h\<rparr>\<lparr>fsys := g\<rparr>)"
    using Cons.IH [of "w\<lparr>fsys := h\<rparr>"] rest by simp
  ultimately show ?case by (simp add: bnd_run)
qed

text \<open>The names in an archive of a tree: below its root, without parent steps.\<close>

lemma concat_results_in:
  "concat_results rs = Inr ys \<Longrightarrow> y \<in> set ys \<Longrightarrow> \<exists>xs. Inr xs \<in> set rs \<and> y \<in> set xs"
proof (induction rs arbitrary: ys)
  case (Cons r rs)
  then show ?case by (auto simp: result_bind_Inr_iff) blast+
qed simp

lemma tar_add_names:
  assumes "faithful_listing ls"
  shows "tar_add ls fs archive n p arc = Inr ms \<Longrightarrow> tree_ok fs p \<Longrightarrow> arcname_ok arc \<Longrightarrow> m \<in> set ms \<Longrightarrow>
    arcname_ok (fst m) \<and> (\<exists>r. path_parts (fst m) = path_parts arc @ r \<and> ''..'' \<notin> set r)"
proof (induction n arbitrary: p arc ms)
  case (Suc n)
  show ?case
  proof (cases "m \<in> set ms \<and> fst m = arc")
    case True
    then show ?thesis using Suc.prems(3) by auto
  next
    case False
    then have dir: "entry fs p = Some Dir" and ne: "p \<noteq> archive"
      using Suc.prems(1,4) by (auto split: if_splits option.splits node.splits)
    then obtain mss where "concat_results (map (\<lambda>c. tar_add ls fs archive n (p @ [c]) (arc @ CHR ''/'' # c)) (sort (ls fs p))) = Inr mss"
      and "m \<in> set mss" using Suc.prems(1,4) False by (auto simp: result_bind_Inr_iff)
    from concat_results_in [OF this] obtain c xs where c: "c \<in> set (ls fs p)"
      and xs: "tar_add ls fs archive n (p @ [c]) (arc @ CHR ''/'' # c) = Inr xs" "m \<in> set xs" by (auto simp: eq_commute)
    have "fs (p @ [] @ [c]) \<noteq> None" using c tree_ok_children [OF assms Suc.prems(2)] by simp
    note name = tree_ok_entry [OF Suc.prems(2) this]
    from Suc.IH [OF xs(1) tree_ok_child [OF Suc.prems(2)] arcname_child [OF Suc.prems(3)] xs(2)]
    obtain r where "arcname_ok (fst m)" "path_parts (fst m) = path_parts arc @ c # r" "''..'' \<notin> set r"
      using name by (auto simp: path_parts_snoc)
    then show ?thesis using name by (intro conjI exI [of _ "c # r"]) auto
  qed
qed simp

lemma check_loop:
  assumes "\<forall>m \<in> set ms. \<exists>t. realpath (fsys w) (path_join root (fst m)) = Some t \<and> prefix root t"
  shows "for_each (check_member root) ms w = (Inr (), w)"
  using assms
proof (induction ms)
  case (Cons m ms)
  then have "check_member root m w = (Inr (), w)"
    by (auto simp: check_member_def resolve_path_def bnd_def gets_def require_def guard_def check_def split: option.splits)
  then show ?case using Cons by (simp add: bnd_run)
qed (simp add: returns_def)


subsection \<open>Creating\<close>

abbreviation archive_in :: "path \<Rightarrow> string \<Rightarrow> path" where
  "archive_in root i \<equiv> root @ [i @ ''.tar.gz'']"

abbreviation manifest_in :: "path \<Rightarrow> string \<Rightarrow> path" where
  "manifest_in root i \<equiv> root @ [i @ ''.json'']"

text \<open>A workspace that can be archived: a tree of directories and files, not deeper than the recursion limit.\<close>

definition plain_workspace :: "fs \<Rightarrow> path \<Rightarrow> bool" where
  "plain_workspace fs q \<longleftrightarrow> dir_path fs q \<and> tree_ok fs q \<and>
     (\<forall>r. fs (q @ r) \<noteq> None \<longrightarrow> length r < recursion_limit)"

text \<open>The directory of snapshots, apart from the workspace, with the two names still free.\<close>

definition fresh_place :: "fs \<Rightarrow> path \<Rightarrow> string \<Rightarrow> path \<Rightarrow> bool" where
  "fresh_place fs root i workspace \<longleftrightarrow> snapshot_name i \<and> list_all name_ok root \<and> dir_path fs root \<and>
     fs (archive_in root i) = None \<and> fs (manifest_in root i) = None \<and> \<not> prefix workspace root"

lemma tree_ok_same: "tree_ok fs q \<Longrightarrow> (\<And>r. g (q @ r) = fs (q @ r)) \<Longrightarrow> tree_ok g q"
proof -
  assume tree: "tree_ok fs q" and same: "\<And>r. g (q @ r) = fs (q @ r)"
  have "entry g (q @ r) = entry fs (q @ r)" for r using same [of r] by (simp add: entry_def)
  then show "tree_ok g q" using tree unfolding tree_ok_def is_link_def same by simp
qed

lemma dir_path_add: "dir_path fs p \<Longrightarrow> \<not> prefix t p \<Longrightarrow> dir_path (fs(t \<mapsto> n)) p"
  by (erule dir_path_same) auto

lemma names_no_parent: "snapshot_name i \<Longrightarrow> i @ ''.tar.gz'' \<noteq> ''..'' \<and> i @ ''.json'' \<noteq> ''..'' \<and> i @ ''.tar.gz'' \<noteq> i @ ''.json''"
  by simp

definition created_metadata :: "env \<Rightarrow> string \<Rightarrow> LabRow \<Rightarrow> path \<Rightarrow> path \<Rightarrow> string option \<Rightarrow> tar_member list \<Rightarrow> datetime \<Rightarrow>
    SnapshotMetadata" where
  "created_metadata E i lab root workspace rid ms now =
     \<lparr>sm_snapshot_id = i, sm_lab_id = lab_id lab, sm_run_id = rid,
      sm_profile_name = lab_profile_name lab, sm_runtime_class = lab_runtime_class lab,
      sm_state = ''created'', sm_backend_ref = path_str (archive_in root i),
      sm_manifest_path = path_str (manifest_in root i), sm_sha256 = sha256_hex (tar_pack E ms),
      sm_size_bytes = int (length (tar_pack E ms)),
      sm_workspace_path = path_str workspace, sm_created_at = isoformat now,
      sm_restored_at = None, sm_restored_lab_id = None\<rparr>"

lemma created_metadata_sel [simp]:
  "sm_snapshot_id (created_metadata E i lab root ws rid ms now) = i"
  "sm_runtime_class (created_metadata E i lab root ws rid ms now) = lab_runtime_class lab"
  "sm_backend_ref (created_metadata E i lab root ws rid ms now) = path_str (archive_in root i)"
  "sm_manifest_path (created_metadata E i lab root ws rid ms now) = path_str (manifest_in root i)"
  "sm_run_id (created_metadata E i lab root ws rid ms now) = rid"
  "sm_restored_at (created_metadata E i lab root ws rid ms now) = None"
  by (simp_all add: created_metadata_def)

lemma create_snapshot_run:
  assumes ls: "faithful_listing (listdir E)" and place: "fresh_place (fsys w) root i workspace"
    and plain: "plain_workspace (fsys w) workspace" and names: "list_all name_ok workspace"
    and rows: "sto_snapshots_path s = path_str root" "sto_workspace_path s = path_str workspace"
    and runtime: "lab_runtime_class lab = runtime_value CONTAINER"
  shows "\<exists>ms. tar_add (listdir E) ((fsys w)(archive_in root i \<mapsto> File [])) (archive_in root i) recursion_limit
        workspace ''workspace'' = Inr ms \<and>
      create_snapshot E i lab s rid w =
        (let m = created_metadata E i lab root workspace rid ms (utc (clock E (ticks w)))
         in (Inr m, w\<lparr>ticks := Suc (ticks w),
               fsys := (fsys w)(archive_in root i \<mapsto> File (tar_pack E ms), manifest_in root i \<mapsto> File (manifest_text m))\<rparr>))"
proof -
  let ?a = "archive_in root i" and ?m = "manifest_in root i"
  let ?g = "(fsys w)(?a \<mapsto> File [])"
  have i: "snapshot_name i" and root: "list_all name_ok root" "dir_path (fsys w) root"
    and free: "fsys w ?a = None" "fsys w ?m = None" and apart: "\<not> prefix workspace root"
    using place by (simp_all add: fresh_place_def)
  have ws: "dir_path (fsys w) workspace" "tree_ok (fsys w) workspace"
    and deep: "\<And>r. fsys w (workspace @ r) \<noteq> None \<Longrightarrow> length r < recursion_limit"
    using plain by (auto simp: plain_workspace_def)
  note nm = snapshot_file_names [OF i]
  have off: "\<not> prefix workspace ?a"
    using apart free(1) dir_path_entry [OF ws(1)] by (auto simp: entry_def split: if_splits)
  have off': "\<not> prefix ?a workspace"
  proof
    assume "prefix ?a workspace"
    then have "entry (fsys w) ?a = Some Dir" using ws(1) by (simp add: dir_path_def)
    with free(1) show False by (simp add: entry_def)
  qed
  have ready_a: "ready (h(?a \<mapsto> n)) ?a" if "dir_path h root" "\<not> is_link (h(?a \<mapsto> n)) ?a" for h n
    using that by (intro ready_in_dir dir_path_add) simp_all
  have ra: "ready (fsys w) ?a" and rm: "ready (fsys w) ?m"
    using root(2) free by (auto intro!: ready_in_dir simp: is_link_def)
  have same: "?g (workspace @ r) = fsys w (workspace @ r)" for r
  proof -
    have "workspace @ r \<noteq> ?a" using off by (metis prefixI)
    then show ?thesis by (simp only: fun_upd_apply if_False)
  qed
  have tree: "tree_ok ?g workspace" by (rule tree_ok_same [OF ws(2) same])
  have dir: "dir_path ?g workspace" by (rule dir_path_add [OF ws(1) off'])
  have deep': "length r < recursion_limit" if "?g (workspace @ r) \<noteq> None" for r
    using deep that unfolding same by blast
  have "0 < recursion_limit" by (simp add: recursion_limit_def)
  from tar_add_Inr [OF ls tree _ deep' this] obtain ms where
    ms: "tar_add (listdir E) ?g ?a recursion_limit workspace ''workspace'' = Inr ms"
    using dir_path_entry [OF dir] by fastforce
  have lres: "lresolve ?g workspace = Some workspace"
  proof (cases "workspace = []")
    case True
    then show ?thesis by (simp add: lresolve_def realpath_def)
  next
    case False
    then have "ready ?g workspace"
      using dir dir_path_prefix [OF dir, of "butlast workspace"]
      by (simp add: ready_def dir_path_canonical dir_path_entry prefixeq_butlast)
    then show ?thesis using ready_lresolve by blast
  qed
  let ?pack = "tar_pack E ms"
  have w1: "write_file (fsys w) ?a [] = Inr ?g" using ra free by (intro write_ready) simp_all
  have "ready ?g ?a" using root(2) by (intro ready_a) (simp_all add: is_link_def)
  then have w2: "write_file ?g ?a ?pack = Inr ((fsys w)(?a \<mapsto> File ?pack))" by (subst write_ready) simp_all
  let ?h = "(fsys w)(?a \<mapsto> File ?pack)"
  have "dir_path ?h root" by (rule dir_path_add [OF root(2)]) simp
  then have "ready ?h ?a" "ready ?h ?m" using free by (auto intro!: ready_in_dir simp: is_link_def)
  then have read: "read_file ?h ?a = Some ?pack" and w3: "write_file ?h ?m c = Inr (?h(?m \<mapsto> File c))" for c
    using free by (auto simp: read_canonical ready_def entry_def intro!: write_ready)
  have paths: "os_path (cwd E) (sto_snapshots_path s) = root" "os_path (cwd E) (sto_workspace_path s) = workspace"
    "path_join root (i @ ''.tar.gz'') = ?a" "path_join root (i @ ''.json'') = ?m"
    using rows root(1) names path_join_name [OF nm(1)] path_join_name [OF nm(2)] by simp_all
  show ?thesis
    using ms mkdir_p_existing [OF root(2)] w1 w2 w3 read lres
    by (intro exI [of _ ms])
       (simp add: create_snapshot_def paths Let_def ensure_runtime_supported_def runtime check_def bnd_def liftR_def
          fs_call_def gets_def hash_snapshot_file_def stat_size_def require_def returns_def utc_now_def
          tar_members_def read_loop_all created_metadata_def)
qed


subsection \<open>Restoring\<close>

text \<open>Archive and manifest where they were written, both still as they were.\<close>

definition stored_snapshot :: "env \<Rightarrow> fs \<Rightarrow> path \<Rightarrow> string \<Rightarrow> tar_member list \<Rightarrow> SnapshotMetadata \<Rightarrow> bool" where
  "stored_snapshot E fs root i ms m \<longleftrightarrow> snapshot_name i \<and> list_all name_ok root \<and> dir_path fs root \<and>
     fs (archive_in root i) = Some (File (tar_pack E ms)) \<and>
     fs (manifest_in root i) = Some (File (manifest_text m)) \<and>
     sm_backend_ref m = path_str (archive_in root i) \<and> sm_manifest_path m = path_str (manifest_in root i)"

lemma stored_files:
  assumes "stored_snapshot E fs root i ms m"
  shows "ready fs (archive_in root i)" "ready fs (manifest_in root i)"
    "list_all name_ok (archive_in root i)" "list_all name_ok (manifest_in root i)"
    "read_file fs (archive_in root i) = Some (tar_pack E ms)"
    "read_file fs (manifest_in root i) = Some (manifest_text m)"
proof -
  have i: "snapshot_name i" and dir: "dir_path fs root"
    and at: "fs (archive_in root i) = Some (File (tar_pack E ms))"
      "fs (manifest_in root i) = Some (File (manifest_text m))"
    using assms by (simp_all add: stored_snapshot_def)
  show "list_all name_ok (archive_in root i)" "list_all name_ok (manifest_in root i)"
    using assms snapshot_file_names [OF i] by (simp_all add: stored_snapshot_def)
  show "ready fs (archive_in root i)" using at by (intro ready_in_dir [OF dir]) (simp_all add: is_link_def)
  then show "read_file fs (archive_in root i) = Some (tar_pack E ms)"
    using at by (simp add: read_canonical ready_def entry_def)
  show "ready fs (manifest_in root i)" using at by (intro ready_in_dir [OF dir]) (simp_all add: is_link_def)
  then show "read_file fs (manifest_in root i) = Some (manifest_text m)"
    using at by (simp add: read_canonical ready_def entry_def)
qed

lemma read_file_exists: "read_file fs p = Some c \<Longrightarrow> path_exists fs p"
  by (auto simp: read_file_def path_exists_def split: option.splits)

lemma load_metadata_run:
  assumes st: "stored_snapshot E (fsys w) root i ms m" and row: "snap_backend_ref row = path_str (archive_in root i)"
  shows "load_metadata E row w = (Inr (Some m), w)"
proof -
  have i: "snapshot_name i" and root: "list_all name_ok root" using st by (simp_all add: stored_snapshot_def)
  note files = stored_files [OF st]
  show ?thesis
    using manifest_path_for_archive [OF i root] files(6) read_file_exists [OF files(6)] manifest_round_trip [of m]
    by (simp add: load_metadata_def row bnd_def liftR_def gets_def require_def returns_def)
qed

lemma graft_emptied: "graft g p t (emptied f t) = graft g p t f"
  by (auto simp: graft_def emptied_def fun_eq_iff strict_prefix_def)

text \<open>Changing the tree below \<open>t\<close> leaves everything else where it was.\<close>

lemma ready_elsewhere:
  assumes "ready f x" and "\<not> prefix t x" and same: "\<And>y. \<not> prefix t y \<Longrightarrow> h y = f y"
  shows "ready h x"
proof -
  have up: "\<not> prefix t q" if "prefix q x" for q using that assms(2) prefix_order.trans by blast
  then have "canonical h x"
    using assms(1) same unfolding ready_def by (elim conjE canonical_same) (simp add: is_link_def)
  moreover have "entry h (butlast x) = Some Dir"
    using assms(1) same [OF up [OF prefixeq_butlast]] by (simp add: ready_def entry_def split: if_splits)
  ultimately show ?thesis using assms(1) by (simp add: ready_def)
qed

lemma emptied_outside: "\<not> prefix t x \<Longrightarrow> emptied f t x = f x"
  and graft_outside: "\<not> prefix t x \<Longrightarrow> graft g p t f x = f x"
  by (simp_all add: emptied_def graft_def strict_prefix_def)

lemma dir_path_emptied: "dir_path f t \<Longrightarrow> dir_path (emptied f t) t"
  by (erule dir_path_same) (auto simp: emptied_def strict_prefix_def dest: prefix_order.antisym)

lemma canonical_emptied:
  assumes "dir_path f t" and "''..'' \<notin> set r"
  shows "canonical (emptied f t) (t @ r)"
  using assms(2)
proof (induction r rule: rev_induct)
  case Nil
  then show ?case using dir_path_emptied [OF assms(1)] by (simp add: dir_path_canonical)
next
  case (snoc c r)
  have "emptied f t (t @ r @ [c]) = None" by (simp add: emptied_def strict_prefix_def)
  then show ?case using snoc canonical_snoc [of "emptied f t" "t @ r" c] by (auto simp: is_link_def)
qed

lemma workspace_arcname: "arcname_ok ''workspace''" "path_parts ''workspace'' = [''workspace'']"
  by (simp_all add: arcname_ok_def startswith_def path_parts_def)

text \<open>The members of an archive of a workspace stay below the emptied workspace they are extracted to \<dots>\<close>

lemma members_inside:
  assumes "faithful_listing ls" and "tar_add ls g a n ws ''workspace'' = Inr ms" and "tree_ok g ws"
    and "dir_path f (dest @ [''workspace''])"
  shows "\<forall>x \<in> set ms. \<exists>t. realpath (emptied f (dest @ [''workspace''])) (path_join dest (fst x)) = Some t \<and> prefix dest t"
proof
  fix x
  assume "x \<in> set ms"
  from tar_add_names [OF assms(1-3) workspace_arcname(1) this] obtain r where
    x: "arcname_ok (fst x)" "path_parts (fst x) = ''workspace'' # r" and r: "''..'' \<notin> set r"
    using workspace_arcname(2) by auto
  have "path_join dest (fst x) = (dest @ [''workspace'']) @ r" using x by (simp add: path_join_def arcname_ok_def)
  with canonical_emptied [OF assms(4) r]
  show "\<exists>t. realpath (emptied f (dest @ [''workspace''])) (path_join dest (fst x)) = Some t \<and> prefix dest t"
    by (simp add: realpath_of_canonical)
qed

text \<open>\<dots> and extracting them there puts the archived tree in its place.\<close>

lemma extract_archived:
  assumes ls: "faithful_listing ls" and ms: "tar_add ls g a n ws ''workspace'' = Inr ms"
    and tree: "tree_ok g ws" "\<not> prefix ws a" "g ws = Some Dir" and dir: "dir_path f (dest @ [''workspace''])"
  shows "extract_list dest ms (emptied f (dest @ [''workspace''])) = Inr (graft g ws (dest @ [''workspace'']) f)"
proof -
  let ?t = "dest @ [''workspace'']"
  let ?e = "emptied f ?t"
  have e: "dir_path ?e ?t" by (rule dir_path_emptied [OF dir])
  then have at: "?e ?t = Some Dir" using dir_path_entry by (fastforce simp: entry_def)
  have "ready ?e ?t"
    using ready_in_dir [OF dir_path_prefix [OF e], of dest "''workspace''"] at by (simp add: is_link_def)
  moreover have "vacant ?e ?t" by (simp add: vacant_def emptied_def strict_prefix_def)
  moreover have "\<not> is_link g ws" using tree(3) by (simp add: is_link_def)
  ultimately show ?thesis
    using extract_tar_add [OF ls ms tree(1,2), where dest = dest and g = ?e] workspace_arcname tree(3) at
    by (simp add: graft_emptied entry_def)
qed

text \<open>What a restore finds when it has emptied the workspace of its target.\<close>

lemma emptied_target:
  assumes st: "stored_snapshot E f root i ms m" and t: "dir_path f t" "t \<noteq> []" "\<not> prefix t root"
  shows "\<not> prefix t (archive_in root i)" "\<not> prefix t (manifest_in root i)"
    "read_file (emptied f t) (archive_in root i) = Some (tar_pack E ms)"
    "ready (graft g p t f) (manifest_in root i)"
proof -
  have "f t = Some Dir" using dir_path_entry [OF t(1)] t(2) by (simp add: entry_def)
  then show off: "\<not> prefix t (archive_in root i)" "\<not> prefix t (manifest_in root i)"
    using st t(3) by (auto simp: stored_snapshot_def)
  note files = stored_files [OF st]
  show "ready (graft g p t f) (manifest_in root i)"
    by (rule ready_elsewhere [OF files(2) off(2)]) (simp add: graft_outside)
  have "ready (emptied f t) (archive_in root i)"
    by (rule ready_elsewhere [OF files(1) off(1)]) (simp add: emptied_outside)
  then show "read_file (emptied f t) (archive_in root i) = Some (tar_pack E ms)"
    using st emptied_outside [OF off(1)] by (simp add: read_canonical ready_def entry_def stored_snapshot_def)
qed

text \<open>The steps of a restore up to the emptied workspace.\<close>

definition restore_site :: "env \<Rightarrow> fs \<Rightarrow> path \<Rightarrow> string \<Rightarrow> tar_member list \<Rightarrow> SnapshotMetadata \<Rightarrow> SnapshotRow \<Rightarrow> LabRow \<Rightarrow>
    LabStorageRow \<Rightarrow> path \<Rightarrow> bool" where
  "restore_site E f root i ms m row lab s dest \<longleftrightarrow>
     stored_snapshot E f root i ms m \<and> snap_backend_ref row = path_str (archive_in root i) \<and>
     sm_runtime_class m = runtime_value CONTAINER \<and> lab_runtime_class lab = runtime_value CONTAINER \<and>
     sto_workspace_path s = path_str (dest @ [''workspace'']) \<and> list_all name_ok dest \<and>
     dir_path f (dest @ [''workspace'']) \<and> tree_ok f (dest @ [''workspace'']) \<and> \<not> prefix (dest @ [''workspace'']) root"

lemma restore_start:
  assumes ls: "faithful_listing (listdir E)" and codec: "tar_unpack E (tar_pack E ms) = Some ms"
    and site: "restore_site E (fsys w) root i ms m row lab s dest"
  shows "restore_snapshot E row lab s w =
    bnd (for_each (check_member dest) ms) (\<lambda>_. bnd (for_each (extract_member dest) ms) (\<lambda>_.
    bnd (utc_now E) (\<lambda>now.
    (let restored = m\<lparr>sm_state := ''restored'', sm_restored_at := Some (isoformat now),
                      sm_restored_lab_id := Some (lab_id lab)\<rparr>
     in bnd (fs_call (\<lambda>fs. write_file fs (manifest_in root i) (manifest_text restored))) (\<lambda>_.
        returns restored))))) (w\<lparr>fsys := emptied (fsys w) (dest @ [''workspace''])\<rparr>)"
proof -
  let ?t = "dest @ [''workspace'']"
  let ?e = "emptied (fsys w) ?t"
  have st: "stored_snapshot E (fsys w) root i ms m" and row: "snap_backend_ref row = path_str (archive_in root i)"
    and t: "dir_path (fsys w) ?t" "tree_ok (fsys w) ?t" "\<not> prefix ?t root" and dest: "list_all name_ok dest"
    using site by (simp_all add: restore_site_def)
  note files = stored_files [OF st]
  have paths: "os_path (cwd E) (sm_backend_ref m) = archive_in root i" "os_path (cwd E) (sm_manifest_path m) = manifest_in root i"
    "os_path (cwd E) (sto_workspace_path s) = ?t"
    using site files(3,4) dest by (simp_all add: restore_site_def stored_snapshot_def name_ok_def)
  have "dir_path ?e dest" using dir_path_emptied [OF t(1)] by (rule dir_path_prefix) simp
  then have resolve: "resolve_path dest (w\<lparr>fsys := ?e\<rparr>) = (Inr dest, w\<lparr>fsys := ?e\<rparr>)"
    by (simp add: resolve_path_def bnd_def gets_def require_def dir_path_realpath)
  have same: "w\<lparr>fsys := fsys w\<rparr> = w" by simp
  show ?thesis
    using load_metadata_run [OF st row] clear_directory_run [OF ls t(2,1)] mkdir_p_existing [OF t(1)]
      resolve emptied_target(3) [OF st t(1) _ t(3)] read_file_exists [OF files(5)] site
    by (simp add: restore_snapshot_def bnd_run paths Let_def require_def returns_def liftR_def gets_def guard_def
        check_def fs_call_def same ensure_runtime_supported_def restore_site_def codec bnd_no_effect)
qed

lemma restore_snapshot_run:
  assumes ls: "faithful_listing (listdir E)" and codec: "tar_unpack E (tar_pack E ms) = Some ms"
    and ms: "tar_add (listdir E) g a n ws ''workspace'' = Inr ms"
    and tree: "tree_ok g ws" "\<not> prefix ws a" "g ws = Some Dir"
    and site: "restore_site E (fsys w) root i ms m row lab s dest"
  shows "restore_snapshot E row lab s w =
    (let restored = m\<lparr>sm_state := ''restored'', sm_restored_at := Some (isoformat (utc (clock E (ticks w)))),
                      sm_restored_lab_id := Some (lab_id lab)\<rparr>
     in (Inr restored, w\<lparr>ticks := Suc (ticks w),
           fsys := (graft g ws (dest @ [''workspace'']) (fsys w))(manifest_in root i \<mapsto> File (manifest_text restored))\<rparr>))"
proof -
  let ?t = "dest @ [''workspace'']" and ?m = "manifest_in root i"
  let ?e = "emptied (fsys w) ?t" and ?f = "graft g ws ?t (fsys w)"
  have st: "stored_snapshot E (fsys w) root i ms m" and t: "dir_path (fsys w) ?t" "\<not> prefix ?t root"
    using site by (simp_all add: restore_site_def)
  have written: "write_file ?f ?m c = Inr (?f(?m \<mapsto> File c))" for c
    using st emptied_target(2,4) [OF st t(1) _ t(2)] by (intro write_ready) (simp_all add: graft_outside stored_snapshot_def)
  have checked: "for_each (check_member dest) ms (w\<lparr>fsys := ?e\<rparr>) = (Inr (), w\<lparr>fsys := ?e\<rparr>)"
    using members_inside [OF ls ms tree(1) t(1)] by (intro check_loop) simp
  have extracted: "for_each (extract_member dest) ms (w\<lparr>fsys := ?e\<rparr>) = (Inr (), w\<lparr>fsys := ?f\<rparr>)"
    using extract_loop [of dest ms "w\<lparr>fsys := ?e\<rparr>"] extract_archived [OF ls ms tree t(1)] by simp
  show ?thesis
    unfolding restore_start [OF ls codec site]
    by (simp add: bnd_def checked extracted utc_now_def Let_def fs_call_def written returns_def)
qed

subsection \<open>Refusals\<close>

text \<open>Before the workspace is touched.\<close>

lemma restore_refused:
  assumes "load_metadata E row w = (Inr found, w)"
  shows "found = None \<Longrightarrow>
      restore_snapshot E row lab s w = (Inl (SnapshotMetadataError ''snapshot manifest is missing''), w)"
    and "found = Some m \<Longrightarrow> sm_runtime_class m \<noteq> runtime_value CONTAINER \<or> lab_runtime_class lab \<noteq> runtime_value CONTAINER \<Longrightarrow>
      restore_snapshot E row lab s w =
        (Inl (UnsupportedSnapshotRuntimeError ''only container snapshots are supported in Phase 1''), w)"
    and "found = Some m \<Longrightarrow> sm_runtime_class m = runtime_value CONTAINER \<Longrightarrow> lab_runtime_class lab = runtime_value CONTAINER \<Longrightarrow>
      \<not> path_exists (fsys w) (os_path (cwd E) (sm_backend_ref m)) \<Longrightarrow>
      restore_snapshot E row lab s w = (Inl (SnapshotMetadataError ''snapshot archive is missing''), w)"
  using assms
  by (auto simp: restore_snapshot_def bnd_run require_def liftR_def ensure_runtime_supported_def check_def
      guard_def gets_def bnd_def Let_def)

text \<open>Afterwards: an archive that names a path outside is refused when the workspace is already empty.\<close>

lemma check_loop_unsafe:
  assumes "x \<in> set ms" and "realpath (fsys w) (path_join root (fst x)) = Some t" and "\<not> prefix root t"
    and "\<forall>y \<in> set ms. realpath (fsys w) (path_join root (fst y)) \<noteq> None"
  shows "for_each (check_member root) ms w = (Inl (SnapshotMetadataError ''snapshot archive contains an unsafe path''), w)"
  using assms
proof (induction ms)
  case (Cons y ms)
  show ?case
  proof (cases "\<exists>u. realpath (fsys w) (path_join root (fst y)) = Some u \<and> prefix root u")
    case True
    then have "check_member root y w = (Inr (), w)"
      by (auto simp: check_member_def resolve_path_def bnd_def gets_def require_def guard_def check_def)
    moreover have "x \<in> set ms" using True Cons.prems by auto
    ultimately show ?thesis using Cons by (simp add: bnd_run)
  next
    case False
    with Cons.prems(4) show ?thesis
      by (auto simp: check_member_def resolve_path_def bnd_def gets_def require_def guard_def check_def)
  qed
qed simp

lemma restore_unsafe_run:
  assumes ls: "faithful_listing (listdir E)" and codec: "tar_unpack E (tar_pack E ms) = Some ms"
    and site: "restore_site E (fsys w) root i ms m row lab s dest"
    and unsafe: "x \<in> set ms" "realpath (emptied (fsys w) (dest @ [''workspace''])) (path_join dest (fst x)) = Some t"
      "\<not> prefix dest t"
    and "\<forall>y \<in> set ms. realpath (emptied (fsys w) (dest @ [''workspace''])) (path_join dest (fst y)) \<noteq> None"
  shows "restore_snapshot E row lab s w =
    (Inl (SnapshotMetadataError ''snapshot archive contains an unsafe path''),
     w\<lparr>fsys := emptied (fsys w) (dest @ [''workspace''])\<rparr>)"
  unfolding restore_start [OF ls codec site]
  using check_loop_unsafe [of x ms "w\<lparr>fsys := emptied (fsys w) (dest @ [''workspace''])\<rparr>" dest t] assms
  by (simp add: bnd_def)

end
