(* ===== verification/Scheduler.thy ===== *)
theory Scheduler
  imports Session
begin

section \<open>The scheduler\<close>

text \<open>
  \<open>labos/workers/scheduler.py\<close> with its request model of \<open>labos/core/models.py\<close>. \<open>enqueue\<close> bounds
  the pending jobs of a requester; \<open>run_next\<close> dispatches the earliest due job inside a savepoint
  and retries or fails it. What a job does is a pair of callbacks; the locale \<open>scheduler_hooks\<close> is
  the contract the scheduler needs of them (they leave the job table alone), and the API's
  callbacks interpret it.
\<close>

record SchedulerJobCreateRequest =
  jr_action :: SchedulerAction
  jr_requester_id :: string
  jr_profile_name :: "string option"
  jr_lab_id :: "string option"
  jr_command :: "string option"
  jr_scheduled_for :: "datetime option"
  jr_max_attempts :: int

text \<open>The field constraints and the validator of the request model, in the order they run.\<close>

definition job_field_constraints :: "SchedulerJobCreateRequest \<Rightarrow> bool" where
  "job_field_constraints r \<longleftrightarrow> jr_requester_id r \<noteq> [] \<and> 1 \<le> jr_max_attempts r \<and> jr_max_attempts r \<le> 10"

definition validate_action_payload :: "SchedulerJobCreateRequest \<Rightarrow> exn + SchedulerJobCreateRequest" where
  "validate_action_payload r =
     (case jr_action r of
        CREATE_LAB \<Rightarrow>
          (if jr_profile_name r = None
           then Inl (ValueError ''profile_name is required for create_lab jobs'')
           else if jr_lab_id r \<noteq> None \<or> jr_command r \<noteq> None
           then Inl (ValueError ''create_lab jobs do not accept lab_id or command'')
           else Inr r)
      | START_RUN \<Rightarrow>
          (if jr_lab_id r = None then Inl (ValueError ''lab_id is required for start_run jobs'')
           else if jr_command r = None then Inl (ValueError ''command is required for start_run jobs'')
           else if jr_profile_name r \<noteq> None
           then Inl (ValueError ''start_run jobs do not accept profile_name'')
           else Inr r))"

definition valid_job_request :: "SchedulerJobCreateRequest \<Rightarrow> bool" where
  "valid_job_request r \<longleftrightarrow> job_field_constraints r \<and> validate_action_payload r = Inr r"

definition max_pending_jobs_per_requester :: nat where
  "max_pending_jobs_per_requester = 5"

definition is_pending :: "string \<Rightarrow> SchedulerJobRow \<Rightarrow> bool" where
  "is_pending requester j \<longleftrightarrow> job_requester_id j = requester \<and>
     job_state j \<in> {job_value JOB_QUEUED, job_value JOB_DISPATCHED}"

definition pending_count :: "string \<Rightarrow> SchedulerJobRow list \<Rightarrow> nat" where
  "pending_count requester t = length (filter (is_pending requester) t)"

definition enqueue :: "env \<Rightarrow> SchedulerJobCreateRequest \<Rightarrow> SchedulerJobRow prog" where
  "enqueue E req =
     bnd (gets (\<lambda>w. pending_count (jr_requester_id req) (jobs (db w)))) (\<lambda>n.
     bnd (guard (n < max_pending_jobs_per_requester) SchedulerQuotaExceededError) (\<lambda>_.
     bnd (fresh_uuid E) (\<lambda>i.
     bnd (case jr_scheduled_for req of None \<Rightarrow> utc_now E | Some t \<Rightarrow> returns t) (\<lambda>scheduled_for.
     add_row E jobs_update
       \<lparr>created_at = unset, updated_at = unset, job_id = i,
        job_action = action_value (jr_action req), job_state = job_value JOB_QUEUED,
        job_requester_id = jr_requester_id req, job_profile_name = jr_profile_name req,
        job_lab_id = jr_lab_id req, job_command = jr_command req,
        job_scheduled_for = scheduled_for, job_attempt_count = 0,
        job_max_attempts = jr_max_attempts req, job_last_error = None,
        job_result_resource_type = None, job_result_resource_id = None,
        job_dispatched_at = None, job_completed_at = None\<rparr>))))"

text \<open>\<open>order_by(scheduled_for, created_at, id)\<close>.\<close>

definition job_order :: "SchedulerJobRow \<Rightarrow> int \<times> int \<times> string" where
  "job_order j = (instant (job_scheduled_for j), instant (created_at j), job_id j)"

definition list_jobs :: "SchedulerJobRow list prog" where
  "list_jobs = gets (\<lambda>w. sort_key job_order (jobs (db w)))"

definition is_due :: "datetime \<Rightarrow> SchedulerJobRow \<Rightarrow> bool" where
  "is_due now j \<longleftrightarrow> job_state j = job_value JOB_QUEUED \<and> \<not> later (job_scheduled_for j) now"

definition next_job :: "datetime \<Rightarrow> SchedulerJobRow list \<Rightarrow> SchedulerJobRow option" where
  "next_job now t =
     (case sort_key job_order (filter (is_due now) t) of [] \<Rightarrow> None | j # js \<Rightarrow> Some j)"

definition perform_job :: "(string \<Rightarrow> string prog) \<Rightarrow> (string \<Rightarrow> string \<Rightarrow> string prog) \<Rightarrow>
    SchedulerJobRow \<Rightarrow> (string \<times> string) prog" where
  "perform_job create_lab create_run job =
     bnd (liftR (scheduler_action_of (job_action job))) (\<lambda>action.
       if action = CREATE_LAB
       then bnd (require (job_profile_name job) AssertionError) (\<lambda>profile.
            bnd (create_lab profile) (\<lambda>i. returns (''lab'', i)))
       else bnd (require (job_lab_id job) AssertionError) (\<lambda>lab.
            bnd (require (job_command job) AssertionError) (\<lambda>command.
            bnd (create_run lab command) (\<lambda>i. returns (''run'', i)))))"

text \<open>\<open>run_next\<close> once a job was found.\<close>

definition dispatch_job :: "env \<Rightarrow> (string \<Rightarrow> string prog) \<Rightarrow> (string \<Rightarrow> string \<Rightarrow> string prog) \<Rightarrow>
    datetime \<Rightarrow> SchedulerJobRow \<Rightarrow> SchedulerJobRow prog" where
  "dispatch_job E create_lab create_run current_time j =
     bnd (put_row E job_id jobs_update
           (j\<lparr>job_state := job_value JOB_DISPATCHED, job_attempt_count := job_attempt_count j + 1,
              job_dispatched_at := Some current_time, job_last_error := None\<rparr>)) (\<lambda>job.
     bnd (captured (begin_nested (perform_job create_lab create_run job))) (\<lambda>outcome.
     (case outcome of
        Inl exc \<Rightarrow>
          if job_attempt_count job \<ge> job_max_attempts job
          then bnd (utc_now E) (\<lambda>t.
               put_row E job_id jobs_update
                 (job\<lparr>job_last_error := Some (exn_str exc), job_state := job_value JOB_FAILED,
                      job_completed_at := Some t\<rparr>))
          else put_row E job_id jobs_update
                 (job\<lparr>job_last_error := Some (exn_str exc), job_state := job_value JOB_QUEUED\<rparr>)
      | Inr (resource_type, resource_id) \<Rightarrow>
          bnd (utc_now E) (\<lambda>t.
          put_row E job_id jobs_update
            (job\<lparr>job_state := job_value JOB_SUCCEEDED, job_completed_at := Some t,
                 job_result_resource_type := Some resource_type,
                 job_result_resource_id := Some resource_id, job_last_error := None\<rparr>)))))"

definition run_next :: "env \<Rightarrow> (string \<Rightarrow> string prog) \<Rightarrow> (string \<Rightarrow> string \<Rightarrow> string prog) \<Rightarrow>
    datetime option \<Rightarrow> SchedulerJobRow option prog" where
  "run_next E create_lab create_run now =
     bnd (case now of None \<Rightarrow> utc_now E | Some t \<Rightarrow> returns t) (\<lambda>current_time.
     bnd (gets (\<lambda>w. next_job current_time (jobs (db w)))) (\<lambda>found.
     (case found of
        None \<Rightarrow> returns None
      | Some j \<Rightarrow> bnd (dispatch_job E create_lab create_run current_time j) (\<lambda>job. returns (Some job)))))"

subsection \<open>The queue\<close>

lemma next_job_Some:
  assumes "next_job now t = Some j"
  shows "j \<in> set t" and "is_due now j" and "\<forall>k \<in> set t. is_due now k \<longrightarrow> job_order j \<le> job_order k"
proof -
  from assms obtain js where js: "sort_key job_order (filter (is_due now) t) = j # js"
    by (auto simp: next_job_def split: list.splits)
  then have set: "set (j # js) = {k \<in> set t. is_due now k}" by (metis set_filter set_sort)
  then show "j \<in> set t" and "is_due now j" by auto
  have "sorted (map job_order (j # js))" using js by (metis sorted_sort_key)
  then show "\<forall>k \<in> set t. is_due now k \<longrightarrow> job_order j \<le> job_order k" using set by auto
qed

lemma next_job_None: "next_job now t = None \<longleftrightarrow> (\<forall>j \<in> set t. \<not> is_due now j)"
proof -
  have "next_job now t = None \<longleftrightarrow> sort_key job_order (filter (is_due now) t) = []"
    by (simp add: next_job_def split: list.splits)
  also have "\<dots> \<longleftrightarrow> filter (is_due now) t = []" by (metis length_0_conv length_sort)
  finally show ?thesis by (simp add: filter_empty_conv)
qed

text \<open>What one dispatch makes of a job.\<close>

definition dispatched_to :: "SchedulerJobRow \<Rightarrow> SchedulerJobRow \<Rightarrow> bool" where
  "dispatched_to j j' \<longleftrightarrow>
     job_id j' = job_id j \<and> job_action j' = job_action j \<and> job_requester_id j' = job_requester_id j \<and>
     job_max_attempts j' = job_max_attempts j \<and> job_attempt_count j' = job_attempt_count j + 1 \<and>
     (job_state j' = job_value JOB_SUCCEEDED \<and> job_last_error j' = None \<and>
        job_result_resource_id j' \<noteq> None \<and> job_completed_at j' \<noteq> None
      \<or> job_state j' = job_value JOB_FAILED \<and> job_last_error j' \<noteq> None \<and>
        job_completed_at j' \<noteq> None \<and> job_max_attempts j \<le> job_attempt_count j'
      \<or> job_state j' = job_value JOB_QUEUED \<and> job_last_error j' \<noteq> None \<and>
        job_attempt_count j' < job_max_attempts j)"

lemma dispatched_to_id: "dispatched_to j j' \<Longrightarrow> job_id j' = job_id j"
  by (simp add: dispatched_to_def)

definition dispatch_time :: "env \<Rightarrow> datetime option \<Rightarrow> world \<Rightarrow> datetime" where
  "dispatch_time E now w = (case now of None \<Rightarrow> utc (clock E (ticks w)) | Some t \<Rightarrow> t)"

locale scheduler_hooks =
  fixes create_lab :: "string \<Rightarrow> string prog"
    and create_run :: "string \<Rightarrow> string \<Rightarrow> string prog"
  assumes create_lab_jobs: "wp (create_lab p) (\<lambda>r w'. jobs (db w') = jobs (db w)) w"
    and create_run_jobs: "wp (create_run l c) (\<lambda>r w'. jobs (db w') = jobs (db w)) w"
begin

lemma wp_perform_jobs:
  "wp (perform_job create_lab create_run job) (\<lambda>r w'. jobs (db w') = jobs (db w)) w"
  by (auto simp: perform_job_def wp split: sum.splits option.splits
      intro!: wp_mono [OF create_lab_jobs] wp_mono [OF create_run_jobs])

lemma wp_dispatch_job:
  "wp (dispatch_job E create_lab create_run t j)
     (\<lambda>r w'. \<exists>j'. r = Inr j' \<and> dispatched_to j j' \<and> jobs (db w') = row_put job_id j' (jobs (db w))) w"
  by (auto simp: dispatch_job_def wp Let_def dispatched_to_def row_put_put split: sum.splits
      intro!: wp_mono [OF wp_perform_jobs])

text \<open>
  A dispatch never raises, whatever the callbacks do. With no due job it does nothing; otherwise the
  first due job, and only that row, is replaced by an outcome of the dispatch.
\<close>

lemma wp_run_next:
  "wp (run_next E create_lab create_run now)
     (\<lambda>r w'. case next_job (dispatch_time E now w) (jobs (db w)) of
        None \<Rightarrow> r = Inr None \<and> db w' = db w
      | Some j \<Rightarrow> (\<exists>j'. r = Inr (Some j') \<and> dispatched_to j j' \<and>
                    jobs (db w') = row_put job_id j' (jobs (db w)))) w"
proof (cases "next_job (dispatch_time E now w) (jobs (db w))")
  case None
  then show ?thesis
    by (cases now) (simp_all add: run_next_def dispatch_time_def wp)
next
  case (Some j)
  then show ?thesis
    by (cases now) (auto simp: run_next_def dispatch_time_def wp intro!: wp_mono [OF wp_dispatch_job])
qed

end

subsection \<open>The job table\<close>

text \<open>The row a request becomes.\<close>

definition queued_row :: "SchedulerJobCreateRequest \<Rightarrow> string \<Rightarrow> datetime \<Rightarrow> datetime \<Rightarrow> datetime \<Rightarrow> SchedulerJobRow" where
  "queued_row req i scheduled c u =
     \<lparr>created_at = c, updated_at = u, job_id = i,
      job_action = action_value (jr_action req), job_state = job_value JOB_QUEUED,
      job_requester_id = jr_requester_id req, job_profile_name = jr_profile_name req,
      job_lab_id = jr_lab_id req, job_command = jr_command req,
      job_scheduled_for = scheduled, job_attempt_count = 0,
      job_max_attempts = jr_max_attempts req, job_last_error = None,
      job_result_resource_type = None, job_result_resource_id = None,
      job_dispatched_at = None, job_completed_at = None\<rparr>"

lemma wp_enqueue:
  assumes "\<And>s c u t. pending_count (jr_requester_id req) (jobs (db w)) < max_pending_jobs_per_requester \<Longrightarrow>
      (\<forall>x. jr_scheduled_for req = Some x \<longrightarrow> s = x) \<Longrightarrow>
      Q (Inr (queued_row req (uuid4 E (uuids w)) s c u))
        (w\<lparr>uuids := Suc (uuids w), ticks := t,
           db := jobs_update (app [queued_row req (uuid4 E (uuids w)) s c u]) (db w)\<rparr>)"
    and "\<not> pending_count (jr_requester_id req) (jobs (db w)) < max_pending_jobs_per_requester \<Longrightarrow>
      Q (Inl SchedulerQuotaExceededError) w"
  shows "wp (enqueue E req) Q w"
  using assms by (cases "jr_scheduled_for req") (simp_all add: enqueue_def wp Let_def queued_row_def)

definition job_row_ok :: "SchedulerJobRow \<Rightarrow> bool" where
  "job_row_ok j \<longleftrightarrow> 0 \<le> job_attempt_count j \<and> job_attempt_count j \<le> job_max_attempts j \<and>
     1 \<le> job_max_attempts j \<and> job_max_attempts j \<le> 10 \<and>
     (\<exists>a. job_action j = action_value a) \<and>
     (\<exists>s. job_state j = job_value s) \<and>
     (job_state j = job_value JOB_QUEUED \<longrightarrow> job_attempt_count j < job_max_attempts j) \<and>
     (job_state j = job_value JOB_FAILED \<longrightarrow> job_attempt_count j = job_max_attempts j)"

definition job_table_ok :: "SchedulerJobRow list \<Rightarrow> bool" where
  "job_table_ok t \<longleftrightarrow> distinct (map job_id t) \<and> (\<forall>j \<in> set t. job_row_ok j) \<and>
     (\<forall>r. pending_count r t \<le> max_pending_jobs_per_requester)"

lemma job_table_ok_Nil [simp]: "job_table_ok []"
  by (simp add: job_table_ok_def pending_count_def)

lemma job_table_ok_enqueue:
  assumes "job_table_ok t" and "valid_job_request req" and "i \<notin> job_id ` set t"
    and "pending_count (jr_requester_id req) t < max_pending_jobs_per_requester"
  shows "job_table_ok (t @ [queued_row req i s c u])"
proof -
  have "job_row_ok (queued_row req i s c u)"
    using assms(2) by (auto simp: job_row_ok_def queued_row_def valid_job_request_def job_field_constraints_def)
  moreover have "pending_count r (t @ [queued_row req i s c u]) \<le> max_pending_jobs_per_requester" for r
    using assms(1,4) by (auto simp: job_table_ok_def pending_count_def is_pending_def queued_row_def)
  moreover have "job_id (queued_row req i s c u) = i" by (simp add: queued_row_def)
  ultimately show ?thesis using assms(1,3) by (auto simp: job_table_ok_def)
qed

text \<open>The row while its callback runs.\<close>

definition in_dispatch :: "SchedulerJobRow \<Rightarrow> SchedulerJobRow \<Rightarrow> bool" where
  "in_dispatch j j' \<longleftrightarrow> job_id j' = job_id j \<and> job_action j' = job_action j \<and>
     job_requester_id j' = job_requester_id j \<and> job_max_attempts j' = job_max_attempts j \<and>
     job_attempt_count j' = job_attempt_count j + 1 \<and> job_state j' = job_value JOB_DISPATCHED"

lemma in_dispatch_row_ok:
  "job_row_ok j \<Longrightarrow> job_state j = job_value JOB_QUEUED \<Longrightarrow> in_dispatch j j' \<Longrightarrow> job_row_ok j'"
  by (auto simp: job_row_ok_def in_dispatch_def)

lemma dispatched_row_ok:
  "job_row_ok j \<Longrightarrow> job_state j = job_value JOB_QUEUED \<Longrightarrow> dispatched_to j j' \<Longrightarrow> job_row_ok j'"
  by (auto simp: job_row_ok_def dispatched_to_def)

lemma pending_count_put:
  assumes "distinct (map job_id t)" and "j \<in> set t" and "job_state j = job_value JOB_QUEUED"
    and "job_id j' = job_id j" and "job_requester_id j' = job_requester_id j"
  shows "pending_count r (row_put job_id j' t) \<le> pending_count r t"
proof -
  have "is_pending r (if job_id x = job_id j' then j' else x) \<Longrightarrow> is_pending r x" if "x \<in> set t" for x
  proof (cases "job_id x = job_id j'")
    case True
    then have "x = j" using assms that by (auto intro: row_key_inj)
    moreover assume "is_pending r (if job_id x = job_id j' then j' else x)"
    ultimately show ?thesis using assms True by (simp add: is_pending_def)
  qed simp
  then show ?thesis unfolding pending_count_def row_put_def by (rule length_filter_map_le)
qed

lemma job_table_ok_put:
  assumes "job_table_ok t" and "j \<in> set t" and "job_state j = job_value JOB_QUEUED"
    and "job_id j' = job_id j" and "job_requester_id j' = job_requester_id j" and "job_row_ok j'"
  shows "job_table_ok (row_put job_id j' t)"
proof -
  have "pending_count r (row_put job_id j' t) \<le> max_pending_jobs_per_requester" for r
    using pending_count_put [OF _ assms(2-5)] assms(1) by (force simp: job_table_ok_def intro: le_trans)
  then show ?thesis using assms by (auto simp: job_table_ok_def elim!: in_putE)
qed

lemma next_job_queued:
  "next_job now t = Some j \<Longrightarrow> j \<in> set t" "next_job now t = Some j \<Longrightarrow> job_state j = job_value JOB_QUEUED"
  using next_job_Some [of now t j] by (simp_all add: is_due_def)

lemma job_table_ok_dispatched:
  assumes "job_table_ok t" and "next_job now t = Some j" and "dispatched_to j j'"
  shows "job_table_ok (row_put job_id j' t)"
proof (rule job_table_ok_put [OF assms(1) next_job_queued [OF assms(2)]])
  show "job_row_ok j'"
    using assms next_job_queued [OF assms(2)] dispatched_row_ok by (auto simp: job_table_ok_def)
qed (use assms(3) in \<open>simp_all add: dispatched_to_def\<close>)

lemma job_table_ok_in_dispatch:
  assumes "job_table_ok t" and "next_job now t = Some j" and "in_dispatch j j'"
  shows "job_table_ok (row_put job_id j' t)"
proof (rule job_table_ok_put [OF assms(1) next_job_queued [OF assms(2)]])
  show "job_row_ok j'"
    using assms next_job_queued [OF assms(2)] in_dispatch_row_ok by (auto simp: job_table_ok_def)
qed (use assms(3) in \<open>simp_all add: in_dispatch_def\<close>)

subsection \<open>The queue drains\<close>

definition job_fuel :: "SchedulerJobRow \<Rightarrow> nat" where
  "job_fuel j = (if job_state j = job_value JOB_QUEUED then nat (job_max_attempts j - job_attempt_count j) else 0)"

definition queue_fuel :: "SchedulerJobRow list \<Rightarrow> nat" where
  "queue_fuel t = sum_list (map job_fuel t)"

lemma queue_fuel_put:
  assumes "distinct (map job_id t)" and "j \<in> set t" and "job_id j' = job_id j"
  shows "queue_fuel (row_put job_id j' t) + job_fuel j = queue_fuel t + job_fuel j'"
  using assms
proof (induction t)
  case Nil
  then show ?case by simp
next
  case (Cons x t)
  show ?case
  proof (cases "x = j")
    case True
    with Cons.prems have "row_put job_id j' t = t" by (intro row_put_absent) auto
    then have "row_put job_id j' (x # t) = j' # t" using True Cons.prems(3) by (simp add: row_put_def)
    then show ?thesis using True by (simp add: queue_fuel_def)
  next
    case False
    with Cons.prems have "job_id x \<noteq> job_id j'" by (auto simp: rev_image_eqI)
    then have "row_put job_id j' (x # t) = x # row_put job_id j' t" by (simp add: row_put_def)
    then show ?thesis using Cons False by (simp add: queue_fuel_def)
  qed
qed

lemma queue_fuel_dispatched:
  assumes "job_table_ok t" and "next_job now t = Some j" and "dispatched_to j j'"
  shows "queue_fuel (row_put job_id j' t) < queue_fuel t"
proof -
  have j: "j \<in> set t" "job_state j = job_value JOB_QUEUED"
    using next_job_Some [OF assms(2)] by (simp_all add: is_due_def)
  then have "job_fuel j' < job_fuel j"
    using assms(1,3) by (auto simp: job_table_ok_def job_row_ok_def job_fuel_def dispatched_to_def)
  moreover have "queue_fuel (row_put job_id j' t) + job_fuel j = queue_fuel t + job_fuel j'"
    using assms(1) j by (intro queue_fuel_put) (auto simp: job_table_ok_def dispatched_to_id [OF assms(3)])
  ultimately show ?thesis by simp
qed

end
