(* ===== verification/Lifecycle.thy ===== *)
theory Lifecycle
  imports Scheduler Storage
begin

section \<open>The abstract specification of the control plane\<close>

text \<open>
  What the handlers and the reconciler promise of the committed database, without sessions, clocks,
  files or HTTP: one guarded transition per operation, each with the audit events it appends. The
  detailed handlers are shown to implement it in \<open>Refinement\<close>; the invariants of the program are proved
  here once, by induction over \<open>reach\<close>. The number \<open>n\<close> bounds the identifiers drawn so far: new rows
  take identifiers among the first \<open>n\<close> that no row of their table has.
\<close>

subsection \<open>Guards\<close>

definition issued :: "env \<Rightarrow> nat \<Rightarrow> string set" where
  "issued E n = uuid4 E ` {..<n}"

definition new_ids :: "env \<Rightarrow> nat \<Rightarrow> ('r \<Rightarrow> string) \<Rightarrow> 'r list \<Rightarrow> 'r list \<Rightarrow> bool" where
  "new_ids E n key t rs \<longleftrightarrow> distinct (map key rs) \<and>
     (\<forall>r \<in> set rs. key r \<in> issued E n \<and> key r \<notin> key ` set t)"

text \<open>
  An event refers to a lab and a run of the database. The run of a restored snapshot is the exception:
  it is what the manifest says, and SQLite, as the engine is configured, does not check references.
\<close>

definition event_ok :: "database \<Rightarrow> EventRow \<Rightarrow> bool" where
  "event_ok d e \<longleftrightarrow>
     (\<forall>l. ev_lab_id e = Some l \<longrightarrow> l \<in> lab_id ` set (labs d)) \<and>
     (\<forall>r. ev_event_type e \<noteq> ''snapshot.restored'' \<longrightarrow> ev_run_id e = Some r \<longrightarrow> r \<in> run_id ` set (runs d)) \<and>
     (\<exists>t. ev_actor_type e = actor_value t)"

definition audit :: "env \<Rightarrow> nat \<Rightarrow> database \<Rightarrow> database \<Rightarrow> EventRow list \<Rightarrow> bool" where
  "audit E n d d' es \<longleftrightarrow> new_ids E n ev_id (events d) es \<and> (\<forall>e \<in> set es. event_ok d' e)"

text \<open>The trail entry of an operation: an event of the given type about the given resource.\<close>

definition logs :: "EventRow list \<Rightarrow> string \<Rightarrow> string \<Rightarrow> bool" where
  "logs es event_type i \<longleftrightarrow> (\<exists>e \<in> set es. ev_event_type e = event_type \<and> ev_resource_id e = Some i)"

definition storage_layout :: "path \<Rightarrow> LabStorageRow \<Rightarrow> bool" where
  "storage_layout root s \<longleftrightarrow>
     (\<exists>policy. let a = allocation_of root (sto_lab_id s) policy in
        sto_root_path s = path_str (sa_root_path a) \<and> sto_workspace_path s = path_str (sa_workspace_path a) \<and>
        sto_exports_path s = path_str (sa_exports_path a) \<and>
        sto_quarantine_path s = path_str (sa_quarantine_path a) \<and>
        sto_snapshots_path s = path_str (sa_snapshots_path a) \<and>
        sto_persistence_mode s = persistence_value (sa_persistence_mode a))"

definition pending_approval :: "string \<Rightarrow> string \<Rightarrow> string \<Rightarrow> ApprovalRow \<Rightarrow> bool" where
  "pending_approval lab resource_type i a \<longleftrightarrow>
     apr_lab_id a = Some lab \<and> apr_resource_type a = resource_type \<and> apr_resource_id a = i \<and>
     apr_state a = approval_value APPROVAL_REQUESTED \<and> \<not> apr_approved a \<and>
     apr_decided_by a = None \<and> apr_decided_at a = None \<and> apr_expires_at a \<noteq> None"

text \<open>A request takes its one decision.\<close>

definition settles :: "ApprovalState \<Rightarrow> ApprovalRow \<Rightarrow> ApprovalRow \<Rightarrow> bool" where
  "settles s a a' \<longleftrightarrow> s \<noteq> APPROVAL_REQUESTED \<and>
     apr_state a = approval_value APPROVAL_REQUESTED \<and> apr_state a' = approval_value s \<and>
     apr_approved a' = (s = APPROVAL_APPROVED) \<and> apr_decided_by a' \<noteq> None \<and> apr_decided_at a' \<noteq> None \<and>
     apr_id a' = apr_id a \<and> apr_lab_id a' = apr_lab_id a \<and>
     apr_resource_type a' = apr_resource_type a \<and> apr_resource_id a' = apr_resource_id a \<and>
     apr_action a' = apr_action a \<and> apr_expires_at a' = apr_expires_at a"

definition lab_gate :: "Profile \<Rightarrow> LabRow \<Rightarrow> ApprovalRow list \<Rightarrow> bool" where
  "lab_gate p l as \<longleftrightarrow>
     (\<not> p_approval_on_start p \<and> as = [] \<and> lab_state l = lab_value LAB_APPROVED) \<or>
     (lab_state l = lab_value LAB_PENDING_APPROVAL \<and>
        (\<exists>a. as = [a] \<and> pending_approval (lab_id l) ''lab'' (lab_id l) a))"

definition export_gate :: "Profile \<Rightarrow> ExportRow \<Rightarrow> ApprovalRow list \<Rightarrow> bool" where
  "export_gate p x as \<longleftrightarrow> exp_state x = export_value EXPORT_QUARANTINED \<and> exp_released_path x = None \<and>
     (if p_approval_on_export p
      then exp_approval_required x \<and> (\<exists>a. as = [a] \<and> pending_approval (exp_lab_id x) ''export'' (exp_id x) a)
      else \<not> exp_approval_required x \<and> as = [])"

definition same_lab :: "LabRow \<Rightarrow> LabRow \<Rightarrow> bool" where
  "same_lab l l' \<longleftrightarrow> lab_id l' = lab_id l \<and> lab_profile_name l' = lab_profile_name l \<and>
     lab_runtime_class l' = lab_runtime_class l"

definition same_export :: "ExportRow \<Rightarrow> ExportRow \<Rightarrow> bool" where
  "same_export x x' \<longleftrightarrow> exp_id x' = exp_id x \<and> exp_lab_id x' = exp_lab_id x \<and>
     exp_run_id x' = exp_run_id x \<and> exp_sha256 x' = exp_sha256 x \<and> exp_size_bytes x' = exp_size_bytes x \<and>
     exp_source_path x' = exp_source_path x \<and> exp_quarantine_path x' = exp_quarantine_path x"

lemma same_lab_refl [simp]: "same_lab l l"
  by (simp add: same_lab_def)

lemma same_export_refl [simp]: "same_export x x"
  by (simp add: same_export_def)

text \<open>The decision of an export's approval, on the export.\<close>

definition export_decided :: "ApprovalState \<Rightarrow> ExportRow \<Rightarrow> bool" where
  "export_decided s x \<longleftrightarrow>
     (if s = APPROVAL_APPROVED
      then exp_state x = export_value EXPORT_APPROVED \<and> \<not> exp_approval_required x
      else exp_state x = export_value EXPORT_REJECTED)"

definition decision_event :: "ApprovalState \<Rightarrow> string" where
  "decision_event s = (if s = APPROVAL_APPROVED then ''approval.approved''
     else if s = APPROVAL_REJECTED then ''approval.denied'' else ''approval.expired'')"

subsection \<open>Transitions\<close>

inductive transition :: "env \<Rightarrow> nat \<Rightarrow> database \<Rightarrow> database \<Rightarrow> bool" for E n where
  log_events: "\<lbrakk>d' = d\<lparr>events := events d @ es\<rparr>; audit E n d d' es\<rbrakk> \<Longrightarrow> transition E n d d'"
| create_lab: "\<lbrakk>d' = d\<lparr>labs := labs d @ [l], storages := storages d @ [s], approvals := approvals d @ as,
                     events := events d @ es\<rparr>;
     new_ids E n lab_id (labs d) [l]; new_ids E n sto_id (storages d) [s];
     new_ids E n apr_id (approvals d) as; audit E n d d' es; logs es ''lab.requested'' (lab_id l);
     sto_lab_id s = lab_id l; storage_layout (storage_root E) s;
     policy_profiles E (lab_profile_name l) = Some p; lab_gate p l as\<rbrakk> \<Longrightarrow> transition E n d d'"
| end_lab: "\<lbrakk>d' = d\<lparr>labs := row_put lab_id l' (labs d), events := events d @ es\<rparr>; l \<in> set (labs d);
     same_lab l l'; lab_state l' \<in> {lab_value LAB_DESTROYED, lab_value LAB_FAILED};
     audit E n d d' es\<rbrakk> \<Longrightarrow> transition E n d d'"
| create_run: "\<lbrakk>d' = d\<lparr>runs := runs d @ [r], events := events d @ es\<rparr>;
     new_ids E n run_id (runs d) [r]; run_lab_id r \<in> lab_id ` set (labs d);
     run_state r = run_value RUN_QUEUED; run_timeout_at r \<noteq> None; audit E n d d' es\<rbrakk> \<Longrightarrow> transition E n d d'"
| time_out_run: "\<lbrakk>d' = d\<lparr>runs := row_put run_id r' (runs d), events := events d @ es\<rparr>; r \<in> set (runs d);
     run_id r' = run_id r; run_lab_id r' = run_lab_id r; run_state r' = run_value RUN_TIMED_OUT;
     run_timeout_at r' = run_timeout_at r; audit E n d d' es\<rbrakk> \<Longrightarrow> transition E n d d'"
| decide_lab: "\<lbrakk>d' = d\<lparr>approvals := row_put apr_id a' (approvals d), labs := row_put lab_id l' (labs d),
                     events := events d @ es\<rparr>; a \<in> set (approvals d); apr_resource_type a = ''lab'';
     settles s a a'; l \<in> set (labs d); lab_id l = apr_resource_id a; same_lab l l';
     lab_state l' = (if s = APPROVAL_APPROVED then lab_value LAB_APPROVED else lab_value LAB_FAILED);
     audit E n d d' es; logs es (decision_event s) (apr_id a)\<rbrakk> \<Longrightarrow> transition E n d d'"
| expire_lab: "\<lbrakk>d' = d\<lparr>approvals := row_put apr_id a' (approvals d), events := events d @ es\<rparr>;
     a \<in> set (approvals d); apr_resource_type a = ''lab''; settles APPROVAL_EXPIRED a a';
     l \<in> set (labs d); lab_id l = apr_resource_id a; lab_state l \<noteq> lab_value LAB_PENDING_APPROVAL;
     audit E n d d' es; logs es (decision_event APPROVAL_EXPIRED) (apr_id a)\<rbrakk> \<Longrightarrow> transition E n d d'"
| decide_export: "\<lbrakk>d' = d\<lparr>approvals := row_put apr_id a' (approvals d), exports := row_put exp_id x' (exports d),
                     events := events d @ es\<rparr>; a \<in> set (approvals d); apr_resource_type a = ''export'';
     settles s a a'; x \<in> set (exports d); exp_id x = apr_resource_id a; same_export x x';
     exp_released_path x' = exp_released_path x;
     export_decided s x'; audit E n d d' es; logs es (decision_event s) (apr_id a)\<rbrakk> \<Longrightarrow> transition E n d d'"
| create_export: "\<lbrakk>d' = d\<lparr>exports := exports d @ [x], approvals := approvals d @ as, events := events d @ es\<rparr>;
     new_ids E n exp_id (exports d) [x]; new_ids E n apr_id (approvals d) as; audit E n d d' es;
     l \<in> set (labs d); exp_lab_id x = lab_id l; policy_profiles E (lab_profile_name l) = Some p;
     (\<forall>r. exp_run_id x = Some r \<longrightarrow> r \<in> run_id ` set (runs d)); export_gate p x as\<rbrakk> \<Longrightarrow> transition E n d d'"
| release_export: "\<lbrakk>d' = d\<lparr>exports := row_put exp_id x' (exports d), events := events d @ es\<rparr>;
     x \<in> set (exports d); same_export x x'; \<not> exp_approval_required x; exp_approval_required x' = exp_approval_required x;
     exp_state x \<notin> {export_value EXPORT_REJECTED, export_value EXPORT_RELEASED};
     exp_state x' = export_value EXPORT_RELEASED; exp_released_path x' \<noteq> None; audit E n d d' es;
     logs es ''export.released'' (exp_id x)\<rbrakk> \<Longrightarrow> transition E n d d'"
| deny_export: "\<lbrakk>d' = d\<lparr>exports := row_put exp_id x' (exports d), events := events d @ es\<rparr>;
     x \<in> set (exports d); same_export x x'; exp_approval_required x' = exp_approval_required x;
     exp_state x \<notin> {export_value EXPORT_REJECTED, export_value EXPORT_RELEASED};
     exp_state x' = export_value EXPORT_REJECTED; exp_released_path x' = None; audit E n d d' es\<rbrakk> \<Longrightarrow> transition E n d d'"
| issue_lease: "\<lbrakk>d' = d\<lparr>leases := leases d @ [k], events := events d @ es\<rparr>;
     new_ids E n lease_id (leases d) [k]; l \<in> set (labs d); lease_lab_id k = lab_id l;
     policy_profiles E (lab_profile_name l) = Some p; lease_secret_name k \<in> set (p_allowed_secret_names p);
     lease_revoked_at k = None; audit E n d d' es\<rbrakk> \<Longrightarrow> transition E n d d'"
| revoke_lease: "\<lbrakk>d' = d\<lparr>leases := row_put lease_id k' (leases d), events := events d @ es\<rparr>;
     k \<in> set (leases d); lease_id k' = lease_id k; lease_lab_id k' = lease_lab_id k;
     lease_secret_name k' = lease_secret_name k; lease_revoked_at k = None; lease_revoked_at k' \<noteq> None;
     audit E n d d' es\<rbrakk> \<Longrightarrow> transition E n d d'"
| create_snapshot: "\<lbrakk>d' = d\<lparr>snapshots := snapshots d @ [p], events := events d @ es\<rparr>;
     new_ids E n snap_id (snapshots d) [p]; snap_lab_id p \<in> lab_id ` set (labs d); audit E n d d' es\<rbrakk>
     \<Longrightarrow> transition E n d d'"
| schedule: "\<lbrakk>d' = d\<lparr>jobs := t, events := events d @ es\<rparr>; job_table_ok t; prefix (map job_id (jobs d)) (map job_id t);
     job_id ` set t \<subseteq> job_id ` set (jobs d) \<union> issued E n; audit E n d d' es\<rbrakk> \<Longrightarrow> transition E n d d'"

inductive reach :: "env \<Rightarrow> nat \<Rightarrow> database \<Rightarrow> bool" for E where
  reach_init: "reach E 0 empty_database"
| reach_more: "reach E n d \<Longrightarrow> n \<le> m \<Longrightarrow> reach E m d"
| reach_step: "reach E n d \<Longrightarrow> transition E n d d' \<Longrightarrow> reach E n d'"

end
