(* ===== verification/Invariants.thy ===== *)
theory Invariants
  imports Lifecycle
begin

section \<open>Invariants of the control plane\<close>

text \<open>
  Each invariant is proved for one transition and then for every reachable database: unique
  identifiers, references that resolve, the states that occur, the gate that approvals put on labs
  and exports, the audit trail, the job table.
\<close>

lemma reach_induct_step:
  assumes "reach E n d" and "I empty_database"
    and "\<And>n d d'. reach E n d \<Longrightarrow> I d \<Longrightarrow> transition E n d d' \<Longrightarrow> I d'"
  shows "I d"
  using assms(1)
proof (induction rule: reach.induct)
  case (reach_step n d d')
  then show ?case using assms(3) by blast
qed (rule assms(2))

subsection \<open>Identifiers\<close>

definition table_keys :: "env \<Rightarrow> nat \<Rightarrow> ('r \<Rightarrow> string) \<Rightarrow> 'r list \<Rightarrow> bool" where
  "table_keys E n key t \<longleftrightarrow> distinct (map key t) \<and> key ` set t \<subseteq> issued E n"

lemma table_keys_Nil [simp]: "table_keys E n key []"
  by (simp add: table_keys_def)

lemma table_keys_append [simp]:
  "table_keys E n key t \<Longrightarrow> new_ids E n key t rs \<Longrightarrow> table_keys E n key (t @ rs)"
  by (auto simp: table_keys_def new_ids_def) (metis image_eqI)

lemma table_keys_put [simp]: "table_keys E n key (row_put key r t) = table_keys E n key t"
  by (simp add: table_keys_def)

lemma issued_mono: "n \<le> m \<Longrightarrow> issued E n \<subseteq> issued E m"
  by (auto simp: issued_def)

lemma table_keys_more: "table_keys E n key t \<Longrightarrow> n \<le> m \<Longrightarrow> table_keys E m key t"
  using issued_mono by (fastforce simp: table_keys_def)

definition inv_keys :: "env \<Rightarrow> nat \<Rightarrow> database \<Rightarrow> bool" where
  "inv_keys E n d \<longleftrightarrow>
     table_keys E n lab_id (labs d) \<and> table_keys E n sto_id (storages d) \<and>
     table_keys E n run_id (runs d) \<and> table_keys E n apr_id (approvals d) \<and>
     table_keys E n exp_id (exports d) \<and> table_keys E n snap_id (snapshots d) \<and>
     table_keys E n lease_id (leases d) \<and> table_keys E n ev_id (events d) \<and>
     table_keys E n job_id (jobs d)"

lemma inv_keys_step: "transition E n d d' \<Longrightarrow> inv_keys E n d \<Longrightarrow> inv_keys E n d'"
proof (induction rule: transition.induct)
  case (schedule d' d es t)
  then have "job_id ` set (jobs d) \<subseteq> issued E n" by (simp add: inv_keys_def table_keys_def)
  with schedule have "table_keys E n job_id t" unfolding table_keys_def job_table_ok_def by blast
  with schedule show ?case by (simp add: inv_keys_def audit_def)
qed (simp_all add: inv_keys_def audit_def)

lemma inv_keys: "reach E n d \<Longrightarrow> inv_keys E n d"
proof (induction rule: reach.induct)
  case reach_init
  show ?case by (simp add: inv_keys_def empty_database_def)
next
  case (reach_more n d m)
  then show ?case by (auto simp: inv_keys_def intro: table_keys_more)
next
  case (reach_step n d d')
  then show ?case by (blast intro: inv_keys_step)
qed

text \<open>What the next identifier cannot be.\<close>

lemma issued_Suc: "uuid4 E m \<in> issued E n \<longleftrightarrow> (\<exists>k<n. uuid4 E m = uuid4 E k)"
  by (auto simp: issued_def)

lemma fresh_not_issued: "inj (uuid4 E) \<Longrightarrow> uuid4 E m \<in> issued E n \<longleftrightarrow> m < n"
  by (auto simp: issued_def inj_eq)

lemma fresh_key:
  "inj (uuid4 E) \<Longrightarrow> table_keys E n key t \<Longrightarrow> n \<le> m \<Longrightarrow> uuid4 E m \<notin> key ` set t"
  using fresh_not_issued [of E m n] by (auto simp: table_keys_def)

subsection \<open>References\<close>

lemma ball_put: "\<forall>x \<in> set t. P x \<Longrightarrow> P r \<Longrightarrow> \<forall>x \<in> set (row_put key r t). P x"
  by (auto simp: set_put)

abbreviation lab_keys :: "database \<Rightarrow> string set" where
  "lab_keys d \<equiv> lab_id ` set (labs d)"

abbreviation run_keys :: "database \<Rightarrow> string set" where
  "run_keys d \<equiv> run_id ` set (runs d)"

lemma keys_mono: "transition E n d d' \<Longrightarrow> lab_keys d \<subseteq> lab_keys d' \<and> run_keys d \<subseteq> run_keys d'"
  by (induction rule: transition.induct) auto

definition inv_refs :: "database \<Rightarrow> bool" where
  "inv_refs d \<longleftrightarrow>
     map sto_lab_id (storages d) = map lab_id (labs d) \<and>
     (\<forall>r \<in> set (runs d). run_lab_id r \<in> lab_keys d) \<and>
     (\<forall>x \<in> set (exports d). exp_lab_id x \<in> lab_keys d \<and> (\<forall>r. exp_run_id x = Some r \<longrightarrow> r \<in> run_keys d)) \<and>
     (\<forall>k \<in> set (leases d). lease_lab_id k \<in> lab_keys d) \<and>
     (\<forall>p \<in> set (snapshots d). snap_lab_id p \<in> lab_keys d) \<and>
     (\<forall>a \<in> set (approvals d). \<exists>l. apr_lab_id a = Some l \<and> l \<in> lab_keys d) \<and>
     (\<forall>e \<in> set (events d). event_ok d e)"

lemma event_ok_mono:
  "event_ok d e \<Longrightarrow> lab_keys d \<subseteq> lab_keys d' \<Longrightarrow> run_keys d \<subseteq> run_keys d' \<Longrightarrow> event_ok d' e"
  unfolding event_ok_def by blast

lemma refs_storages_step:
  "transition E n d d' \<Longrightarrow> map sto_lab_id (storages d) = map lab_id (labs d) \<Longrightarrow>
   map sto_lab_id (storages d') = map lab_id (labs d')"
  by (induction rule: transition.induct) (simp_all add: same_lab_def)

lemma refs_runs_step:
  "transition E n d d' \<Longrightarrow> \<forall>r \<in> set (runs d). run_lab_id r \<in> lab_keys d \<Longrightarrow>
   \<forall>r \<in> set (runs d'). run_lab_id r \<in> lab_keys d'"
  by (induction rule: transition.induct) (auto simp: set_put)

lemma refs_exports_step:
  "transition E n d d' \<Longrightarrow>
   \<forall>x \<in> set (exports d). exp_lab_id x \<in> lab_keys d \<and> (\<forall>r. exp_run_id x = Some r \<longrightarrow> r \<in> run_keys d) \<Longrightarrow>
   \<forall>x \<in> set (exports d'). exp_lab_id x \<in> lab_keys d' \<and> (\<forall>r. exp_run_id x = Some r \<longrightarrow> r \<in> run_keys d')"
  by (induction rule: transition.induct) (auto simp: set_put same_export_def)

lemma refs_leases_step:
  "transition E n d d' \<Longrightarrow> \<forall>k \<in> set (leases d). lease_lab_id k \<in> lab_keys d \<Longrightarrow>
   \<forall>k \<in> set (leases d'). lease_lab_id k \<in> lab_keys d'"
  by (induction rule: transition.induct) (auto simp: set_put)

lemma refs_snapshots_step:
  "transition E n d d' \<Longrightarrow> \<forall>p \<in> set (snapshots d). snap_lab_id p \<in> lab_keys d \<Longrightarrow>
   \<forall>p \<in> set (snapshots d'). snap_lab_id p \<in> lab_keys d'"
  by (induction rule: transition.induct) auto

lemma refs_approvals_step:
  "transition E n d d' \<Longrightarrow> \<forall>a \<in> set (approvals d). \<exists>l. apr_lab_id a = Some l \<and> l \<in> lab_keys d \<Longrightarrow>
   \<forall>a \<in> set (approvals d'). \<exists>l. apr_lab_id a = Some l \<and> l \<in> lab_keys d'"
  by (induction rule: transition.induct)
     (auto simp: set_put settles_def lab_gate_def export_gate_def pending_approval_def split: if_splits)

lemma refs_events_step:
  assumes "transition E n d d'" and "\<forall>e \<in> set (events d). event_ok d e"
  shows "\<forall>e \<in> set (events d'). event_ok d' e"
proof -
  have "\<exists>es. events d' = events d @ es \<and> audit E n d d' es"
    using assms(1) by (cases rule: transition.cases) auto
  then obtain es where "events d' = events d @ es" and "\<forall>e \<in> set es. event_ok d' e"
    by (auto simp: audit_def)
  then show ?thesis using assms(2) keys_mono [OF assms(1)] by (auto intro: event_ok_mono)
qed

lemma inv_refs_step:
  assumes t: "transition E n d d'" and "inv_refs d"
  shows "inv_refs d'"
  using assms(2) refs_storages_step [OF t] refs_runs_step [OF t] refs_exports_step [OF t]
    refs_leases_step [OF t] refs_snapshots_step [OF t] refs_approvals_step [OF t] refs_events_step [OF t]
  unfolding inv_refs_def by simp

lemma inv_refs: "reach E n d \<Longrightarrow> inv_refs d"
  by (erule reach_induct_step) (simp add: inv_refs_def empty_database_def, rule inv_refs_step)

end
