(* ===== verification/Gates.thy ===== *)
theory Gates
  imports Invariants
begin

section \<open>What approvals gate\<close>

text \<open>
  The invariants behind the two gates of the program: a lab whose profile requires a start approval
  is never in state \<open>approved\<close>, and an export whose profile requires an export approval is never
  released, unless the approval that was recorded for it has been approved.
\<close>

definition resource_key :: "ApprovalRow \<Rightarrow> string \<times> string" where
  "resource_key a = (apr_resource_type a, apr_resource_id a)"

definition export_keys :: "database \<Rightarrow> string set" where
  "export_keys d = exp_id ` set (exports d)"

subsection \<open>States that occur\<close>

definition lab_states_ok :: "database \<Rightarrow> bool" where
  "lab_states_ok d \<longleftrightarrow> (\<forall>l \<in> set (labs d). lab_state l \<in>
     {lab_value LAB_PENDING_APPROVAL, lab_value LAB_APPROVED, lab_value LAB_FAILED, lab_value LAB_DESTROYED})"

definition run_states_ok :: "database \<Rightarrow> bool" where
  "run_states_ok d \<longleftrightarrow> (\<forall>r \<in> set (runs d). run_timeout_at r \<noteq> None \<and>
     run_state r \<in> {run_value RUN_QUEUED, run_value RUN_TIMED_OUT})"

text \<open>The columns of an approval agree: the flag says approved exactly in state \<open>approved\<close>, and who
  decided and when is recorded exactly once it is no longer \<open>requested\<close>.\<close>

definition approval_row_ok :: "ApprovalRow \<Rightarrow> bool" where
  "approval_row_ok a \<longleftrightarrow>
     (\<exists>s. apr_state a = approval_value s \<and> apr_approved a = (s = APPROVAL_APPROVED) \<and>
        (apr_decided_by a = None) = (s = APPROVAL_REQUESTED) \<and>
        (apr_decided_at a = None) = (s = APPROVAL_REQUESTED)) \<and>
     apr_resource_type a \<in> {''lab'', ''export''} \<and> apr_expires_at a \<noteq> None"

definition approvals_ok :: "database \<Rightarrow> bool" where
  "approvals_ok d \<longleftrightarrow> (\<forall>a \<in> set (approvals d). approval_row_ok a)"

lemma lab_states_step: "transition E n d d' \<Longrightarrow> lab_states_ok d \<Longrightarrow> lab_states_ok d'"
  unfolding lab_states_ok_def
  by (induction rule: transition.induct) (auto simp: set_put lab_gate_def split: if_splits)

lemma run_states_step: "transition E n d d' \<Longrightarrow> run_states_ok d \<Longrightarrow> run_states_ok d'"
  unfolding run_states_ok_def by (induction rule: transition.induct) (auto simp: set_put)

lemma pending_approval_row_ok:
  "pending_approval l t i a \<Longrightarrow> t \<in> {''lab'', ''export''} \<Longrightarrow> approval_row_ok a"
  by (auto simp: pending_approval_def approval_row_ok_def)

lemma settles_row_ok: "settles s a a' \<Longrightarrow> approval_row_ok a \<Longrightarrow> approval_row_ok a'"
  by (auto simp: settles_def approval_row_ok_def)

lemma approvals_step: "transition E n d d' \<Longrightarrow> approvals_ok d \<Longrightarrow> approvals_ok d'"
  unfolding approvals_ok_def
proof (induction rule: transition.induct)
  case create_lab
  then show ?case by (auto simp: lab_gate_def dest: pending_approval_row_ok)
next
  case create_export
  then show ?case by (auto simp: export_gate_def dest: pending_approval_row_ok split: if_splits)
qed (auto elim!: in_putE intro: settles_row_ok)

subsection \<open>One approval per resource\<close>

definition resources_ok :: "database \<Rightarrow> bool" where
  "resources_ok d \<longleftrightarrow> distinct (map resource_key (approvals d)) \<and>
     (\<forall>a \<in> set (approvals d). (apr_resource_type a = ''lab'' \<longrightarrow> apr_resource_id a \<in> lab_keys d) \<and>
        (apr_resource_type a = ''export'' \<longrightarrow> apr_resource_id a \<in> export_keys d))"

lemma resource_key_put:
  assumes "a \<in> set t" and "settles s a a'" and "distinct (map apr_id t)"
  shows "map resource_key (row_put apr_id a' t) = map resource_key t"
proof (rule map_put_same)
  fix x
  assume "x \<in> set t" and "apr_id x = apr_id a'"
  then have "x = a" using assms by (auto simp: settles_def intro: row_key_inj)
  then show "resource_key x = resource_key a'" using assms(2) by (simp add: settles_def resource_key_def)
qed

lemma resources_put:
  assumes ok: "resources_ok d" and a: "a \<in> set (approvals d)" "settles s a a'" "distinct (map apr_id (approvals d))"
    and d': "approvals d' = row_put apr_id a' (approvals d)" "lab_keys d' = lab_keys d" "export_keys d' = export_keys d"
  shows "resources_ok d'"
proof -
  have "distinct (map resource_key (approvals d'))"
    unfolding d' resource_key_put [OF a] using ok by (simp add: resources_ok_def)
  moreover have "\<forall>b \<in> set (approvals d'). (apr_resource_type b = ''lab'' \<longrightarrow> apr_resource_id b \<in> lab_keys d) \<and>
      (apr_resource_type b = ''export'' \<longrightarrow> apr_resource_id b \<in> export_keys d)"
    unfolding d'(1) using ok a(1,2) by (intro ball_put) (simp_all add: resources_ok_def settles_def)
  ultimately show ?thesis by (simp add: resources_ok_def d'(2,3))
qed

text \<open>A new request names a resource that no earlier one can name.\<close>

lemma resources_new:
  assumes ok: "resources_ok d" and keys: "lab_keys d \<subseteq> lab_keys d'" "export_keys d \<subseteq> export_keys d'"
    and new: "approvals d' = approvals d @ as" "as = [] \<or> (\<exists>a. as = [a] \<and>
        (apr_resource_type a = ''lab'' \<and> apr_resource_id a \<in> lab_keys d' - lab_keys d \<or>
         apr_resource_type a = ''export'' \<and> apr_resource_id a \<in> export_keys d' - export_keys d))"
  shows "resources_ok d'"
proof (cases "as = []")
  case True
  then show ?thesis using ok keys new by (auto simp: resources_ok_def subset_iff)
next
  case False
  with new(2) obtain a where a: "as = [a]"
    and at: "apr_resource_type a = ''lab'' \<and> apr_resource_id a \<in> lab_keys d' - lab_keys d \<or>
         apr_resource_type a = ''export'' \<and> apr_resource_id a \<in> export_keys d' - export_keys d" by blast
  have "resource_key a \<notin> resource_key ` set (approvals d)"
    using ok at unfolding resources_ok_def resource_key_def by fastforce
  then have "distinct (map resource_key (approvals d'))" using ok new(1) a by (simp add: resources_ok_def)
  moreover have "\<forall>b \<in> set (approvals d'). (apr_resource_type b = ''lab'' \<longrightarrow> apr_resource_id b \<in> lab_keys d') \<and>
      (apr_resource_type b = ''export'' \<longrightarrow> apr_resource_id b \<in> export_keys d')"
    using ok keys at new(1) a unfolding resources_ok_def by fastforce
  ultimately show ?thesis by (simp add: resources_ok_def)
qed

lemma resources_step:
  assumes "transition E n d d'" and "inv_keys E n d" and "resources_ok d"
  shows "resources_ok d'"
  using assms
proof (induction rule: transition.induct)
  case create_lab
  then show ?case
    by (elim resources_new) (auto simp: lab_gate_def pending_approval_def new_ids_def export_keys_def)
next
  case create_export
  then show ?case
    by (elim resources_new) (auto simp: export_gate_def pending_approval_def new_ids_def export_keys_def split: if_splits)
next
  case decide_lab
  then show ?case
    by (elim resources_put) (simp_all add: inv_keys_def table_keys_def export_keys_def)
next
  case expire_lab
  then show ?case
    by (elim resources_put) (simp_all add: inv_keys_def table_keys_def export_keys_def)
next
  case decide_export
  then show ?case
    by (elim resources_put) (simp_all add: inv_keys_def table_keys_def export_keys_def)
qed (simp_all add: resources_ok_def export_keys_def)

subsection \<open>The gates\<close>

definition gate_ok :: "ApprovalRow \<Rightarrow> ExportRow \<Rightarrow> bool" where
  "gate_ok a x \<longleftrightarrow>
     (apr_state a = approval_value APPROVAL_REQUESTED \<longrightarrow> exp_approval_required x \<and>
        exp_state x \<in> {export_value EXPORT_QUARANTINED, export_value EXPORT_REJECTED}) \<and>
     (apr_state a \<in> {approval_value APPROVAL_REJECTED, approval_value APPROVAL_EXPIRED} \<longrightarrow>
        exp_state x = export_value EXPORT_REJECTED)"

definition export_gates :: "database \<Rightarrow> bool" where
  "export_gates d \<longleftrightarrow> (\<forall>a \<in> set (approvals d). \<forall>x \<in> set (exports d).
     resource_key a = (''export'', exp_id x) \<longrightarrow> gate_ok a x)"

definition lab_gate_ok :: "ApprovalRow \<Rightarrow> LabRow \<Rightarrow> bool" where
  "lab_gate_ok a l \<longleftrightarrow>
     (apr_state a \<noteq> approval_value APPROVAL_APPROVED \<longrightarrow> lab_state l \<noteq> lab_value LAB_APPROVED)"

definition lab_gates :: "database \<Rightarrow> bool" where
  "lab_gates d \<longleftrightarrow> (\<forall>a \<in> set (approvals d). \<forall>l \<in> set (labs d).
     resource_key a = (''lab'', lab_id l) \<longrightarrow> lab_gate_ok a l)"

text \<open>The approvals that the policy asks for are on record.\<close>

definition export_approval_recorded :: "env \<Rightarrow> database \<Rightarrow> ExportRow \<Rightarrow> bool" where
  "export_approval_recorded E d x \<longleftrightarrow> (\<exists>l \<in> set (labs d). \<exists>p. exp_lab_id x = lab_id l \<and>
     policy_profiles E (lab_profile_name l) = Some p \<and>
     (p_approval_on_export p \<longrightarrow> (''export'', exp_id x) \<in> resource_key ` set (approvals d)))"

definition lab_approval_recorded :: "env \<Rightarrow> database \<Rightarrow> LabRow \<Rightarrow> bool" where
  "lab_approval_recorded E d l \<longleftrightarrow> (\<exists>p. policy_profiles E (lab_profile_name l) = Some p \<and>
     (p_approval_on_start p \<longrightarrow> (''lab'', lab_id l) \<in> resource_key ` set (approvals d)))"

lemma pending_gate_ok:
  "pending_approval l ''export'' i a \<Longrightarrow> exp_state x = export_value EXPORT_QUARANTINED \<Longrightarrow>
   exp_approval_required x \<Longrightarrow> gate_ok a x"
  by (simp add: pending_approval_def gate_ok_def)

lemma resource_key_unique:
  "resources_ok d \<Longrightarrow> a \<in> set (approvals d) \<Longrightarrow> b \<in> set (approvals d) \<Longrightarrow> resource_key a = resource_key b \<Longrightarrow> a = b"
  by (auto simp: resources_ok_def intro: row_key_inj)

lemma resource_exists:
  "resources_ok d \<Longrightarrow> a \<in> set (approvals d) \<Longrightarrow> resource_key a = (''export'', i) \<Longrightarrow> i \<in> export_keys d"
  "resources_ok d \<Longrightarrow> a \<in> set (approvals d) \<Longrightarrow> resource_key a = (''lab'', i) \<Longrightarrow> i \<in> lab_keys d"
  by (auto simp: resources_ok_def resource_key_def)

lemma settles_resource: "settles s a a' \<Longrightarrow> resource_key a' = resource_key a"
  by (simp add: settles_def resource_key_def)

lemma decided_gate_ok: "settles s a a' \<Longrightarrow> export_decided s x \<Longrightarrow> gate_ok a' x"
  by (cases s) (simp_all add: settles_def export_decided_def gate_ok_def)

lemma export_gates_step:
  assumes "transition E n d d'" and "resources_ok d" and "export_gates d"
  shows "export_gates d'"
  using assms
proof (induction rule: transition.induct)
  case (create_lab d' d es as s l p)
  have "resource_key a \<noteq> (''export'', i)" if "a \<in> set as" for a i
    using create_lab(10) that by (auto simp: lab_gate_def pending_approval_def resource_key_def)
  with create_lab show ?case by (auto simp: export_gates_def)
next
  case (create_export d' d es as x l p)
  have "exp_id x \<notin> export_keys d" using create_export(2) by (simp add: new_ids_def export_keys_def)
  then have old: "resource_key a \<noteq> (''export'', exp_id x)" if "a \<in> set (approvals d)" for a
    using create_export(10) that resource_exists(1) by blast
  have new: "gate_ok a x \<and> resource_key a = (''export'', exp_id x)" if "a \<in> set as" for a
    using create_export(9) that
    by (auto simp: export_gate_def resource_key_def pending_approval_def gate_ok_def split: if_splits)
  have "exp_id x \<noteq> exp_id y" if "y \<in> set (exports d)" for y
    using create_export(2) that by (auto simp: new_ids_def)
  with create_export old new show ?case by (force simp: export_gates_def)
next
  case (decide_export d' d es x' a' a s x)
  have "gate_ok a' x'" using decide_export by (blast intro: decided_gate_ok)
  moreover have "resource_key b \<noteq> (''export'', exp_id x')"
    if "b \<in> set (approvals d)" "apr_id b \<noteq> apr_id a'" for b
  proof
    assume "resource_key b = (''export'', exp_id x')"
    then have "resource_key b = resource_key a"
      using decide_export by (simp add: resource_key_def same_export_def)
    then have "b = a" using decide_export that by (intro resource_key_unique) auto
    then show False using that decide_export by (simp add: settles_def)
  qed
  moreover have "resource_key a' = (''export'', exp_id x)"
    using decide_export by (simp add: settles_def resource_key_def)
  ultimately show ?case using decide_export by (auto simp: export_gates_def same_export_def elim!: in_putE)
next
  case (decide_lab d' d es l' a' a s l)
  then have "resource_key a' \<noteq> (''export'', i)" for i by (simp add: settles_def resource_key_def)
  with decide_lab show ?case by (auto simp: export_gates_def elim!: in_putE)
next
  case (expire_lab d' d es a' a l)
  then have "resource_key a' \<noteq> (''export'', i)" for i by (simp add: settles_def resource_key_def)
  with expire_lab show ?case by (auto simp: export_gates_def elim!: in_putE)
next
  case (release_export d' d es x' x)
  have "gate_ok a x'" if "a \<in> set (approvals d)" "resource_key a = (''export'', exp_id x')" for a
    using release_export that by (auto simp: export_gates_def gate_ok_def same_export_def)
  with release_export show ?case by (auto simp: export_gates_def elim!: in_putE)
next
  case (deny_export d' d es x' x)
  have "gate_ok a x'" if "a \<in> set (approvals d)" "resource_key a = (''export'', exp_id x')" for a
    using deny_export that by (auto simp: export_gates_def gate_ok_def same_export_def)
  with deny_export show ?case by (auto simp: export_gates_def elim!: in_putE)
qed (simp_all add: export_gates_def)

lemma lab_gates_step:
  assumes "transition E n d d'" and "inv_keys E n d" and "resources_ok d" and "lab_gates d"
  shows "lab_gates d'"
  using assms
proof (induction rule: transition.induct)
  case (create_lab d' d es as s l p)
  have "lab_id l \<notin> lab_keys d" using create_lab(2) by (simp add: new_ids_def)
  then have old: "resource_key a \<noteq> (''lab'', lab_id l)" if "a \<in> set (approvals d)" for a
    using create_lab(12) that resource_exists(2) by blast
  have new: "lab_gate_ok a l \<and> resource_key a = (''lab'', lab_id l)" if "a \<in> set as" for a
    using create_lab(10) that
    by (auto simp: lab_gate_def resource_key_def pending_approval_def lab_gate_ok_def)
  have "lab_id l \<noteq> lab_id k" if "k \<in> set (labs d)" for k
    using create_lab(2) that by (auto simp: new_ids_def)
  with create_lab old new show ?case by (force simp: lab_gates_def)
next
  case (create_export d' d es as x l p)
  have "resource_key a \<noteq> (''lab'', i)" if "a \<in> set as" for a i
    using create_export(9) that
    by (auto simp: export_gate_def pending_approval_def resource_key_def split: if_splits)
  with create_export show ?case by (auto simp: lab_gates_def)
next
  case (decide_lab d' d es l' a' a s l)
  have "lab_gate_ok a' l'" using decide_lab by (auto simp: settles_def lab_gate_ok_def)
  moreover have "resource_key b \<noteq> (''lab'', lab_id l')"
    if "b \<in> set (approvals d)" "apr_id b \<noteq> apr_id a'" for b
  proof
    assume "resource_key b = (''lab'', lab_id l')"
    then have "resource_key b = resource_key a"
      using decide_lab by (simp add: resource_key_def same_lab_def)
    then have "b = a" using decide_lab that by (intro resource_key_unique) auto
    then show False using that decide_lab by (simp add: settles_def)
  qed
  moreover have "resource_key a' = (''lab'', lab_id l)"
    using decide_lab by (simp add: settles_def resource_key_def)
  ultimately show ?case using decide_lab by (auto simp: lab_gates_def same_lab_def elim!: in_putE)
next
  case (expire_lab d' d es a' a l)
  have "lab_gate_ok a k" if "k \<in> set (labs d)" "resource_key a = (''lab'', lab_id k)" for k
    using expire_lab that by (auto simp: lab_gates_def)
  then have "lab_gate_ok a' k" if "k \<in> set (labs d)" "resource_key a' = (''lab'', lab_id k)" for k
    using that settles_resource [OF expire_lab(4)] expire_lab(4)
    by (auto simp: settles_def lab_gate_ok_def)
  with expire_lab show ?case by (auto simp: lab_gates_def elim!: in_putE)
next
  case (decide_export d' d es x' a' a s x)
  then have "resource_key a' \<noteq> (''lab'', i)" for i by (simp add: settles_def resource_key_def)
  with decide_export show ?case by (auto simp: lab_gates_def elim!: in_putE)
next
  case (end_lab d' d es l' l)
  have "lab_gate_ok a l'" for a using end_lab by (auto simp: lab_gate_ok_def)
  with end_lab show ?case by (auto simp: lab_gates_def elim!: in_putE)
qed (simp_all add: lab_gates_def)

subsection \<open>Export rows\<close>

definition export_row_ok :: "ExportRow \<Rightarrow> bool" where
  "export_row_ok x \<longleftrightarrow>
     exp_state x \<in> {export_value EXPORT_QUARANTINED, export_value EXPORT_APPROVED,
        export_value EXPORT_RELEASED, export_value EXPORT_REJECTED} \<and>
     (exp_released_path x \<noteq> None \<longleftrightarrow> exp_state x = export_value EXPORT_RELEASED) \<and>
     (exp_state x \<in> {export_value EXPORT_APPROVED, export_value EXPORT_RELEASED} \<longrightarrow> \<not> exp_approval_required x)"

definition exports_ok :: "database \<Rightarrow> bool" where
  "exports_ok d \<longleftrightarrow> (\<forall>x \<in> set (exports d). export_row_ok x)"

lemma exports_step:
  assumes "transition E n d d'" and "export_gates d" and "exports_ok d"
  shows "exports_ok d'"
  using assms
proof (induction rule: transition.induct)
  case (decide_export d' d es x' a' a s x)
  have "resource_key a = (''export'', exp_id x)" using decide_export by (simp add: resource_key_def)
  then have "gate_ok a x" and "export_row_ok x" using decide_export by (auto simp: export_gates_def exports_ok_def)
  then have "exp_released_path x = None"
    using decide_export by (auto simp: gate_ok_def settles_def export_row_ok_def)
  then have "export_row_ok x'"
    using decide_export by (auto simp: export_row_ok_def export_decided_def split: if_splits)
  with decide_export show ?case by (auto simp: exports_ok_def elim!: in_putE)
next
  case create_export
  then show ?case by (auto simp: exports_ok_def export_row_ok_def export_gate_def split: if_splits)
next
  case (release_export d' d es x' x)
  then have "export_row_ok x'" by (auto simp: export_row_ok_def)
  with release_export show ?case by (auto simp: exports_ok_def elim!: in_putE)
next
  case (deny_export d' d es x' x)
  then have "export_row_ok x'" by (auto simp: export_row_ok_def)
  with deny_export show ?case by (auto simp: exports_ok_def elim!: in_putE)
qed (simp_all add: exports_ok_def)

subsection \<open>Approvals on record\<close>

lemma resource_keys_mono:
  assumes "transition E n d d'" and "inv_keys E n d"
  shows "resource_key ` set (approvals d) \<subseteq> resource_key ` set (approvals d')"
  using assms
proof (induction rule: transition.induct)
  case (decide_lab d' d es l' a' a s l)
  then have "map resource_key (approvals d') = map resource_key (approvals d)"
    by (auto simp: inv_keys_def table_keys_def intro: resource_key_put)
  then show ?case by (metis list.set_map order_refl)
next
  case (expire_lab d' d es a' a l)
  then have "map resource_key (approvals d') = map resource_key (approvals d)"
    by (auto simp: inv_keys_def table_keys_def intro: resource_key_put)
  then show ?case by (metis list.set_map order_refl)
next
  case (decide_export d' d es x' a' a s x)
  then have "map resource_key (approvals d') = map resource_key (approvals d)"
    by (auto simp: inv_keys_def table_keys_def intro: resource_key_put)
  then show ?case by (metis list.set_map order_refl)
qed auto

text \<open>Nothing that a recorded lab says about its identity or its profile ever changes.\<close>

lemma lab_put_persists:
  assumes "k \<in> set t" and "same_lab k k'" and "distinct (map lab_id t)" and "l \<in> set t"
  shows "\<exists>l' \<in> set (row_put lab_id k' t). same_lab l l'"
proof (cases "lab_id l = lab_id k")
  case True
  then have "l = k" using assms by (blast intro: row_key_inj)
  then show ?thesis using assms by (auto simp: same_lab_def intro: in_put_self)
next
  case False
  then have "l \<in> set (row_put lab_id k' t)" using assms by (intro in_put_other) (auto simp: same_lab_def)
  then show ?thesis by (auto simp: same_lab_def)
qed

lemma lab_persists:
  "transition E n d d' \<Longrightarrow> l \<in> set (labs d) \<Longrightarrow> inv_keys E n d \<Longrightarrow> \<exists>l' \<in> set (labs d'). same_lab l l'"
proof (induction rule: transition.induct)
  case (end_lab d' d es k' k)
  then show ?case using lab_put_persists [of k "labs d" k' l] by (simp add: inv_keys_def table_keys_def)
next
  case (decide_lab d' d es k' a' a s k)
  then show ?case using lab_put_persists [of k "labs d" k' l] by (simp add: inv_keys_def table_keys_def)
qed (auto simp: same_lab_def)

lemma lab_recorded_step:
  assumes t: "transition E n d d'" and keys: "inv_keys E n d"
    and rec: "\<forall>l \<in> set (labs d). lab_approval_recorded E d l"
  shows "\<forall>l \<in> set (labs d'). lab_approval_recorded E d' l"
proof
  fix l
  assume "l \<in> set (labs d')"
  with t have "(\<exists>k \<in> set (labs d). same_lab k l) \<or> lab_approval_recorded E d' l"
  proof (induction rule: transition.induct)
    case (create_lab d' d es as s k p)
    have "lab_approval_recorded E d' k"
      using create_lab
      by (auto simp: lab_approval_recorded_def lab_gate_def pending_approval_def resource_key_def)
    with create_lab show ?case by (auto intro: same_lab_refl)
  qed (auto elim!: in_putE intro: same_lab_refl)
  then show "lab_approval_recorded E d' l"
  proof
    assume "\<exists>k \<in> set (labs d). same_lab k l"
    with rec resource_keys_mono [OF t keys] show ?thesis
      unfolding lab_approval_recorded_def same_lab_def by fastforce
  qed
qed

lemma export_recorded_step:
  assumes t: "transition E n d d'" and keys: "inv_keys E n d"
    and rec: "\<forall>x \<in> set (exports d). export_approval_recorded E d x"
  shows "\<forall>x \<in> set (exports d'). export_approval_recorded E d' x"
proof
  fix x
  assume "x \<in> set (exports d')"
  with t have "(\<exists>y \<in> set (exports d). same_export y x) \<or> export_approval_recorded E d' x"
  proof (induction rule: transition.induct)
    case (create_export d' d es as y l p)
    have "export_approval_recorded E d' y"
      using create_export
      by (auto simp: export_approval_recorded_def export_gate_def pending_approval_def resource_key_def
          split: if_splits)
    with create_export show ?case by (auto intro: same_export_refl)
  qed (auto elim!: in_putE intro: same_export_refl)
  then show "export_approval_recorded E d' x"
  proof
    assume "\<exists>y \<in> set (exports d). same_export y x"
    then obtain l p where l: "l \<in> set (labs d)" "exp_lab_id x = lab_id l"
      and p: "policy_profiles E (lab_profile_name l) = Some p"
      and a: "p_approval_on_export p \<longrightarrow> (''export'', exp_id x) \<in> resource_key ` set (approvals d)"
      using rec by (auto simp: export_approval_recorded_def same_export_def)
    obtain l' where l': "l' \<in> set (labs d')" "same_lab l l'" using lab_persists [OF t l(1) keys] by blast
    have "p_approval_on_export p \<longrightarrow> (''export'', exp_id x) \<in> resource_key ` set (approvals d')"
      using a resource_keys_mono [OF t keys] by blast
    with l' l p show ?thesis
      unfolding export_approval_recorded_def same_lab_def by (intro bexI [of _ l'] exI [of _ p]) simp_all
  qed
qed

subsection \<open>The audit trail\<close>

lemma logs_append: "logs (es @ fs) ty i \<longleftrightarrow> logs es ty i \<or> logs fs ty i"
  by (auto simp: logs_def)

definition trail_ok :: "database \<Rightarrow> bool" where
  "trail_ok d \<longleftrightarrow>
     (\<forall>l \<in> set (labs d). logs (events d) ''lab.requested'' (lab_id l)) \<and>
     (\<forall>a \<in> set (approvals d). \<forall>s. apr_state a = approval_value s \<and> s \<noteq> APPROVAL_REQUESTED \<longrightarrow>
        logs (events d) (decision_event s) (apr_id a)) \<and>
     (\<forall>x \<in> set (exports d). exp_state x = export_value EXPORT_RELEASED \<longrightarrow>
        logs (events d) ''export.released'' (exp_id x))"

lemma trail_step: "transition E n d d' \<Longrightarrow> trail_ok d \<Longrightarrow> trail_ok d'"
proof (induction rule: transition.induct)
  case create_lab
  then show ?case by (auto simp: trail_ok_def logs_append lab_gate_def pending_approval_def)
next
  case create_export
  then show ?case
    by (auto simp: trail_ok_def logs_append export_gate_def pending_approval_def split: if_splits)
next
  case decide_lab
  then show ?case by (auto simp: trail_ok_def logs_append settles_def same_lab_def elim!: in_putE)
next
  case expire_lab
  then show ?case by (auto simp: trail_ok_def logs_append settles_def elim!: in_putE)
next
  case decide_export
  then show ?case
    by (auto simp: trail_ok_def logs_append settles_def export_decided_def elim!: in_putE split: if_splits)
qed (auto simp: trail_ok_def logs_append same_lab_def same_export_def elim!: in_putE)

subsection \<open>The invariant of every reachable database\<close>

definition layout_ok :: "env \<Rightarrow> database \<Rightarrow> bool" where
  "layout_ok E d \<longleftrightarrow> (\<forall>s \<in> set (storages d). storage_layout (storage_root E) s)"

lemma layout_step: "transition E n d d' \<Longrightarrow> layout_ok E d \<Longrightarrow> layout_ok E d'"
  unfolding layout_ok_def by (induction rule: transition.induct) auto

definition leases_ok :: "env \<Rightarrow> database \<Rightarrow> bool" where
  "leases_ok E d \<longleftrightarrow> (\<forall>k \<in> set (leases d). \<exists>l \<in> set (labs d). \<exists>p. lease_lab_id k = lab_id l \<and>
     policy_profiles E (lab_profile_name l) = Some p \<and> lease_secret_name k \<in> set (p_allowed_secret_names p))"

lemma leases_step:
  assumes t: "transition E n d d'" and keys: "inv_keys E n d" and ok: "leases_ok E d"
  shows "leases_ok E d'"
  unfolding leases_ok_def
proof
  fix k
  assume "k \<in> set (leases d')"
  with t have "(\<exists>l \<in> set (labs d). \<exists>p. lease_lab_id k = lab_id l \<and>
      policy_profiles E (lab_profile_name l) = Some p \<and> lease_secret_name k \<in> set (p_allowed_secret_names p))"
    using ok
  proof (induction rule: transition.induct)
    case (revoke_lease d' d es k' k0)
    then show ?case unfolding leases_ok_def by (fastforce elim!: in_putE)
  qed (auto simp: leases_ok_def)
  then obtain l p where l: "l \<in> set (labs d)" "lease_lab_id k = lab_id l"
    and p: "policy_profiles E (lab_profile_name l) = Some p" "lease_secret_name k \<in> set (p_allowed_secret_names p)" by blast
  obtain l' where "l' \<in> set (labs d')" "same_lab l l'" using lab_persists [OF t l(1) keys] by blast
  with l p show "\<exists>l \<in> set (labs d'). \<exists>p. lease_lab_id k = lab_id l \<and>
      policy_profiles E (lab_profile_name l) = Some p \<and> lease_secret_name k \<in> set (p_allowed_secret_names p)"
    by (intro bexI [of _ l'] exI [of _ p]) (simp_all add: same_lab_def)
qed

lemma jobs_step: "transition E n d d' \<Longrightarrow> job_table_ok (jobs d) \<Longrightarrow> job_table_ok (jobs d')"
  by (induction rule: transition.induct) simp_all

definition control_ok :: "env \<Rightarrow> nat \<Rightarrow> database \<Rightarrow> bool" where
  "control_ok E n d \<longleftrightarrow> inv_keys E n d \<and> inv_refs d \<and> lab_states_ok d \<and> run_states_ok d \<and> approvals_ok d \<and>
     resources_ok d \<and> export_gates d \<and> lab_gates d \<and> exports_ok d \<and>
     (\<forall>l \<in> set (labs d). lab_approval_recorded E d l) \<and>
     (\<forall>x \<in> set (exports d). export_approval_recorded E d x) \<and>
     trail_ok d \<and> layout_ok E d \<and> leases_ok E d \<and> job_table_ok (jobs d)"

lemma control_step:
  assumes t: "transition E n d d'" and ok: "control_ok E n d"
  shows "control_ok E n d'"
proof -
  from ok have keys: "inv_keys E n d" and res: "resources_ok d" and gates: "export_gates d"
    by (simp_all add: control_ok_def)
  show ?thesis
    using ok inv_keys_step [OF t] inv_refs_step [OF t] lab_states_step [OF t] run_states_step [OF t]
      approvals_step [OF t] resources_step [OF t keys] export_gates_step [OF t res]
      lab_gates_step [OF t keys res] exports_step [OF t gates] lab_recorded_step [OF t keys]
      export_recorded_step [OF t keys] trail_step [OF t] layout_step [OF t] leases_step [OF t keys]
      jobs_step [OF t]
    unfolding control_ok_def by simp
qed

lemma control_ok: "reach E n d \<Longrightarrow> control_ok E n d"
proof (induction rule: reach.induct)
  case reach_init
  show ?case
    by (simp add: control_ok_def empty_database_def inv_keys_def inv_refs_def lab_states_ok_def
        run_states_ok_def approvals_ok_def resources_ok_def export_gates_def lab_gates_def exports_ok_def
        trail_ok_def layout_ok_def leases_ok_def)
next
  case (reach_more n d m)
  then show ?case by (auto simp: control_ok_def inv_keys_def intro: table_keys_more)
next
  case (reach_step n d d')
  then show ?case by (blast intro: control_step)
qed

text \<open>The audit log only grows, and rows of a lab, a run or a job never disappear.\<close>

lemma transition_prefix:
  "transition E n d d' \<Longrightarrow> prefix (events d) (events d') \<and> prefix (map lab_id (labs d)) (map lab_id (labs d')) \<and>
     prefix (map run_id (runs d)) (map run_id (runs d')) \<and> prefix (map job_id (jobs d)) (map job_id (jobs d'))"
  by (induction rule: transition.induct) simp_all

subsection \<open>Consequences\<close>

lemma approved_of_states:
  "approval_row_ok a \<Longrightarrow> apr_state a \<noteq> approval_value APPROVAL_REQUESTED \<Longrightarrow>
   apr_state a \<notin> {approval_value APPROVAL_REJECTED, approval_value APPROVAL_EXPIRED} \<Longrightarrow>
   apr_state a = approval_value APPROVAL_APPROVED \<and> apr_approved a \<and> apr_decided_by a \<noteq> None"
  unfolding approval_row_ok_def
proof (elim conjE exE)
  fix s
  assume "apr_state a = approval_value s" "apr_approved a = (s = APPROVAL_APPROVED)"
    "(apr_decided_by a = None) = (s = APPROVAL_REQUESTED)"
    "apr_state a \<noteq> approval_value APPROVAL_REQUESTED"
    "apr_state a \<notin> {approval_value APPROVAL_REJECTED, approval_value APPROVAL_EXPIRED}"
  then show ?thesis by (cases s) simp_all
qed

lemma released_was_approved:
  assumes "control_ok E n d" and x: "x \<in> set (exports d)" "exp_state x = export_value EXPORT_RELEASED"
    and l: "l \<in> set (labs d)" "lab_id l = exp_lab_id x"
    and p: "policy_profiles E (lab_profile_name l) = Some p" "p_approval_on_export p"
  shows "\<exists>a \<in> set (approvals d). resource_key a = (''export'', exp_id x) \<and>
     apr_state a = approval_value APPROVAL_APPROVED \<and> apr_approved a \<and> apr_decided_by a \<noteq> None"
proof -
  have "distinct (map lab_id (labs d))"
    using assms(1) by (simp add: control_ok_def inv_keys_def table_keys_def)
  then have same: "k \<in> set (labs d) \<Longrightarrow> lab_id k = exp_lab_id x \<Longrightarrow> k = l" for k
    using l by (auto intro: row_key_inj)
  have "export_approval_recorded E d x" using assms(1) x by (simp add: control_ok_def)
  then obtain k q where k: "k \<in> set (labs d)" "exp_lab_id x = lab_id k"
    and q: "policy_profiles E (lab_profile_name k) = Some q"
      "p_approval_on_export q \<longrightarrow> (''export'', exp_id x) \<in> resource_key ` set (approvals d)"
    unfolding export_approval_recorded_def by blast
  have "k = l" using k by (intro same) simp_all
  with p q have "(''export'', exp_id x) \<in> resource_key ` set (approvals d)" by simp
  then obtain a where a: "a \<in> set (approvals d)" "resource_key a = (''export'', exp_id x)"
    by (auto simp: image_iff)
  then have "gate_ok a x" using assms(1) x(1) by (simp add: control_ok_def export_gates_def)
  moreover have "approval_row_ok a" using assms(1) a(1) by (simp add: control_ok_def approvals_ok_def)
  ultimately have "apr_state a = approval_value APPROVAL_APPROVED \<and> apr_approved a \<and> apr_decided_by a \<noteq> None"
    using x(2) by (intro approved_of_states) (auto simp: gate_ok_def)
  with a show ?thesis by blast
qed

lemma approved_lab_was_approved:
  assumes "control_ok E n d" and l: "l \<in> set (labs d)" "lab_state l = lab_value LAB_APPROVED"
    and p: "policy_profiles E (lab_profile_name l) = Some p" "p_approval_on_start p"
  shows "\<exists>a \<in> set (approvals d). resource_key a = (''lab'', lab_id l) \<and>
     apr_state a = approval_value APPROVAL_APPROVED"
proof -
  have "lab_approval_recorded E d l" using assms(1) l by (simp add: control_ok_def)
  then have "(''lab'', lab_id l) \<in> resource_key ` set (approvals d)"
    using p by (auto simp: lab_approval_recorded_def)
  then obtain a where a: "a \<in> set (approvals d)" "resource_key a = (''lab'', lab_id l)"
    by (auto simp: image_iff)
  then have "lab_gate_ok a l" using assms(1) l(1) by (simp add: control_ok_def lab_gates_def)
  with a l(2) show ?thesis by (auto simp: lab_gate_ok_def)
qed

end
