(* ===== verification/Responses.thy ===== *)
theory Responses
  imports Session
begin

section \<open>Requests, responses and errors of the HTTP API\<close>

text \<open>
  The response models of \<open>labos/core/models.py\<close> with the functions of \<open>labos/api/app.py\<close> that fill
  them from rows, and what the exception handlers turn an exception into. Request bodies whose
  model is a plain list of fields are arguments of the handlers.
\<close>

record LabStorageResponse =
  lsr_persistence_mode :: string
  lsr_root_path :: string
  lsr_workspace_path :: string
  lsr_exports_path :: string
  lsr_quarantine_path :: string
  lsr_snapshots_path :: string
  lsr_workspace_mount_target :: string

record LabResponse =
  lr_id :: string
  lr_profile_name :: string
  lr_state :: string
  lr_runtime_class :: string
  lr_storage :: LabStorageResponse
  lr_created_at :: datetime
  lr_updated_at :: datetime

record RunResponse =
  rr_id :: string
  rr_lab_id :: string
  rr_state :: string
  rr_command :: string
  rr_timeout_at :: "datetime option"
  rr_finished_at :: "datetime option"
  rr_created_at :: datetime
  rr_updated_at :: datetime

record ApprovalResponse =
  ar_id :: string
  ar_lab_id :: "string option"
  ar_resource_type :: string
  ar_resource_id :: string
  ar_action :: string
  ar_reason :: string
  ar_requested_by :: string
  ar_state :: string
  ar_approved :: bool
  ar_decision_comment :: "string option"
  ar_decided_by :: "string option"
  ar_expires_at :: "datetime option"
  ar_decided_at :: "datetime option"
  ar_created_at :: datetime
  ar_updated_at :: datetime

record ExportResponse =
  xr_id :: string
  xr_lab_id :: string
  xr_run_id :: "string option"
  xr_source_path :: string
  xr_state :: string
  xr_quarantine_path :: string
  xr_released_path :: "string option"
  xr_approval_required :: bool
  xr_sha256 :: string
  xr_size_bytes :: int
  xr_denial_reason :: "string option"
  xr_created_at :: datetime
  xr_updated_at :: datetime

record SecretLeaseResponse =
  slr_id :: string
  slr_lab_id :: string
  slr_secret_name :: string
  slr_approved :: bool
  slr_expires_at :: datetime
  slr_revoked_at :: "datetime option"
  slr_created_at :: datetime
  slr_updated_at :: datetime

record EventResponse =
  evr_id :: string
  evr_lab_id :: "string option"
  evr_run_id :: "string option"
  evr_event_type :: string
  evr_actor_type :: ActorType
  evr_actor_id :: "string option"
  evr_resource_type :: "string option"
  evr_resource_id :: "string option"
  evr_payload_json :: string
  evr_created_at :: datetime
  evr_updated_at :: datetime

record SchedulerJobResponse =
  sjr_id :: string
  sjr_action :: SchedulerAction
  sjr_state :: SchedulerJobState
  sjr_requester_id :: string
  sjr_profile_name :: "string option"
  sjr_lab_id :: "string option"
  sjr_command :: "string option"
  sjr_scheduled_for :: datetime
  sjr_attempt_count :: int
  sjr_max_attempts :: int
  sjr_last_error :: "string option"
  sjr_result_resource_type :: "string option"
  sjr_result_resource_id :: "string option"
  sjr_dispatched_at :: "datetime option"
  sjr_completed_at :: "datetime option"
  sjr_created_at :: datetime
  sjr_updated_at :: datetime

definition lab_response_from_row :: "LabRow \<Rightarrow> LabStorageRow \<Rightarrow> LabResponse" where
  "lab_response_from_row row storage =
     \<lparr>lr_id = lab_id row, lr_profile_name = lab_profile_name row, lr_state = lab_state row,
      lr_runtime_class = lab_runtime_class row,
      lr_storage =
        \<lparr>lsr_persistence_mode = sto_persistence_mode storage, lsr_root_path = sto_root_path storage,
         lsr_workspace_path = sto_workspace_path storage, lsr_exports_path = sto_exports_path storage,
         lsr_quarantine_path = sto_quarantine_path storage,
         lsr_snapshots_path = sto_snapshots_path storage,
         lsr_workspace_mount_target = sto_workspace_mount_target storage\<rparr>,
      lr_created_at = created_at row, lr_updated_at = updated_at row\<rparr>"

definition run_response_from_row :: "RunRow \<Rightarrow> RunResponse" where
  "run_response_from_row row =
     \<lparr>rr_id = run_id row, rr_lab_id = run_lab_id row, rr_state = run_state row,
      rr_command = run_command row, rr_timeout_at = run_timeout_at row,
      rr_finished_at = run_finished_at row, rr_created_at = created_at row,
      rr_updated_at = updated_at row\<rparr>"

definition approval_response_from_row :: "ApprovalRow \<Rightarrow> ApprovalResponse" where
  "approval_response_from_row row =
     \<lparr>ar_id = apr_id row, ar_lab_id = apr_lab_id row, ar_resource_type = apr_resource_type row,
      ar_resource_id = apr_resource_id row, ar_action = apr_action row, ar_reason = apr_reason row,
      ar_requested_by = apr_requested_by row, ar_state = apr_state row,
      ar_approved = apr_approved row, ar_decision_comment = apr_decision_comment row,
      ar_decided_by = apr_decided_by row, ar_expires_at = apr_expires_at row,
      ar_decided_at = apr_decided_at row, ar_created_at = created_at row,
      ar_updated_at = updated_at row\<rparr>"

definition export_response_from_row :: "ExportRow \<Rightarrow> ExportResponse" where
  "export_response_from_row row =
     \<lparr>xr_id = exp_id row, xr_lab_id = exp_lab_id row, xr_run_id = exp_run_id row,
      xr_source_path = exp_source_path row, xr_state = exp_state row,
      xr_quarantine_path = exp_quarantine_path row, xr_released_path = exp_released_path row,
      xr_approval_required = exp_approval_required row, xr_sha256 = exp_sha256 row,
      xr_size_bytes = exp_size_bytes row, xr_denial_reason = exp_denial_reason row,
      xr_created_at = created_at row, xr_updated_at = updated_at row\<rparr>"

definition secret_lease_response_from_row :: "SecretLeaseRow \<Rightarrow> SecretLeaseResponse" where
  "secret_lease_response_from_row row =
     \<lparr>slr_id = lease_id row, slr_lab_id = lease_lab_id row, slr_secret_name = lease_secret_name row,
      slr_approved = lease_approved row, slr_expires_at = lease_expires_at row,
      slr_revoked_at = lease_revoked_at row, slr_created_at = created_at row,
      slr_updated_at = updated_at row\<rparr>"

text \<open>Two of the models hold enumeration members, and calling the class on a stored string can raise.\<close>

definition event_response_from_row :: "EventRow \<Rightarrow> exn + EventResponse" where
  "event_response_from_row row =
     result_bind (actor_type_of (ev_actor_type row)) (\<lambda>actor.
     Inr \<lparr>evr_id = ev_id row, evr_lab_id = ev_lab_id row, evr_run_id = ev_run_id row,
          evr_event_type = ev_event_type row, evr_actor_type = actor,
          evr_actor_id = ev_actor_id row, evr_resource_type = ev_resource_type row,
          evr_resource_id = ev_resource_id row, evr_payload_json = ev_payload_json row,
          evr_created_at = created_at row, evr_updated_at = updated_at row\<rparr>)"

definition scheduler_job_response_from_row :: "SchedulerJobRow \<Rightarrow> exn + SchedulerJobResponse" where
  "scheduler_job_response_from_row row =
     result_bind (scheduler_action_of (job_action row)) (\<lambda>action.
     result_bind (scheduler_job_state_of (job_state row)) (\<lambda>state.
     Inr \<lparr>sjr_id = job_id row, sjr_action = action, sjr_state = state,
          sjr_requester_id = job_requester_id row, sjr_profile_name = job_profile_name row,
          sjr_lab_id = job_lab_id row, sjr_command = job_command row,
          sjr_scheduled_for = job_scheduled_for row, sjr_attempt_count = job_attempt_count row,
          sjr_max_attempts = job_max_attempts row, sjr_last_error = job_last_error row,
          sjr_result_resource_type = job_result_resource_type row,
          sjr_result_resource_id = job_result_resource_id row,
          sjr_dispatched_at = job_dispatched_at row, sjr_completed_at = job_completed_at row,
          sjr_created_at = created_at row, sjr_updated_at = updated_at row\<rparr>))"

subsection \<open>Exception handlers\<close>

text \<open>The status, the \<open>detail\<close> and the \<open>resource\<close> of the error body; an exception without a handler
  is an internal server error.\<close>

fun error_response :: "exn \<Rightarrow> nat \<times> string \<times> string option" where
  "error_response (ResourceNotFoundError resource) = (404, ''resource_not_found'', Some resource)"
| "error_response (ConflictError detail resource) = (409, detail, resource)"
| "error_response (HTTPException status detail) = (status, detail, None)"
| "error_response _ = (500, ''Internal Server Error'', None)"

end
