(* ===== verification/Events.thy ===== *)
theory Events
  imports Session
begin

section \<open>Audit events\<close>

text \<open>
  \<open>labos/core/events.py\<close> and \<open>_record_event\<close> of \<open>labos/api/app.py\<close>: an event record with its
  defaults, and the writer that appends a row with the payload as JSON text.
\<close>

record EventRecord =
  er_event_type :: string
  er_payload :: "(string \<times> pyval) list"
  er_lab_id :: "string option"
  er_run_id :: "string option"
  er_actor_type :: string
  er_actor_id :: "string option"
  er_resource_type :: "string option"
  er_resource_id :: "string option"

text \<open>A record with only the type and the payload given.\<close>

definition event_record :: "string \<Rightarrow> (string \<times> pyval) list \<Rightarrow> EventRecord" where
  "event_record event_type payload =
     \<lparr>er_event_type = event_type, er_payload = payload, er_lab_id = None, er_run_id = None,
      er_actor_type = actor_value ACTOR_SYSTEM, er_actor_id = None, er_resource_type = None,
      er_resource_id = None\<rparr>"

definition event_row :: "EventRecord \<Rightarrow> string \<Rightarrow> EventRow" where
  "event_row e i =
     \<lparr>created_at = unset, updated_at = unset, ev_id = i, ev_lab_id = er_lab_id e,
      ev_run_id = er_run_id e, ev_event_type = er_event_type e, ev_actor_type = er_actor_type e,
      ev_actor_id = er_actor_id e, ev_resource_type = er_resource_type e,
      ev_resource_id = er_resource_id e, ev_payload_json = json_dumps (PDict (er_payload e))\<rparr>"

definition write_event :: "env \<Rightarrow> EventRecord \<Rightarrow> EventRow prog" where
  "write_event E e = bnd (fresh_uuid E) (\<lambda>i. add_row E events_update (event_row e i))"

definition record_event :: "env \<Rightarrow> EventRecord \<Rightarrow> unit prog" where
  "record_event E e = bnd (write_event E e) (\<lambda>_. returns ())"

text \<open>The row the writer appends in a given world.\<close>

definition written_row :: "env \<Rightarrow> EventRecord \<Rightarrow> nat \<Rightarrow> nat \<Rightarrow> EventRow" where
  "written_row E e n t =
     (event_row e (uuid4 E n))\<lparr>created_at := utc (clock E t), updated_at := utc (clock E (Suc t))\<rparr>"

lemma written_row_sel [simp]:
  "ev_id (written_row E e n t) = uuid4 E n"
  "ev_lab_id (written_row E e n t) = er_lab_id e"
  "ev_run_id (written_row E e n t) = er_run_id e"
  "ev_event_type (written_row E e n t) = er_event_type e"
  "ev_actor_type (written_row E e n t) = er_actor_type e"
  "ev_actor_id (written_row E e n t) = er_actor_id e"
  "ev_resource_type (written_row E e n t) = er_resource_type e"
  "ev_resource_id (written_row E e n t) = er_resource_id e"
  "ev_payload_json (written_row E e n t) = json_dumps (PDict (er_payload e))"
  by (simp_all add: written_row_def event_row_def)

lemma wp_write_event [wp]:
  "wp (write_event E e) Q w =
     (let r = written_row E e (uuids w) (ticks w)
      in Q (Inr r) (w\<lparr>uuids := Suc (uuids w), ticks := Suc (Suc (ticks w)),
                       db := events_update (app [r]) (db w)\<rparr>))"
  by (simp add: write_event_def wp written_row_def Let_def)

lemma wp_record_event [wp]:
  "wp (record_event E e) Q w =
     Q (Inr ()) (w\<lparr>uuids := Suc (uuids w), ticks := Suc (Suc (ticks w)),
                     db := events_update (app [written_row E e (uuids w) (ticks w)]) (db w)\<rparr>)"
  by (simp add: record_event_def wp Let_def)

lemma event_record_sel [simp]:
  "er_event_type (event_record ty pl) = ty"
  "er_payload (event_record ty pl) = pl"
  "er_lab_id (event_record ty pl) = None"
  "er_run_id (event_record ty pl) = None"
  "er_actor_type (event_record ty pl) = actor_value ACTOR_SYSTEM"
  "er_actor_id (event_record ty pl) = None"
  "er_resource_type (event_record ty pl) = None"
  "er_resource_id (event_record ty pl) = None"
  by (simp_all add: event_record_def)

end
