(* ===== verification/Api_Labs.thy ===== *)
theory Api_Labs
  imports Responses Events Storage
begin

section \<open>API: profiles, labs and runs\<close>

text \<open>
  The handlers of \<open>labos/api/app.py\<close> for profiles, labs and runs, with the two record builders that
  the scheduler shares (\<open>_create_lab_record\<close>, \<open>_create_run_record\<close>) and \<open>_record_approval_request\<close>.
  Each handler is one \<open>with_session\<close> program in the order of the source.
\<close>

definition record_approval_request :: "env \<Rightarrow> string option \<Rightarrow> string \<Rightarrow> string \<Rightarrow> string \<Rightarrow> string \<Rightarrow>
    string \<Rightarrow> ApprovalRow prog" where
  "record_approval_request E lab resource_type resource_id action reason requested_by =
     bnd (fresh_uuid E) (\<lambda>i.
     bnd (utc_now E) (\<lambda>now.
     add_row E approvals_update
       \<lparr>created_at = unset, updated_at = unset, apr_id = i, apr_lab_id = lab,
        apr_resource_type = resource_type, apr_resource_id = resource_id, apr_action = action,
        apr_reason = reason, apr_requested_by = requested_by,
        apr_state = approval_value APPROVAL_REQUESTED, apr_approved = False,
        apr_decision_comment = None, apr_decided_by = None,
        apr_expires_at = Some (plus_delta now (hours 24)), apr_decided_at = None\<rparr>))"

text \<open>The event that follows a recorded approval request.\<close>

definition approval_requested_event :: "ApprovalRow \<Rightarrow> string option \<Rightarrow> EventRecord" where
  "approval_requested_event approval rid =
     (event_record ''approval.requested''
        [(''approval_id'', PStr (apr_id approval)),
         (''resource_type'', PStr (apr_resource_type approval)),
         (''resource_id'', PStr (apr_resource_id approval)),
         (''action'', PStr (apr_action approval))])
       \<lparr>er_lab_id := apr_lab_id approval, er_run_id := rid, er_actor_id := Some ''policy-engine'',
        er_resource_type := Some ''approval'', er_resource_id := Some (apr_id approval)\<rparr>"

definition storage_row_of :: "string \<Rightarrow> StorageAllocation \<Rightarrow> LabStorageRow" where
  "storage_row_of i a =
     \<lparr>created_at = unset, updated_at = unset, sto_id = i, sto_lab_id = sa_lab_id a,
      sto_persistence_mode = persistence_value (sa_persistence_mode a),
      sto_root_path = path_str (sa_root_path a), sto_workspace_path = path_str (sa_workspace_path a),
      sto_exports_path = path_str (sa_exports_path a),
      sto_quarantine_path = path_str (sa_quarantine_path a),
      sto_snapshots_path = path_str (sa_snapshots_path a),
      sto_workspace_mount_target = sa_workspace_mount_target a\<rparr>"

definition storage_allocation_from_row :: "path \<Rightarrow> LabStorageRow \<Rightarrow> exn + StorageAllocation" where
  "storage_allocation_from_row here row =
     result_bind (persistence_mode_of (sto_persistence_mode row)) (\<lambda>mode.
     Inr \<lparr>sa_lab_id = sto_lab_id row, sa_root_path = os_path here (sto_root_path row),
          sa_workspace_path = os_path here (sto_workspace_path row),
          sa_exports_path = os_path here (sto_exports_path row),
          sa_quarantine_path = os_path here (sto_quarantine_path row),
          sa_snapshots_path = os_path here (sto_snapshots_path row),
          sa_persistence_mode = mode, sa_retention_days = 0,
          sa_workspace_mount_target = sto_workspace_mount_target row\<rparr>)"

definition decide_lab_request :: "env \<Rightarrow> string \<Rightarrow> RequesterType \<Rightarrow> RequestDecision prog" where
  "decide_lab_request E profile_name requester =
     attempt (liftR (validate_request (policy_profiles E) profile_name Map.empty (requester_value requester)))
       (\<lambda>exc. if is_KeyError exc then throw (ResourceNotFoundError ''profile'')
              else if is_ValueError exc then throw (HTTPException 400 (exn_str exc))
              else throw exc)"

definition create_lab_record :: "env \<Rightarrow> string \<Rightarrow> RequesterType \<Rightarrow> LabResponse prog" where
  "create_lab_record E profile_name requester =
     bnd (decide_lab_request E profile_name requester) (\<lambda>decision.
     (let state = (if d_approval_required decision then lab_value LAB_PENDING_APPROVAL
                   else lab_value LAB_APPROVED)
      in bnd (fresh_uuid E) (\<lambda>i.
         bnd (allocate (storage_root E) i
                (storage_policy (d_filesystem_mode decision) (d_persistence_mode decision)
                   (d_disk_mb decision) (d_retention_days decision))) (\<lambda>allocation.
         bnd (fresh_uuid E) (\<lambda>storage_id.
         bnd (add_row E labs_update
               \<lparr>created_at = unset, updated_at = unset, lab_id = i,
                lab_profile_name = d_profile_name decision, lab_state = state,
                lab_runtime_class = runtime_value (d_runtime_class decision),
                lab_destroy_attempts = 0, lab_last_destroy_error = None\<rparr>) (\<lambda>row.
         bnd (add_row E storages_update (storage_row_of storage_id allocation)) (\<lambda>storage_row.
         bnd (if d_approval_required decision
              then bnd (record_approval_request E (Some i) ''lab'' i ''lab.create''
                          (join '', '' (d_approval_reasons decision)) (requester_value requester)) (\<lambda>approval.
                   record_event E (approval_requested_event approval None))
              else returns ()) (\<lambda>_.
         bnd (record_event E
               ((event_record ''lab.requested''
                   [(''profile_name'', PStr (d_profile_name decision)),
                    (''runtime_class'', PStr (runtime_value (d_runtime_class decision))),
                    (''state'', PStr state)])
                  \<lparr>er_lab_id := Some i, er_actor_type := requester_value requester,
                   er_resource_type := Some ''lab'', er_resource_id := Some i\<rparr>)) (\<lambda>_.
         returns (lab_response_from_row row storage_row))))))))))"

definition create_run_record :: "env \<Rightarrow> string \<Rightarrow> string \<Rightarrow> RequesterType \<Rightarrow> RunResponse prog" where
  "create_run_record E lab command requester =
     bnd (get_or_404 lab_id labs lab ''lab'') (\<lambda>_.
     bnd (utc_now E) (\<lambda>now.
     bnd (fresh_uuid E) (\<lambda>i.
     bnd (add_row E runs_update
           \<lparr>created_at = unset, updated_at = unset, run_id = i, run_lab_id = lab,
            run_state = run_value RUN_QUEUED, run_command = command,
            run_timeout_at = Some (plus_delta now (minutes (default_run_timeout_minutes E))),
            run_finished_at = None\<rparr>) (\<lambda>row.
     bnd (record_event E
           ((event_record ''run.queued''
               [(''command'', PStr (run_command row)), (''state'', PStr (run_state row))])
              \<lparr>er_lab_id := Some lab, er_run_id := Some (run_id row),
               er_actor_type := requester_value requester,
               er_resource_type := Some ''run'', er_resource_id := Some (run_id row)\<rparr>)) (\<lambda>_.
     returns (run_response_from_row row))))))"

subsection \<open>Handlers\<close>

definition api_list_profiles :: "Profile list" where
  "api_list_profiles =
     map (\<lambda>name. the (DEFAULT_PROFILES name))
       (sort [''safe-dev'', ''model-local'', ''research-persistent'', ''red-zone''])"

definition api_get_profile :: "string \<Rightarrow> exn + Profile" where
  "api_get_profile profile_name =
     (case DEFAULT_PROFILES profile_name of
        None \<Rightarrow> Inl (ResourceNotFoundError ''profile'') | Some p \<Rightarrow> Inr p)"

definition api_create_lab :: "env \<Rightarrow> string \<Rightarrow> RequesterType \<Rightarrow> LabResponse prog" where
  "api_create_lab E profile_name requester =
     with_session (bnd (create_lab_record E profile_name requester) (\<lambda>response.
       bnd commit (\<lambda>_. returns response)))"

text \<open>\<open>{row.lab_id: row for row in storage_rows}\<close>: the last row of a key wins.\<close>

definition storage_by_lab_id :: "LabStorageRow list \<Rightarrow> string \<Rightarrow> LabStorageRow option" where
  "storage_by_lab_id rows = map_of (rev (map (\<lambda>r. (sto_lab_id r, r)) rows))"

definition api_list_labs :: "LabResponse list prog" where
  "api_list_labs =
     with_session (bnd (select lab_id labs (\<lambda>_. True)) (\<lambda>rows.
       bnd (gets (\<lambda>w. filter (\<lambda>s. sto_lab_id s \<in> lab_id ` set rows) (storages (db w)))) (\<lambda>storage_rows.
       mapM (\<lambda>row. bnd (require (storage_by_lab_id storage_rows (lab_id row)) (KeyError (lab_id row)))
         (\<lambda>s. returns (lab_response_from_row row s))) rows)))"

definition api_get_lab :: "string \<Rightarrow> LabResponse prog" where
  "api_get_lab i =
     with_session (bnd (get_or_404 lab_id labs i ''lab'') (\<lambda>row.
       bnd (get_or_404 sto_lab_id storages (lab_id row) ''lab_storage'') (\<lambda>storage_row.
       returns (lab_response_from_row row storage_row))))"

definition api_destroy_lab :: "env \<Rightarrow> string \<Rightarrow> LabResponse prog" where
  "api_destroy_lab E i =
     with_session (bnd (get_or_404 lab_id labs i ''lab'') (\<lambda>row.
       bnd (get_or_404 sto_lab_id storages (lab_id row) ''lab_storage'') (\<lambda>storage_row.
       bnd (guard (lab_state row \<noteq> lab_value LAB_DESTROYED)
              (ConflictError ''lab_already_destroyed'' (Some ''lab''))) (\<lambda>_.
       bnd (liftR (storage_allocation_from_row (cwd E) storage_row)) (\<lambda>allocation.
       bnd (destroy_storage (storage_root E) allocation) (\<lambda>_.
       bnd (put_row E lab_id labs_update (row\<lparr>lab_state := lab_value LAB_DESTROYED\<rparr>)) (\<lambda>row.
       bnd (record_event E
             ((event_record ''lab.destroyed'' [(''state'', PStr (lab_state row))])
                \<lparr>er_lab_id := Some (lab_id row), er_actor_type := ''human'',
                 er_resource_type := Some ''lab'', er_resource_id := Some (lab_id row)\<rparr>)) (\<lambda>_.
       bnd commit (\<lambda>_.
       returns (lab_response_from_row row storage_row))))))))))"

definition api_create_run :: "env \<Rightarrow> string \<Rightarrow> string \<Rightarrow> RequesterType \<Rightarrow> RunResponse prog" where
  "api_create_run E lab command requester =
     with_session (bnd (create_run_record E lab command requester) (\<lambda>response.
       bnd commit (\<lambda>_. returns response)))"

definition api_list_runs :: "RunResponse list prog" where
  "api_list_runs =
     with_session (bnd (select run_id runs (\<lambda>_. True)) (\<lambda>rows.
       returns (map run_response_from_row rows)))"

definition api_get_run :: "string \<Rightarrow> RunResponse prog" where
  "api_get_run i =
     with_session (bnd (get_or_404 run_id runs i ''run'') (\<lambda>row.
       returns (run_response_from_row row)))"

end
