(* ===== verification/Runtime.thy ===== *)
theory Runtime
  imports Policy_Models Datetime Program "HOL-Library.AList"
begin

section \<open>What the control plane and a runtime exchange\<close>

text \<open>
  \<open>labos/runtimes/base.py\<close>. A dict of strings is an association list in insertion order; \<open>dict_update\<close>
  is \<open>dict.update\<close>: a key that is there keeps its place and gets the new value, others are appended.
  The locale \<open>runtime_adapter\<close> is the \<open>RuntimeAdapter\<close> protocol, with what the reconciler relies on: an
  inventory names the adapter's own backend and is ordered by lab.
\<close>

type_synonym str_dict = "(string \<times> string) list"

definition dict_update :: "str_dict \<Rightarrow> str_dict \<Rightarrow> str_dict" where
  "dict_update d e = fold (\<lambda>(k, v). AList.update k v) e d"

lemma map_of_dict_update: "map_of (dict_update d e) = map_of d ++ map_of (rev e)"
  by (induction e arbitrary: d) (auto simp: dict_update_def update_conv' fun_eq_iff map_add_def split: option.splits)

record ManagedMount =
  mm_source :: string
  mm_target :: string
  mm_read_only :: bool

record SecretLease =
  sl_name :: string
  sl_value :: string
  sl_approved :: bool
  sl_expires_at :: datetime

definition is_active :: "SecretLease \<Rightarrow> datetime option \<Rightarrow> datetime \<Rightarrow> exn + bool" where
  "is_active lease now clock_now =
     (let current_time = (case now of None \<Rightarrow> clock_now | Some t \<Rightarrow> t) in py_less current_time (sl_expires_at lease))"

record RuntimeSpec =
  rs_image :: string
  rs_network_mode :: NetworkMode
  rs_persistence_mode :: PersistenceMode
  rs_cpu_limit :: int
  rs_memory_mb :: int
  rs_managed_mounts :: "ManagedMount list"
  rs_secret_leases :: "SecretLease list"
  rs_labels :: str_dict
  rs_command :: "string list option"

record ProvisionedLab =
  pl_lab_id :: string
  pl_backend :: string
  pl_container_name :: string
  pl_network_name :: "string option"
  pl_volume_names :: "string list"

record RunExecutionResult =
  rx_exit_code :: int
  rx_stdout :: string
  rx_stderr :: string

record LabInspection =
  li_lab_id :: string
  li_backend :: string
  li_container_name :: string
  li_status :: string
  li_labels :: str_dict

locale runtime_adapter =
  fixes backend_name :: string
    and list_managed_labs :: "('s, LabInspection list) program"
    and create_lab :: "string \<Rightarrow> RuntimeSpec \<Rightarrow> ('s, ProvisionedLab) program"
  assumes inventory: "list_managed_labs s = (Inr found, s') \<Longrightarrow>
      sorted (map li_lab_id found) \<and> (\<forall>li \<in> set found. li_backend li = backend_name)"
    and provisioned: "create_lab i spec s = (Inr lab, s') \<Longrightarrow> pl_lab_id lab = i \<and> pl_backend lab = backend_name"
begin

text \<open>What the reconciler reports of an inventory comes out in the order of the inventory.\<close>

lemma reported_in_order:
  "list_managed_labs s = (Inr found, s') \<Longrightarrow> sort (map li_lab_id (filter P found)) = map li_lab_id (filter P found)"
  using inventory by (metis sorted_filter sort_key_id_if_sorted map_ident)

end

end
