(* ===== verification/Reconciler.thy ===== *)
theory Reconciler
  imports Api_Labs Runtime
begin

section \<open>The reconciler\<close>

text \<open>
  \<open>labos/workers/reconciler.py\<close>: one pass expires approvals, revokes leases, times out runs, retries
  destructions, fails labs whose storage is gone and reports what the runtime has that the database
  does not. The report is threaded through the loops. The runtime inventory is what
  \<open>list_managed_labs\<close> returned, or the exception it raised; the storage destroyer is a program, and
  the locale \<open>storage_destroyer\<close> is what the pass relies on: it works on the file system only.
\<close>

record ReconciliationReport =
  failed_lab_ids :: "string list"
  destroyed_lab_ids :: "string list"
  failed_destroy_lab_ids :: "string list"
  orphaned_runtime_lab_ids :: "string list"
  zombie_lab_ids :: "string list"
  expired_approval_ids :: "string list"
  revoked_secret_lease_ids :: "string list"
  timed_out_run_ids :: "string list"

definition empty_report :: ReconciliationReport where
  "empty_report =
     \<lparr>failed_lab_ids = [], destroyed_lab_ids = [], failed_destroy_lab_ids = [],
      orphaned_runtime_lab_ids = [], zombie_lab_ids = [], expired_approval_ids = [],
      revoked_secret_lease_ids = [], timed_out_run_ids = []\<rparr>"

definition reconciler_event :: "string \<Rightarrow> string option \<Rightarrow> string \<Rightarrow> string \<Rightarrow> (string \<times> pyval) list \<Rightarrow> EventRecord" where
  "reconciler_event event_type lab resource_type resource_id payload =
     (event_record event_type payload)
       \<lparr>er_lab_id := lab, er_actor_id := Some ''reconciler'',
        er_resource_type := Some resource_type, er_resource_id := Some resource_id\<rparr>"

subsection \<open>Approvals\<close>

definition expire_resource :: "env \<Rightarrow> ApprovalRow \<Rightarrow> unit prog" where
  "expire_resource E approval =
     (if apr_resource_type approval = ''lab''
      then bnd (session_get lab_id labs (apr_resource_id approval)) (\<lambda>found.
           (case found of
              None \<Rightarrow> returns ()
            | Some lab \<Rightarrow>
                if lab_state lab = lab_value LAB_PENDING_APPROVAL
                then bnd (put_row E lab_id labs_update (lab\<lparr>lab_state := lab_value LAB_FAILED\<rparr>)) (\<lambda>_. returns ())
                else returns ()))
      else if apr_resource_type approval = ''export''
      then bnd (session_get exp_id exports (apr_resource_id approval)) (\<lambda>found.
           (case found of
              None \<Rightarrow> returns ()
            | Some export \<Rightarrow>
                bnd (put_row E exp_id exports_update
                  (export\<lparr>exp_state := export_value EXPORT_REJECTED,
                          exp_denial_reason := Some ''approval request expired'',
                          exp_approval_required := False\<rparr>)) (\<lambda>_. returns ())))
      else returns ())"

definition expire_approval :: "env \<Rightarrow> datetime \<Rightarrow> ReconciliationReport \<Rightarrow> ApprovalRow \<Rightarrow> ReconciliationReport prog" where
  "expire_approval E now report approval =
     (case apr_expires_at approval of
        None \<Rightarrow> returns report
      | Some expires_at \<Rightarrow>
          if later (normalize_datetime expires_at) now then returns report
          else bnd (put_row E apr_id approvals_update
                 (approval\<lparr>apr_state := approval_value APPROVAL_EXPIRED, apr_approved := False,
                           apr_decided_by := Some ''reconciler'', apr_decided_at := Some now\<rparr>)) (\<lambda>approval.
               bnd (expire_resource E approval) (\<lambda>_.
               bnd (record_event E
                 (reconciler_event ''approval.expired'' (apr_lab_id approval) ''approval'' (apr_id approval)
                    [(''approval_id'', PStr (apr_id approval)),
                     (''resource_type'', PStr (apr_resource_type approval)),
                     (''resource_id'', PStr (apr_resource_id approval)),
                     (''action'', PStr (apr_action approval))])) (\<lambda>_.
               returns (report\<lparr>expired_approval_ids := expired_approval_ids report @ [apr_id approval]\<rparr>)))))"

definition expire_stale_approvals :: "env \<Rightarrow> datetime \<Rightarrow> ReconciliationReport \<Rightarrow> ReconciliationReport prog" where
  "expire_stale_approvals E now report =
     bnd (select apr_id approvals (\<lambda>a. apr_state a = approval_value APPROVAL_REQUESTED \<and>
            apr_expires_at a \<noteq> None)) (\<lambda>rows.
     fold_rows apr_id approvals (expire_approval E now) report rows)"

subsection \<open>Leases and runs\<close>

definition revoke_if_expired :: "env \<Rightarrow> datetime \<Rightarrow> ReconciliationReport \<Rightarrow> SecretLeaseRow \<Rightarrow> ReconciliationReport prog" where
  "revoke_if_expired E now report lease =
     (if later (normalize_datetime (lease_expires_at lease)) now then returns report
      else bnd (put_row E lease_id leases_update (lease\<lparr>lease_revoked_at := Some now\<rparr>)) (\<lambda>lease.
           bnd (record_event E
             (reconciler_event ''secret_lease.expired'' (Some (lease_lab_id lease)) ''secret_lease'' (lease_id lease)
                [(''secret_name'', PStr (lease_secret_name lease)), (''lease_id'', PStr (lease_id lease))])) (\<lambda>_.
           returns (report\<lparr>revoked_secret_lease_ids := revoked_secret_lease_ids report @ [lease_id lease]\<rparr>))))"

definition revoke_expired_secret_leases :: "env \<Rightarrow> datetime \<Rightarrow> ReconciliationReport \<Rightarrow> ReconciliationReport prog" where
  "revoke_expired_secret_leases E now report =
     bnd (select lease_id leases (\<lambda>l. lease_revoked_at l = None)) (\<lambda>rows.
     fold_rows lease_id leases (revoke_if_expired E now) report rows)"

definition active_run_states :: "string list" where
  "active_run_states = [run_value RUN_QUEUED, run_value RUN_STARTING, run_value RUN_RUNNING]"

definition time_out_run :: "env \<Rightarrow> datetime \<Rightarrow> ReconciliationReport \<Rightarrow> RunRow \<Rightarrow> ReconciliationReport prog" where
  "time_out_run E now report run =
     (case run_timeout_at run of
        None \<Rightarrow> returns report
      | Some t \<Rightarrow>
          (let timeout_at = normalize_datetime t
           in if later timeout_at now then returns report
              else bnd (put_row E run_id runs_update
                     (run\<lparr>run_state := run_value RUN_TIMED_OUT, run_finished_at := Some now\<rparr>)) (\<lambda>run.
                   bnd (record_event E
                     ((reconciler_event ''run.timed_out'' (Some (run_lab_id run)) ''run'' (run_id run)
                        [(''state'', PStr (run_state run)), (''timeout_at'', PStr (isoformat timeout_at))])
                        \<lparr>er_run_id := Some (run_id run)\<rparr>)) (\<lambda>_.
                   returns (report\<lparr>timed_out_run_ids := timed_out_run_ids report @ [run_id run]\<rparr>)))))"

definition timeout_overdue_runs :: "env \<Rightarrow> datetime \<Rightarrow> ReconciliationReport \<Rightarrow> ReconciliationReport prog" where
  "timeout_overdue_runs E now report =
     bnd (select run_id runs (\<lambda>r. run_state r \<in> set active_run_states \<and> run_timeout_at r \<noteq> None)) (\<lambda>rows.
     fold_rows run_id runs (time_out_run E now) report rows)"

subsection \<open>Destruction retries\<close>

definition destroy_failure_event :: "string \<Rightarrow> LabRow \<Rightarrow> int \<Rightarrow> EventRecord" where
  "destroy_failure_event event_type lab max_attempts =
     reconciler_event event_type (Some (lab_id lab)) ''lab'' (lab_id lab)
       [(''attempt'', PInt (lab_destroy_attempts lab)), (''max_attempts'', PInt max_attempts),
        (''reason'', opt_str (lab_last_destroy_error lab))]"

text \<open>The three outcomes of a retry: no storage record, an exception, success.\<close>

definition destroy_without_record :: "env \<Rightarrow> int \<Rightarrow> ReconciliationReport \<Rightarrow> LabRow \<Rightarrow> ReconciliationReport prog" where
  "destroy_without_record E max_attempts report lab =
     bnd (put_row E lab_id labs_update
       (lab\<lparr>lab_state := lab_value LAB_FAILED, lab_last_destroy_error := Some ''missing_storage_record''\<rparr>)) (\<lambda>lab.
     bnd (record_event E (destroy_failure_event ''lab.destroy_failed'' lab max_attempts)) (\<lambda>_.
     returns (report\<lparr>failed_destroy_lab_ids := failed_destroy_lab_ids report @ [lab_id lab]\<rparr>)))"

definition destroy_raised :: "env \<Rightarrow> int \<Rightarrow> ReconciliationReport \<Rightarrow> LabRow \<Rightarrow> exn \<Rightarrow> ReconciliationReport prog" where
  "destroy_raised E max_attempts report lab exc =
     bnd (put_row E lab_id labs_update (lab\<lparr>lab_last_destroy_error := Some (exn_str exc)\<rparr>)) (\<lambda>lab.
     bnd (record_event E (destroy_failure_event ''lab.destroy_retry_failed'' lab max_attempts)) (\<lambda>_.
     if lab_destroy_attempts lab \<ge> max_attempts
     then bnd (put_row E lab_id labs_update (lab\<lparr>lab_state := lab_value LAB_FAILED\<rparr>)) (\<lambda>lab.
          bnd (record_event E (destroy_failure_event ''lab.destroy_failed'' lab max_attempts)) (\<lambda>_.
          returns (report\<lparr>failed_destroy_lab_ids := failed_destroy_lab_ids report @ [lab_id lab]\<rparr>)))
     else returns report))"

definition destroy_succeeded :: "env \<Rightarrow> ReconciliationReport \<Rightarrow> LabRow \<Rightarrow> ReconciliationReport prog" where
  "destroy_succeeded E report lab =
     bnd (put_row E lab_id labs_update
       (lab\<lparr>lab_state := lab_value LAB_DESTROYED, lab_last_destroy_error := None\<rparr>)) (\<lambda>lab.
     bnd (record_event E (reconciler_event ''lab.destroyed'' (Some (lab_id lab)) ''lab'' (lab_id lab)
       [(''attempt'', PInt (lab_destroy_attempts lab)), (''state'', PStr (lab_state lab))])) (\<lambda>_.
     returns (report\<lparr>destroyed_lab_ids := destroyed_lab_ids report @ [lab_id lab]\<rparr>)))"

definition retry_destroying_lab :: "env \<Rightarrow> (StorageAllocation \<Rightarrow> unit prog) \<Rightarrow> int \<Rightarrow>
    (string \<Rightarrow> LabStorageRow option) \<Rightarrow> ReconciliationReport \<Rightarrow> LabRow \<Rightarrow> ReconciliationReport prog" where
  "retry_destroying_lab E destroy max_attempts storage_by report lab =
     (case storage_by (lab_id lab) of
        None \<Rightarrow> destroy_without_record E max_attempts report lab
      | Some storage_row \<Rightarrow>
          bnd (put_row E lab_id labs_update (lab\<lparr>lab_destroy_attempts := lab_destroy_attempts lab + 1\<rparr>)) (\<lambda>lab.
          bnd (captured (bnd (liftR (storage_allocation_from_row (cwd E) storage_row)) destroy)) (\<lambda>outcome.
          (case outcome of
             Inl exc \<Rightarrow> destroy_raised E max_attempts report lab exc
           | Inr u \<Rightarrow> destroy_succeeded E report lab))))"

definition retry_destroying_labs :: "env \<Rightarrow> (StorageAllocation \<Rightarrow> unit prog) option \<Rightarrow> int \<Rightarrow>
    (string \<Rightarrow> LabStorageRow option) \<Rightarrow> ReconciliationReport \<Rightarrow> ReconciliationReport prog" where
  "retry_destroying_labs E destroyer max_attempts storage_by report =
     (case destroyer of
        None \<Rightarrow> returns report
      | Some destroy \<Rightarrow>
          bnd (select lab_id labs (\<lambda>l. lab_state l = lab_value LAB_DESTROYING)) (\<lambda>rows.
          fold_rows lab_id labs (retry_destroying_lab E destroy max_attempts storage_by) report rows))"

subsection \<open>Labs without storage, and the runtime\<close>

definition check_lab_storage :: "env \<Rightarrow> (string \<Rightarrow> LabStorageRow option) \<Rightarrow> ReconciliationReport \<Rightarrow> LabRow \<Rightarrow>
    ReconciliationReport prog" where
  "check_lab_storage E storage_by report lab =
     (if lab_state lab = lab_value LAB_DESTROYED then returns report
      else bnd (gets fsys) (\<lambda>fs.
        (let failure_reason =
               (case storage_by (lab_id lab) of
                  None \<Rightarrow> Some ''missing_storage_record''
                | Some s \<Rightarrow> if path_exists fs (os_path (cwd E) (sto_root_path s)) then None
                           else Some ''missing_storage_root'')
         in case failure_reason of
              None \<Rightarrow> returns report
            | Some reason \<Rightarrow>
                bnd (if lab_state lab \<noteq> lab_value LAB_FAILED
                     then put_row E lab_id labs_update (lab\<lparr>lab_state := lab_value LAB_FAILED\<rparr>)
                     else returns lab) (\<lambda>lab.
                bnd (record_event E
                  (reconciler_event ''lab.reconciliation_failed'' (Some (lab_id lab)) ''lab'' (lab_id lab)
                     [(''reason'', PStr reason), (''state'', PStr (lab_state lab))])) (\<lambda>_.
                returns (report\<lparr>failed_lab_ids := failed_lab_ids report @ [lab_id lab]\<rparr>))))))"

definition is_zombie_lab :: "string \<Rightarrow> string \<Rightarrow> bool" where
  "is_zombie_lab state runtime_status \<longleftrightarrow>
     runtime_status \<in> {''created'', ''restarting'', ''running'', ''paused''} \<and>
     state \<notin> {lab_value LAB_PROVISIONING, lab_value LAB_RUNNING, lab_value LAB_STOPPED,
               lab_value LAB_DESTROYING}"

definition inspect_runtime_lab :: "env \<Rightarrow> string list \<Rightarrow> ReconciliationReport \<Rightarrow> LabInspection \<Rightarrow>
    ReconciliationReport prog" where
  "inspect_runtime_lab E ids report li =
     (let details = [(''backend'', PStr (li_backend li)), (''container_name'', PStr (li_container_name li)),
                     (''status'', PStr (li_status li))]
      in bnd (session_get lab_id labs (li_lab_id li)) (\<lambda>found.
         (case (if li_lab_id li \<in> set ids then found else None) of
            None \<Rightarrow>
              bnd (record_event E (reconciler_event ''runtime_lab.orphan_detected'' None ''runtime_lab''
                     (li_lab_id li) details)) (\<lambda>_.
              returns (report\<lparr>orphaned_runtime_lab_ids := orphaned_runtime_lab_ids report @ [li_lab_id li]\<rparr>))
          | Some lab \<Rightarrow>
              if is_zombie_lab (lab_state lab) (li_status li)
              then bnd (record_event E (reconciler_event ''runtime_lab.zombie_detected'' (Some (lab_id lab))
                     ''runtime_lab'' (li_lab_id li) (details @ [(''lab_state'', PStr (lab_state lab))]))) (\<lambda>_.
                   returns (report\<lparr>zombie_lab_ids := zombie_lab_ids report @ [li_lab_id li]\<rparr>))
              else returns report)))"

definition sort_report :: "ReconciliationReport \<Rightarrow> ReconciliationReport" where
  "sort_report r =
     \<lparr>failed_lab_ids = sort (failed_lab_ids r), destroyed_lab_ids = sort (destroyed_lab_ids r),
      failed_destroy_lab_ids = sort (failed_destroy_lab_ids r),
      orphaned_runtime_lab_ids = sort (orphaned_runtime_lab_ids r),
      zombie_lab_ids = sort (zombie_lab_ids r), expired_approval_ids = sort (expired_approval_ids r),
      revoked_secret_lease_ids = sort (revoked_secret_lease_ids r),
      timed_out_run_ids = sort (timed_out_run_ids r)\<rparr>"

definition reconcile :: "env \<Rightarrow> (exn + LabInspection list) option \<Rightarrow> (StorageAllocation \<Rightarrow> unit prog) option \<Rightarrow>
    int \<Rightarrow> datetime option \<Rightarrow> ReconciliationReport prog" where
  "reconcile E inventory destroyer max_attempts now =
     bnd (case now of None \<Rightarrow> utc_now E | Some t \<Rightarrow> returns t) (\<lambda>t.
     (let current_time = normalize_datetime t
      in bnd (select lab_id labs (\<lambda>_. True)) (\<lambda>rows.
         bnd (gets (\<lambda>w. storage_by_lab_id (filter (\<lambda>s. sto_lab_id s \<in> lab_id ` set rows) (storages (db w))))) (\<lambda>storage_by.
         bnd (expire_stale_approvals E current_time empty_report) (\<lambda>report.
         bnd (revoke_expired_secret_leases E current_time report) (\<lambda>report.
         bnd (timeout_overdue_runs E current_time report) (\<lambda>report.
         bnd (retry_destroying_labs E destroyer max_attempts storage_by report) (\<lambda>report.
         bnd (fold_rows lab_id labs (check_lab_storage E storage_by) report rows) (\<lambda>report.
         (case inventory of
            None \<Rightarrow> returns (sort_report report)
          | Some found \<Rightarrow>
              bnd (liftR found) (\<lambda>inspections.
              bnd (foldM (inspect_runtime_lab E (map lab_id rows)) report inspections) (\<lambda>report.
              returns (sort_report report)))))))))))))"

subsection \<open>What the pass relies on from the storage destroyer\<close>

definition exhausted :: "int \<Rightarrow> LabRow \<Rightarrow> bool" where
  "exhausted max_attempts l \<longleftrightarrow> lab_state l = lab_value LAB_FAILED \<and> lab_destroy_attempts l \<ge> max_attempts"

text \<open>The three ends of one retry, as a relation between the row before and the row after.\<close>

definition retried :: "int \<Rightarrow> LabRow \<Rightarrow> LabRow \<Rightarrow> bool" where
  "retried max_attempts l l' \<longleftrightarrow>
     lab_id l' = lab_id l \<and> lab_destroy_attempts l' = lab_destroy_attempts l + 1 \<and>
     (lab_state l' = lab_value LAB_DESTROYED \<and> lab_last_destroy_error l' = None \<or>
      lab_last_destroy_error l' \<noteq> None \<and>
        (if lab_destroy_attempts l + 1 \<ge> max_attempts then exhausted max_attempts l'
         else lab_state l' = lab_state l))"

locale storage_destroyer =
  fixes destroy :: "StorageAllocation \<Rightarrow> unit prog"
  assumes files_only: "touches_fs (\<lambda>_ _. True) (destroy a)"
begin

lemma destroy_frame: "wp (destroy a) (\<lambda>r w'. \<exists>g. w' = w\<lparr>fsys := g\<rparr>) w"
  by (rule wp_touches_fs [OF files_only]) auto

lemma destroyed_or_raised:
  "wp (captured (bnd (liftR alloc) destroy)) (\<lambda>r w'. \<exists>o' g. r = Inr o' \<and> w' = w\<lparr>fsys := g\<rparr>) w"
proof (cases alloc)
  case (Inl e)
  then show ?thesis by (auto simp: wp intro: exI [of _ "fsys w"])
next
  case (Inr a)
  then show ?thesis by (simp add: wp wp_mono [OF destroy_frame])
qed

lemma retry_outcome:
  assumes there: "row_get lab_id k (labs (db w)) = Some l" and s: "storage_by k = Some s"
    and state: "lab_state l = lab_value LAB_DESTROYING"
  shows "wp (retry_destroying_lab E destroy m storage_by rep l) (\<lambda>res v.
     (\<exists>rep' l'. res = Inr rep' \<and> retried m l l' \<and> row_get lab_id k (labs (db v)) = Some l' \<and>
       destroyed_lab_ids rep' = destroyed_lab_ids rep @ (if lab_state l' = lab_value LAB_DESTROYED then [k] else []) \<and>
       failed_destroy_lab_ids rep' = failed_destroy_lab_ids rep @
         (if lab_last_destroy_error l' \<noteq> None \<and> exhausted m l' then [k] else []))) w"
proof -
  note l = row_get_Some [OF there]
  then have key: "lab_id l = k" and mem: "lab_id l \<in> lab_id ` set (labs (db w))" by blast+
  define Q :: "exn + ReconciliationReport \<Rightarrow> world \<Rightarrow> bool" where "Q = (\<lambda>res v. (\<exists>rep' l'. res = Inr rep' \<and> retried m l l' \<and> row_get lab_id k (labs (db v)) = Some l' \<and>
       destroyed_lab_ids rep' = destroyed_lab_ids rep @ (if lab_state l' = lab_value LAB_DESTROYED then [k] else []) \<and>
       failed_destroy_lab_ids rep' = failed_destroy_lab_ids rep @
         (if lab_last_destroy_error l' \<noteq> None \<and> exhausted m l' then [k] else [])))"
  let ?l1 = "l\<lparr>lab_destroy_attempts := lab_destroy_attempts l + 1, updated_at := utc (clock E (ticks w))\<rparr>"
  have raised: "wp (destroy_raised E m rep ?l1 exc) Q v"
    if "labs (db v) = row_put lab_id ?l1 (labs (db w))" for exc v
    using that key there state mem
    by (auto simp: Q_def destroy_raised_def wp Let_def retried_def exhausted_def row_get_put row_put_put)
  have succeeded: "wp (destroy_succeeded E rep ?l1) Q v"
    if "labs (db v) = row_put lab_id ?l1 (labs (db w))" for v
    using that key there state mem
    by (auto simp: Q_def destroy_succeeded_def wp Let_def retried_def exhausted_def row_get_put row_put_put)
  let ?alloc = "storage_allocation_from_row (cwd E) s"
  have "wp (bnd (captured (bnd (liftR ?alloc) destroy)) (\<lambda>outcome. case outcome of
        Inl exc \<Rightarrow> destroy_raised E m rep ?l1 exc | Inr u \<Rightarrow> destroy_succeeded E rep ?l1)) Q v"
    if "labs (db v) = row_put lab_id ?l1 (labs (db w))" for v
    unfolding wp_bnd [of "captured _"]
    by (rule wp_mono [OF destroyed_or_raised]) (use that in \<open>auto split: sum.splits intro!: raised succeeded\<close>)
  then show ?thesis
    unfolding Q_def [symmetric] retry_destroying_lab_def key s option.case by (simp add: wp_bnd [of "put_row _ _ _ _"] wp_put_row Let_def)
qed

end

interpretation labs_root: storage_destroyer "destroy_storage root" for root
  by unfold_locales (use destroy_storage_confined in \<open>fastforce simp: touches_fs_def\<close>)

end
