(* ===== verification/Secret_Broker.thy ===== *)
theory Secret_Broker
  imports Session Runtime
begin

section \<open>Secret leases\<close>

text \<open>
  \<open>labos/security/secret_broker.py\<close>. The locale \<open>secret_broker\<close> is the \<open>SecretBroker\<close> protocol with
  what the service relies on: a broker that has no value for a name says so with
  \<open>SecretNotFoundError\<close>, and does nothing else. \<open>EnvSecretBroker\<close> interprets it. A lease row holds
  a name and an expiry, never the value; the value is read when leases are materialised for a
  runtime.
\<close>

definition env_resolve :: "env \<Rightarrow> string \<Rightarrow> exn + string" where
  "env_resolve E secret_name =
     (case environ E (''LABOS_SECRET_'' @ secret_name) of
        None \<Rightarrow> Inl (SecretNotFoundError secret_name)
      | Some value \<Rightarrow> Inr value)"

definition issue_lease :: "env \<Rightarrow> (string \<Rightarrow> exn + string) \<Rightarrow> string \<Rightarrow> string \<Rightarrow> int \<Rightarrow> SecretLeaseRow prog" where
  "issue_lease E broker lab secret_name ttl_minutes =
     bnd (guard (1 \<le> ttl_minutes) (ValueError ''ttl_minutes must be at least 1'')) (\<lambda>_.
     bnd (session_get lab_id labs lab) (\<lambda>found.
     bnd (require found (LookupError ''lab'')) (\<lambda>row.
     bnd (liftR (get_profile (policy_profiles E) (lab_profile_name row))) (\<lambda>profile.
     bnd (guard (secret_name \<in> set (p_allowed_secret_names profile))
            (ValueError ''secret_name is not allowed by profile'')) (\<lambda>_.
     bnd (liftR (broker secret_name)) (\<lambda>_.
     bnd (utc_now E) (\<lambda>now.
     bnd (fresh_uuid E) (\<lambda>i.
     add_row E leases_update
       \<lparr>created_at = unset, updated_at = unset, lease_id = i, lease_lab_id = lab,
        lease_secret_name = secret_name, lease_approved = True,
        lease_expires_at = plus_delta now (minutes ttl_minutes), lease_revoked_at = None\<rparr>))))))))"

definition revoke_lease :: "env \<Rightarrow> string \<Rightarrow> SecretLeaseRow prog" where
  "revoke_lease E i =
     bnd (session_get lease_id leases i) (\<lambda>found.
     bnd (require found (LookupError ''secret_lease'')) (\<lambda>lease.
     bnd (guard (lease_revoked_at lease = None)
            (SecretLeaseStateError ''secret lease already revoked'')) (\<lambda>_.
     bnd (utc_now E) (\<lambda>now.
     put_row E lease_id leases_update (lease\<lparr>lease_revoked_at := Some now\<rparr>)))))"

definition list_leases :: "string \<Rightarrow> SecretLeaseRow list prog" where
  "list_leases lab = select lease_id leases (\<lambda>r. lease_lab_id r = lab)"

definition runtime_lease_due :: "string \<Rightarrow> datetime \<Rightarrow> SecretLeaseRow \<Rightarrow> bool" where
  "runtime_lease_due lab now r \<longleftrightarrow> lease_lab_id r = lab \<and> lease_approved r \<and>
     lease_revoked_at r = None \<and> later (lease_expires_at r) now"

definition materialize_runtime_leases :: "env \<Rightarrow> (string \<Rightarrow> exn + string) \<Rightarrow> string \<Rightarrow> SecretLease list prog" where
  "materialize_runtime_leases E broker lab =
     bnd (utc_now E) (\<lambda>now.
     bnd (select lease_id leases (runtime_lease_due lab now)) (\<lambda>rows.
     mapM (\<lambda>row. bnd (liftR (broker (lease_secret_name row))) (\<lambda>value.
       returns \<lparr>sl_name = lease_secret_name row, sl_value = value, sl_approved = lease_approved row,
                sl_expires_at = normalize_datetime (lease_expires_at row)\<rparr>)) rows))"

subsection \<open>The broker's contract\<close>

locale secret_broker =
  fixes resolve :: "string \<Rightarrow> exn + string"
  assumes resolve_fails: "resolve s = Inl e \<Longrightarrow> e = SecretNotFoundError s"
begin

text \<open>What issuing a lease does, case by case: one new row, or an exception and nothing changed.\<close>

lemma wp_issue_lease:
  "wp (issue_lease E resolve lab s ttl) Q w =
     (if \<not> 1 \<le> ttl then Q (Inl (ValueError ''ttl_minutes must be at least 1'')) w
      else (case row_get lab_id lab (labs (db w)) of
        None \<Rightarrow> Q (Inl (LookupError ''lab'')) w
      | Some row \<Rightarrow> (case policy_profiles E (lab_profile_name row) of
          None \<Rightarrow> Q (Inl (KeyError (''unknown profile: '' @ lab_profile_name row))) w
        | Some p \<Rightarrow>
            if s \<notin> set (p_allowed_secret_names p)
            then Q (Inl (ValueError ''secret_name is not allowed by profile'')) w
            else (case resolve s of
              Inl e \<Rightarrow> Q (Inl (SecretNotFoundError s)) w
            | Inr value \<Rightarrow>
                (let t = ticks w;
                     r = \<lparr>created_at = utc (clock E (Suc t)), updated_at = utc (clock E (Suc (Suc t))),
                          lease_id = uuid4 E (uuids w), lease_lab_id = lab, lease_secret_name = s,
                          lease_approved = True,
                          lease_expires_at = plus_delta (utc (clock E t)) (minutes ttl),
                          lease_revoked_at = None\<rparr>
                 in Q (Inr r) (w\<lparr>uuids := Suc (uuids w), ticks := Suc (Suc (Suc t)),
                                 db := leases_update (app [r]) (db w)\<rparr>))))))"
  by (auto simp: issue_lease_def wp get_profile_def Let_def dest: resolve_fails
      split: option.splits sum.splits)

lemma materialize_row:
  "mapM (\<lambda>row. bnd (liftR (resolve (lease_secret_name row))) (\<lambda>value. returns (f row value))) rows w =
     (case find (\<lambda>row. \<exists>e. resolve (lease_secret_name row) = Inl e) rows of
        Some row \<Rightarrow> (Inl (SecretNotFoundError (lease_secret_name row)), w)
      | None \<Rightarrow> (Inr (map (\<lambda>row. f row (projr (resolve (lease_secret_name row)))) rows), w))"
proof (induction rows)
  case Nil
  then show ?case by (simp add: returns_def)
next
  case (Cons row rows)
  then show ?case
    by (cases "resolve (lease_secret_name row)")
       (auto simp: bnd_def liftR_def returns_def dest: resolve_fails split: option.splits)
qed

lemma wp_materialize:
  "wp (materialize_runtime_leases E resolve lab) Q w =
     (let due = select_rows lease_id (runtime_lease_due lab (utc (clock E (ticks w)))) (leases (db w));
          w' = w\<lparr>ticks := Suc (ticks w)\<rparr>
      in case find (\<lambda>k. \<exists>e. resolve (lease_secret_name k) = Inl e) due of
           Some k \<Rightarrow> Q (Inl (SecretNotFoundError (lease_secret_name k))) w'
         | None \<Rightarrow> Q (Inr (map (\<lambda>k. \<lparr>sl_name = lease_secret_name k, sl_value = projr (resolve (lease_secret_name k)),
             sl_approved = lease_approved k, sl_expires_at = normalize_datetime (lease_expires_at k)\<rparr>) due)) w')"
  by (simp add: materialize_runtime_leases_def wp wp_def [of "mapM _ _"] materialize_row Let_def split: option.splits)

end

interpretation env_broker: secret_broker "env_resolve E" for E
  by unfold_locales (auto simp: env_resolve_def split: option.splits)

text \<open>Each lease handed out is approved, expires at an aware instant and carries its secret's value.\<close>

lemma materialized_from_env:
  assumes "fst (materialize_runtime_leases E (env_resolve E) lab w) = Inr given" and l: "l \<in> set given"
  shows "sl_approved l" "is_aware (sl_expires_at l)" "environ E (''LABOS_SECRET_'' @ sl_name l) = Some (sl_value l)"
proof -
  let ?P = "\<lambda>l. sl_approved l \<and> is_aware (sl_expires_at l) \<and> environ E (''LABOS_SECRET_'' @ sl_name l) = Some (sl_value l)"
  have held: "\<not> (\<exists>e. env_resolve E x = Inl e) \<Longrightarrow> environ E (''LABOS_SECRET_'' @ x) = Some (projr (env_resolve E x))" for x
    by (simp add: env_resolve_def split: option.splits)
  have due: "runtime_lease_due lab now k \<Longrightarrow> lease_approved k" for k now
    by (simp add: runtime_lease_due_def)
  have "wp (materialize_runtime_leases E (env_resolve E) lab) (\<lambda>r w'. \<forall>ls. r = Inr ls \<longrightarrow> (\<forall>l \<in> set ls. ?P l)) w"
    unfolding env_broker.wp_materialize Let_def
    by (auto split: option.splits simp: find_None_iff dest: due intro: held simp del: append.simps)
  with assms have "?P l" by (simp add: wp_def case_prod_beta)
  then show "sl_approved l" "is_aware (sl_expires_at l)" "environ E (''LABOS_SECRET_'' @ sl_name l) = Some (sl_value l)"
    by simp_all
qed

subsection \<open>Revocation\<close>

lemma wp_revoke_lease [wp]:
  "wp (revoke_lease E i) Q w =
     (case row_get lease_id i (leases (db w)) of
        None \<Rightarrow> Q (Inl (LookupError ''secret_lease'')) w
      | Some lease \<Rightarrow>
          if lease_revoked_at lease \<noteq> None
          then Q (Inl (SecretLeaseStateError ''secret lease already revoked'')) w
          else (let t = ticks w;
                    r = lease\<lparr>lease_revoked_at := Some (utc (clock E t)),
                              updated_at := utc (clock E (Suc t))\<rparr>
                in Q (Inr r) (w\<lparr>ticks := Suc (Suc t), db := leases_update (row_put lease_id r) (db w)\<rparr>)))"
  by (auto simp: revoke_lease_def wp Let_def split: option.splits)

text \<open>A revoked row is never due again, whatever the clock says.\<close>

lemma revoked_not_due: "lease_revoked_at r \<noteq> None \<Longrightarrow> \<not> runtime_lease_due lab now r"
  by (simp add: runtime_lease_due_def)

end
