(* ===== verification/Api_Governance.thy ===== *)
theory Api_Governance
  imports Api_Labs Export_Gate Secret_Broker Scheduler
begin

section \<open>API: approvals, exports, leases, scheduler jobs and events\<close>

text \<open>
  The remaining handlers of \<open>labos/api/app.py\<close> except snapshots. A raise before \<open>commit\<close> loses the
  changes of the session; the one handler that commits before it raises is the release that was
  blocked by a missing approval.
\<close>

subsection \<open>Approvals\<close>

text \<open>
  \<open>_ensure_approval_pending\<close>. On an expired request the source marks the row as expired and
  then raises; as in the source, the mark is made in the session only.
\<close>

definition ensure_approval_pending :: "env \<Rightarrow> ApprovalRow \<Rightarrow> unit prog" where
  "ensure_approval_pending E row =
     bnd (guard (apr_state row = approval_value APPROVAL_REQUESTED)
            (ConflictError ''approval_not_pending'' (Some ''approval''))) (\<lambda>_.
     (case apr_expires_at row of
        None \<Rightarrow> returns ()
      | Some t \<Rightarrow>
          (let expires_at = normalize_datetime t
           in bnd (utc_now E) (\<lambda>current_time.
              if \<not> later expires_at current_time
              then bnd (put_row E apr_id approvals_update
                     (row\<lparr>apr_state := approval_value APPROVAL_EXPIRED, apr_approved := False,
                          apr_decided_at := Some (in_zone_of expires_at current_time)\<rparr>)) (\<lambda>_.
                   throw (ConflictError ''approval_request_expired'' (Some ''approval'')))
              else returns ()))))"

definition decide_lab :: "env \<Rightarrow> string \<Rightarrow> ApprovalState \<Rightarrow> unit prog" where
  "decide_lab E i decision =
     bnd (get_or_404 lab_id labs i ''lab'') (\<lambda>lab.
     bnd (put_row E lab_id labs_update
            (lab\<lparr>lab_state := (if decision = APPROVAL_APPROVED then lab_value LAB_APPROVED
                              else lab_value LAB_FAILED)\<rparr>)) (\<lambda>_.
     returns ()))"

definition decide_export :: "env \<Rightarrow> string \<Rightarrow> ApprovalState \<Rightarrow> string option \<Rightarrow> unit prog" where
  "decide_export E i decision comment =
     bnd (get_or_404 exp_id exports i ''export'') (\<lambda>export.
     bnd (put_row E exp_id exports_update
            (if decision = APPROVAL_APPROVED
             then export\<lparr>exp_approval_required := False, exp_state := export_value EXPORT_APPROVED,
                         exp_denial_reason := None\<rparr>
             else export\<lparr>exp_state := export_value EXPORT_REJECTED, exp_denial_reason := comment\<rparr>)) (\<lambda>_.
     returns ()))"

definition apply_approval_decision :: "env \<Rightarrow> ApprovalRow \<Rightarrow> ApprovalState \<Rightarrow> string \<Rightarrow> string option \<Rightarrow>
    ApprovalRow prog" where
  "apply_approval_decision E row decision actor comment =
     bnd (ensure_approval_pending E row) (\<lambda>_.
     bnd (guard (\<not> (decision = APPROVAL_REJECTED \<and> (comment = None \<or> strip (the comment) = [])))
            (ConflictError ''approval_comment_required'' (Some ''approval''))) (\<lambda>_.
     bnd (utc_now E) (\<lambda>now.
     bnd (put_row E apr_id approvals_update
            (row\<lparr>apr_state := approval_value decision, apr_approved := (decision = APPROVAL_APPROVED),
                 apr_decision_comment := comment, apr_decided_by := Some actor,
                 apr_decided_at := Some now\<rparr>)) (\<lambda>row.
     bnd (if apr_resource_type row = ''lab'' then decide_lab E (apr_resource_id row) decision
          else if apr_resource_type row = ''export''
          then decide_export E (apr_resource_id row) decision comment
          else returns ()) (\<lambda>_.
     returns row)))))"

definition api_decide :: "env \<Rightarrow> ApprovalState \<Rightarrow> string \<Rightarrow> string \<Rightarrow> string \<Rightarrow> string option \<Rightarrow>
    ApprovalResponse prog" where
  "api_decide E decision event_type i actor comment =
     with_session (bnd (get_or_404 apr_id approvals i ''approval'') (\<lambda>row.
       bnd (apply_approval_decision E row decision actor comment) (\<lambda>row.
       bnd (record_event E
             ((event_record event_type
                 [(''approval_id'', PStr (apr_id row)),
                  (''resource_type'', PStr (apr_resource_type row)),
                  (''resource_id'', PStr (apr_resource_id row)),
                  (''action'', PStr (apr_action row)), (''actor'', PStr actor),
                  (''comment'', opt_str comment)])
                \<lparr>er_lab_id := apr_lab_id row, er_actor_type := ''human'', er_actor_id := Some actor,
                 er_resource_type := Some ''approval'', er_resource_id := Some (apr_id row)\<rparr>)) (\<lambda>_.
       bnd commit (\<lambda>_.
       returns (approval_response_from_row row))))))"

definition api_approve_request :: "env \<Rightarrow> string \<Rightarrow> string \<Rightarrow> string option \<Rightarrow> ApprovalResponse prog" where
  "api_approve_request E = api_decide E APPROVAL_APPROVED ''approval.approved''"

definition api_deny_request :: "env \<Rightarrow> string \<Rightarrow> string \<Rightarrow> string option \<Rightarrow> ApprovalResponse prog" where
  "api_deny_request E = api_decide E APPROVAL_REJECTED ''approval.denied''"

definition api_list_approvals :: "ApprovalResponse list prog" where
  "api_list_approvals =
     with_session (bnd (select apr_id approvals (\<lambda>_. True)) (\<lambda>rows.
       returns (map approval_response_from_row rows)))"

subsection \<open>Exports\<close>

text \<open>The lab's run that a request names, if it names one.\<close>

definition check_run :: "string option \<Rightarrow> LabRow \<Rightarrow> exn \<Rightarrow> unit prog" where
  "check_run rid lab mismatch =
     (case rid of
        None \<Rightarrow> returns ()
      | Some i \<Rightarrow> bnd (get_or_404 run_id runs i ''run'') (\<lambda>run. guard (run_lab_id run = lab_id lab) mismatch))"

fun stage_failure :: "exn \<Rightarrow> exn" where
  "stage_failure (ExportSourceNotFoundError s) = ResourceNotFoundError ''export_source''"
| "stage_failure (ExportPolicyError s) = ConflictError s (Some ''export'')"
| "stage_failure e = e"

definition export_row_of :: "string \<Rightarrow> LabRow \<Rightarrow> string option \<Rightarrow> ExportStageResult \<Rightarrow> ExportRow" where
  "export_row_of i lab rid staged =
     (let pv = sr_provenance staged in
      \<lparr>created_at = unset, updated_at = unset, exp_id = i, exp_lab_id = lab_id lab, exp_run_id = rid,
       exp_source_path = pv_source_path pv, exp_state = export_value (sr_state staged),
       exp_quarantine_path = pv_quarantine_path pv, exp_released_path = pv_released_path pv,
       exp_approval_required = sr_approval_required staged,
       exp_sha256 = digest (pv_artifact_hash pv), exp_size_bytes = pv_size_bytes pv,
       exp_denial_reason = None\<rparr>)"

text \<open>An event about an export, with the identity the handlers share.\<close>

definition export_event :: "string \<Rightarrow> string \<Rightarrow> string option \<Rightarrow> string \<Rightarrow> (string \<times> pyval) list \<Rightarrow> EventRecord" where
  "export_event event_type lab rid i payload =
     (event_record event_type ((''export_id'', PStr i) # payload))
       \<lparr>er_lab_id := Some lab, er_run_id := rid, er_actor_id := Some ''export-gate'',
        er_resource_type := Some ''export'', er_resource_id := Some i\<rparr>"

definition api_create_export :: "env \<Rightarrow> string \<Rightarrow> string \<Rightarrow> string option \<Rightarrow> RequesterType \<Rightarrow> ExportResponse prog" where
  "api_create_export E lab_ref source_path rid requester =
     with_session (bnd (get_or_404 lab_id labs lab_ref ''lab'') (\<lambda>lab.
       bnd (get_or_404 sto_lab_id storages lab_ref ''lab_storage'') (\<lambda>storage_row.
       bnd (check_run rid lab (ConflictError ''export_run_mismatch'' (Some ''export''))) (\<lambda>_.
       bnd (fresh_uuid E) (\<lambda>i.
       bnd (record_event E
             ((export_event ''export.requested'' (lab_id lab) rid i [(''source_path'', PStr source_path)])
                \<lparr>er_actor_type := requester_value requester, er_actor_id := None\<rparr>)) (\<lambda>_.
       bnd (attempt (stage_export (policy_profiles E) (cwd E) i lab storage_row source_path rid)
              (\<lambda>exc. throw (stage_failure exc))) (\<lambda>staged.
       bnd (add_row E exports_update (export_row_of i lab rid staged)) (\<lambda>row.
       bnd (record_event E
             (export_event ''export.staged'' (lab_id lab) rid i
                [(''source_path'', PStr (exp_source_path row)),
                 (''quarantine_path'', PStr (exp_quarantine_path row)),
                 (''sha256'', PStr (exp_sha256 row)), (''size_bytes'', PInt (exp_size_bytes row)),
                 (''approval_required'', PBool (exp_approval_required row))])) (\<lambda>_.
       bnd (if sr_approval_required staged
            then bnd (record_approval_request E (Some (lab_id lab)) ''export'' i ''export.release''
                        ''profile requires export approval'' ''system'') (\<lambda>approval.
                 record_event E (approval_requested_event approval rid))
            else returns ()) (\<lambda>_.
       bnd commit (\<lambda>_.
       returns (export_response_from_row row))))))))))))"

definition api_release_export :: "env \<Rightarrow> string \<Rightarrow> ExportResponse prog" where
  "api_release_export E i =
     with_session (bnd (get_or_404 exp_id exports i ''export'') (\<lambda>row.
       bnd (get_or_404 sto_lab_id storages (exp_lab_id row) ''lab_storage'') (\<lambda>storage_row.
       bnd (attempt (release_export (cwd E) row storage_row)
              (\<lambda>exc. case exc of
                 ExportSourceNotFoundError s \<Rightarrow> throw (ResourceNotFoundError ''export_source'')
               | ExportPolicyError s \<Rightarrow>
                   bnd (record_event E
                         (export_event ''export.release_blocked'' (exp_lab_id row) (exp_run_id row)
                            (exp_id row) [(''reason'', PStr s)])) (\<lambda>_.
                   bnd commit (\<lambda>_.
                   throw (ConflictError s (Some ''export''))))
               | ExportStateError s \<Rightarrow> throw (ConflictError s (Some ''export''))
               | _ \<Rightarrow> throw exc)) (\<lambda>released.
       bnd (put_row E exp_id exports_update
              (row\<lparr>exp_state := export_value (sr_state released),
                   exp_released_path := pv_released_path (sr_provenance released),
                   exp_denial_reason := None\<rparr>)) (\<lambda>row.
       bnd (record_event E
             (export_event ''export.released'' (exp_lab_id row) (exp_run_id row) (exp_id row)
                [(''released_path'', opt_str (exp_released_path row))])) (\<lambda>_.
       bnd commit (\<lambda>_.
       returns (export_response_from_row row))))))))"

definition api_deny_export :: "env \<Rightarrow> string \<Rightarrow> string \<Rightarrow> ExportResponse prog" where
  "api_deny_export E i reason =
     with_session (bnd (get_or_404 exp_id exports i ''export'') (\<lambda>row.
       bnd (attempt (liftR (deny_export_gate row reason))
              (\<lambda>exc. case exc of
                 ExportStateError s \<Rightarrow> throw (ConflictError s (Some ''export'')) | _ \<Rightarrow> throw exc)) (\<lambda>denied.
       bnd (put_row E exp_id exports_update
              (row\<lparr>exp_state := export_value (sr_state denied),
                   exp_denial_reason := sr_denial_reason denied, exp_released_path := None\<rparr>)) (\<lambda>row.
       bnd (record_event E
             ((export_event ''export.denied'' (exp_lab_id row) (exp_run_id row) (exp_id row)
                 [(''reason'', opt_str (exp_denial_reason row))])
                \<lparr>er_actor_type := ''human'', er_actor_id := None\<rparr>)) (\<lambda>_.
       bnd commit (\<lambda>_.
       returns (export_response_from_row row)))))))"

definition api_list_exports :: "ExportResponse list prog" where
  "api_list_exports =
     with_session (bnd (select exp_id exports (\<lambda>_. True)) (\<lambda>rows.
       returns (map export_response_from_row rows)))"

subsection \<open>Secret leases\<close>

definition api_create_secret_lease :: "env \<Rightarrow> string \<Rightarrow> string \<Rightarrow> RequesterType \<Rightarrow> int \<Rightarrow>
    SecretLeaseResponse prog" where
  "api_create_secret_lease E lab secret_name requester ttl_minutes =
     with_session (bnd (attempt (issue_lease E (env_resolve E) lab secret_name ttl_minutes)
         (\<lambda>exc. case exc of
            SecretNotFoundError s \<Rightarrow> throw (HTTPException 400 (''secret value not found for '' @ s))
          | _ \<Rightarrow> if is_LookupError exc then throw (ResourceNotFoundError (exn_str exc))
                 else if is_ValueError exc then throw (HTTPException 400 (exn_str exc))
                 else throw exc)) (\<lambda>lease.
       bnd (record_event E
             ((event_record ''secret_lease.issued''
                 [(''secret_name'', PStr (lease_secret_name lease)),
                  (''approved'', PBool (lease_approved lease)),
                  (''expires_at'', PStr (isoformat (lease_expires_at lease)))])
                \<lparr>er_lab_id := Some lab, er_actor_type := requester_value requester,
                 er_resource_type := Some ''secret_lease'',
                 er_resource_id := Some (lease_id lease)\<rparr>)) (\<lambda>_.
       bnd commit (\<lambda>_.
       returns (secret_lease_response_from_row lease)))))"

definition api_list_secret_leases :: "string \<Rightarrow> SecretLeaseResponse list prog" where
  "api_list_secret_leases lab =
     with_session (bnd (get_or_404 lab_id labs lab ''lab'') (\<lambda>_.
       bnd (list_leases lab) (\<lambda>rows.
       returns (map secret_lease_response_from_row rows))))"

definition api_revoke_secret_lease :: "env \<Rightarrow> string \<Rightarrow> string \<Rightarrow> string option \<Rightarrow> SecretLeaseResponse prog" where
  "api_revoke_secret_lease E i actor reason =
     with_session (bnd (attempt (revoke_lease E i)
         (\<lambda>exc. if is_LookupError exc then throw (ResourceNotFoundError (exn_str exc))
                else (case exc of
                   SecretLeaseStateError s \<Rightarrow> throw (ConflictError s (Some ''secret_lease''))
                 | _ \<Rightarrow> throw exc))) (\<lambda>lease.
       bnd (record_event E
             ((event_record ''secret_lease.revoked''
                 [(''secret_name'', PStr (lease_secret_name lease)), (''reason'', opt_str reason),
                  (''revoked_at'', opt_str (map_option isoformat (lease_revoked_at lease)))])
                \<lparr>er_lab_id := Some (lease_lab_id lease), er_actor_type := ''human'',
                 er_actor_id := Some actor, er_resource_type := Some ''secret_lease'',
                 er_resource_id := Some (lease_id lease)\<rparr>)) (\<lambda>_.
       bnd commit (\<lambda>_.
       returns (secret_lease_response_from_row lease)))))"

subsection \<open>Scheduler jobs\<close>

text \<open>An event about a scheduler job.\<close>

definition job_event :: "string \<Rightarrow> string \<Rightarrow> string \<Rightarrow> string \<Rightarrow> (string \<times> pyval) list \<Rightarrow> EventRecord" where
  "job_event event_type actor_type actor_id i payload =
     (event_record event_type payload)
       \<lparr>er_actor_type := actor_type, er_actor_id := Some actor_id,
        er_resource_type := Some ''scheduler_job'', er_resource_id := Some i\<rparr>"

definition api_enqueue_scheduler_job :: "env \<Rightarrow> SchedulerJobCreateRequest \<Rightarrow> SchedulerJobResponse prog" where
  "api_enqueue_scheduler_job E req =
     with_session (bnd (attempt (enqueue E req)
         (\<lambda>exc. case exc of
            SchedulerQuotaExceededError \<Rightarrow>
              throw (ConflictError ''scheduler_pending_job_quota_exceeded'' (Some ''scheduler_job''))
          | _ \<Rightarrow> throw exc)) (\<lambda>row.
       bnd (record_event E
             (job_event ''scheduler_job.enqueued'' (actor_value ACTOR_SCHEDULER) (jr_requester_id req) (job_id row)
                [(''action'', PStr (job_action row)),
                 (''scheduled_for'', PStr (isoformat (job_scheduled_for row))),
                 (''max_attempts'', PInt (job_max_attempts row))])) (\<lambda>_.
       bnd commit (\<lambda>_.
       liftR (scheduler_job_response_from_row row)))))"

definition api_list_scheduler_jobs :: "SchedulerJobResponse list prog" where
  "api_list_scheduler_jobs =
     with_session (bnd list_jobs (\<lambda>rows. mapM (\<lambda>row. liftR (scheduler_job_response_from_row row)) rows))"

text \<open>The callbacks the API hands to the scheduler.\<close>

definition hook_create_lab :: "env \<Rightarrow> string \<Rightarrow> string prog" where
  "hook_create_lab E profile_name =
     bnd (create_lab_record E profile_name REQ_SCHEDULER) (\<lambda>r. returns (lr_id r))"

definition hook_create_run :: "env \<Rightarrow> string \<Rightarrow> string \<Rightarrow> string prog" where
  "hook_create_run E lab command =
     bnd (create_run_record E lab command REQ_SCHEDULER) (\<lambda>r. returns (rr_id r))"

definition terminal_state_event :: "SchedulerJobRow \<Rightarrow> string" where
  "terminal_state_event row =
     (if job_state row = job_value JOB_SUCCEEDED then ''scheduler_job.succeeded''
      else if job_state row = job_value JOB_FAILED then ''scheduler_job.failed''
      else ''scheduler_job.requeued'')"

definition api_dispatch_next_scheduler_job :: "env \<Rightarrow> SchedulerJobResponse prog" where
  "api_dispatch_next_scheduler_job E =
     with_session (bnd (run_next E (hook_create_lab E) (hook_create_run E) None) (\<lambda>found.
       bnd (require found (ResourceNotFoundError ''scheduler_job'')) (\<lambda>row.
       bnd (record_event E
             (job_event ''scheduler_job.dispatched'' (actor_value ACTOR_SYSTEM) ''scheduler-worker'' (job_id row)
                [(''action'', PStr (job_action row)),
                 (''attempt_count'', PInt (job_attempt_count row))])) (\<lambda>_.
       bnd (record_event E
             (job_event (terminal_state_event row) (actor_value ACTOR_SYSTEM) ''scheduler-worker'' (job_id row)
                [(''state'', PStr (job_state row)), (''attempt_count'', PInt (job_attempt_count row)),
                 (''last_error'', opt_str (job_last_error row)),
                 (''result_resource_type'', opt_str (job_result_resource_type row)),
                 (''result_resource_id'', opt_str (job_result_resource_id row))])) (\<lambda>_.
       bnd commit (\<lambda>_.
       liftR (scheduler_job_response_from_row row)))))))"

subsection \<open>Events\<close>

record event_filter =
  ef_event_type :: "string option"
  ef_actor_type :: "string option"
  ef_resource_type :: "string option"
  ef_resource_id :: "string option"
  ef_lab_id :: "string option"
  ef_run_id :: "string option"

definition event_matches :: "event_filter \<Rightarrow> EventRow \<Rightarrow> bool" where
  "event_matches q r \<longleftrightarrow>
     (ef_event_type q = None \<or> ef_event_type q = Some (ev_event_type r)) \<and>
     (ef_actor_type q = None \<or> ef_actor_type q = Some (ev_actor_type r)) \<and>
     (ef_resource_type q = None \<or> ef_resource_type q = ev_resource_type r) \<and>
     (ef_resource_id q = None \<or> ef_resource_id q = ev_resource_id r) \<and>
     (ef_lab_id q = None \<or> ef_lab_id q = ev_lab_id r) \<and>
     (ef_run_id q = None \<or> ef_run_id q = ev_run_id r)"

definition api_list_events :: "event_filter \<Rightarrow> EventResponse list prog" where
  "api_list_events q =
     with_session (bnd (select ev_id events (event_matches q)) (\<lambda>rows.
       mapM (\<lambda>row. liftR (event_response_from_row row)) rows))"

end
