(* ===== verification/Refinement.thy ===== *)
theory Refinement
  imports Gates Reconciler Api_Governance
begin

section \<open>The handlers implement the specification\<close>

text \<open>
  A world is \<open>sound\<close> when its committed database is reachable in the abstract specification with the
  identifiers drawn so far. Every handler, whatever it returns or raises, takes a sound world to a
  sound world: it commits nothing, or the result of abstract transitions. The proofs run a handler
  symbolically with the rules \<open>wp\<close> and close each commit with the rule of its transition.
\<close>

definition sound :: "env \<Rightarrow> world \<Rightarrow> bool" where
  "sound E w \<longleftrightarrow> reach E (uuids w) (committed w)"

text \<open>What is assumed of the environment: identifiers do not repeat, and a profile table files each
  profile under its own name, as \<open>DEFAULT_PROFILES\<close> does.\<close>

definition env_ok :: "env \<Rightarrow> bool" where
  "env_ok E \<longleftrightarrow> inj (uuid4 E) \<and> (\<forall>k p. policy_profiles E k = Some p \<longrightarrow> p_name p = k)"

subsection \<open>Fresh identifiers\<close>

lemma new_ids_Nil [simp]: "new_ids E n key t []"
  by (simp add: new_ids_def)

lemma new_ids_Cons [simp]:
  "new_ids E n key t (r # rs) \<longleftrightarrow> key r \<in> issued E n \<and> key r \<notin> key ` set t \<and> key r \<notin> key ` set rs \<and>
     new_ids E n key t rs"
  by (auto simp: new_ids_def)

lemma reach_fresh:
  assumes "reach E n d" and "inj (uuid4 E)" and "n \<le> m"
  shows "uuid4 E m \<notin> lab_id ` set (labs d)" "uuid4 E m \<notin> sto_id ` set (storages d)"
    "uuid4 E m \<notin> run_id ` set (runs d)" "uuid4 E m \<notin> apr_id ` set (approvals d)"
    "uuid4 E m \<notin> exp_id ` set (exports d)" "uuid4 E m \<notin> snap_id ` set (snapshots d)"
    "uuid4 E m \<notin> lease_id ` set (leases d)" "uuid4 E m \<notin> ev_id ` set (events d)"
    "uuid4 E m \<notin> job_id ` set (jobs d)"
  using inv_keys [OF assms(1)] fresh_key [OF assms(2) _ assms(3)] unfolding inv_keys_def by blast+

lemma audit_intro:
  "new_ids E n ev_id (events d) es \<Longrightarrow> (\<And>e. e \<in> set es \<Longrightarrow> event_ok d' e) \<Longrightarrow> audit E n d d' es"
  by (simp add: audit_def)

lemma event_ok_written [simp]:
  "event_ok d (written_row E e k t) \<longleftrightarrow>
     (\<forall>l. er_lab_id e = Some l \<longrightarrow> l \<in> lab_keys d) \<and> (er_event_type e \<noteq> ''snapshot.restored'' \<longrightarrow> (\<forall>r. er_run_id e = Some r \<longrightarrow> r \<in> run_keys d)) \<and>
     (\<exists>t. er_actor_type e = actor_value t)"
  by (simp add: event_ok_def)

lemma requester_is_actor: "\<exists>t. requester_value r = actor_value t"
proof (cases r)
  case REQ_HUMAN
  then show ?thesis by (intro exI [of _ ACTOR_HUMAN]) (simp add: enum_values requester_value.simps)
next
  case REQ_AGENT
  then show ?thesis by (intro exI [of _ ACTOR_AGENT]) (simp add: enum_values requester_value.simps)
next
  case REQ_SCHEDULER
  then show ?thesis by (intro exI [of _ ACTOR_SCHEDULER]) (simp add: enum_values requester_value.simps)
qed

lemma human_is_actor: "\<exists>t. ''human'' = actor_value t"
  by (rule exI [of _ ACTOR_HUMAN]) (simp add: enum_values)

lemma actor_is_actor: "\<exists>t'. actor_value t = actor_value t'"
  by blast

lemmas actors = requester_is_actor human_is_actor actor_is_actor

subsection \<open>Transitions in the form the handlers leave them\<close>

lemma t_events:
  assumes "reach E n d" and "n \<le> n'" and "audit E n' d (events_update (app es) d) es"
  shows "reach E n' (events_update (app es) d)"
proof (rule reach_step [OF reach_more [OF assms(1,2)]])
  show "transition E n' d (events_update (app es) d)"
    by (rule log_events [OF _ assms(3)]) simp
qed

lemma t_create_run:
  assumes "reach E n d" and "n \<le> n'" and "d' = events_update (app es) (runs_update (app [r]) d)"
    and "new_ids E n' run_id (runs d) [r]"
    and "run_lab_id r \<in> lab_keys d"
    and "run_state r = run_value RUN_QUEUED"
    and "run_timeout_at r \<noteq> None"
    and "audit E n' d d' es"
  shows "reach E n' d'"
  by (rule reach_step [OF reach_more [OF assms(1,2)] create_run [OF _ assms(4-)]])
     (unfold assms(3), rule database.equality, simp_all)

lemma t_create_lab:
  assumes "reach E n d" and "n \<le> n'" and "d' = events_update (app es) (storages_update (app [s]) (labs_update (app [l]) d))"
    and "new_ids E n' lab_id (labs d) [l]"
    and "new_ids E n' sto_id (storages d) [s]"
    and "new_ids E n' apr_id (approvals d) []"
    and "audit E n' d d' es"
    and "logs es ''lab.requested'' (lab_id l)"
    and "sto_lab_id s = lab_id l"
    and "storage_layout (storage_root E) s"
    and "policy_profiles E (lab_profile_name l) = Some p"
    and "lab_gate p l []"
  shows "reach E n' d'"
  by (rule reach_step [OF reach_more [OF assms(1,2)] create_lab [OF _ assms(4-)]])
     (unfold assms(3), rule database.equality, simp_all)

lemma t_create_gated_lab:
  assumes "reach E n d" and "n \<le> n'" and "d' = events_update (app es) (approvals_update (app [a]) (storages_update (app [s]) (labs_update (app [l]) d)))"
    and "new_ids E n' lab_id (labs d) [l]"
    and "new_ids E n' sto_id (storages d) [s]"
    and "new_ids E n' apr_id (approvals d) [a]"
    and "audit E n' d d' es"
    and "logs es ''lab.requested'' (lab_id l)"
    and "sto_lab_id s = lab_id l"
    and "storage_layout (storage_root E) s"
    and "policy_profiles E (lab_profile_name l) = Some p"
    and "lab_gate p l [a]"
  shows "reach E n' d'"
  by (rule reach_step [OF reach_more [OF assms(1,2)] create_lab [OF _ assms(4-)]])
     (unfold assms(3), rule database.equality, simp_all)

lemma t_end_lab:
  assumes "reach E n d" and "n \<le> n'" and "d' = events_update (app es) (labs_update (row_put lab_id l') d)"
    and "l \<in> set (labs d)"
    and "same_lab l l'"
    and "lab_state l' \<in> {lab_value LAB_DESTROYED, lab_value LAB_FAILED}"
    and "audit E n' d d' es"
  shows "reach E n' d'"
  by (rule reach_step [OF reach_more [OF assms(1,2)] end_lab [OF _ assms(4-)]])
     (unfold assms(3), rule database.equality, simp_all)

lemma t_time_out_run:
  assumes "reach E n d" and "n \<le> n'" and "d' = events_update (app es) (runs_update (row_put run_id r') d)"
    and "r \<in> set (runs d)"
    and "run_id r' = run_id r"
    and "run_lab_id r' = run_lab_id r"
    and "run_state r' = run_value RUN_TIMED_OUT"
    and "run_timeout_at r' = run_timeout_at r"
    and "audit E n' d d' es"
  shows "reach E n' d'"
  by (rule reach_step [OF reach_more [OF assms(1,2)] time_out_run [OF _ assms(4-)]])
     (unfold assms(3), rule database.equality, simp_all)

lemma t_decide_lab:
  assumes "reach E n d" and "n \<le> n'" and "d' = events_update (app es) (labs_update (row_put lab_id l') (approvals_update (row_put apr_id a') d))"
    and "a \<in> set (approvals d)"
    and "apr_resource_type a = ''lab''"
    and "settles s a a'"
    and "l \<in> set (labs d)"
    and "lab_id l = apr_resource_id a"
    and "same_lab l l'"
    and "lab_state l' = (if s = APPROVAL_APPROVED then lab_value LAB_APPROVED else lab_value LAB_FAILED)"
    and "audit E n' d d' es"
    and "logs es (decision_event s) (apr_id a)"
  shows "reach E n' d'"
  by (rule reach_step [OF reach_more [OF assms(1,2)] decide_lab [OF _ assms(4-)]])
     (unfold assms(3), rule database.equality, simp_all)

lemma t_expire_lab:
  assumes "reach E n d" and "n \<le> n'" and "d' = events_update (app es) (approvals_update (row_put apr_id a') d)"
    and "a \<in> set (approvals d)"
    and "apr_resource_type a = ''lab''"
    and "settles APPROVAL_EXPIRED a a'"
    and "l \<in> set (labs d)"
    and "lab_id l = apr_resource_id a"
    and "lab_state l \<noteq> lab_value LAB_PENDING_APPROVAL"
    and "audit E n' d d' es"
    and "logs es (decision_event APPROVAL_EXPIRED) (apr_id a)"
  shows "reach E n' d'"
  by (rule reach_step [OF reach_more [OF assms(1,2)] expire_lab [OF _ assms(4-)]])
     (unfold assms(3), rule database.equality, simp_all)

lemma t_decide_export:
  assumes "reach E n d" and "n \<le> n'" and "d' = events_update (app es) (exports_update (row_put exp_id x') (approvals_update (row_put apr_id a') d))"
    and "a \<in> set (approvals d)"
    and "apr_resource_type a = ''export''"
    and "settles s a a'"
    and "x \<in> set (exports d)"
    and "exp_id x = apr_resource_id a"
    and "same_export x x'"
    and "exp_released_path x' = exp_released_path x"
    and "export_decided s x'"
    and "audit E n' d d' es"
    and "logs es (decision_event s) (apr_id a)"
  shows "reach E n' d'"
  by (rule reach_step [OF reach_more [OF assms(1,2)] decide_export [OF _ assms(4-)]])
     (unfold assms(3), rule database.equality, simp_all)

lemma t_create_export:
  assumes "reach E n d" and "n \<le> n'" and "d' = events_update (app es) (exports_update (app [x]) d)"
    and "new_ids E n' exp_id (exports d) [x]"
    and "new_ids E n' apr_id (approvals d) []"
    and "audit E n' d d' es"
    and "l \<in> set (labs d)"
    and "exp_lab_id x = lab_id l"
    and "policy_profiles E (lab_profile_name l) = Some p"
    and "\<forall>r. exp_run_id x = Some r \<longrightarrow> r \<in> run_keys d"
    and "export_gate p x []"
  shows "reach E n' d'"
  by (rule reach_step [OF reach_more [OF assms(1,2)] create_export [OF _ assms(4-)]])
     (unfold assms(3), rule database.equality, simp_all)

lemma t_create_gated_export:
  assumes "reach E n d" and "n \<le> n'" and "d' = events_update (app es) (approvals_update (app [a]) (exports_update (app [x]) d))"
    and "new_ids E n' exp_id (exports d) [x]"
    and "new_ids E n' apr_id (approvals d) [a]"
    and "audit E n' d d' es"
    and "l \<in> set (labs d)"
    and "exp_lab_id x = lab_id l"
    and "policy_profiles E (lab_profile_name l) = Some p"
    and "\<forall>r. exp_run_id x = Some r \<longrightarrow> r \<in> run_keys d"
    and "export_gate p x [a]"
  shows "reach E n' d'"
  by (rule reach_step [OF reach_more [OF assms(1,2)] create_export [OF _ assms(4-)]])
     (unfold assms(3), rule database.equality, simp_all)

lemma t_release_export:
  assumes "reach E n d" and "n \<le> n'" and "d' = events_update (app es) (exports_update (row_put exp_id x') d)"
    and "x \<in> set (exports d)"
    and "same_export x x'"
    and "\<not> exp_approval_required x"
    and "exp_approval_required x' = exp_approval_required x"
    and "exp_state x \<notin> {export_value EXPORT_REJECTED, export_value EXPORT_RELEASED}"
    and "exp_state x' = export_value EXPORT_RELEASED"
    and "exp_released_path x' \<noteq> None"
    and "audit E n' d d' es"
    and "logs es ''export.released'' (exp_id x)"
  shows "reach E n' d'"
  by (rule reach_step [OF reach_more [OF assms(1,2)] release_export [OF _ assms(4-)]])
     (unfold assms(3), rule database.equality, simp_all)

lemma t_deny_export:
  assumes "reach E n d" and "n \<le> n'" and "d' = events_update (app es) (exports_update (row_put exp_id x') d)"
    and "x \<in> set (exports d)"
    and "same_export x x'"
    and "exp_approval_required x' = exp_approval_required x"
    and "exp_state x \<notin> {export_value EXPORT_REJECTED, export_value EXPORT_RELEASED}"
    and "exp_state x' = export_value EXPORT_REJECTED"
    and "exp_released_path x' = None"
    and "audit E n' d d' es"
  shows "reach E n' d'"
  by (rule reach_step [OF reach_more [OF assms(1,2)] deny_export [OF _ assms(4-)]])
     (unfold assms(3), rule database.equality, simp_all)

lemma t_issue_lease:
  assumes "reach E n d" and "n \<le> n'" and "d' = events_update (app es) (leases_update (app [k]) d)"
    and "new_ids E n' lease_id (leases d) [k]"
    and "l \<in> set (labs d)"
    and "lease_lab_id k = lab_id l"
    and "policy_profiles E (lab_profile_name l) = Some p"
    and "lease_secret_name k \<in> set (p_allowed_secret_names p)"
    and "lease_revoked_at k = None"
    and "audit E n' d d' es"
  shows "reach E n' d'"
  by (rule reach_step [OF reach_more [OF assms(1,2)] issue_lease [OF _ assms(4-)]])
     (unfold assms(3), rule database.equality, simp_all)

lemma t_revoke_lease:
  assumes "reach E n d" and "n \<le> n'" and "d' = events_update (app es) (leases_update (row_put lease_id k') d)"
    and "k \<in> set (leases d)"
    and "lease_id k' = lease_id k"
    and "lease_lab_id k' = lease_lab_id k"
    and "lease_secret_name k' = lease_secret_name k"
    and "lease_revoked_at k = None"
    and "lease_revoked_at k' \<noteq> None"
    and "audit E n' d d' es"
  shows "reach E n' d'"
  by (rule reach_step [OF reach_more [OF assms(1,2)] revoke_lease [OF _ assms(4-)]])
     (unfold assms(3), rule database.equality, simp_all)

lemma t_schedule:
  assumes "reach E n d" and "n \<le> n'" and "d' = events_update (app es) (jobs_update f d)"
    and "job_table_ok (f (jobs d))"
    and "prefix (map job_id (jobs d)) (map job_id (f (jobs d)))"
    and "job_id ` set (f (jobs d)) \<subseteq> job_id ` set (jobs d) \<union> issued E n'"
    and "audit E n' d d' es"
  shows "reach E n' d'"
  by (rule reach_step [OF reach_more [OF assms(1,2)] schedule [OF _ assms(4-)]])
     (unfold assms(3), rule database.equality, simp_all)

subsection \<open>Labs and runs\<close>

text \<open>A program that the scheduler also runs: from a reachable session it leaves a reachable session,
  or raises; it commits nothing and leaves the job table alone.\<close>

definition steps_to :: "env \<Rightarrow> world \<Rightarrow> exn + 'a \<Rightarrow> world \<Rightarrow> bool" where
  "steps_to E w r w' \<longleftrightarrow> uuids w \<le> uuids w' \<and> committed w' = committed w \<and> jobs (db w') = jobs (db w) \<and>
     (\<forall>x. r = Inr x \<longrightarrow> reach E (uuids w') (db w'))"

lemma create_run_record_steps:
  assumes "env_ok E" and R: "reach E (uuids w) (db w)"
  shows "wp (create_run_record E lab c r) (steps_to E w) w"
proof -
  have inj: "inj (uuid4 E)" using assms(1) by (simp add: env_ok_def)
  note fresh = reach_fresh [OF R inj]
  show ?thesis
    apply (auto simp: create_run_record_def wp Let_def steps_to_def split: option.splits)
    apply (rule t_create_run [OF R _ refl])
    apply (simp_all add: fresh fresh_not_issued [OF inj] inj_eq [OF inj] row_get_in audit_def actors)
    done
qed

lemma storage_layout_row:
  "storage_layout root ((storage_row_of i (allocation_of root lab policy))\<lparr>created_at := c, updated_at := u\<rparr>)"
  by (auto simp: storage_layout_def storage_row_of_def Let_def intro!: exI [of _ policy])

lemma storage_row_of_sel [simp]:
  "sto_id (storage_row_of i a) = i" "sto_lab_id (storage_row_of i a) = sa_lab_id a"
  by (simp_all add: storage_row_of_def)

lemma create_lab_record_steps:
  assumes "env_ok E" and R: "reach E (uuids w) (db w)"
  shows "wp (create_lab_record E p r) (steps_to E w) w"
proof (cases "policy_profiles E p")
  case None
  then show ?thesis
    by (simp add: create_lab_record_def wp decide_lab_request_def validate_request_no_overrides steps_to_def)
next
  case (Some q)
  have inj: "inj (uuid4 E)" and name: "p_name q = p" using assms(1) Some by (simp_all add: env_ok_def)
  note fresh = reach_fresh [OF R inj]
  note solve = fresh fresh_not_issued [OF inj] inj_eq [OF inj] audit_def actors storage_layout_row
    lab_gate_def pending_approval_def logs_def
  have decide: "decide_lab_request E p r w' = (Inr (make_decision q r []), w')" for w'
    by (simp add: decide_lab_request_def validate_request_no_overrides Some attempt_def liftR_def)
  have wp_decide: "wp (decide_lab_request E p r) Q w' = Q (Inr (make_decision q r [])) w'" for Q w'
    by (simp add: wp_def decide)
  have dec: "d_profile_name (make_decision q r []) = p"
    "d_approval_required (make_decision q r []) = (approval_reasons q r \<noteq> [])"
    "p_approval_on_start q \<Longrightarrow> approval_reasons q r \<noteq> []"
    by (simp_all add: make_decision_def name approval_reasons_def)
  show ?thesis
  proof (cases "approval_reasons q r = []")
    case True
    then show ?thesis
      using dec Some
      apply (simp add: create_lab_record_def wp wp_decide Let_def)
      apply (rule wp_allocate)
       apply (simp add: steps_to_def)
      apply (simp add: wp Let_def steps_to_def)
      apply (rule t_create_lab [OF R _ refl])
               apply (auto simp add: solve)
      done
  next
    case False
    then show ?thesis
      using dec Some
      apply (simp add: create_lab_record_def wp wp_decide Let_def)
      apply (rule wp_allocate)
       apply (simp add: steps_to_def)
      apply (simp add: wp Let_def record_approval_request_def steps_to_def)
      apply (rule t_create_gated_lab [OF R _ refl])
               apply (auto simp add: solve approval_requested_event_def)
      done
  qed
qed

lemma sound_commit:
  assumes "\<And>w. reach E (uuids w) (db w) \<Longrightarrow> wp m (steps_to E w) w" and "sound E w"
  shows "wp (with_session (bnd m (\<lambda>x. bnd commit (\<lambda>_. returns x)))) (\<lambda>_ w'. sound E w') w"
proof -
  have R: "reach E (uuids w) (committed w)" using assms(2) by (simp add: sound_def)
  then have "wp m (steps_to E (w\<lparr>db := committed w\<rparr>)) (w\<lparr>db := committed w\<rparr>)" by (intro assms(1)) simp
  then show ?thesis
    unfolding wp
    by (elim wp_mono) (auto simp: steps_to_def sound_def wp split: sum.splits intro: reach_more [OF R])
qed

lemma create_lab_sound: "env_ok E \<Longrightarrow> sound E w \<Longrightarrow> wp (api_create_lab E p r) (\<lambda>_ w'. sound E w') w"
  unfolding api_create_lab_def by (intro sound_commit create_lab_record_steps)

lemma create_run_sound: "env_ok E \<Longrightarrow> sound E w \<Longrightarrow> wp (api_create_run E l c r) (\<lambda>_ w'. sound E w') w"
  unfolding api_create_run_def by (intro sound_commit create_run_record_steps)

lemma destroy_lab_sound:
  assumes "env_ok E" and "sound E w"
  shows "wp (api_destroy_lab E i) (\<lambda>_ w'. sound E w') w"
proof -
  have R: "reach E (uuids w) (committed w)" using assms(2) by (simp add: sound_def)
  have inj: "inj (uuid4 E)" using assms(1) by (simp add: env_ok_def)
  note fresh = reach_fresh [OF R inj]
  show ?thesis
    using R
    apply (auto simp: api_destroy_lab_def wp Let_def sound_def split: option.splits sum.splits)
    apply (rule wp_touches_fs [OF destroy_storage_confined])
    apply (auto simp: wp Let_def split: sum.splits)
    apply (frule row_get_Some [of lab_id])
    apply (rule t_end_lab [OF R _ refl])
        apply (auto simp: fresh fresh_not_issued [OF inj] inj_eq [OF inj] audit_def actors same_lab_def)
    done
qed

subsection \<open>Leases\<close>

lemma create_secret_lease_sound:
  assumes "env_ok E" and "sound E w"
  shows "wp (api_create_secret_lease E l s r ttl) (\<lambda>_ w'. sound E w') w"
proof -
  have R: "reach E (uuids w) (committed w)" using assms(2) by (simp add: sound_def)
  have inj: "inj (uuid4 E)" using assms(1) by (simp add: env_ok_def)
  note fresh = reach_fresh [OF R inj]
  show ?thesis
    using R
    apply (auto simp: api_create_secret_lease_def wp env_broker.wp_issue_lease Let_def sound_def split: option.splits sum.splits)
    apply (frule row_get_Some)
    apply (rule t_issue_lease [OF R _ refl])
           apply (auto simp: fresh fresh_not_issued [OF inj] inj_eq [OF inj] audit_def actors)
    done
qed

lemma revoke_secret_lease_sound:
  assumes "env_ok E" and "sound E w"
  shows "wp (api_revoke_secret_lease E i actor reason) (\<lambda>_ w'. sound E w') w"
proof -
  have R: "reach E (uuids w) (committed w)" using assms(2) by (simp add: sound_def)
  have inj: "inj (uuid4 E)" using assms(1) by (simp add: env_ok_def)
  have refs: "inv_refs (committed w)" using R by (rule inv_refs)
  note fresh = reach_fresh [OF R inj]
  show ?thesis
    using R
    apply (auto simp: api_revoke_secret_lease_def wp Let_def sound_def split: option.splits sum.splits)
    apply (frule row_get_Some)
    apply (rule t_revoke_lease [OF R _ refl])
           apply (use refs in \<open>auto simp: fresh fresh_not_issued [OF inj] inj_eq [OF inj] audit_def actors inv_refs_def\<close>)
    done
qed

subsection \<open>Exports\<close>

lemma export_event_sel [simp]:
  "er_lab_id (export_event ty l r i pl) = Some l" "er_run_id (export_event ty l r i pl) = r"
  "er_actor_type (export_event ty l r i pl) = actor_value ACTOR_SYSTEM"
  "er_event_type (export_event ty l r i pl) = ty" "er_resource_id (export_event ty l r i pl) = Some i"
  by (simp_all add: export_event_def)

lemma deny_export_sound:
  assumes "env_ok E" and "sound E w"
  shows "wp (api_deny_export E i reason) (\<lambda>_ w'. sound E w') w"
proof -
  have R: "reach E (uuids w) (committed w)" using assms(2) by (simp add: sound_def)
  have inj: "inj (uuid4 E)" using assms(1) by (simp add: env_ok_def)
  have refs: "inv_refs (committed w)" using R by (rule inv_refs)
  note fresh = reach_fresh [OF R inj]
  show ?thesis
    using R
    apply (auto simp: api_deny_export_def wp Let_def sound_def deny_export_gate_Inr split: option.splits sum.splits exn.splits)
    apply (frule row_get_Some [of exp_id])
    apply (rule t_deny_export [OF R _ refl])
           apply (use refs in \<open>auto simp: fresh fresh_not_issued [OF inj] inj_eq [OF inj] audit_def actors inv_refs_def same_export_def\<close>)
    done
qed

lemma release_export_sound:
  assumes "env_ok E" and "sound E w"
  shows "wp (api_release_export E i) (\<lambda>_ w'. sound E w') w"
proof -
  have R: "reach E (uuids w) (committed w)" using assms(2) by (simp add: sound_def)
  have inj: "inj (uuid4 E)" using assms(1) by (simp add: env_ok_def)
  have refs: "inv_refs (committed w)" using R by (rule inv_refs)
  note fresh = reach_fresh [OF R inj]
  show ?thesis
  proof (cases "row_get exp_id i (exports (committed w))")
    case None
    then show ?thesis using R by (simp add: api_release_export_def wp sound_def)
  next
    case (Some x)
    note x = row_get_Some [OF Some]
    have ev: "event_ok d (written_row E (export_event ty (exp_lab_id x) (exp_run_id x) (exp_id x) pl) k t)"
      if "lab_keys d = lab_keys (committed w)" "run_keys d = run_keys (committed w)" for d ty pl k t
      using refs x that by (auto simp: inv_refs_def actors)
    show ?thesis
    proof (cases "row_get sto_lab_id (exp_lab_id x) (storages (committed w))")
      case None
      then show ?thesis using R Some by (simp add: api_release_export_def wp sound_def)
    next
      case (Some s)
      let ?w = "w\<lparr>db := committed w\<rparr>"
      obtain r g where run: "release_export (cwd E) x s ?w = (r, ?w\<lparr>fsys := g\<rparr>)"
        using release_export_frame [of "cwd E" x s] unfolding touches_fs_def by blast
      have wp_run: "wp (release_export (cwd E) x s) Q ?w = Q r (?w\<lparr>fsys := g\<rparr>)" for Q
        using run by (simp add: wp_def)
      show ?thesis
      proof (cases r)
        case (Inl e)
        show ?thesis
          using R Some \<open>row_get exp_id i _ = Some x\<close> Inl
          apply (auto simp: api_release_export_def wp wp_run sound_def split: exn.splits)
          apply (rule t_events [OF R])
           apply (auto simp: fresh fresh_not_issued [OF inj] audit_def ev simp del: event_ok_written)
          done
      next
        case (Inr res)
        show ?thesis
          using R Some \<open>row_get exp_id i _ = Some x\<close> Inr release_export_ok [OF run [unfolded Inr]] x
          apply (auto simp: api_release_export_def wp wp_run Let_def sound_def)
          apply (rule t_release_export [OF R _ refl, where x = x])
                  apply (auto simp: fresh fresh_not_issued [OF inj] audit_def ev logs_def same_export_def simp del: event_ok_written)
          done
      qed
    qed
  qed
qed

lemma wp_stage_export:
  assumes "\<And>e g. Q (Inl e) (w\<lparr>fsys := g\<rparr>)"
    and "\<And>res p g. policy_profiles E (lab_profile_name lab) = Some p \<Longrightarrow>
      sr_approval_required res = p_approval_on_export p \<Longrightarrow> sr_state res = EXPORT_QUARANTINED \<Longrightarrow>
      pv_released_path (sr_provenance res) = None \<Longrightarrow> Q (Inr res) (w\<lparr>fsys := g\<rparr>)"
  shows "wp (stage_export (policy_profiles E) here i lab s src rid) Q w"
proof (rule wp_touches_fs [OF stage_export_frame])
  fix r g
  assume run: "stage_export (policy_profiles E) here i lab s src rid w = (r, w\<lparr>fsys := g\<rparr>)"
  show "Q r (w\<lparr>fsys := g\<rparr>)"
  proof (cases r)
    case (Inr res)
    from stage_export_ok [OF run [unfolded Inr]] show ?thesis
      unfolding Inr by (elim exE conjE) (rule assms(2), simp_all)
  qed (simp add: assms(1))
qed

lemma check_run_wp:
  "wp (check_run rid lab mismatch) Q w \<longleftrightarrow>
     (case rid of
        None \<Rightarrow> Q (Inr ()) w
      | Some i \<Rightarrow> (case row_get run_id i (runs (db w)) of
          None \<Rightarrow> Q (Inl (ResourceNotFoundError ''run'')) w
        | Some run \<Rightarrow> if run_lab_id run = lab_id lab then Q (Inr ()) w else Q (Inl mismatch) w))"
  by (simp add: check_run_def wp split: option.splits)

lemma export_row_of_sel [simp]:
  "exp_id (export_row_of i lab rid st) = i" "exp_lab_id (export_row_of i lab rid st) = lab_id lab"
  "exp_run_id (export_row_of i lab rid st) = rid"
  "exp_state (export_row_of i lab rid st) = export_value (sr_state st)"
  "exp_released_path (export_row_of i lab rid st) = pv_released_path (sr_provenance st)"
  "exp_approval_required (export_row_of i lab rid st) = sr_approval_required st"
  by (simp_all add: export_row_of_def Let_def)

lemma create_export_sound:
  assumes "env_ok E" and "sound E w"
  shows "wp (api_create_export E l src rid r) (\<lambda>_ w'. sound E w') w"
proof -
  have R: "reach E (uuids w) (committed w)" using assms(2) by (simp add: sound_def)
  have inj: "inj (uuid4 E)" using assms(1) by (simp add: env_ok_def)
  note fresh = reach_fresh [OF R inj]
  note solve = fresh fresh_not_issued [OF inj] inj_eq [OF inj] audit_def actors export_gate_def
    pending_approval_def approval_requested_event_def
  show ?thesis
  proof (cases "row_get lab_id l (labs (committed w))")
    case None
    then show ?thesis using R by (simp add: api_create_export_def wp sound_def)
  next
    case (Some lab)
    note lab = row_get_Some [OF Some]
    show ?thesis
    proof (cases "(case rid of None \<Rightarrow> True | Some i \<Rightarrow> i \<in> run_keys (committed w)) \<and>
        row_get sto_lab_id l (storages (committed w)) \<noteq> None")
      case False
      then show ?thesis using R Some
        by (auto simp: api_create_export_def wp sound_def check_run_wp row_get_None [symmetric] split: option.splits)
    next
      case True
      then have run: "\<forall>i. rid = Some i \<longrightarrow> i \<in> run_keys (committed w)" by (auto split: option.splits)
      from True obtain s where s: "row_get sto_lab_id l (storages (committed w)) = Some s" by auto
      have ev: "\<forall>k. rid = Some k \<longrightarrow> k \<in> run_keys d" if "run_keys d = run_keys (committed w)" for d
        using run that by simp
      show ?thesis
      proof (cases "policy_profiles E (lab_profile_name lab)")
        case None
        then show ?thesis
          using R Some s
          apply (simp add: api_create_export_def wp sound_def check_run_wp split: option.splits)
          apply (intro conjI impI allI; rule wp_stage_export)
             apply (simp_all add: wp reach_more [OF R])
          done
      next
        case p: (Some q)
        show ?thesis
          using R Some s p
          apply (simp add: api_create_export_def wp sound_def check_run_wp split: option.splits)
          apply (intro conjI impI allI; rule wp_stage_export;
             simp add: wp Let_def record_approval_request_def reach_more [OF R];
             intro conjI impI allI;
              (rule t_create_gated_export [OF R _ refl, where l = lab and p = q]
               | rule t_create_export [OF R _ refl, where l = lab and p = q]))
          apply (use lab in \<open>auto simp: solve dest: row_get_in\<close>)
          done
      qed
    qed
  qed
qed

subsection \<open>Approvals\<close>

text \<open>Everything before the row is decided either raises, with nothing committed, or changes nothing.\<close>

lemma wp_ensure_approval_pending:
  assumes "\<And>e t d. Q (Inl e) (w\<lparr>ticks := t, db := d\<rparr>)"
    and "\<And>t. apr_state row = approval_value APPROVAL_REQUESTED \<Longrightarrow> Q (Inr ()) (w\<lparr>ticks := t\<rparr>)"
  shows "wp (ensure_approval_pending E row) Q w"
proof -
  have 1: "Q (Inl e) w" for e using assms(1) [of e "db w" "ticks w"] by simp
  have 2: "apr_state row = approval_value APPROVAL_REQUESTED \<Longrightarrow> Q (Inr ()) w"
    using assms(2) [of "ticks w"] by simp
  show ?thesis
    using 1 2 assms by (auto simp: ensure_approval_pending_def wp Let_def split: option.splits)
qed

lemma decide_sound:
  assumes "env_ok E" and "sound E w" and dec: "decision \<in> {APPROVAL_APPROVED, APPROVAL_REJECTED}"
  shows "wp (api_decide E decision (decision_event decision) i actor comment) (\<lambda>_ w'. sound E w') w"
proof -
  have R: "reach E (uuids w) (committed w)" using assms(2) by (simp add: sound_def)
  have inj: "inj (uuid4 E)" using assms(1) by (simp add: env_ok_def)
  have ok: "control_ok E (uuids w) (committed w)" using R by (rule control_ok)
  note fresh = reach_fresh [OF R inj]
  note solve = fresh fresh_not_issued [OF inj] inj_eq [OF inj] audit_def actors settles_def logs_def
    same_lab_def same_export_def export_decided_def
  have apr: "apr_resource_type a \<in> {''lab'', ''export''} \<and>
      (\<exists>l. apr_lab_id a = Some l \<and> l \<in> lab_keys (committed w))" if "a \<in> set (approvals (committed w))" for a
    using ok that by (auto simp: control_ok_def approvals_ok_def approval_row_ok_def inv_refs_def)
  show ?thesis
  proof (cases "row_get apr_id i (approvals (committed w))")
    case None
    then show ?thesis using R by (simp add: api_decide_def wp sound_def)
  next
    case (Some a)
    note a = row_get_Some [OF Some] 
    from apr a obtain l where l: "apr_lab_id a = Some l" "l \<in> lab_keys (committed w)" by blast
    from apr a consider (lab) "apr_resource_type a = ''lab''" | (export) "apr_resource_type a = ''export''" by blast
    then show ?thesis
    proof cases
      case lab
      show ?thesis
      proof (cases "row_get lab_id (apr_resource_id a) (labs (committed w))")
        case None
        show ?thesis
          using R Some lab None
          apply (simp add: api_decide_def apply_approval_decision_def wp sound_def)
          apply (rule wp_ensure_approval_pending)
           apply (simp_all add: wp Let_def decide_lab_def reach_more [OF R])
          done
      next
        case x: (Some x)
        show ?thesis
          using R Some lab x
          apply (simp add: api_decide_def apply_approval_decision_def wp sound_def)
          apply (rule wp_ensure_approval_pending)
           apply (simp_all add: wp Let_def decide_lab_def reach_more [OF R])
          apply (intro conjI impI;
              rule t_decide_lab [OF R _ refl, where s = decision and a = a and l = x])
                              apply (use a row_get_Some [OF x] l dec in \<open>auto simp: solve\<close>)
          done
      qed
    next
      case export
      show ?thesis
      proof (cases "row_get exp_id (apr_resource_id a) (exports (committed w))")
        case None
        show ?thesis
          using R Some export None
          apply (simp add: api_decide_def apply_approval_decision_def wp sound_def)
          apply (rule wp_ensure_approval_pending)
           apply (simp_all add: wp Let_def decide_export_def reach_more [OF R])
          done
      next
        case x: (Some x)
        show ?thesis
          using R Some export x
          apply (simp add: api_decide_def apply_approval_decision_def wp sound_def)
          apply (rule wp_ensure_approval_pending)
           apply (simp_all add: wp Let_def decide_export_def reach_more [OF R])
          apply (intro conjI impI;
              rule t_decide_export [OF R _ refl, where s = decision and a = a and x = x])
                              apply (use a row_get_Some [OF x] l dec in \<open>auto simp: solve\<close>)
          done
      qed
    qed
  qed
qed

subsection \<open>Scheduler jobs\<close>

lemma t_jobs:
  assumes "reach E n d" and "n \<le> n'" and "job_table_ok (f (jobs d))"
    and "prefix (map job_id (jobs d)) (map job_id (f (jobs d)))"
    and "job_id ` set (f (jobs d)) \<subseteq> job_id ` set (jobs d) \<union> issued E n'"
  shows "reach E n' (jobs_update f d)"
proof (rule reach_step [OF reach_more [OF assms(1,2)]])
  show "transition E n' d (jobs_update f d)"
    by (rule schedule [OF _ assms(3-), where es = "[]"]) (rule database.equality, simp_all add: audit_def)
qed

lemma job_event_sel [simp]:
  "er_lab_id (job_event ty at aid i pl) = None" "er_run_id (job_event ty at aid i pl) = None"
  "er_actor_type (job_event ty at aid i pl) = at"
  by (simp_all add: job_event_def)

lemma queued_row_sel [simp]: "job_id (queued_row req i s c u) = i"
  by (simp add: queued_row_def)

lemma enqueue_sound:
  assumes "env_ok E" and "sound E w" and req: "valid_job_request req"
  shows "wp (api_enqueue_scheduler_job E req) (\<lambda>_ w'. sound E w') w"
proof -
  have R: "reach E (uuids w) (committed w)" using assms(2) by (simp add: sound_def)
  have inj: "inj (uuid4 E)" using assms(1) by (simp add: env_ok_def)
  have ok: "job_table_ok (jobs (committed w))" using control_ok [OF R] by (simp add: control_ok_def)
  note fresh = reach_fresh [OF R inj]
  have table: "job_table_ok (jobs (committed w) @ [queued_row req (uuid4 E (uuids w)) s c u])"
    if "pending_count (jr_requester_id req) (jobs (committed w)) < max_pending_jobs_per_requester" for s c u
    by (rule job_table_ok_enqueue [OF ok req fresh(9) [OF order_refl] that])
  show ?thesis
    using R
    apply (simp add: api_enqueue_scheduler_job_def wp)
    apply (rule wp_enqueue)
     apply (simp_all add: wp Let_def sound_def)
    apply (rule t_schedule [OF R _ refl])
        apply (auto simp: table fresh fresh_not_issued [OF inj] audit_def actors)
    done
qed

text \<open>The API's callbacks meet the contract of the scheduler.\<close>

interpretation api_hooks: scheduler_hooks "hook_create_lab E" "hook_create_run E" for E
proof unfold_locales
  show "wp (hook_create_lab E p) (\<lambda>r w'. jobs (db w') = jobs (db w)) w" for p w
  proof (cases "validate_request (policy_profiles E) p Map.empty (requester_value REQ_SCHEDULER)")
    case (Inl e)
    then show ?thesis by (simp add: hook_create_lab_def create_lab_record_def decide_lab_request_def wp)
  next
    case (Inr dec)
    then show ?thesis
      by (cases "d_approval_required dec")
         (auto simp: hook_create_lab_def create_lab_record_def decide_lab_request_def
            record_approval_request_def wp Let_def intro!: wp_allocate)
  qed
  show "wp (hook_create_run E l c) (\<lambda>r w'. jobs (db w') = jobs (db w)) w" for l c w
    by (auto simp: hook_create_run_def create_run_record_def wp Let_def split: option.splits)
qed

lemma steps_bind_return:
  "wp m (steps_to E w) w \<Longrightarrow> wp (bnd m (\<lambda>r. returns (f r))) (steps_to E w) w"
  unfolding wp by (elim wp_mono) (auto simp: steps_to_def wp split: sum.splits)

lemma perform_job_steps:
  assumes "env_ok E" and "reach E (uuids w) (db w)"
  shows "wp (perform_job (hook_create_lab E) (hook_create_run E) job) (steps_to E w) w"
proof -
  have raise: "steps_to E w (Inl e) w" for e :: exn by (simp add: steps_to_def)
  have lab: "wp (hook_create_lab E p) (steps_to E w) w" for p
    unfolding hook_create_lab_def by (intro steps_bind_return create_lab_record_steps assms)
  have run: "wp (hook_create_run E l c) (steps_to E w) w" for l c
    unfolding hook_create_run_def by (intro steps_bind_return create_run_record_steps assms)
  show ?thesis
    by (auto simp: perform_job_def wp steps_to_def split: sum.splits option.splits
        intro!: wp_mono [OF lab [unfolded steps_to_def]] wp_mono [OF run [unfolded steps_to_def]])
qed

lemma dispatch_job_steps:
  assumes "env_ok E" and R: "reach E (uuids w) (db w)" and next_is: "next_job t (jobs (db w)) = Some j"
  shows "wp (dispatch_job E (hook_create_lab E) (hook_create_run E) t j) (\<lambda>r w'. uuids w \<le> uuids w' \<and>
     committed w' = committed w \<and> (\<exists>j'. r = Inr j') \<and> reach E (uuids w') (db w')) w"
proof -
  have ok: "job_table_ok (jobs (db w))" using control_ok [OF R] by (simp add: control_ok_def)
  note q = next_job_queued [OF next_is]
  let ?j1 = "j\<lparr>job_state := job_value JOB_DISPATCHED, job_attempt_count := job_attempt_count j + 1,
      job_dispatched_at := Some t, job_last_error := None, updated_at := utc (clock E (ticks w))\<rparr>"
  let ?w1 = "w\<lparr>ticks := Suc (ticks w), db := jobs_update (row_put job_id ?j1) (db w)\<rparr>"
  have "job_table_ok (row_put job_id ?j1 (jobs (db w)))"
    by (rule job_table_ok_in_dispatch [OF ok next_is]) (simp add: in_dispatch_def)
  then have R1: "reach E (uuids ?w1) (db ?w1)"
    by (simp, intro t_jobs [OF R]) simp_all
  have final: "reach E m (jobs_update (row_put job_id j2) d)"
    if "reach E m d" "jobs d = row_put job_id ?j1 (jobs (db w))" "dispatched_to j j2" for m d j2
  proof (rule t_jobs [OF that(1) order_refl])
    have same: "row_put job_id j2 (jobs d) = row_put job_id j2 (jobs (db w))"
      using that(2,3) by (simp add: row_put_put dispatched_to_def)
    show "job_table_ok (row_put job_id j2 (jobs d))"
      unfolding same by (rule job_table_ok_dispatched [OF ok next_is that(3)])
  qed simp_all
  have undone: "reach E m (jobs_update (row_put job_id j2 \<circ> row_put job_id ?j1) (db w))"
    if "uuids w \<le> m" "dispatched_to j j2" for m j2
  proof (rule t_jobs [OF R that(1)])
    have same: "(row_put job_id j2 \<circ> row_put job_id ?j1) (jobs (db w)) = row_put job_id j2 (jobs (db w))"
      using that(2) by (simp add: row_put_put dispatched_to_def)
    show "job_table_ok ((row_put job_id j2 \<circ> row_put job_id ?j1) (jobs (db w)))"
      unfolding same by (rule job_table_ok_dispatched [OF ok next_is that(2)])
  qed simp_all
  show ?thesis
    apply (simp add: dispatch_job_def wp Let_def)
    apply (rule wp_mono [OF perform_job_steps [OF assms(1) R1]])
    apply (auto simp: wp Let_def steps_to_def dispatched_to_def split: sum.splits
        intro!: final undone)
    done
qed

lemma run_next_steps:
  assumes "env_ok E" and R: "reach E (uuids w) (db w)"
  shows "wp (run_next E (hook_create_lab E) (hook_create_run E) now) (\<lambda>r w'. uuids w \<le> uuids w' \<and>
     committed w' = committed w \<and> (\<exists>x. r = Inr x) \<and> reach E (uuids w') (db w')) w"
proof -
  let ?Q = "\<lambda>r w'. uuids w \<le> uuids w' \<and> committed w' = committed w \<and> (\<exists>x. r = Inr x) \<and> reach E (uuids w') (db w')"
  have body: "wp (case next_job t (jobs (db v)) of None \<Rightarrow> returns None
      | Some j \<Rightarrow> bnd (dispatch_job E (hook_create_lab E) (hook_create_run E) t j) (\<lambda>job. returns (Some job))) ?Q v"
    if v: "reach E (uuids v) (db v)" "uuids v = uuids w" "committed v = committed w" for t v
  proof (cases "next_job t (jobs (db v))")
    case None
    then show ?thesis using v by (simp add: wp)
  next
    case (Some j)
    from dispatch_job_steps [OF assms(1) v(1) Some] show ?thesis
      using Some v by (auto simp: wp elim!: wp_mono)
  qed
  show ?thesis
  proof (cases now)
    case None
    then show ?thesis
      using body [of "w\<lparr>ticks := Suc (ticks w)\<rparr>" "utc (clock E (ticks w))"] R
      by (simp add: run_next_def wp)
  next
    case (Some t)
    then show ?thesis using body [of w t] R by (simp add: run_next_def wp)
  qed
qed

lemma dispatch_sound:
  assumes "env_ok E" and "sound E w"
  shows "wp (api_dispatch_next_scheduler_job E) (\<lambda>_ w'. sound E w') w"
proof -
  have R: "reach E (uuids w) (committed w)" using assms(2) by (simp add: sound_def)
  have inj: "inj (uuid4 E)" using assms(1) by (simp add: env_ok_def)
  let ?w = "w\<lparr>db := committed w\<rparr>"
  have "wp (run_next E (hook_create_lab E) (hook_create_run E) None) (\<lambda>r w'. uuids ?w \<le> uuids w' \<and>
     committed w' = committed ?w \<and> (\<exists>x. r = Inr x) \<and> reach E (uuids w') (db w')) ?w"
    using R by (intro run_next_steps [OF assms(1)]) simp
  moreover have two: "reach E (Suc (Suc (uuids v))) (events_update (app [written_row E e (uuids v) t, written_row E f (Suc (uuids v)) u]) (db v))"
    if v: "reach E (uuids v) (db v)" and "er_lab_id e = None" "er_lab_id f = None" "er_run_id e = None" "er_run_id f = None"
      "er_actor_type e = actor_value ACTOR_SYSTEM" "er_actor_type f = actor_value ACTOR_SYSTEM"
    for v e f t u
    using that
    by (intro t_events [OF v])
       (auto simp: audit_def reach_fresh [OF v inj] fresh_not_issued [OF inj] inj_eq [OF inj] actors)
  ultimately show ?thesis
    unfolding api_dispatch_next_scheduler_job_def wp
    by (elim wp_mono) (auto simp: wp sound_def reach_more [OF R] split: option.splits intro!: two)
qed

end
