(* ===== verification/Reconciliation.thy ===== *)
theory Reconciliation
  imports Refinement
begin

section \<open>The reconciliation pass\<close>

text \<open>
  What one pass of the reconciler does, phase by phase: it stays within the abstract specification
  at every iteration, and when a phase ends nothing it looks for is left.
\<close>

definition good :: "env \<Rightarrow> world \<Rightarrow> world \<Rightarrow> bool" where
  "good E w v \<longleftrightarrow> reach E (uuids v) (db v) \<and> uuids w \<le> uuids v \<and> committed v = committed w"

lemma good_refl: "reach E (uuids w) (db w) \<Longrightarrow> good E w w"
  by (simp add: good_def)

lemma good_trans: "good E u v \<Longrightarrow> good E v w \<Longrightarrow> good E u w"
  by (auto simp: good_def)

lemma reconciler_event_sel [simp]:
  "er_lab_id (reconciler_event ty l rt i pl) = l" "er_run_id (reconciler_event ty l rt i pl) = None"
  "er_actor_type (reconciler_event ty l rt i pl) = actor_value ACTOR_SYSTEM"
  "er_event_type (reconciler_event ty l rt i pl) = ty"
  "er_resource_id (reconciler_event ty l rt i pl) = Some i"
  by (simp_all add: reconciler_event_def)

subsection \<open>Approvals\<close>

definition approval_due :: "datetime \<Rightarrow> ApprovalRow \<Rightarrow> bool" where
  "approval_due now a \<longleftrightarrow> (\<exists>t. apr_expires_at a = Some t \<and> \<not> later t now)"

definition expired_from :: "ApprovalRow \<Rightarrow> ApprovalRow \<Rightarrow> bool" where
  "expired_from a a' \<longleftrightarrow> settles APPROVAL_EXPIRED a a' \<and> apr_decided_by a' = Some ''reconciler''"

lemma expired_from_put [simp]:
  "apr_state a = approval_value APPROVAL_REQUESTED \<Longrightarrow>
   \<exists>a'. expired_from a a' \<and>
     row_put apr_id (a\<lparr>apr_state := approval_value APPROVAL_EXPIRED, apr_approved := False,
       apr_decided_by := Some ''reconciler'', apr_decided_at := Some now, updated_at := u\<rparr>) t =
     row_put apr_id a' t"
  by (rule exI, rule conjI [OF _ refl]) (simp add: expired_from_def settles_def)

lemma expire_approval_steps:
  assumes "env_ok E" and R: "reach E (uuids v) (db v)"
    and row: "row_get apr_id k (approvals (db v)) = Some a" and "apr_state a = approval_value APPROVAL_REQUESTED"
  shows "wp (expire_approval E now rep a) (\<lambda>res v'. good E v v' \<and> leases (db v') = leases (db v) \<and>
     runs (db v') = runs (db v) \<and> map lab_id (labs (db v')) = map lab_id (labs (db v)) \<and> fsys v' = fsys v \<and>
     (if approval_due now a
      then res = Inr (rep\<lparr>expired_approval_ids := expired_approval_ids rep @ [k]\<rparr>) \<and>
        (\<exists>a'. expired_from a a' \<and> approvals (db v') = row_put apr_id a' (approvals (db v)))
      else res = Inr rep \<and> approvals (db v') = approvals (db v))) v"
proof -
  have inj: "inj (uuid4 E)" using assms(1) by (simp add: env_ok_def)
  note fresh = reach_fresh [OF R inj]
  note solve = fresh fresh_not_issued [OF inj] inj_eq [OF inj] audit_def actors settles_def logs_def
    same_lab_def same_export_def export_decided_def decision_event_def
  have ok: "control_ok E (uuids v) (db v)" using R by (rule control_ok)
  note a = row_get_Some [OF row]
  have res: "apr_resource_type a = ''lab'' \<and> apr_resource_id a \<in> lab_keys (db v) \<or>
      apr_resource_type a = ''export'' \<and> apr_resource_id a \<in> exp_id ` set (exports (db v))"
    using ok a by (auto simp: control_ok_def approvals_ok_def approval_row_ok_def resources_ok_def export_keys_def)
  have lab: "\<exists>l. apr_lab_id a = Some l \<and> l \<in> lab_keys (db v)"
    using ok a by (auto simp: control_ok_def inv_refs_def)
  then obtain l where l: "apr_lab_id a = Some l" "l \<in> lab_keys (db v)" by blast
  show ?thesis
  proof (cases "approval_due now a")
    case False
    then show ?thesis using R
      by (auto simp: expire_approval_def approval_due_def wp good_def split: option.splits)
  next
    case True
    then obtain t where t: "apr_expires_at a = Some t" "\<not> later t now" by (auto simp: approval_due_def)
    from res show ?thesis
    proof (elim disjE conjE)
      assume ty: "apr_resource_type a = ''lab''" and key: "apr_resource_id a \<in> lab_keys (db v)"
      then obtain x where x: "row_get lab_id (apr_resource_id a) (labs (db v)) = Some x"
        using row_get_None [of lab_id "apr_resource_id a" "labs (db v)"] by auto
      show ?thesis
      proof (cases "lab_state x = lab_value LAB_PENDING_APPROVAL")
        case True
        show ?thesis
          using True x ty t \<open>approval_due now a\<close> a
          apply (auto simp: expire_approval_def expire_resource_def wp Let_def good_def audit_def logs_def fresh fresh_not_issued [OF inj] inj_eq [OF inj] actors assms(4))
          apply (rule t_decide_lab [OF R _ refl, where s = APPROVAL_EXPIRED and a = a and l = x])
                  apply (use a row_get_Some [OF x] l assms(4) in \<open>auto simp: solve\<close>)
          done
      next
        case False
        show ?thesis
          using False x ty t \<open>approval_due now a\<close> a
          apply (auto simp: expire_approval_def expire_resource_def wp Let_def good_def audit_def logs_def fresh fresh_not_issued [OF inj] inj_eq [OF inj] actors assms(4))
          apply (rule t_expire_lab [OF R _ refl, where a = a and l = x])
                  apply (use a row_get_Some [OF x] l assms(4) in \<open>auto simp: solve\<close>)
          done
      qed
    next
      assume ty: "apr_resource_type a = ''export''" and key: "apr_resource_id a \<in> exp_id ` set (exports (db v))"
      then obtain x where x: "row_get exp_id (apr_resource_id a) (exports (db v)) = Some x"
        using row_get_None [of exp_id "apr_resource_id a" "exports (db v)"] by auto
      show ?thesis
        using x ty t \<open>approval_due now a\<close> a
        apply (auto simp: expire_approval_def expire_resource_def wp Let_def good_def audit_def logs_def fresh fresh_not_issued [OF inj] inj_eq [OF inj] actors assms(4))
        apply (rule t_decide_export [OF R _ refl, where s = APPROVAL_EXPIRED and a = a and x = x])
                apply (use a row_get_Some [OF x] l assms(4) in \<open>auto simp: solve\<close>)
        done
    qed
  qed
qed

subsection \<open>A phase over the rows of a table\<close>

text \<open>
  \<open>settled key rel D t t'\<close>: of the rows of \<open>t\<close>, those in \<open>D\<close> were rewritten in the way \<open>rel\<close> says
  and the others are as they were. The three expiry loops of the pass have this shape, each with its
  own report field \<open>note\<close>.
\<close>

definition settled :: "('r \<Rightarrow> string) \<Rightarrow> ('r \<Rightarrow> 'r \<Rightarrow> bool) \<Rightarrow> ('r \<Rightarrow> bool) \<Rightarrow> 'r list \<Rightarrow> 'r list \<Rightarrow> bool" where
  "settled key rel D t t' \<longleftrightarrow> map key t' = map key t \<and>
     (\<forall>k r. row_get key k t = Some r \<longrightarrow>
        (if D r then (\<exists>r'. row_get key k t' = Some r' \<and> rel r r') else row_get key k t' = Some r))"

lemma settled_in:
  assumes "settled key rel D t t'" and "distinct (map key t)" and "r' \<in> set t'"
  obtains r where "r \<in> set t" "key r = key r'" "if D r then rel r r' else r' = r"
proof -
  have keys: "map key t' = map key t" using assms(1) by (simp add: settled_def)
  then have "key r' \<in> key ` set t" using assms(3) by (metis image_eqI list.set_map)
  then obtain r where r: "r \<in> set t" "key r = key r'" by auto
  have get: "row_get key (key r') t = Some r" using r assms(2) by (simp add: row_get_distinct)
  have get': "row_get key (key r') t' = Some r'" using keys assms(2,3) by (simp add: row_get_distinct)
  from assms(1) get
  have "if D r then \<exists>x. row_get key (key r') t' = Some x \<and> rel r x else row_get key (key r') t' = Some r"
    unfolding settled_def by blast
  then have "if D r then rel r r' else r' = r" using get' by (auto split: if_splits)
  then show thesis using r that by blast
qed

definition due_keys :: "('r \<Rightarrow> string) \<Rightarrow> ('r \<Rightarrow> bool) \<Rightarrow> 'r list \<Rightarrow> string list \<Rightarrow> string list" where
  "due_keys key due t ks = filter (\<lambda>k. case row_get key k t of None \<Rightarrow> False | Some r \<Rightarrow> due r) ks"

lemma wp_phase:
  assumes good: "good E u w" and dist: "distinct (map key (tab (db w)))" and rows: "distinct (map key rows)"
    and sel: "\<And>k. k \<in> key ` set rows \<longleftrightarrow> (\<exists>r. row_get key k (tab (db w)) = Some r \<and> P r)"
    and step: "\<And>k row rep v. good E u v \<Longrightarrow> fr v = fr w \<Longrightarrow>
      row_get key k (tab (db v)) = Some row \<Longrightarrow> P row \<Longrightarrow>
      wp (f rep row) (\<lambda>res v'. good E u v' \<and> fr v' = fr v \<and>
        (if due row then res = Inr (note rep k) \<and>
           (\<exists>row'. rel row row' \<and> key row' = k \<and> tab (db v') = row_put key row' (tab (db v)))
         else res = Inr rep \<and> tab (db v') = tab (db v))) v"
  shows "wp (fold_rows key tab f rep rows) (\<lambda>res v. good E u v \<and>
     fr v = fr w \<and> settled key rel (\<lambda>r. P r \<and> due r) (tab (db w)) (tab (db v)) \<and>
     res = Inr (foldl note rep (due_keys key due (tab (db w)) (map key rows)))) w"
proof -
  let ?t = "tab (db w)"
  let ?done = "\<lambda>ks v. \<forall>k row. row_get key k ?t = Some row \<longrightarrow>
        (if k \<in> ks \<and> due row then (\<exists>r'. row_get key k (tab (db v)) = Some r' \<and> rel row r')
         else row_get key k (tab (db v)) = Some row)"
  let ?I = "\<lambda>past r v. good E u v \<and> fr v = fr w \<and> map key (tab (db v)) = map key ?t \<and>
     r = foldl note rep (due_keys key due ?t past) \<and> ?done (set past) v"
  let ?Q = "\<lambda>res v. good E u v \<and> fr v = fr w \<and>
     settled key rel (\<lambda>r. P r \<and> due r) ?t (tab (db v)) \<and>
     res = Inr (foldl note rep (due_keys key due ?t (map key rows)))"
  show ?thesis
  proof (rule wp_fold_rows [where I = ?I, OF refl rows])
    show "row_get key k ?t \<noteq> None" if "k \<in> set (map key rows)" for k
      using that sel by auto
    show "?I [] rep w" using good by (simp add: due_keys_def)
  next
    fix past k row r v
    assume I: "?I past r v" and k: "k \<in> set (map key rows)" and now: "row_get key k (tab (db v)) = Some row"
      and before: "row_get key k ?t = Some row"
    from k before sel have P: "P row" by auto
    have there: "k \<in> key ` set (tab (db v))" using row_get_Some [OF now] by blast
    have after: "?I (past @ [k]) r' v' \<and> (\<forall>k'. k' \<noteq> k \<longrightarrow> row_get key k' (tab (db v')) = row_get key k' (tab (db v)))"
      if v': "good E u v'" "fr v' = fr v"
        and res: "if due row then r' = note r k \<and>
           (\<exists>row'. rel row row' \<and> key row' = k \<and> tab (db v') = row_put key row' (tab (db v)))
         else r' = r \<and> tab (db v') = tab (db v)" for r' v'
    proof (cases "due row")
      case True
      then obtain row' where row': "rel row row'" "key row' = k" "tab (db v') = row_put key row' (tab (db v))"
        "r' = note r k" using res by auto
      have get: "row_get key k' (tab (db v')) = (if k' = k then Some row' else row_get key k' (tab (db v)))" for k'
        using there row'(2) by (simp add: row'(3) row_get_put)
      have "?done (set (past @ [k])) v'"
        using I before row'(1) True by (simp add: get) blast
      then show ?thesis using I v' row' before True get by (simp add: due_keys_def)
    next
      case False
      then show ?thesis using I v' res before by (simp add: due_keys_def) (metis option.inject)
    qed
    show "wp (f r row) (\<lambda>res v'. case res of Inl e \<Rightarrow> ?Q (Inl e) v' | Inr r' \<Rightarrow> ?I (past @ [k]) r' v' \<and>
        (\<forall>k'. k' \<noteq> k \<longrightarrow> row_get key k' (tab (db v')) = row_get key k' (tab (db v)))) v"
    proof (rule wp_mono [OF step [OF _ _ now P]])
      show "good E u v" "fr v = fr w" using I by blast+
    next
      fix res v'
      assume R: "good E u v' \<and> fr v' = fr v \<and>
        (if due row then res = Inr (note r k) \<and>
           (\<exists>row'. rel row row' \<and> key row' = k \<and> tab (db v') = row_put key row' (tab (db v)))
         else res = Inr r \<and> tab (db v') = tab (db v))"
      then obtain r' where res: "res = Inr r'" by (auto split: if_splits)
      have "?I (past @ [k]) r' v' \<and> (\<forall>k'. k' \<noteq> k \<longrightarrow> row_get key k' (tab (db v')) = row_get key k' (tab (db v)))"
        by (rule after) (use R res in \<open>simp_all split: if_splits\<close>)
      then show "case res of Inl e \<Rightarrow> ?Q (Inl e) v' | Inr r' \<Rightarrow> ?I (past @ [k]) r' v' \<and>
        (\<forall>k'. k' \<noteq> k \<longrightarrow> row_get key k' (tab (db v')) = row_get key k' (tab (db v)))"
        unfolding res sum.case .
    qed
  next
    fix r v
    assume I: "?I (map key rows) r v"
    have "settled key rel (\<lambda>r. P r \<and> due r) ?t (tab (db v))"
      unfolding settled_def
    proof (intro conjI allI impI)
      fix k row
      assume get: "row_get key k ?t = Some row"
      then have "k \<in> set (map key rows) \<longleftrightarrow> P row" using sel [of k] by simp
      then show "if P row \<and> due row then \<exists>r'. row_get key k (tab (db v)) = Some r' \<and> rel row r'
        else row_get key k (tab (db v)) = Some row"
        using I get by simp
    qed (use I in simp)
    then show "?Q (Inr r) v" using I by simp
  qed
qed

lemma select_keys:
  assumes "distinct (map key t)"
  shows "k \<in> key ` set (select_rows key P t) \<longleftrightarrow> (\<exists>r. row_get key k t = Some r \<and> P r)"
  using assms by (auto simp: row_get_distinct)

lemma due_select:
  assumes "distinct (map key t)"
  shows "due_keys key due t (map key (select_rows key P t)) = map key (filter due (select_rows key P t))"
proof -
  have "filter (\<lambda>r. case row_get key (key r) t of None \<Rightarrow> False | Some r \<Rightarrow> due r) (select_rows key P t) =
      filter due (select_rows key P t)"
  proof (rule filter_cong [OF refl])
    fix r
    assume "r \<in> set (select_rows key P t)"
    then have "row_get key (key r) t = Some r" using assms by (simp add: row_get_distinct)
    then show "(case row_get key (key r) t of None \<Rightarrow> False | Some r \<Rightarrow> due r) = due r" by simp
  qed
  then show ?thesis by (simp add: due_keys_def filter_map comp_def)
qed

lemma wp_phase_select:
  assumes "good E u w" and dist: "distinct (map key (tab (db w)))"
    and "\<And>k row rep v. good E u v \<Longrightarrow> fr v = fr w \<Longrightarrow>
      row_get key k (tab (db v)) = Some row \<Longrightarrow> P row \<Longrightarrow>
      wp (f rep row) (\<lambda>res v'. good E u v' \<and> fr v' = fr v \<and>
        (if due row then res = Inr (note rep k) \<and>
           (\<exists>row'. rel row row' \<and> key row' = k \<and> tab (db v') = row_put key row' (tab (db v)))
         else res = Inr rep \<and> tab (db v') = tab (db v))) v"
  shows "wp (fold_rows key tab f rep (select_rows key P (tab (db w)))) (\<lambda>res v. good E u v \<and>
     fr v = fr w \<and> settled key rel (\<lambda>r. P r \<and> due r) (tab (db w)) (tab (db v)) \<and>
     res = Inr (foldl note rep (map key (filter due (select_rows key P (tab (db w))))))) w"
  unfolding due_select [OF dist, symmetric]
  by (rule wp_phase [OF assms(1) dist distinct_select [OF dist] select_keys [OF dist] assms(3)])

subsection \<open>The three expiry loops\<close>

definition expirable :: "ApprovalRow \<Rightarrow> bool" where
  "expirable a \<longleftrightarrow> apr_state a = approval_value APPROVAL_REQUESTED \<and> apr_expires_at a \<noteq> None"

definition lease_due :: "datetime \<Rightarrow> SecretLeaseRow \<Rightarrow> bool" where
  "lease_due now k \<longleftrightarrow> \<not> later (lease_expires_at k) now"

definition active_run :: "RunRow \<Rightarrow> bool" where
  "active_run r \<longleftrightarrow> run_state r \<in> set active_run_states \<and> run_timeout_at r \<noteq> None"

definition run_due :: "datetime \<Rightarrow> RunRow \<Rightarrow> bool" where
  "run_due now r \<longleftrightarrow> (\<exists>t. run_timeout_at r = Some t \<and> \<not> later t now)"

definition revoked_at :: "datetime \<Rightarrow> SecretLeaseRow \<Rightarrow> SecretLeaseRow \<Rightarrow> bool" where
  "revoked_at now k k' \<longleftrightarrow> (\<exists>u. k' = k\<lparr>lease_revoked_at := Some now, updated_at := u\<rparr>)"

definition timed_out_at :: "datetime \<Rightarrow> RunRow \<Rightarrow> RunRow \<Rightarrow> bool" where
  "timed_out_at now r r' \<longleftrightarrow>
     (\<exists>u. r' = r\<lparr>run_state := run_value RUN_TIMED_OUT, run_finished_at := Some now, updated_at := u\<rparr>)"

definition note_approval :: "ReconciliationReport \<Rightarrow> string \<Rightarrow> ReconciliationReport" where
  "note_approval rep k = rep\<lparr>expired_approval_ids := expired_approval_ids rep @ [k]\<rparr>"

definition note_lease :: "ReconciliationReport \<Rightarrow> string \<Rightarrow> ReconciliationReport" where
  "note_lease rep k = rep\<lparr>revoked_secret_lease_ids := revoked_secret_lease_ids rep @ [k]\<rparr>"

definition note_run :: "ReconciliationReport \<Rightarrow> string \<Rightarrow> ReconciliationReport" where
  "note_run rep k = rep\<lparr>timed_out_run_ids := timed_out_run_ids rep @ [k]\<rparr>"

text \<open>What each of the loops leaves alone.\<close>

definition unexpired :: "world \<Rightarrow> SecretLeaseRow list \<times> RunRow list \<times> string list \<times> fs" where
  "unexpired v = (leases (db v), runs (db v), map lab_id (labs (db v)), fsys v)"

definition unleased :: "world \<Rightarrow> ApprovalRow list \<times> RunRow list \<times> string list \<times> fs" where
  "unleased v = (approvals (db v), runs (db v), map lab_id (labs (db v)), fsys v)"

definition unrun :: "world \<Rightarrow> ApprovalRow list \<times> SecretLeaseRow list \<times> string list \<times> fs" where
  "unrun v = (approvals (db v), leases (db v), map lab_id (labs (db v)), fsys v)"

lemma revoke_if_expired_steps:
  assumes "env_ok E" and R: "reach E (uuids v) (db v)"
    and row: "row_get lease_id i (leases (db v)) = Some k" and "lease_revoked_at k = None"
  shows "wp (revoke_if_expired E now rep k) (\<lambda>res v'. good E v v' \<and>
     unleased v' = unleased v \<and>
     (if lease_due now k
      then res = Inr (note_lease rep i) \<and>
        (\<exists>k'. revoked_at now k k' \<and> lease_id k' = i \<and> leases (db v') = row_put lease_id k' (leases (db v)))
      else res = Inr rep \<and> leases (db v') = leases (db v))) v"
proof (cases "lease_due now k")
  case False
  then show ?thesis using R by (simp add: revoke_if_expired_def lease_due_def wp good_def unleased_def)
next
  case True
  have inj: "inj (uuid4 E)" using assms(1) by (simp add: env_ok_def)
  note k = row_get_Some [OF row]
  have lab: "lease_lab_id k \<in> lab_keys (db v)" using inv_refs [OF R] k by (auto simp: inv_refs_def)
  let ?k' = "k\<lparr>lease_revoked_at := Some now, updated_at := utc (clock E (ticks v))\<rparr>"
  have "revoked_at now k ?k' \<and> lease_id ?k' = i \<and> row_put lease_id ?k' (leases (db v)) = row_put lease_id ?k' (leases (db v))"
    using k by (auto simp: revoked_at_def)
  then have put: "\<exists>k'. revoked_at now k k' \<and> lease_id k' = i \<and>
      row_put lease_id ?k' (leases (db v)) = row_put lease_id k' (leases (db v))" by blast
  show ?thesis
    using True lab put
    apply (simp add: revoke_if_expired_def lease_due_def wp Let_def good_def unleased_def note_lease_def k [THEN conjunct2])
    apply (rule t_revoke_lease [OF R _ refl, where k = k])
           apply (use k assms(4) in \<open>auto simp: reach_fresh [OF R inj] fresh_not_issued [OF inj] audit_def actors\<close>)
    done
qed

lemma time_out_run_steps:
  assumes "env_ok E" and R: "reach E (uuids v) (db v)"
    and row: "row_get run_id i (runs (db v)) = Some r" and "active_run r"
  shows "wp (time_out_run E now rep r) (\<lambda>res v'. good E v v' \<and>
     unrun v' = unrun v \<and>
     (if run_due now r
      then res = Inr (note_run rep i) \<and>
        (\<exists>r'. timed_out_at now r r' \<and> run_id r' = i \<and> runs (db v') = row_put run_id r' (runs (db v)))
      else res = Inr rep \<and> runs (db v') = runs (db v))) v"
proof -
  obtain t where t: "run_timeout_at r = Some t" using assms(4) by (auto simp: active_run_def)
  show ?thesis
  proof (cases "run_due now r")
    case False
    then show ?thesis using R t by (simp add: time_out_run_def run_due_def wp good_def unrun_def Let_def)
  next
    case True
    have inj: "inj (uuid4 E)" using assms(1) by (simp add: env_ok_def)
    note r = row_get_Some [OF row]
    have lab: "run_lab_id r \<in> lab_keys (db v)" using inv_refs [OF R] r by (auto simp: inv_refs_def)
    have key: "i \<in> run_keys (db v)" using r by auto
    let ?r' = "r\<lparr>run_state := run_value RUN_TIMED_OUT, run_finished_at := Some now, updated_at := utc (clock E (ticks v))\<rparr>"
    have "timed_out_at now r ?r' \<and> run_id ?r' = i \<and> row_put run_id ?r' (runs (db v)) = row_put run_id ?r' (runs (db v))"
      using r by (auto simp: timed_out_at_def)
    then have put: "\<exists>r'. timed_out_at now r r' \<and> run_id r' = i \<and>
        row_put run_id ?r' (runs (db v)) = row_put run_id r' (runs (db v))" by blast
    show ?thesis
      using True lab put key
      apply (simp add: time_out_run_def run_due_def t wp Let_def good_def unrun_def note_run_def r [THEN conjunct2])
      apply (rule t_time_out_run [OF R _ refl, where r = r])
             apply (use r assms(4) t in \<open>auto simp: reach_fresh [OF R inj] fresh_not_issued [OF inj] audit_def actors\<close>)
      done
  qed
qed

lemma expire_stale_approvals_phase:
  assumes E: "env_ok E" and R: "reach E (uuids w) (db w)"
  shows "wp (expire_stale_approvals E now rep) (\<lambda>res v. good E w v \<and>
     unexpired v = unexpired w \<and>
     settled apr_id expired_from (\<lambda>a. expirable a \<and> approval_due now a) (approvals (db w)) (approvals (db v)) \<and>
     res = Inr (foldl note_approval rep
       (map apr_id (filter (approval_due now) (select_rows apr_id expirable (approvals (db w))))))) w"
proof -
  have same: "(\<lambda>a. apr_state a = approval_value APPROVAL_REQUESTED \<and> apr_expires_at a \<noteq> None) = expirable"
    by (auto simp: expirable_def fun_eq_iff)
  show ?thesis
    unfolding expire_stale_approvals_def same wp_bnd wp_select sum.case
  proof (rule wp_phase_select [where fr = unexpired, OF good_refl [OF R]])
    show "distinct (map apr_id (approvals (db w)))" using inv_keys [OF R] by (simp add: inv_keys_def table_keys_def)
  next
    fix k a rep v
    assume v: "good E w v" and a: "row_get apr_id k (approvals (db v)) = Some a" and exp: "expirable a"
    have R': "reach E (uuids v) (db v)" using v by (simp add: good_def)
    show "wp (expire_approval E now rep a) (\<lambda>res v'. good E w v' \<and>
        unexpired v' = unexpired v \<and>
        (if approval_due now a then res = Inr (note_approval rep k) \<and>
           (\<exists>a'. expired_from a a' \<and> apr_id a' = k \<and> approvals (db v') = row_put apr_id a' (approvals (db v)))
         else res = Inr rep \<and> approvals (db v') = approvals (db v))) v"
      by (rule wp_mono [OF expire_approval_steps [OF E R' a]])
         (use exp row_get_Some [OF a] good_trans [OF v] in
           \<open>auto simp: unexpired_def expirable_def expired_from_def settles_def note_approval_def split: if_splits\<close>)
  qed
qed

lemma revoke_expired_secret_leases_phase:
  assumes E: "env_ok E" and R: "reach E (uuids w) (db w)"
  shows "wp (revoke_expired_secret_leases E now rep) (\<lambda>res v. good E w v \<and>
     unleased v = unleased w \<and>
     settled lease_id (revoked_at now) (\<lambda>k. lease_revoked_at k = None \<and> lease_due now k) (leases (db w)) (leases (db v)) \<and>
     res = Inr (foldl note_lease rep (map lease_id (filter (lease_due now)
       (select_rows lease_id (\<lambda>k. lease_revoked_at k = None) (leases (db w))))))) w"
  unfolding revoke_expired_secret_leases_def wp_bnd wp_select sum.case
proof (rule wp_phase_select [where fr = unleased, OF good_refl [OF R]])
  show "distinct (map lease_id (leases (db w)))" using inv_keys [OF R] by (simp add: inv_keys_def table_keys_def)
next
  fix i k rep v
  assume v: "good E w v" and k: "row_get lease_id i (leases (db v)) = Some k" and live: "lease_revoked_at k = None"
  have R': "reach E (uuids v) (db v)" using v by (simp add: good_def)
  show "wp (revoke_if_expired E now rep k) (\<lambda>res v'. good E w v' \<and>
      unleased v' = unleased v \<and>
      (if lease_due now k then res = Inr (note_lease rep i) \<and>
         (\<exists>k'. revoked_at now k k' \<and> lease_id k' = i \<and> leases (db v') = row_put lease_id k' (leases (db v)))
       else res = Inr rep \<and> leases (db v') = leases (db v))) v"
    by (rule wp_mono [OF revoke_if_expired_steps [OF E R' k live]]) (use good_trans [OF v] in auto)
qed

lemma timeout_overdue_runs_phase:
  assumes E: "env_ok E" and R: "reach E (uuids w) (db w)"
  shows "wp (timeout_overdue_runs E now rep) (\<lambda>res v. good E w v \<and>
     unrun v = unrun w \<and>
     settled run_id (timed_out_at now) (\<lambda>r. active_run r \<and> run_due now r) (runs (db w)) (runs (db v)) \<and>
     res = Inr (foldl note_run rep
       (map run_id (filter (run_due now) (select_rows run_id active_run (runs (db w))))))) w"
proof -
  have same: "(\<lambda>r. run_state r \<in> set active_run_states \<and> run_timeout_at r \<noteq> None) = active_run"
    by (auto simp: active_run_def fun_eq_iff)
  show ?thesis
    unfolding timeout_overdue_runs_def same wp_bnd wp_select sum.case
  proof (rule wp_phase_select [where fr = unrun, OF good_refl [OF R]])
    show "distinct (map run_id (runs (db w)))" using inv_keys [OF R] by (simp add: inv_keys_def table_keys_def)
  next
    fix i r rep v
    assume v: "good E w v" and r: "row_get run_id i (runs (db v)) = Some r" and act: "active_run r"
    have R': "reach E (uuids v) (db v)" using v by (simp add: good_def)
    show "wp (time_out_run E now rep r) (\<lambda>res v'. good E w v' \<and>
        unrun v' = unrun v \<and>
        (if run_due now r then res = Inr (note_run rep i) \<and>
           (\<exists>r'. timed_out_at now r r' \<and> run_id r' = i \<and> runs (db v') = row_put run_id r' (runs (db v)))
         else res = Inr rep \<and> runs (db v') = runs (db v))) v"
      by (rule wp_mono [OF time_out_run_steps [OF E R' r act]]) (use good_trans [OF v] in auto)
  qed
qed

end
