(* ===== verification/Reconcile_Pass.thy ===== *)
theory Reconcile_Pass
  imports Reconciliation
begin

section \<open>The whole pass\<close>

text \<open>
  Composition of the phases of \<open>reconcile\<close>. On a reachable database no lab is being destroyed and every
  lab has its storage record, so the retry loop has nothing to do and a lab fails exactly when its
  storage root is gone; the two facts come from the invariants, not from the code of the pass.
\<close>

subsection \<open>Destruction retries\<close>

lemma select_rows_none: "(\<And>r. r \<in> set t \<Longrightarrow> \<not> P r) \<Longrightarrow> select_rows key P t = []"
  by (metis (mono_tags, lifting) Collect_empty_eq set_empty set_select)

lemma no_lab_destroying: "reach E n d \<Longrightarrow> l \<in> set (labs d) \<Longrightarrow> lab_state l \<noteq> lab_value LAB_DESTROYING"
  using control_ok [of E n d] by (auto simp: control_ok_def lab_states_ok_def)

lemma retry_destroying_labs_idle:
  assumes "reach E (uuids w) (db w)"
  shows "wp (retry_destroying_labs E destroyer m storage_by rep) Q w = Q (Inr rep) w"
proof -
  have "select_rows lab_id (\<lambda>l. lab_state l = lab_value LAB_DESTROYING) (labs (db w)) = []"
    by (rule select_rows_none) (use no_lab_destroying [OF assms] in blast)
  then show ?thesis by (simp add: retry_destroying_labs_def wp fold_rows_def split: option.splits)
qed

subsection \<open>Labs without storage\<close>

lemma row_put_same: "distinct (map key t) \<Longrightarrow> r \<in> set t \<Longrightarrow> row_put key r t = t"
  unfolding row_put_def by (rule map_idI) (auto dest: row_key_inj)

definition storage_gone :: "env \<Rightarrow> fs \<Rightarrow> (string \<Rightarrow> LabStorageRow option) \<Rightarrow> LabRow \<Rightarrow> bool" where
  "storage_gone E fs storage_by l \<longleftrightarrow> lab_state l \<noteq> lab_value LAB_DESTROYED \<and>
     (case storage_by (lab_id l) of None \<Rightarrow> True
      | Some s \<Rightarrow> \<not> path_exists fs (os_path (cwd E) (sto_root_path s)))"

definition failed_from :: "LabRow \<Rightarrow> LabRow \<Rightarrow> bool" where
  "failed_from l l' \<longleftrightarrow> same_lab l l' \<and> lab_state l' = lab_value LAB_FAILED"

definition note_lab :: "ReconciliationReport \<Rightarrow> string \<Rightarrow> ReconciliationReport" where
  "note_lab rep k = rep\<lparr>failed_lab_ids := failed_lab_ids rep @ [k]\<rparr>"

definition governed :: "world \<Rightarrow> ApprovalRow list \<times> SecretLeaseRow list \<times> RunRow list \<times> fs" where
  "governed v = (approvals (db v), leases (db v), runs (db v), fsys v)"

lemma check_lab_storage_steps:
  assumes "env_ok E" and R: "reach E (uuids v) (db v)" and row: "row_get lab_id k (labs (db v)) = Some l"
  shows "wp (check_lab_storage E storage_by rep l) (\<lambda>res v'. good E v v' \<and> governed v' = governed v \<and>
     (if storage_gone E (fsys v) storage_by l
      then res = Inr (note_lab rep k) \<and>
        (\<exists>l'. failed_from l l' \<and> lab_id l' = k \<and> labs (db v') = row_put lab_id l' (labs (db v)))
      else res = Inr rep \<and> labs (db v') = labs (db v))) v"
proof -
  have inj: "inj (uuid4 E)" using assms(1) by (simp add: env_ok_def)
  note l = row_get_Some [OF row]
  have dist: "distinct (map lab_id (labs (db v)))" using inv_keys [OF R] by (simp add: inv_keys_def table_keys_def)
  note solve = reach_fresh [OF R inj] fresh_not_issued [OF inj] audit_def actors same_lab_def
  show ?thesis
  proof (cases "storage_gone E (fsys v) storage_by l")
    case False
    then show ?thesis using R
      by (auto simp: check_lab_storage_def storage_gone_def wp good_def split: option.splits if_splits)
  next
    case gone: True
    let ?l' = "l\<lparr>lab_state := lab_value LAB_FAILED, updated_at := utc (clock E (ticks v))\<rparr>"
    have "failed_from l ?l' \<and> lab_id ?l' = k \<and> row_put lab_id ?l' (labs (db v)) = row_put lab_id ?l' (labs (db v))"
      using l by (auto simp: failed_from_def same_lab_def)
    then have put: "\<exists>l'. failed_from l l' \<and> lab_id l' = k \<and>
        row_put lab_id ?l' (labs (db v)) = row_put lab_id l' (labs (db v))" by blast
    have keep: "lab_state l = lab_value LAB_FAILED \<Longrightarrow> \<exists>l'. failed_from l l' \<and> lab_id l' = k \<and>
        labs (db v) = row_put lab_id l' (labs (db v))"
      using l row_put_same [OF dist] by (intro exI [of _ l]) (auto simp: failed_from_def)
    have key: "k \<in> lab_keys (db v)" using l by auto
    have ended: "reach E (Suc (uuids v)) (events_update (app [written_row E (reconciler_event ty (Some k) rt i pl) (uuids v) t])
        (labs_update (row_put lab_id ?l') (db v)))" for ty rt i pl t
      by (rule t_end_lab [OF R _ refl, where l = l]) (use l key in \<open>auto simp: solve\<close>)
    have logged: "reach E (Suc (uuids v)) (events_update (app [written_row E (reconciler_event ty (Some k) rt i pl) (uuids v) t]) (db v))"
      for ty rt i pl t
      by (rule t_events [OF R]) (use key in \<open>auto simp: solve\<close>)
    show ?thesis
      using gone put keep ended logged
      by (auto simp: check_lab_storage_def storage_gone_def wp good_def governed_def note_lab_def Let_def
          l [THEN conjunct2] split: option.splits)
  qed
qed

subsection \<open>The runtime\<close>

definition zombie_in :: "database \<Rightarrow> LabInspection \<Rightarrow> bool" where
  "zombie_in d li \<longleftrightarrow> (\<exists>l. row_get lab_id (li_lab_id li) (labs d) = Some l \<and> is_zombie_lab (lab_state l) (li_status li))"

lemma zombie_in_cong: "labs d = labs d' \<Longrightarrow> zombie_in d = zombie_in d'"
  by (simp add: zombie_in_def fun_eq_iff)

lemma inspect_runtime_steps:
  assumes "env_ok E" and R: "reach E (uuids v) (db v)" and ids: "set ids = lab_keys (db v)"
  shows "wp (inspect_runtime_lab E ids rep li) (\<lambda>res v'. good E v v' \<and> governed v' = governed v \<and>
     labs (db v') = labs (db v) \<and>
     res = Inr (if li_lab_id li \<notin> set ids
       then rep\<lparr>orphaned_runtime_lab_ids := orphaned_runtime_lab_ids rep @ [li_lab_id li]\<rparr>
       else if zombie_in (db v) li then rep\<lparr>zombie_lab_ids := zombie_lab_ids rep @ [li_lab_id li]\<rparr> else rep)) v"
proof -
  have inj: "inj (uuid4 E)" using assms(1) by (simp add: env_ok_def)
  have logged: "reach E (Suc (uuids v)) (events_update (app [written_row E (reconciler_event ty l rt i pl) (uuids v) t]) (db v))"
    if "\<forall>k. l = Some k \<longrightarrow> k \<in> lab_keys (db v)" for l ty rt i pl t
    by (rule t_events [OF R]) (use that in \<open>auto simp: reach_fresh [OF R inj] fresh_not_issued [OF inj] audit_def actors\<close>)
  show ?thesis
  proof (cases "row_get lab_id (li_lab_id li) (labs (db v))")
    case None
    then have "li_lab_id li \<notin> set ids" using ids by (auto simp: row_get_None)
    then show ?thesis using None logged by (simp add: inspect_runtime_lab_def wp Let_def good_def governed_def)
  next
    case (Some l)
    note l = row_get_Some [OF Some]
    then have "lab_id l \<in> lab_keys (db v)" by blast
    then have "li_lab_id li \<in> set ids" and "li_lab_id li \<in> lab_keys (db v)" using ids l by simp_all
    then show ?thesis using Some logged R l
      by (auto simp: inspect_runtime_lab_def wp Let_def good_def governed_def zombie_in_def)
  qed
qed

lemma inspect_all_steps:
  assumes E: "env_ok E" and "good E w v" and "set ids = lab_keys (db v)"
  shows "wp (foldM (inspect_runtime_lab E ids) rep lis) (\<lambda>res v'. good E w v' \<and> governed v' = governed v \<and>
     labs (db v') = labs (db v) \<and>
     res = Inr (rep\<lparr>orphaned_runtime_lab_ids := orphaned_runtime_lab_ids rep @
                      map li_lab_id (filter (\<lambda>li. li_lab_id li \<notin> lab_keys (db v)) lis),
                    zombie_lab_ids := zombie_lab_ids rep @ map li_lab_id (filter (zombie_in (db v)) lis)\<rparr>)) v"
  using assms(2,3)
proof (induction lis arbitrary: rep v)
  case Nil
  then show ?case by (simp add: wp)
next
  case (Cons li lis)
  have R: "reach E (uuids v) (db v)" using Cons.prems(1) by (simp add: good_def)
  have zombie: "zombie_in d li \<Longrightarrow> li_lab_id li \<in> lab_keys d" for d
    unfolding zombie_in_def using row_get_Some by (metis image_eqI)
  let ?Q = "\<lambda>res v'. good E w v' \<and> governed v' = governed v \<and> labs (db v') = labs (db v) \<and>
     res = Inr (rep\<lparr>orphaned_runtime_lab_ids := orphaned_runtime_lab_ids rep @
                      map li_lab_id (filter (\<lambda>li. li_lab_id li \<notin> lab_keys (db v)) (li # lis)),
                    zombie_lab_ids := zombie_lab_ids rep @ map li_lab_id (filter (zombie_in (db v)) (li # lis))\<rparr>)"
  let ?rep = "if li_lab_id li \<notin> set ids
     then rep\<lparr>orphaned_runtime_lab_ids := orphaned_runtime_lab_ids rep @ [li_lab_id li]\<rparr>
     else if zombie_in (db v) li then rep\<lparr>zombie_lab_ids := zombie_lab_ids rep @ [li_lab_id li]\<rparr> else rep"
  have "wp (bnd (inspect_runtime_lab E ids rep li) (\<lambda>r. foldM (inspect_runtime_lab E ids) r lis)) ?Q v"
    unfolding wp_bnd
  proof (rule wp_mono [OF inspect_runtime_steps [OF E R Cons.prems(2), of rep li]])
    fix res v'
    assume step: "good E v v' \<and> governed v' = governed v \<and> labs (db v') = labs (db v) \<and> res = Inr ?rep"
    then have v': "good E w v'" "set ids = lab_keys (db v')" using Cons.prems good_trans by auto
    have zombies: "zombie_in (db v') = zombie_in (db v)" using step by (auto simp: zombie_in_def fun_eq_iff)
    have "wp (foldM (inspect_runtime_lab E ids) ?rep lis) ?Q v'"
      by (rule wp_mono [OF Cons.IH [OF v', of ?rep]]) (use step zombies zombie Cons.prems(2) in auto)
    then show "case res of Inl e \<Rightarrow> ?Q (Inl e) v' | Inr r \<Rightarrow> wp (foldM (inspect_runtime_lab E ids) r lis) ?Q v'"
      using step by simp
  qed
  then show ?case by simp
qed

subsection \<open>Composition\<close>

lemma foldl_note:
  "foldl note_approval rep ks = rep\<lparr>expired_approval_ids := expired_approval_ids rep @ ks\<rparr>"
  "foldl note_lease rep ks = rep\<lparr>revoked_secret_lease_ids := revoked_secret_lease_ids rep @ ks\<rparr>"
  "foldl note_run rep ks = rep\<lparr>timed_out_run_ids := timed_out_run_ids rep @ ks\<rparr>"
  "foldl note_lab rep ks = rep\<lparr>failed_lab_ids := failed_lab_ids rep @ ks\<rparr>"
  by (induction ks arbitrary: rep)
     (simp_all add: note_approval_def note_lease_def note_run_def note_lab_def)

definition stores :: "database \<Rightarrow> string \<Rightarrow> LabStorageRow option" where
  "stores d = storage_by_lab_id (filter (\<lambda>s. sto_lab_id s \<in> lab_keys d) (storages d))"

text \<open>What a pass at time \<open>t\<close> did between \<open>w\<close> and \<open>v\<close>, and the report it must give.\<close>

definition pass_done :: "env \<Rightarrow> datetime \<Rightarrow> world \<Rightarrow> world \<Rightarrow> bool" where
  "pass_done E t w v \<longleftrightarrow>
     settled apr_id expired_from (\<lambda>a. expirable a \<and> approval_due t a) (approvals (db w)) (approvals (db v)) \<and>
     settled lease_id (revoked_at t) (\<lambda>k. lease_revoked_at k = None \<and> lease_due t k) (leases (db w)) (leases (db v)) \<and>
     settled run_id (timed_out_at t) (\<lambda>r. active_run r \<and> run_due t r) (runs (db w)) (runs (db v)) \<and>
     map lab_id (labs (db v)) = map lab_id (labs (db w)) \<and> fsys v = fsys w \<and>
     (\<forall>l \<in> set (labs (db v)). storage_gone E (fsys w) (stores (db w)) l \<longrightarrow> lab_state l = lab_value LAB_FAILED)"

definition pass_report :: "env \<Rightarrow> datetime \<Rightarrow> LabInspection list \<Rightarrow> world \<Rightarrow> world \<Rightarrow> ReconciliationReport \<Rightarrow> bool" where
  "pass_report E t found w v rep \<longleftrightarrow>
     expired_approval_ids rep =
       sort (map apr_id (filter (approval_due t) (select_rows apr_id expirable (approvals (db w))))) \<and>
     revoked_secret_lease_ids rep =
       sort (map lease_id (filter (lease_due t)
         (select_rows lease_id (\<lambda>k. lease_revoked_at k = None) (leases (db w))))) \<and>
     timed_out_run_ids rep =
       sort (map run_id (filter (run_due t) (select_rows run_id active_run (runs (db w))))) \<and>
     sorted (failed_lab_ids rep) \<and> distinct (failed_lab_ids rep) \<and>
     set (failed_lab_ids rep) = lab_id ` {l \<in> set (labs (db v)). storage_gone E (fsys w) (stores (db w)) l} \<and>
     destroyed_lab_ids rep = [] \<and> failed_destroy_lab_ids rep = [] \<and>
     orphaned_runtime_lab_ids rep =
       sort (map li_lab_id (filter (\<lambda>li. li_lab_id li \<notin> lab_keys (db v)) found)) \<and>
     zombie_lab_ids rep = sort (map li_lab_id (filter (zombie_in (db v)) found))"

lemma check_labs_phase:
  assumes E: "env_ok E" and v: "good E w v" and rows: "distinct (map lab_id rows)" "lab_id ` set rows = lab_keys (db v)"
  shows "wp (fold_rows lab_id labs (check_lab_storage E sb) rep rows) (\<lambda>res v'. good E w v' \<and>
     governed v' = governed v \<and>
     settled lab_id failed_from (\<lambda>l. True \<and> storage_gone E (fsys v) sb l) (labs (db v)) (labs (db v')) \<and>
     res = Inr (foldl note_lab rep (due_keys lab_id (storage_gone E (fsys v) sb) (labs (db v)) (map lab_id rows)))) v"
proof (rule wp_phase [where fr = governed, OF v _ rows(1)])
  have R: "reach E (uuids v) (db v)" using v by (simp add: good_def)
  show dist: "distinct (map lab_id (labs (db v)))" using inv_keys [OF R] by (simp add: inv_keys_def table_keys_def)
  show "k \<in> lab_id ` set rows \<longleftrightarrow> (\<exists>r. row_get lab_id k (labs (db v)) = Some r \<and> True)" for k
    unfolding rows(2) using dist by (auto simp: row_get_distinct)
next
  fix k l rep u
  assume u: "good E w u" "governed u = governed v" and l: "row_get lab_id k (labs (db u)) = Some l"
  have R': "reach E (uuids u) (db u)" and fs: "fsys u = fsys v" using u by (simp_all add: good_def governed_def)
  show "wp (check_lab_storage E sb rep l) (\<lambda>res v'. good E w v' \<and> governed v' = governed u \<and>
      (if storage_gone E (fsys v) sb l then res = Inr (note_lab rep k) \<and>
         (\<exists>l'. failed_from l l' \<and> lab_id l' = k \<and> labs (db v') = row_put lab_id l' (labs (db u)))
       else res = Inr rep \<and> labs (db v') = labs (db u))) u"
    by (rule wp_mono [OF check_lab_storage_steps [OF E R' l, where storage_by = sb, unfolded fs]])
       (use good_trans [OF u(1)] in auto)
qed

lemma gone_keys:
  assumes s: "settled lab_id failed_from (\<lambda>l. True \<and> storage_gone E fs sb l) t t'" and dist: "distinct (map lab_id t)"
    and keys: "set ks = lab_id ` set t"
  shows "set (due_keys lab_id (storage_gone E fs sb) t ks) = lab_id ` {l \<in> set t'. storage_gone E fs sb l}"
    and "\<forall>l \<in> set t'. storage_gone E fs sb l \<longrightarrow> lab_state l = lab_value LAB_FAILED"
proof -
  have ids: "map lab_id t' = map lab_id t" using s by (simp add: settled_def)
  have same: "storage_gone E fs sb l' = storage_gone E fs sb l" if "failed_from l l'" "storage_gone E fs sb l" for l l'
    using that by (auto simp: failed_from_def same_lab_def storage_gone_def)
  have fwd: "\<exists>l'. row_get lab_id k t' = Some l' \<and> storage_gone E fs sb l'"
    if "row_get lab_id k t = Some l" "storage_gone E fs sb l" for k l
    using s that same unfolding settled_def by (metis (full_types))
  have bwd: "\<exists>l. row_get lab_id (lab_id l') t = Some l \<and> storage_gone E fs sb l \<and> lab_state l' = lab_value LAB_FAILED"
    if "l' \<in> set t'" "storage_gone E fs sb l'" for l'
  proof (rule settled_in [OF s dist that(1)])
    fix l
    assume l: "l \<in> set t" "lab_id l = lab_id l'" and
      r: "if True \<and> storage_gone E fs sb l then failed_from l l' else l' = l"
    then have "storage_gone E fs sb l" using that(2) by (auto split: if_splits)
    then show ?thesis using l r dist by (auto simp: row_get_distinct failed_from_def)
  qed
  show "set (due_keys lab_id (storage_gone E fs sb) t ks) = lab_id ` {l \<in> set t'. storage_gone E fs sb l}"
  proof (intro set_eqI iffI)
    fix k
    assume "k \<in> set (due_keys lab_id (storage_gone E fs sb) t ks)"
    then obtain l where "row_get lab_id k t = Some l" "storage_gone E fs sb l"
      by (auto simp: due_keys_def split: option.splits)
    from fwd [OF this] obtain l' where "row_get lab_id k t' = Some l'" "storage_gone E fs sb l'" by blast
    with row_get_Some [of lab_id k t'] show "k \<in> lab_id ` {l \<in> set t'. storage_gone E fs sb l}" by blast
  next
    fix k
    assume "k \<in> lab_id ` {l \<in> set t'. storage_gone E fs sb l}"
    then obtain l' where l': "k = lab_id l'" "l' \<in> set t'" "storage_gone E fs sb l'" by blast
    then have "k \<in> set ks" using ids keys by (metis image_eqI list.set_map)
    then show "k \<in> set (due_keys lab_id (storage_gone E fs sb) t ks)"
      using bwd [OF l'(2,3)] l'(1) by (auto simp: due_keys_def)
  qed
  show "\<forall>l \<in> set t'. storage_gone E fs sb l \<longrightarrow> lab_state l = lab_value LAB_FAILED" using bwd by blast
qed

definition pass_time :: "env \<Rightarrow> datetime option \<Rightarrow> world \<Rightarrow> datetime" where
  "pass_time E now w = normalize_datetime (case now of None \<Rightarrow> utc (clock E (ticks w)) | Some t \<Rightarrow> t)"

text \<open>The report before the runtime is looked at, and after.\<close>

lemma sort_report_sel [simp]:
  "failed_lab_ids (sort_report r) = sort (failed_lab_ids r)"
  "destroyed_lab_ids (sort_report r) = sort (destroyed_lab_ids r)"
  "failed_destroy_lab_ids (sort_report r) = sort (failed_destroy_lab_ids r)"
  "orphaned_runtime_lab_ids (sort_report r) = sort (orphaned_runtime_lab_ids r)"
  "zombie_lab_ids (sort_report r) = sort (zombie_lab_ids r)"
  "expired_approval_ids (sort_report r) = sort (expired_approval_ids r)"
  "revoked_secret_lease_ids (sort_report r) = sort (revoked_secret_lease_ids r)"
  "timed_out_run_ids (sort_report r) = sort (timed_out_run_ids r)"
  by (simp_all add: sort_report_def)

lemma wp_then:
  assumes "wp m (\<lambda>res v. P v \<and> res = Inr x) w" and "\<And>v. P v \<Longrightarrow> wp (f x) Q v"
  shows "wp (bnd m f) Q w"
  unfolding wp_bnd by (rule wp_mono [OF assms(1)]) (use assms(2) in auto)

text \<open>A read at the head of a program, run.\<close>

lemma run_head:
  "bnd (returns x) f u = f x u"
  "bnd (select key tab P) g u = g (select_rows key P (tab (db u))) u"
  "bnd (gets r) h u = h (r u) u"
  "bnd (utc_now E) k u = k (utc (clock E (ticks u))) (u\<lparr>ticks := Suc (ticks u)\<rparr>)"
  by (simp_all add: bnd_def returns_def select_def gets_def utc_now_def)

lemma reconcile_steps:
  assumes E: "env_ok E" and R: "reach E (uuids w) (db w)"
  shows "wp (reconcile E inventory destroyer m now) (\<lambda>res v. good E w v \<and> (case inventory of
       Some (Inl e) \<Rightarrow> res = Inl e
     | Some (Inr found) \<Rightarrow> (\<exists>rep. res = Inr rep \<and> pass_done E (pass_time E now w) w v \<and>
         pass_report E (pass_time E now w) found w v rep)
     | None \<Rightarrow> (\<exists>rep. res = Inr rep \<and> pass_done E (pass_time E now w) w v \<and>
         pass_report E (pass_time E now w) [] w v rep))) w"
    (is "wp _ ?Q w")
proof -
  define t where "t = pass_time E now w"
  define rows where "rows = select_rows lab_id (\<lambda>_. True) (labs (db w))"
  have dist: "distinct (map lab_id (labs (db w)))" using inv_keys [OF R] by (simp add: inv_keys_def table_keys_def)
  have rows: "distinct (map lab_id rows)" "lab_id ` set rows = lab_keys (db w)"
    by (simp_all add: rows_def distinct_select [OF dist])
  define sb where "sb = stores (db w)"
  let ?ks = "\<lambda>v. due_keys lab_id (storage_gone E (fsys w) sb) (labs (db v)) (map lab_id rows)"
  let ?app = "map apr_id (filter (approval_due t) (select_rows apr_id expirable (approvals (db w))))"
  let ?lea = "map lease_id (filter (lease_due t) (select_rows lease_id (\<lambda>k. lease_revoked_at k = None) (leases (db w))))"
  let ?run = "map run_id (filter (run_due t) (select_rows run_id active_run (runs (db w))))"
  define tail where "tail report = (case inventory of
            None \<Rightarrow> returns (sort_report report)
          | Some found \<Rightarrow> bnd (liftR found) (\<lambda>inspections.
              bnd (foldM (inspect_runtime_lab E (map lab_id rows)) report inspections) (\<lambda>report.
              returns (sort_report report))))" for report
  have tail: "wp (tail (foldl note_lab (foldl note_run (foldl note_lease (foldl note_approval empty_report ?app) ?lea) ?run) ks)) ?Q v"
    if v: "good E w v" "pass_done E t w v" "distinct ks"
      "set ks = lab_id ` {l \<in> set (labs (db v)). storage_gone E (fsys w) sb l}" for v ks
  proof -
    have labs: "set (map lab_id rows) = lab_keys (db v)"
      using v(2) rows(2) unfolding pass_done_def by (metis list.set_map)
    have rep: "pass_report E t found w v' (sort_report (empty_report\<lparr>failed_lab_ids := ks,
        orphaned_runtime_lab_ids := map li_lab_id (filter (\<lambda>li. li_lab_id li \<notin> lab_keys (db v)) found),
        zombie_lab_ids := map li_lab_id (filter (zombie_in (db v)) found),
        expired_approval_ids := ?app, revoked_secret_lease_ids := ?lea, timed_out_run_ids := ?run\<rparr>))"
      if labs: "labs (db v') = labs (db v)" for found v'
      using labs zombie_in_cong [OF labs] v(3,4) by (simp add: pass_report_def empty_report_def sb_def)
    have same: "pass_done E t w v'" if "governed v' = governed v" "labs (db v') = labs (db v)" for v'
      using v(2) that by (simp add: pass_done_def governed_def)
    show ?thesis
    proof (cases inventory)
      case None
      then show ?thesis using rep [of v "[]"] v(1,2)
        by (simp add: tail_def wp foldl_note t_def [symmetric] empty_report_def)
    next
      case (Some outcome)
      show ?thesis
      proof (cases outcome)
        case (Inl e)
        then show ?thesis using Some v(1) by (simp add: tail_def wp)
      next
        case (Inr found)
        let ?rep = "foldl note_lab (foldl note_run (foldl note_lease (foldl note_approval empty_report ?app) ?lea) ?run) ks"
        have "wp (foldM (inspect_runtime_lab E (map lab_id rows)) ?rep found)
           (\<lambda>res v'. case res of Inl e \<Rightarrow> ?Q (Inl e) v' | Inr r \<Rightarrow> ?Q (Inr (sort_report r)) v') v"
          by (rule wp_mono [OF inspect_all_steps [OF E v(1) labs, of ?rep found]])
             (use Some Inr rep same in \<open>simp add: foldl_note t_def [symmetric] empty_report_def\<close>)
        moreover have "wp (tail r) Q v = wp (foldM (inspect_runtime_lab E (map lab_id rows)) r found)
            (\<lambda>res v'. case res of Inl e \<Rightarrow> Q (Inl e) v' | Inr r \<Rightarrow> Q (Inr (sort_report r)) v') v" for r Q
          unfolding tail_def Some Inr option.case wp_bnd wp_liftR sum.case wp_returns ..
        ultimately show ?thesis by blast
      qed
    qed
  qed
  have main: "wp (bnd (expire_stale_approvals E t empty_report) (\<lambda>report.
         bnd (revoke_expired_secret_leases E t report) (\<lambda>report.
         bnd (timeout_overdue_runs E t report) (\<lambda>report.
         bnd (retry_destroying_labs E destroyer m sb report) (\<lambda>report.
         bnd (fold_rows lab_id labs (check_lab_storage E sb) report rows) tail))))) ?Q u"
    if u: "good E w u" "db u = db w" "fsys u = fsys w" for u
  proof (rule wp_then [OF wp_mono [OF expire_stale_approvals_phase [OF E]]])
    show Ru: "reach E (uuids u) (db u)" using u(1) by (simp add: good_def)
    fix v1
    assume v1: "good E u v1 \<and> unexpired v1 = unexpired u \<and>
      settled apr_id expired_from (\<lambda>a. expirable a \<and> approval_due t a) (approvals (db u)) (approvals (db v1))"
    show "wp (bnd (revoke_expired_secret_leases E t (foldl note_approval empty_report ?app)) (\<lambda>report.
         bnd (timeout_overdue_runs E t report) (\<lambda>report.
         bnd (retry_destroying_labs E destroyer m sb report) (\<lambda>report.
         bnd (fold_rows lab_id labs (check_lab_storage E sb) report rows) tail)))) ?Q v1"
    proof (rule wp_then [OF wp_mono [OF revoke_expired_secret_leases_phase [OF E]]])
      show "reach E (uuids v1) (db v1)" using v1 by (simp add: good_def)
      fix v2
      assume v2: "good E v1 v2 \<and> unleased v2 = unleased v1 \<and>
        settled lease_id (revoked_at t) (\<lambda>k. lease_revoked_at k = None \<and> lease_due t k) (leases (db v1)) (leases (db v2))"
      show "wp (bnd (timeout_overdue_runs E t (foldl note_lease (foldl note_approval empty_report ?app) ?lea)) (\<lambda>report.
         bnd (retry_destroying_labs E destroyer m sb report) (\<lambda>report.
         bnd (fold_rows lab_id labs (check_lab_storage E sb) report rows) tail))) ?Q v2"
      proof (rule wp_then [OF wp_mono [OF timeout_overdue_runs_phase [OF E]]])
        show "reach E (uuids v2) (db v2)" using v2 by (simp add: good_def)
        fix v3
        assume v3: "good E v2 v3 \<and> unrun v3 = unrun v2 \<and>
          settled run_id (timed_out_at t) (\<lambda>r. active_run r \<and> run_due t r) (runs (db v2)) (runs (db v3))"
        have g3: "good E w v3" using u(1) v1 v2 v3 good_trans by blast
        then have R3: "reach E (uuids v3) (db v3)" by (simp add: good_def)
        have ids: "map lab_id (labs (db v3)) = map lab_id (labs (db w))"
          using v1 v2 v3 u by (simp add: unexpired_def unleased_def unrun_def)
        have keys: "lab_id ` set rows = lab_keys (db v3)" using ids rows(2) by (metis list.set_map)
        have fs: "fsys v3 = fsys w" using v1 v2 v3 u by (simp add: unexpired_def unleased_def unrun_def)
        let ?rep = "foldl note_run (foldl note_lease (foldl note_approval empty_report ?app) ?lea) ?run"
        have "wp (bnd (fold_rows lab_id labs (check_lab_storage E sb) ?rep rows) tail) ?Q v3"
        proof (rule wp_then [OF wp_mono [OF check_labs_phase [OF E g3 rows(1) keys]]])
          fix v
          assume v: "good E w v \<and> governed v = governed v3 \<and>
            settled lab_id failed_from (\<lambda>l. True \<and> storage_gone E (fsys w) sb l) (labs (db v3)) (labs (db v))"
          have dist3: "distinct (map lab_id (labs (db v3)))" using ids dist by simp
          have s: "settled lab_id failed_from (\<lambda>l. True \<and> storage_gone E (fsys w) sb l) (labs (db v3)) (labs (db v))"
            using v by blast
          have rows3: "set (map lab_id rows) = lab_id ` set (labs (db v3))" using keys by simp
          note gone = gone_keys [OF s dist3 rows3]
          have "pass_done E t w v"
            using v v1 v2 v3 u gone(2) ids
            by (simp add: pass_done_def governed_def unexpired_def unleased_def unrun_def sb_def settled_def)
          moreover have "distinct (?ks v3)" using rows(1) by (simp add: due_keys_def)
          ultimately show "wp (tail (foldl note_lab ?rep (?ks v3))) ?Q v"
            using v gone(1) by (intro tail) simp_all
        qed (use fs in simp)
        then show "wp (bnd (retry_destroying_labs E destroyer m sb ?rep) (\<lambda>report.
            bnd (fold_rows lab_id labs (check_lab_storage E sb) report rows) tail)) ?Q v3"
          by (simp add: wp_bnd [of "retry_destroying_labs E destroyer m sb ?rep"] retry_destroying_labs_idle [OF R3])
      qed (use v1 v2 u in \<open>simp add: unexpired_def unleased_def\<close>)
    qed (use v1 u in \<open>simp add: unexpired_def\<close>)
  qed (use u in simp)
  have stores_eq: "storage_by_lab_id (filter (\<lambda>s. sto_lab_id s \<in> lab_id ` set rows) (storages (db w))) = sb"
    by (simp add: sb_def stores_def rows_def)
  let ?prog = "bnd (expire_stale_approvals E t empty_report) (\<lambda>report.
         bnd (revoke_expired_secret_leases E t report) (\<lambda>report.
         bnd (timeout_overdue_runs E t report) (\<lambda>report.
         bnd (retry_destroying_labs E destroyer m sb report) (\<lambda>report.
         bnd (fold_rows lab_id labs (check_lab_storage E sb) report rows) tail))))"
  let ?u = "case now of None \<Rightarrow> w\<lparr>ticks := Suc (ticks w)\<rparr> | Some x \<Rightarrow> w"
  have same: "db ?u = db w" "fsys ?u = fsys w" "uuids ?u = uuids w" "committed ?u = committed w"
    by (simp_all split: option.splits)
  have "tail = (\<lambda>report. case inventory of
            None \<Rightarrow> returns (sort_report report)
          | Some found \<Rightarrow> bnd (liftR found) (\<lambda>inspections.
              bnd (foldM (inspect_runtime_lab E (map lab_id rows)) report inspections) (\<lambda>report.
              returns (sort_report report))))"
    by (simp add: tail_def fun_eq_iff)
  then have "reconcile E inventory destroyer m now w = ?prog ?u"
    unfolding reconcile_def Let_def t_def pass_time_def
    by (cases now) (simp_all add: run_head rows_def [symmetric] stores_eq cong: option.case_cong)
  then have "wp (reconcile E inventory destroyer m now) Q w = wp ?prog Q ?u" for Q
    by (simp only: wp_def)
  moreover have "good E w ?u" using R by (simp add: good_def same)
  ultimately show ?thesis using main [OF _ same(1,2)] by blast
qed

subsection \<open>A second pass\<close>

lemma settled_none_left:
  assumes "settled key rel D t t'" and "distinct (map key t)" and "\<And>r r'. rel r r' \<Longrightarrow> \<not> D r'"
  shows "r' \<in> set t' \<Longrightarrow> \<not> D r'"
  using assms by (elim settled_in) (auto split: if_splits)

lemma nothing_due_after:
  assumes "pass_done E t w v" and keys: "inv_keys E n (db w)"
  shows "filter (approval_due t) (select_rows apr_id expirable (approvals (db v))) = []"
    and "filter (lease_due t) (select_rows lease_id (\<lambda>k. lease_revoked_at k = None) (leases (db v))) = []"
    and "filter (run_due t) (select_rows run_id active_run (runs (db v))) = []"
proof -
  have d: "distinct (map apr_id (approvals (db w)))" "distinct (map lease_id (leases (db w)))"
      "distinct (map run_id (runs (db w)))"
    using keys by (simp_all add: inv_keys_def table_keys_def)
  from assms(1) have s: "settled apr_id expired_from (\<lambda>a. expirable a \<and> approval_due t a) (approvals (db w)) (approvals (db v))"
      "settled lease_id (revoked_at t) (\<lambda>k. lease_revoked_at k = None \<and> lease_due t k) (leases (db w)) (leases (db v))"
      "settled run_id (timed_out_at t) (\<lambda>r. active_run r \<and> run_due t r) (runs (db w)) (runs (db v))"
    by (simp_all add: pass_done_def)
  have "\<not> (expirable a \<and> approval_due t a)" if "a \<in> set (approvals (db v))" for a
    by (rule settled_none_left [OF s(1) d(1) _ that]) (auto simp: expired_from_def settles_def expirable_def)
  then show "filter (approval_due t) (select_rows apr_id expirable (approvals (db v))) = []"
    by (auto simp: filter_empty_conv)
  have "\<not> (lease_revoked_at k = None \<and> lease_due t k)" if "k \<in> set (leases (db v))" for k
    by (rule settled_none_left [OF s(2) d(2) _ that]) (auto simp: revoked_at_def)
  then show "filter (lease_due t) (select_rows lease_id (\<lambda>k. lease_revoked_at k = None) (leases (db v))) = []"
    unfolding filter_empty_conv set_select by blast
  have "\<not> (active_run r \<and> run_due t r)" if "r \<in> set (runs (db v))" for r
    by (rule settled_none_left [OF s(3) d(3) _ that]) (auto simp: timed_out_at_def active_run_def active_run_states_def)
  then show "filter (run_due t) (select_rows run_id active_run (runs (db v))) = []"
    by (auto simp: filter_empty_conv)
qed

text \<open>Without an inventory a pass always returns.\<close>

lemma reconcile_returns:
  assumes "env_ok E" and "reach E (uuids w) (db w)"
  shows "\<exists>rep v. reconcile E None destroyer m now w = (Inr rep, v) \<and> reach E (uuids v) (db v)"
  using reconcile_steps [OF assms, of None destroyer m now]
  by (cases "reconcile E None destroyer m now w") (auto simp: wp_def good_def)

lemma second_pass_idle:
  assumes E: "env_ok E" and R: "reach E (uuids w) (db w)"
    and one: "reconcile E inv1 destroyer1 m (Some t) w = (Inr rep, v)"
    and two: "reconcile E inv2 destroyer2 m' (Some t) v = (Inr rep', v')"
  shows "expired_approval_ids rep' = [] \<and> revoked_secret_lease_ids rep' = [] \<and> timed_out_run_ids rep' = []"
proof -
  let ?t = "normalize_datetime t"
  have time: "pass_time E (Some t) u = ?t" for u by (simp add: pass_time_def)
  from wp_result [OF reconcile_steps [OF E R] one]
  have v: "reach E (uuids v) (db v)" and pass: "pass_done E ?t w v"
    by (auto simp: good_def time split: option.splits sum.splits)
  from wp_result [OF reconcile_steps [OF E v] two]
  obtain found where "pass_report E ?t found v v' rep'"
    by (auto simp: time split: option.splits sum.splits)
  then show ?thesis
    using nothing_due_after [OF pass inv_keys [OF R]] by (simp add: pass_report_def)
qed

end
