(* ===== verification/Api_Snapshots.thy ===== *)
theory Api_Snapshots
  imports Api_Governance Snapshot_Restore
begin

section \<open>API: snapshots\<close>

text \<open>
  The three handlers of \<open>labos/api/app.py\<close> for snapshots, with their response. The manager works on
  files and reads the clock, but never touches the database: \<open>aside\<close> is that frame.
\<close>

record SnapshotResponse =
  snr_id :: string
  snr_lab_id :: string
  snr_backend_ref :: string
  snr_run_id :: "string option"
  snr_profile_name :: "string option"
  snr_runtime_class :: "string option"
  snr_state :: "string option"
  snr_manifest_path :: "string option"
  snr_sha256 :: "string option"
  snr_size_bytes :: "int option"
  snr_restored_at :: "datetime option"
  snr_restored_lab_id :: "string option"
  snr_created_at :: datetime
  snr_updated_at :: datetime

definition snapshot_response_from_row :: "SnapshotRow \<Rightarrow> SnapshotMetadata option \<Rightarrow> exn + SnapshotResponse" where
  "snapshot_response_from_row row metadata =
     result_bind (case Option.bind metadata sm_restored_at of
         None \<Rightarrow> Inr None
       | Some s \<Rightarrow> result_bind (fromisoformat s) (\<lambda>t. Inr (Some t))) (\<lambda>restored_at.
     Inr \<lparr>snr_id = snap_id row, snr_lab_id = snap_lab_id row, snr_backend_ref = snap_backend_ref row,
          snr_run_id = Option.bind metadata sm_run_id,
          snr_profile_name = map_option sm_profile_name metadata,
          snr_runtime_class = map_option sm_runtime_class metadata,
          snr_state = map_option sm_state metadata,
          snr_manifest_path = map_option sm_manifest_path metadata,
          snr_sha256 = map_option sm_sha256 metadata,
          snr_size_bytes = map_option sm_size_bytes metadata,
          snr_restored_at = restored_at,
          snr_restored_lab_id = Option.bind metadata sm_restored_lab_id,
          snr_created_at = created_at row, snr_updated_at = updated_at row\<rparr>)"

definition api_list_snapshots :: "env \<Rightarrow> SnapshotResponse list prog" where
  "api_list_snapshots E =
     with_session (bnd (select snap_id snapshots (\<lambda>_. True)) (\<lambda>rows.
       mapM (\<lambda>row. bnd (load_metadata E row) (\<lambda>m. liftR (snapshot_response_from_row row m))) rows))"

text \<open>An event about a snapshot.\<close>

definition snapshot_event :: "string \<Rightarrow> string \<Rightarrow> string option \<Rightarrow> RequesterType \<Rightarrow> string \<Rightarrow>
    (string \<times> pyval) list \<Rightarrow> EventRecord" where
  "snapshot_event event_type lab rid requester i payload =
     (event_record event_type payload)
       \<lparr>er_lab_id := Some lab, er_run_id := rid, er_actor_type := requester_value requester,
        er_resource_type := Some ''snapshot'', er_resource_id := Some i\<rparr>"

definition unsupported_runtime :: exn where
  "unsupported_runtime = ConflictError ''unsupported_snapshot_runtime'' (Some ''snapshot'')"

definition api_create_snapshot :: "env \<Rightarrow> string \<Rightarrow> string option \<Rightarrow> RequesterType \<Rightarrow> SnapshotResponse prog" where
  "api_create_snapshot E lab_ref rid requester =
     with_session (bnd (get_or_404 lab_id labs lab_ref ''lab'') (\<lambda>lab.
       bnd (get_or_404 sto_lab_id storages lab_ref ''lab_storage'') (\<lambda>storage_row.
       bnd (check_run rid lab (ConflictError ''snapshot_run_mismatch'' (Some ''snapshot''))) (\<lambda>_.
       bnd (fresh_uuid E) (\<lambda>i.
       bnd (attempt (Snapshots.create_snapshot E i lab storage_row rid)
              (\<lambda>exc. case exc of UnsupportedSnapshotRuntimeError s \<Rightarrow> throw unsupported_runtime | _ \<Rightarrow> throw exc)) (\<lambda>metadata.
       bnd (add_row E snapshots_update
              \<lparr>created_at = unset, updated_at = unset, snap_id = i, snap_lab_id = lab_id lab,
               snap_backend_ref = sm_backend_ref metadata\<rparr>) (\<lambda>row.
       bnd (record_event E
             (snapshot_event ''snapshot.created'' (lab_id lab) rid requester i
                [(''backend_ref'', PStr (sm_backend_ref metadata)),
                 (''runtime_class'', PStr (sm_runtime_class metadata)),
                 (''state'', PStr (sm_state metadata))])) (\<lambda>_.
       bnd commit (\<lambda>_.
       liftR (snapshot_response_from_row row (Some metadata)))))))))))"

definition api_restore_snapshot :: "env \<Rightarrow> string \<Rightarrow> string \<Rightarrow> RequesterType \<Rightarrow> SnapshotResponse prog" where
  "api_restore_snapshot E i lab_ref requester =
     with_session (bnd (get_or_404 snap_id snapshots i ''snapshot'') (\<lambda>snapshot.
       bnd (get_or_404 lab_id labs lab_ref ''lab'') (\<lambda>target_lab.
       bnd (get_or_404 sto_lab_id storages (lab_id target_lab) ''lab_storage'') (\<lambda>target_storage.
       bnd (attempt (Snapshots.restore_snapshot E snapshot target_lab target_storage)
              (\<lambda>exc. case exc of
                 UnsupportedSnapshotRuntimeError s \<Rightarrow> throw unsupported_runtime
               | SnapshotMetadataError s \<Rightarrow> throw (ConflictError s (Some ''snapshot''))
               | _ \<Rightarrow> throw exc)) (\<lambda>metadata.
       bnd (record_event E
             (snapshot_event ''snapshot.restored'' (lab_id target_lab) (sm_run_id metadata) requester (snap_id snapshot)
                [(''source_lab_id'', PStr (snap_lab_id snapshot)),
                 (''restored_lab_id'', PStr (lab_id target_lab)),
                 (''state'', PStr (sm_state metadata))])) (\<lambda>_.
       bnd commit (\<lambda>_.
       liftR (snapshot_response_from_row snapshot (Some metadata)))))))))"

lemma snapshot_event_sel [simp]:
  "er_lab_id (snapshot_event ty l r q i pl) = Some l" "er_run_id (snapshot_event ty l r q i pl) = r"
  "er_actor_type (snapshot_event ty l r q i pl) = requester_value q"
  "er_event_type (snapshot_event ty l r q i pl) = ty" "er_resource_id (snapshot_event ty l r q i pl) = Some i"
  by (simp_all add: snapshot_event_def)

lemma response_without_restore [simp]:
  "sm_restored_at m = None \<Longrightarrow> \<exists>r. snapshot_response_from_row row (Some m) = Inr r"
  by (simp add: snapshot_response_from_row_def)

subsection \<open>The manager leaves the database alone\<close>

definition aside :: "'a prog \<Rightarrow> bool" where
  "aside m \<longleftrightarrow> (\<forall>w. db (snd (m w)) = db w \<and> committed (snd (m w)) = committed w \<and> uuids (snd (m w)) = uuids w)"

lemma aside_simps [simp]:
  "aside (returns x)" "aside (throw e)" "aside (gets f)" "aside (liftR r)" "aside (require y e)"
  "aside (guard b e)" "aside (fs_call g)" "aside (utc_now E)"
  by (simp_all add: aside_def returns_def throw_def gets_def liftR_def require_def guard_def fs_call_def
      utc_now_def split: sum.splits)

lemma aside_bnd [simp, intro]: "aside m \<Longrightarrow> (\<And>x. aside (f x)) \<Longrightarrow> aside (bnd m f)"
  by (auto simp: aside_def bnd_def split: prod.splits sum.splits) (metis snd_conv)+

lemma aside_for_each [simp, intro]: "(\<And>x. aside (f x)) \<Longrightarrow> aside (for_each f xs)"
  by (induction xs) simp_all

lemma aside_if [simp, intro]: "aside m \<Longrightarrow> aside m' \<Longrightarrow> aside (if b then m else m')"
  by simp

lemma aside_let [simp, intro]: "(\<And>x. aside (f x)) \<Longrightarrow> aside (let x = y in f x)"
  by simp

lemma aside_clear [simp]: "aside (clear_directory E p)"
  by (simp add: clear_directory_def clear_entry_def)

lemma aside_load [simp]: "aside (load_metadata E row)"
  by (simp add: load_metadata_def)

lemma aside_create: "aside (Snapshots.create_snapshot E i lab s rid)"
  by (simp add: Snapshots.create_snapshot_def hash_snapshot_file_def stat_size_def Let_def)

lemma aside_restore: "aside (Snapshots.restore_snapshot E row lab s)"
  by (simp add: Snapshots.restore_snapshot_def move_extracted_def check_member_def extract_member_def
      resolve_path_def Let_def)

text \<open>The rule that brings the manager into a symbolic run.\<close>

lemma wp_aside:
  assumes "aside m"
    and "\<And>r g t. m w = (r, w\<lparr>fsys := g, ticks := t\<rparr>) \<Longrightarrow> Q r (w\<lparr>fsys := g, ticks := t\<rparr>)"
  shows "wp m Q w"
proof (rule wpI)
  fix r w'
  assume run: "m w = (r, w')"
  then have "w' = w\<lparr>fsys := fsys w', ticks := ticks w'\<rparr>" using assms(1) by (auto simp: aside_def dest: spec [of _ w])
  then show "Q r w'" using assms(2) run by metis
qed

lemma yields_now: "(\<And>n. yields P (f (utc (clock E n)))) \<Longrightarrow> yields P (bnd (utc_now E) f)"
  by (auto simp: yields_def bnd_def utc_now_def)

text \<open>The manifest a restore leaves bears the reading of the clock.\<close>

lemma restored_now:
  "yields (\<lambda>m. sm_state m = ''restored'' \<and> (\<exists>n. sm_restored_at m = Some (isoformat (utc (clock E n)))))
     (Snapshots.restore_snapshot E row lab s)"
  unfolding Snapshots.restore_snapshot_def
  by (rule yields_now yields_let yields_bnd yields_returns | auto)+

lemma created_not_restored:
  "yields (\<lambda>m. sm_state m = ''created'' \<and> sm_restored_at m = None) (Snapshots.create_snapshot E i lab s rid)"
  unfolding Snapshots.create_snapshot_def
  by (rule yields_let yields_bnd yields_returns | simp)+

end
