(* ===== verification/Session_Invariants.thy ===== *)
theory Session_Invariants
  imports Reconciler Api_Snapshots
begin

section \<open>Invariants of a running program\<close>

text \<open>
  The locale \<open>session_invariant\<close> says what an
  invariant needs so that every service keeps it: the counters and the file system are irrelevant, it
  survives a rollback and the start of a session, and growth of the session's database; then each
  service is one application of the rules, proved here once for every such invariant. A
  \<open>durable_invariant\<close> also survives a commit. \<open>grown d d'\<close> is growth: no row of \<open>d\<close> is gone from
  \<open>d'\<close>, rows keep their keys and their place, and the audit log is only extended.
\<close>

subsection \<open>Growth\<close>

definition grown :: "database \<Rightarrow> database \<Rightarrow> bool" where
  "grown d d' \<longleftrightarrow> prefix (events d) (events d') \<and>
     prefix (map lab_id (labs d)) (map lab_id (labs d')) \<and>
     prefix (map sto_id (storages d)) (map sto_id (storages d')) \<and>
     prefix (map run_id (runs d)) (map run_id (runs d')) \<and>
     prefix (map apr_id (approvals d)) (map apr_id (approvals d')) \<and>
     prefix (map exp_id (exports d)) (map exp_id (exports d')) \<and>
     prefix (map snap_id (snapshots d)) (map snap_id (snapshots d')) \<and>
     prefix (map lease_id (leases d)) (map lease_id (leases d')) \<and>
     prefix (map job_id (jobs d)) (map job_id (jobs d'))"

lemma grown_refl [simp]: "grown d d"
  by (simp add: grown_def)

lemma grown_trans: "grown d d' \<Longrightarrow> grown d' d'' \<Longrightarrow> grown d d''"
  unfolding grown_def by (meson prefix_order.order_trans)

text \<open>What a table update may do: append rows, or rewrite rows in place.\<close>

definition table_grows :: "(('r list \<Rightarrow> 'r list) \<Rightarrow> database \<Rightarrow> database) \<Rightarrow> ('r \<Rightarrow> string) \<Rightarrow> bool" where
  "table_grows upd key \<longleftrightarrow> (\<forall>d rs. grown d (upd (app rs) d)) \<and> (\<forall>d r. grown d (upd (row_put key r) d))"

lemma tables_grow [simp]:
  "table_grows labs_update lab_id" "table_grows storages_update sto_id" "table_grows runs_update run_id"
  "table_grows approvals_update apr_id" "table_grows exports_update exp_id"
  "table_grows snapshots_update snap_id" "table_grows leases_update lease_id"
  "table_grows jobs_update job_id"
  by (simp_all add: table_grows_def grown_def)

lemma grown_events [simp]: "grown d (events_update (app es) d)"
  by (simp add: grown_def)

subsection \<open>Queries and loops over rows\<close>

lemma keeps_select [keep]: "keeps I (select key tab P)"
  by (simp add: keeps_wp wp)

lemma keeps_session_get [keep]: "keeps I (session_get key tab k)"
  by (simp add: keeps_wp wp)

lemma keeps_get_or_404 [keep]: "keeps I (get_or_404 key tab k what)"
  unfolding get_or_404_def by (intro keep)

lemma keeps_fold_rows [keep]: "(\<And>r x. keeps I (f r x)) \<Longrightarrow> keeps I (fold_rows key tab f r rows)"
  unfolding fold_rows_def by (intro keep)

subsection \<open>What an invariant of the services needs\<close>

locale session_invariant =
  fixes I :: "world \<Rightarrow> bool"
  assumes counters: "I w \<Longrightarrow> I (w\<lparr>uuids := n, ticks := t\<rparr>)"
    and files: "I w \<Longrightarrow> I (w\<lparr>fsys := g\<rparr>)"
    and growth: "I w \<Longrightarrow> grown (db w) d \<Longrightarrow> I (w\<lparr>db := d\<rparr>)"
    and rollback: "I w \<Longrightarrow> I w' \<Longrightarrow> I (w'\<lparr>db := db w\<rparr>)"
    and fresh_session: "I w \<Longrightarrow> I (w\<lparr>db := committed w\<rparr>)"
begin

lemma keeps_fresh_uuid [keep]: "keeps I (fresh_uuid E)"
  using counters [where t = "ticks w" and w = w for w] by (simp add: keeps_wp wp)

lemma keeps_utc_now [keep]: "keeps I (utc_now E)"
  using counters [where n = "uuids w" and w = w for w] by (simp add: keeps_wp wp)

lemma keeps_fs_call [keep]: "keeps I (fs_call f)"
  by (simp add: keeps_wp wp files split: sum.splits)

lemma keeps_begin_nested [keep]: "keeps I m \<Longrightarrow> keeps I (begin_nested m)"
  using rollback by (auto simp: keeps_def begin_nested_def case_prod_beta split: sum.splits prod.splits)

lemma keeps_with_session [keep]: "keeps I m \<Longrightarrow> keeps I (with_session m)"
  by (simp add: keeps_def with_session_def case_prod_beta fresh_session)

lemma keeps_set_db: "(\<And>d. grown d (f d)) \<Longrightarrow> keeps I (set_db f)"
  by (simp add: keeps_wp wp set_db_def growth)

lemma keeps_add_row: "table_grows upd key \<Longrightarrow> keeps I (add_row E upd r)"
  unfolding add_row_def by (intro keep keeps_set_db) (simp add: table_grows_def)

lemma keeps_put_row: "table_grows upd key \<Longrightarrow> keeps I (put_row E key upd r)"
  unfolding put_row_def by (intro keep keeps_set_db) (simp add: table_grows_def)

lemmas [keep] = keeps_add_row [OF tables_grow(1)] keeps_add_row [OF tables_grow(2)]
  keeps_add_row [OF tables_grow(3)] keeps_add_row [OF tables_grow(4)] keeps_add_row [OF tables_grow(5)]
  keeps_add_row [OF tables_grow(6)] keeps_add_row [OF tables_grow(7)] keeps_add_row [OF tables_grow(8)]
  keeps_put_row [OF tables_grow(1)] keeps_put_row [OF tables_grow(3)] keeps_put_row [OF tables_grow(4)]
  keeps_put_row [OF tables_grow(5)] keeps_put_row [OF tables_grow(6)] keeps_put_row [OF tables_grow(7)]
  keeps_put_row [OF tables_grow(8)]

lemma keeps_record_event [keep]: "keeps I (record_event E e)"
proof -
  have "I w \<Longrightarrow> I (w\<lparr>uuids := n, ticks := t, db := events_update (app es) (db w)\<rparr>)" for w n t es
    using growth [OF counters [where w = w and n = n and t = t], of "events_update (app es) (db w)"] by simp
  then show ?thesis by (auto simp: keeps_wp wp)
qed

lemma keeps_decide_lab_request [keep]: "keeps I (decide_lab_request E p r)"
  unfolding decide_lab_request_def by (intro keep)

lemma keeps_allocate [keep]: "keeps I (allocate root l p)"
  unfolding allocate_def Let_def by (intro keep)

lemma keeps_destroy_storage [keep]: "keeps I (destroy_storage root a)"
  unfolding destroy_storage_def assert_managed_path_def by (intro keep)

lemma keeps_record_approval_request [keep]: "keeps I (record_approval_request E l rt ri ac re rb)"
  unfolding record_approval_request_def by (intro keep)

lemma keeps_create_lab_record [keep]: "keeps I (create_lab_record E p r)"
  unfolding create_lab_record_def by (intro keep)

lemma keeps_create_run_record [keep]: "keeps I (create_run_record E l c r)"
  unfolding create_run_record_def by (intro keep)

lemma keeps_stage_export [keep]: "keeps I (stage_export ps here i l s src rid)"
  unfolding stage_export_def resolve_managed_source_def resolve_path_def hash_file_def stat_size_def
  by (intro keep)

lemma keeps_release_export [keep]: "keeps I (release_export here x s)"
  unfolding release_export_def by (intro keep)

lemma keeps_issue_lease [keep]: "keeps I (issue_lease E b l s t)"
  unfolding issue_lease_def by (intro keep)

lemma keeps_revoke_lease [keep]: "keeps I (revoke_lease E i)"
  unfolding revoke_lease_def by (intro keep)

lemma keeps_ensure_approval_pending [keep]: "keeps I (ensure_approval_pending E a)"
  unfolding ensure_approval_pending_def by (intro keep)

lemma keeps_apply_approval_decision [keep]: "keeps I (apply_approval_decision E a s actor c)"
  unfolding apply_approval_decision_def decide_lab_def decide_export_def by (intro keep)

lemma keeps_check_run [keep]: "keeps I (check_run rid l e)"
  unfolding check_run_def by (intro keep)

lemma keeps_load_metadata [keep]: "keeps I (load_metadata E row)"
  unfolding load_metadata_def by (intro keep)

lemma keeps_clear_directory [keep]: "keeps I (clear_directory E p)"
  unfolding clear_directory_def clear_entry_def by (intro keep)

lemma keeps_create_snapshot [keep]: "keeps I (Snapshots.create_snapshot E i l s rid)"
  unfolding Snapshots.create_snapshot_def hash_snapshot_file_def stat_size_def by (intro keep)

lemma keeps_restore_snapshot [keep]: "keeps I (Snapshots.restore_snapshot E row l s)"
  unfolding Snapshots.restore_snapshot_def move_extracted_def check_member_def extract_member_def resolve_path_def
  by (intro keep)

lemma keeps_enqueue [keep]: "keeps I (enqueue E req)"
  unfolding enqueue_def by (intro keep)

lemma keeps_run_next [keep]: "keeps I (run_next E (hook_create_lab E) (hook_create_run E) now)"
  unfolding run_next_def dispatch_job_def perform_job_def hook_create_lab_def hook_create_run_def
  by (intro keep)

lemma keeps_expire_stale_approvals [keep]: "keeps I (expire_stale_approvals E now rep)"
  unfolding expire_stale_approvals_def expire_approval_def expire_resource_def by (intro keep)

lemma keeps_reconcile_loops [keep]:
  "keeps I (revoke_expired_secret_leases E now rep)" "keeps I (timeout_overdue_runs E now rep)"
  unfolding revoke_expired_secret_leases_def revoke_if_expired_def timeout_overdue_runs_def time_out_run_def
  by (intro keep)+

lemma keeps_retry [keep]:
  assumes "\<And>f a. destroyer = Some f \<Longrightarrow> keeps I (f a)"
  shows "keeps I (retry_destroying_labs E destroyer m sb rep)"
  using assms
  unfolding retry_destroying_labs_def retry_destroying_lab_def destroy_without_record_def destroy_raised_def
    destroy_succeeded_def
  by (cases destroyer) (auto intro!: keep)

lemma keeps_reconcile [keep]:
  assumes "\<And>f a. destroyer = Some f \<Longrightarrow> keeps I (f a)"
  shows "keeps I (reconcile E inventory destroyer m now)"
  unfolding reconcile_def check_lab_storage_def inspect_runtime_lab_def by (intro keep assms)

end

locale durable_invariant = session_invariant +
  assumes commit: "I w \<Longrightarrow> I (w\<lparr>committed := db w\<rparr>)"
begin

lemma keeps_commit [keep]: "keeps I Session.commit"
  by (simp add: keeps_wp wp commit_def commit)

end

subsection \<open>The two invariants\<close>

text \<open>What was there at the start stays, in the session and in what is committed.\<close>

definition still_there :: "database \<Rightarrow> world \<Rightarrow> bool" where
  "still_there d w \<longleftrightarrow> grown d (db w) \<and> grown d (committed w)"

interpretation growing: durable_invariant "still_there d" for d
  by unfold_locales (auto simp: still_there_def elim: grown_trans)

text \<open>Nothing was committed.\<close>

definition uncommitted :: "database \<Rightarrow> world \<Rightarrow> bool" where
  "uncommitted d w \<longleftrightarrow> committed w = d"

interpretation silent: session_invariant "uncommitted d" for d
  by unfold_locales (simp_all add: uncommitted_def)

end
