(* ===== verification/Snapshot_Soundness.thy ===== *)
theory Snapshot_Soundness
  imports Refinement Api_Snapshots
begin

section \<open>The snapshot handlers implement the specification\<close>

text \<open>
  A new snapshot is the abstract transition \<open>create_snapshot\<close>; a restore changes files, and of the
  database only the audit log. \<open>wp_create_snapshot\<close> and \<open>wp_restore_snapshot\<close> say the same of every
  branch in terms of what is answered and what is committed.
\<close>

lemma t_create_snapshot:
  assumes "reach E n d" and "n \<le> n'" and "d' = events_update (app es) (snapshots_update (app [p]) d)"
    and "new_ids E n' snap_id (snapshots d) [p]"
    and "snap_lab_id p \<in> lab_keys d"
    and "audit E n' d d' es"
  shows "reach E n' d'"
  by (rule reach_step [OF reach_more [OF assms(1,2)] transition.create_snapshot [OF _ assms(4-)]])
     (unfold assms(3), rule database.equality, simp_all)

lemma wp_create_manager:
  assumes "\<And>e g t. Q (Inl e) (w\<lparr>fsys := g, ticks := t\<rparr>)"
    and "\<And>m g t. sm_restored_at m = None \<Longrightarrow> sm_state m = ''created'' \<Longrightarrow> Q (Inr m) (w\<lparr>fsys := g, ticks := t\<rparr>)"
  shows "wp (Snapshots.create_snapshot E i lab s rid) Q w"
proof (rule wp_aside [OF aside_create])
  fix r g t
  assume run: "Snapshots.create_snapshot E i lab s rid w = (r, w\<lparr>fsys := g, ticks := t\<rparr>)"
  show "Q r (w\<lparr>fsys := g, ticks := t\<rparr>)"
  proof (cases r)
    case (Inr m)
    then show ?thesis using run created_not_restored [of E i lab s rid] assms(2) unfolding yields_def by blast
  qed (simp add: assms(1))
qed

lemma wp_restore_manager:
  assumes "\<And>e g t. Q (Inl e) (w\<lparr>fsys := g, ticks := t\<rparr>)"
    and "\<And>m n g t. sm_restored_at m = Some (isoformat (utc (clock E n))) \<Longrightarrow> sm_state m = ''restored'' \<Longrightarrow>
      Q (Inr m) (w\<lparr>fsys := g, ticks := t\<rparr>)"
  shows "wp (Snapshots.restore_snapshot E row lab s) Q w"
proof (rule wp_aside [OF aside_restore])
  fix r g t
  assume run: "Snapshots.restore_snapshot E row lab s w = (r, w\<lparr>fsys := g, ticks := t\<rparr>)"
  show "Q r (w\<lparr>fsys := g, ticks := t\<rparr>)"
  proof (cases r)
    case (Inr m)
    then show ?thesis using run restored_now [of E row lab s] assms(2) unfolding yields_def by blast
  qed (simp add: assms(1))
qed

lemma create_snapshot_sound:
  assumes "env_ok E" and "sound E w"
  shows "wp (api_create_snapshot E l rid r) (\<lambda>_ w'. sound E w') w"
proof -
  have R: "reach E (uuids w) (committed w)" using assms(2) by (simp add: sound_def)
  have inj: "inj (uuid4 E)" using assms(1) by (simp add: env_ok_def)
  note fresh = reach_fresh [OF R inj]
  show ?thesis
    using R
    apply (auto simp: api_create_snapshot_def wp sound_def check_run_wp split: option.splits)
    apply ((rule wp_create_manager; auto simp: wp Let_def reach_more [OF R] split: exn.splits;
        rule t_create_snapshot [OF R _ refl];
        auto simp: fresh fresh_not_issued [OF inj] inj_eq [OF inj] audit_def actors dest!: row_get_Some)+)
    done
qed

lemma restore_snapshot_sound:
  assumes "env_ok E" and "sound E w"
  shows "wp (api_restore_snapshot E i l r) (\<lambda>_ w'. sound E w') w"
proof -
  have R: "reach E (uuids w) (committed w)" using assms(2) by (simp add: sound_def)
  have inj: "inj (uuid4 E)" using assms(1) by (simp add: env_ok_def)
  note fresh = reach_fresh [OF R inj]
  show ?thesis
    using R
    apply (auto simp: api_restore_snapshot_def wp sound_def split: option.splits)
    apply (rule wp_restore_manager; auto simp: wp Let_def split: exn.splits)
    apply (rule t_events [OF R])
     apply (use row_get_Some [of lab_id] in
        \<open>force simp: fresh fresh_not_issued [OF inj] inj_eq [OF inj] audit_def actors\<close>)+
    done
qed

end
