(* ===== verification/System.thy ===== *)
theory System
  imports Reconcile_Pass Session_Invariants Snapshot_Soundness
begin

section \<open>The system\<close>

text \<open>
  The services behind one interface: a request, answered by \<open>serve\<close>, is a step from one world to the
  next, and between requests the labs and the host change the file system as they like. \<open>system E w\<close>
  says that \<open>w\<close> is a world the program reaches in environment \<open>E\<close>. FastAPI validates the body of a
  scheduler job and the lifetime of a lease before the handler runs and answers 422 when that fails. \<open>reconcile\<close> is run in a
  session that its caller commits, with the runtime's inventory as an argument; its storage
  destroyer, when there is one, is the allocator's \<open>destroy\<close>.
\<close>

datatype request =
    CreateLab string RequesterType
  | ListLabs
  | GetLab string
  | DestroyLab string
  | CreateRun string string RequesterType
  | ListRuns
  | GetRun string
  | CreateExport string string "string option" RequesterType
  | ReleaseExport string
  | DenyExport string string
  | ListExports
  | Approve string string "string option"
  | Deny string string "string option"
  | ListApprovals
  | CreateLease string string RequesterType int
  | ListLeases string
  | RevokeLease string string "string option"
  | EnqueueJob SchedulerJobCreateRequest
  | ListJobs
  | DispatchJob
  | ListEvents event_filter
  | CreateSnapshot string "string option" RequesterType
  | ListSnapshots
  | RestoreSnapshot string string RequesterType
  | Reconcile "(exn + LabInspection list) option" bool int "datetime option"

datatype response =
    LabR LabResponse | LabsR "LabResponse list"
  | RunR RunResponse | RunsR "RunResponse list"
  | ExportR ExportResponse | ExportsR "ExportResponse list"
  | ApprovalR ApprovalResponse | ApprovalsR "ApprovalResponse list"
  | LeaseR SecretLeaseResponse | LeasesR "SecretLeaseResponse list"
  | JobR SchedulerJobResponse | JobsR "SchedulerJobResponse list"
  | EventsR "EventResponse list"
  | SnapshotR SnapshotResponse | SnapshotsR "SnapshotResponse list"
  | ReportR ReconciliationReport

definition answer :: "('a \<Rightarrow> response) \<Rightarrow> 'a prog \<Rightarrow> response prog" where
  "answer f m = bnd m (\<lambda>x. returns (f x))"

definition reconcile_and_commit :: "env \<Rightarrow> (exn + LabInspection list) option \<Rightarrow> bool \<Rightarrow> int \<Rightarrow> datetime option \<Rightarrow>
    ReconciliationReport prog" where
  "reconcile_and_commit E inventory retry m now =
     with_session (bnd (reconcile E inventory (if retry then Some (destroy_storage (storage_root E)) else None) m now)
       (\<lambda>report. bnd commit (\<lambda>_. returns report)))"

fun serve :: "env \<Rightarrow> request \<Rightarrow> response prog" where
  "serve E (CreateLab p r) = answer LabR (api_create_lab E p r)"
| "serve E ListLabs = answer LabsR api_list_labs"
| "serve E (GetLab i) = answer LabR (api_get_lab i)"
| "serve E (DestroyLab i) = answer LabR (api_destroy_lab E i)"
| "serve E (CreateRun l c r) = answer RunR (api_create_run E l c r)"
| "serve E ListRuns = answer RunsR api_list_runs"
| "serve E (GetRun i) = answer RunR (api_get_run i)"
| "serve E (CreateExport l s rid r) = answer ExportR (api_create_export E l s rid r)"
| "serve E (ReleaseExport i) = answer ExportR (api_release_export E i)"
| "serve E (DenyExport i reason) = answer ExportR (api_deny_export E i reason)"
| "serve E ListExports = answer ExportsR api_list_exports"
| "serve E (Approve i actor c) = answer ApprovalR (api_approve_request E i actor c)"
| "serve E (Deny i actor c) = answer ApprovalR (api_deny_request E i actor c)"
| "serve E ListApprovals = answer ApprovalsR api_list_approvals"
| "serve E (CreateLease l s r ttl) =
     (if 1 \<le> ttl \<and> ttl \<le> 24 * 60 then answer LeaseR (api_create_secret_lease E l s r ttl)
      else throw (HTTPException 422 ''Unprocessable Entity''))"
| "serve E (ListLeases l) = answer LeasesR (api_list_secret_leases l)"
| "serve E (RevokeLease i actor reason) = answer LeaseR (api_revoke_secret_lease E i actor reason)"
| "serve E (EnqueueJob req) =
     (if valid_job_request req then answer JobR (api_enqueue_scheduler_job E req)
      else throw (HTTPException 422 ''Unprocessable Entity''))"
| "serve E ListJobs = answer JobsR api_list_scheduler_jobs"
| "serve E DispatchJob = answer JobR (api_dispatch_next_scheduler_job E)"
| "serve E (ListEvents q) = answer EventsR (api_list_events q)"
| "serve E (CreateSnapshot l rid r) = answer SnapshotR (api_create_snapshot E l rid r)"
| "serve E ListSnapshots = answer SnapshotsR (api_list_snapshots E)"
| "serve E (RestoreSnapshot i l r) = answer SnapshotR (api_restore_snapshot E i l r)"
| "serve E (Reconcile inventory retry m now) = answer ReportR (reconcile_and_commit E inventory retry m now)"

definition initial :: "fs \<Rightarrow> world" where
  "initial g = \<lparr>db = empty_database, committed = empty_database, fsys = g, uuids = 0, ticks = 0\<rparr>"

inductive system :: "env \<Rightarrow> world \<Rightarrow> bool" for E where
  start: "system E (initial g)"
| step: "system E w \<Longrightarrow> system E (snd (serve E req w))"
| outside: "system E w \<Longrightarrow> system E (w\<lparr>fsys := g\<rparr>)"

subsection \<open>Every reachable world is sound\<close>

lemma answer_sound: "wp m (\<lambda>_ w'. P w') w \<Longrightarrow> wp (answer f m) (\<lambda>_ w'. P w') w"
  unfolding answer_def wp by (elim wp_mono) (simp add: wp split: sum.splits)

lemma answer_run: "answer f m w = (map_sum id f (fst (m w)), snd (m w))"
  by (simp add: answer_def bnd_def returns_def split: prod.splits sum.splits)

lemma answer_outcome: "wp m Q w \<Longrightarrow> answer f m w = (r, w') \<Longrightarrow> \<exists>r0. r = map_sum id f r0 \<and> Q r0 w'"
  by (auto simp: answer_run wp_def split: prod.splits)

lemma answer_success: "wp m Q w \<Longrightarrow> answer f m w = (Inr r, w') \<Longrightarrow> \<exists>x. r = f x \<and> Q (Inr x) w'"
  by (auto simp: answer_run wp_def map_sum_def split: prod.splits sum.splits)

lemma answer_failure: "wp m Q w \<Longrightarrow> answer f m w = (Inl e, w') \<Longrightarrow> Q (Inl e) w'"
  by (auto simp: answer_run wp_def map_sum_def split: prod.splits sum.splits)

text \<open>The reading handlers leave the committed database and the counters alone.\<close>

lemma mapM_pure:
  assumes "\<And>x w. snd (f x w) = w"
  shows "snd (mapM f xs w) = w"
proof (induction xs arbitrary: w)
  case Nil
  then show ?case by (simp add: returns_def)
next
  case (Cons x xs)
  show ?case using assms [of x w] Cons.IH by (auto simp: bnd_def returns_def split: prod.splits sum.splits) (metis snd_conv)+
qed

lemma wp_mapM_pure:
  assumes "\<And>x w. snd (f x w) = w"
  shows "(\<And>r. Q r w) \<Longrightarrow> wp (mapM f xs) Q w"
  using mapM_pure [of f xs w, OF assms] by (cases "mapM f xs w") (simp add: wp_def)

lemma load_metadata_pure: "snd (load_metadata E row w) = w"
  by (simp add: load_metadata_def bnd_def liftR_def gets_def require_def returns_def split: sum.splits option.splits)

lemma listed_snapshot_pure: "snd (bnd (load_metadata E row) (\<lambda>m. liftR (f row m)) w) = w"
  using load_metadata_pure [of E row w] by (auto simp: bnd_def liftR_def split: prod.splits sum.splits)

lemma reads_sound:
  assumes "sound E w"
  shows "wp api_list_labs (\<lambda>_ w'. sound E w') w" "wp (api_get_lab i) (\<lambda>_ w'. sound E w') w"
    "wp api_list_runs (\<lambda>_ w'. sound E w') w" "wp (api_get_run i) (\<lambda>_ w'. sound E w') w"
    "wp api_list_exports (\<lambda>_ w'. sound E w') w" "wp api_list_approvals (\<lambda>_ w'. sound E w') w"
    "wp (api_list_secret_leases i) (\<lambda>_ w'. sound E w') w" "wp api_list_scheduler_jobs (\<lambda>_ w'. sound E w') w"
    "wp (api_list_events q) (\<lambda>_ w'. sound E w') w" "wp (api_list_snapshots E) (\<lambda>_ w'. sound E w') w"
  using assms
  by (auto simp: api_list_labs_def api_get_lab_def api_list_runs_def api_get_run_def api_list_exports_def
      api_list_approvals_def api_list_secret_leases_def api_list_scheduler_jobs_def api_list_events_def
      list_leases_def list_jobs_def api_list_snapshots_def wp sound_def split: option.splits
      intro!: wp_mapM_pure listed_snapshot_pure simp: bnd_def require_def returns_def liftR_def split: sum.splits)

lemma reconcile_sound:
  assumes "env_ok E" and "sound E w"
  shows "wp (reconcile_and_commit E inventory retry m now) (\<lambda>_ w'. sound E w') w"
proof -
  have R: "reach E (uuids w) (committed w)" using assms(2) by (simp add: sound_def)
  let ?w = "w\<lparr>db := committed w\<rparr>"
  have "reach E (uuids ?w) (db ?w)" using R by simp
  show ?thesis
    unfolding reconcile_and_commit_def wp_with_session wp_bnd
    by (rule wp_mono [OF reconcile_steps [OF assms(1) \<open>reach E (uuids ?w) (db ?w)\<close>]])
       (auto simp: wp sound_def good_def split: sum.splits intro: reach_more [OF R])
qed

lemma serve_sound:
  assumes "env_ok E" and "sound E w"
  shows "sound E (snd (serve E req w))"
proof -
  have "wp (serve E req) (\<lambda>_ w'. sound E w') w"
    using assms
    by (cases req)
       (auto simp: wp api_approve_request_def api_deny_request_def
          intro!: answer_sound reads_sound create_lab_sound destroy_lab_sound create_run_sound
            create_export_sound release_export_sound deny_export_sound create_secret_lease_sound
            create_snapshot_sound restore_snapshot_sound
            revoke_secret_lease_sound enqueue_sound dispatch_sound reconcile_sound
            decide_sound [of E w APPROVAL_APPROVED, unfolded decision_event_def, simplified]
            decide_sound [of E w APPROVAL_REJECTED, unfolded decision_event_def, simplified])
  then show ?thesis by (simp add: wp_def case_prod_beta)
qed

lemma system_sound: "env_ok E \<Longrightarrow> system E w \<Longrightarrow> sound E w"
proof (rotate_tac 1, induction rule: system.induct)
  case (start g)
  then show ?case by (simp add: sound_def initial_def reach_init)
next
  case (step w req)
  then show ?case by (simp add: serve_sound)
qed (simp add: sound_def)

lemma system_control: "env_ok E \<Longrightarrow> system E w \<Longrightarrow> control_ok E (uuids w) (committed w)"
  using system_sound [of E w] control_ok [of E "uuids w" "committed w"] by (simp add: sound_def)

subsection \<open>Nothing is deleted\<close>

lemma keeps_answer [keep]: "keeps I m \<Longrightarrow> keeps I (answer f m)"
  unfolding answer_def by (intro keep)

lemma growing_serve: "keeps (still_there d) (serve E req)"
  by (cases req)
     (auto simp: api_create_lab_def api_list_labs_def api_get_lab_def api_destroy_lab_def api_create_run_def
        api_list_runs_def api_get_run_def api_create_export_def api_release_export_def api_deny_export_def
        api_list_exports_def api_approve_request_def api_deny_request_def api_decide_def
        api_list_approvals_def api_create_secret_lease_def api_list_secret_leases_def
        api_revoke_secret_lease_def api_enqueue_scheduler_job_def api_list_scheduler_jobs_def
        api_dispatch_next_scheduler_job_def api_list_events_def list_jobs_def list_leases_def
        api_create_snapshot_def api_list_snapshots_def api_restore_snapshot_def reconcile_and_commit_def
        intro!: keep split: exn.splits)

text \<open>A handler opens a session, so it starts from what is committed.\<close>

lemma answer_session: "answer f (with_session m) (w\<lparr>db := d\<rparr>) = answer f (with_session m) w"
  by (simp add: answer_def bnd_def with_session_def)

lemma serve_session:
  "committed (snd (serve E req (w\<lparr>db := committed w\<rparr>))) = committed (snd (serve E req w))"
  by (cases req)
     (simp_all add: api_create_lab_def api_list_labs_def api_get_lab_def api_destroy_lab_def api_create_run_def
        api_list_runs_def api_get_run_def api_create_export_def api_release_export_def api_deny_export_def
        api_list_exports_def api_approve_request_def api_deny_request_def api_decide_def
        api_list_approvals_def api_create_secret_lease_def api_list_secret_leases_def
        api_revoke_secret_lease_def api_enqueue_scheduler_job_def api_list_scheduler_jobs_def
        api_dispatch_next_scheduler_job_def api_list_events_def api_create_snapshot_def api_list_snapshots_def
        api_restore_snapshot_def reconcile_and_commit_def
        answer_session throw_def)

lemma serve_keeps_committed: "grown (committed w) (committed (snd (serve E req w)))"
proof -
  have "grown (committed w) (committed (snd (serve E req (w\<lparr>db := committed w\<rparr>))))"
    using growing_serve [of "committed w" E req] by (simp add: keeps_def still_there_def)
  then show ?thesis unfolding serve_session .
qed

end
