(* ===== verification/Scenario.thy ===== *)
theory Scenario
  imports System "HOL-Library.Countable"
begin

section \<open>A run of the system\<close>

text \<open>
  One concrete environment and one run in it: a lab is created, a file appears in its exports directory,
  its export is requested, approved and released. Every step is evaluated, so the run shows that the
  hypotheses of the properties of reachable worlds can hold, and that a release can be reached at all.
  Identifiers are runs of one letter and the clock counts microseconds; the digest of the artifact is
  kept as a term, since evaluating SHA-256 inside the logic takes too long.
\<close>

instance node :: countable
  by countable_datatype

definition demo_env :: env where
  "demo_env = \<lparr>uuid4 = (\<lambda>n. replicate (Suc n) (CHR ''a'')), clock = int, environ = Map.empty, cwd = [],
     storage_root = [''srv''], default_run_timeout_minutes = 60, policy_profiles = DEFAULT_PROFILES,
     listdir = (\<lambda>fs q. sorted_list_of_set {c. fs (q @ [c]) \<noteq> None}),
     tar_pack = (\<lambda>ms. replicate (to_nat ms) (CHR ''x'')), tar_unpack = (\<lambda>s. Some (from_nat (length s)))\<rparr>"

lemma demo_env_sel [simp]:
  "uuid4 demo_env n = replicate (Suc n) (CHR ''a'')" "clock demo_env n = int n" "cwd demo_env = []"
  "storage_root demo_env = [''srv'']" "policy_profiles demo_env = DEFAULT_PROFILES"
  by (simp_all add: demo_env_def)

lemma demo_env_ok: "env_ok demo_env"
  by (auto simp: env_ok_def demo_env_def inj_def builtin_defs elim!: default_profiles_cases) 

definition demo_file :: path where
  "demo_file = [''srv'', ''labs'', ''a'', ''exports'', ''out'']"

definition demo_fs :: fs where
  "demo_fs p = (if p = demo_file then Some (File ''data'') else if length p \<le> 5 then Some Dir else None)"

lemma demo_dir: "length p \<le> 4 \<Longrightarrow> demo_fs p = Some Dir"
  by (auto simp: demo_fs_def demo_file_def)

lemma demo_mkdirs:
  "''..'' \<notin> set cs \<Longrightarrow> length cur + length cs \<le> 4 \<Longrightarrow> mkdirs demo_fs cur cs = Inr demo_fs"
  by (induction cs arbitrary: cur) (simp_all add: demo_dir)

lemma demo_canonical: "canonical demo_fs p \<longleftrightarrow> ''..'' \<notin> set p"
  by (auto simp: canonical_def is_link_def demo_fs_def)

lemma demo_realpath: "''..'' \<notin> set p \<Longrightarrow> realpath demo_fs p = Some p"
  by (simp add: realpath_of_canonical demo_canonical)

lemma demo_allocate:
  assumes "name_ok lab" and "lab \<noteq> ''..''" and "fsys w = demo_fs"
  shows "wp (allocate [''srv''] lab policy) Q w = Q (Inr (allocation_of [''srv''] lab policy)) w"
proof -
  have same: "w\<lparr>fsys := demo_fs\<rparr> = w" using assms(3) by simp
  show ?thesis
    using assms by (simp add: allocate_def wp Let_def mkdir_p_def allocation_of_paths demo_mkdirs same del: mkdirs.simps)
qed

definition demo_lab :: LabRow where
  "demo_lab = \<lparr>created_at = utc 0, updated_at = utc 1, lab_id = ''a'', lab_profile_name = ''model-local'',
     lab_state = lab_value LAB_APPROVED, lab_runtime_class = runtime_value CONTAINER,
     lab_destroy_attempts = 0, lab_last_destroy_error = None\<rparr>"

definition demo_storage :: LabStorageRow where
  "demo_storage = (storage_row_of ''aa'' (allocation_of [''srv''] ''a'' (storage_policy FS_MANAGED PERSISTENT 51200 14)))
     \<lparr>created_at := utc 2, updated_at := utc 3\<rparr>"

definition demo_world :: "ApprovalRow list \<Rightarrow> ExportRow list \<Rightarrow> EventRow list \<Rightarrow> fs \<Rightarrow> nat \<Rightarrow> nat \<Rightarrow> world" where
  "demo_world as xs es g n t =
     (let d = \<lparr>labs = [demo_lab], storages = [demo_storage], runs = [], approvals = as, exports = xs,
               snapshots = [], leases = [], events = es, jobs = []\<rparr>
      in \<lparr>db = d, committed = d, fsys = g, uuids = n, ticks = t\<rparr>)"

lemma model_local_sel [simp]:
  "p_name model_local = ''model-local''" "p_runtime_class model_local = CONTAINER"
  "p_filesystem_mode model_local = FS_MANAGED" "p_persistence_mode model_local = PERSISTENT"
  "p_disk_mb model_local = 51200" "p_retention_days model_local = 14"
  "p_approval_on_export model_local" "\<not> p_approval_on_start model_local"
  by (simp_all add: model_local_def)

lemma demo_create_lab:
  "wp (serve demo_env (CreateLab ''model-local'' REQ_HUMAN))
     (\<lambda>r w'. \<exists>es t. w' = demo_world [] [] es demo_fs 3 t) (initial demo_fs)"
proof -
  have name: "name_ok ''a''" by (simp add: name_ok_def)
  have p: "DEFAULT_PROFILES ''model-local'' = Some model_local" by (simp add: DEFAULT_PROFILES_def)
  have dec: "approval_reasons model_local REQ_HUMAN = []" by (simp add: approval_reasons_Nil model_local_def)
  show ?thesis
    by (simp add: answer_def wp api_create_lab_def create_lab_record_def decide_lab_request_def
      validate_request_no_overrides p dec Let_def make_decision_def demo_allocate name initial_def
      demo_world_def demo_lab_def demo_storage_def empty_database_def)
qed


lemma demo_storage_sel [simp]:
  "sto_lab_id demo_storage = ''a''" "sto_exports_path demo_storage = ''/srv/labs/a/exports''"
  "sto_quarantine_path demo_storage = ''/srv/labs/a/quarantine''"
  "sto_root_path demo_storage = ''/srv/labs/a''"
proof -
  have name: "name_ok ''a''" by (simp add: name_ok_def)
  show "sto_lab_id demo_storage = ''a''" "sto_exports_path demo_storage = ''/srv/labs/a/exports''"
    "sto_quarantine_path demo_storage = ''/srv/labs/a/quarantine''"
    "sto_root_path demo_storage = ''/srv/labs/a''"
    by (simp_all add: demo_storage_def storage_row_of_def allocation_of_paths name path_str_def)
qed

lemma demo_lab_sel [simp]: "lab_id demo_lab = ''a''" "lab_profile_name demo_lab = ''model-local''"
  "lab_state demo_lab = lab_value LAB_APPROVED" "lab_runtime_class demo_lab = runtime_value CONTAINER"
  by (simp_all add: demo_lab_def)

definition demo_staged :: fs where
  "demo_staged = add_entry demo_fs [''srv'', ''labs'', ''a'', ''quarantine'', ''aaaa'', ''out''] (File ''data'')"

definition demo_export :: "int \<Rightarrow> ExportRow" where
  "demo_export t = \<lparr>created_at = utc t, updated_at = utc (t + 1), exp_id = ''aaaa'', exp_lab_id = ''a'', exp_run_id = None,
       exp_source_path = ''/lab/exports/out'', exp_state = export_value EXPORT_QUARANTINED,
       exp_quarantine_path = ''/srv/labs/a/quarantine/aaaa/out'', exp_released_path = None,
       exp_approval_required = True, exp_sha256 = sha256_hex ''data'', exp_size_bytes = 4,
       exp_denial_reason = None\<rparr>"

lemma demo_paths:
  "os_path [] ''/srv/labs/a/exports'' = [''srv'', ''labs'', ''a'', ''exports'']"
  "os_path [] ''/srv/labs/a/quarantine'' = [''srv'', ''labs'', ''a'', ''quarantine'']"
  "os_path [] ''/srv/labs/a/quarantine/aaaa/out'' = [''srv'', ''labs'', ''a'', ''quarantine'', ''aaaa'', ''out'']"
  "os_path [] ''/srv/labs/a'' = [''srv'', ''labs'', ''a'']"
  "pp_relative_to (posix_path ''/lab/exports/out'') GUEST_EXPORT_ROOT = Inr [''out'']"
  by code_simp+

lemma demo_read: "read_file demo_fs demo_file = Some ''data''" "is_file demo_fs demo_file"
    "path_exists demo_fs demo_file"
  by (simp_all add: read_file_def stat_def is_file_def path_exists_def demo_realpath entry_def demo_fs_def demo_file_def)

lemma demo_mkdir:
  "mkdir_p demo_fs [''srv'', ''labs'', ''a'', ''quarantine'', ''aaaa''] = Inr demo_fs"
  by (simp add: mkdir_p_def demo_fs_def demo_file_def)

lemma demo_copy:
  "copy2 demo_fs demo_file [''srv'', ''labs'', ''a'', ''quarantine'', ''aaaa'', ''out''] = Inr demo_staged"
proof -
  have "realpath demo_fs demo_file = Some demo_file" by (rule demo_realpath) (simp add: demo_file_def)
  then show ?thesis
    by (simp add: copy2_def demo_read is_dir_def stat_def demo_realpath entry_def write_file_def demo_staged_def Let_def)
       (simp add: demo_fs_def demo_file_def)
qed

lemma demo_links: "link_at demo_staged = link_at demo_fs"
  by (auto simp: link_at_def demo_staged_def demo_fs_def add_entry_apply demo_file_def fun_eq_iff)

lemma demo_realpath': "''..'' \<notin> set p \<Longrightarrow> realpath demo_staged p = Some p"
  using realpath_same_links [OF demo_links] demo_realpath by simp

lemma demo_read':
  "read_file demo_staged [''srv'', ''labs'', ''a'', ''quarantine'', ''aaaa'', ''out''] = Some ''data''"
  by (simp add: read_file_def stat_def demo_realpath' entry_def) (simp add: demo_staged_def add_entry_apply)

lemma demo_validate:
  "validate_export DEFAULT_PROFILES ''model-local'' ''/lab/exports/out'' = Inr \<lparr>ed_allowed = True,
     ed_approval_required = True, ed_quarantine_required = False, ed_reason = ''managed export path accepted''\<rparr>"
  by code_simp

lemma demo_stage:
  assumes "fsys w = demo_fs"
  shows "wp (stage_export DEFAULT_PROFILES [] ''aaaa'' demo_lab demo_storage ''/lab/exports/out'' None) Q w =
    Q (Inr \<lparr>sr_provenance =
              \<lparr>pv_lab_id = ''a'', pv_run_id = None, pv_source_path = ''/lab/exports/out'',
               pv_quarantine_path = ''/srv/labs/a/quarantine/aaaa/out'',
               pv_released_path = None, pv_size_bytes = 4,
               pv_artifact_hash = \<lparr>algorithm = ''sha256'', digest = sha256_hex ''data''\<rparr>\<rparr>,
            sr_approval_required = True,
            sr_state = EXPORT_QUARANTINED, sr_denial_reason = None\<rparr>) (w\<lparr>fsys := demo_staged\<rparr>)"
proof -
  have joins: "path_join [''srv'', ''labs'', ''a'', ''quarantine''] ''aaaa'' = [''srv'', ''labs'', ''a'', ''quarantine'', ''aaaa'']"
    "path_name demo_file = ''out''"
    "path_str [''srv'', ''labs'', ''a'', ''quarantine'', ''aaaa'', ''out''] = ''/srv/labs/a/quarantine/aaaa/out''"
    by code_simp+
  have src: "[''srv'', ''labs'', ''a'', ''exports'', ''out''] = demo_file" by (simp add: demo_file_def)
  have pre: "prefix [''srv'', ''labs'', ''a'', ''exports''] demo_file" by (simp add: demo_file_def)
  have real: "realpath demo_fs demo_file = Some demo_file" by (rule demo_realpath) (simp add: demo_file_def)
  show ?thesis
  using assms
  by (simp add: stage_export_def wp demo_paths demo_realpath Let_def demo_validate joins src pre real demo_read demo_mkdir demo_copy demo_read')
qed

lemma replicate_demo:
  "replicate 3 c = [c, c, c]" "replicate 4 c = [c, c, c, c]" "replicate 5 c = [c, c, c, c, c]"
  "replicate 6 c = [c, c, c, c, c, c]" "replicate 7 c = [c, c, c, c, c, c, c]"
  by (simp_all add: numeral_eq_Suc)

definition demo_approval :: "int \<Rightarrow> ApprovalRow" where
  "demo_approval t = \<lparr>created_at = utc (t + 1), updated_at = utc (t + 2), apr_id = ''aaaaaaa'',
     apr_lab_id = Some ''a'', apr_resource_type = ''export'', apr_resource_id = ''aaaa'',
     apr_action = ''export.release'', apr_reason = ''profile requires export approval'',
     apr_requested_by = ''system'', apr_state = approval_value APPROVAL_REQUESTED, apr_approved = False,
     apr_decision_comment = None, apr_decided_by = None,
     apr_expires_at = Some (plus_delta (utc t) (hours 24)), apr_decided_at = None\<rparr>"

lemma demo_create_export:
  "wp (serve demo_env (CreateExport ''a'' ''/lab/exports/out'' None REQ_HUMAN))
     (\<lambda>r w'. \<exists>es. w' = demo_world [demo_approval (6 + int t)] [demo_export (2 + int t)] es demo_staged 8 (11 + t))
     (demo_world [] [] es demo_fs 3 t)"
  by (simp add: answer_def wp api_create_export_def demo_world_def check_run_wp row_get_def demo_stage Let_def
      replicate_demo record_approval_request_def)
     (simp add: demo_approval_def demo_export_def export_row_of_def)

definition demo_approved :: "ApprovalRow \<Rightarrow> int \<Rightarrow> ApprovalRow" where
  "demo_approved a t = a\<lparr>apr_state := approval_value APPROVAL_APPROVED, apr_approved := True,
     apr_decision_comment := None, apr_decided_by := Some ''alice'', apr_decided_at := Some (utc t),
     updated_at := utc (t + 1)\<rparr>"

definition demo_opened :: "ExportRow \<Rightarrow> int \<Rightarrow> ExportRow" where
  "demo_opened x t = x\<lparr>exp_approval_required := False, exp_state := export_value EXPORT_APPROVED,
     exp_denial_reason := None, updated_at := utc t\<rparr>"

lemma demo_approval_sel [simp]:
  "apr_id (demo_approval t) = ''aaaaaaa''" "apr_lab_id (demo_approval t) = Some ''a''"
  "apr_resource_type (demo_approval t) = ''export''" "apr_resource_id (demo_approval t) = ''aaaa''"
  "apr_state (demo_approval t) = approval_value APPROVAL_REQUESTED"
  "apr_expires_at (demo_approval t) = Some (plus_delta (utc t) (hours 24))"
  by (simp_all add: demo_approval_def)

lemma demo_export_sel [simp]:
  "exp_id (demo_export t) = ''aaaa''" "exp_lab_id (demo_export t) = ''a''" "exp_run_id (demo_export t) = None"
  "exp_state (demo_export t) = export_value EXPORT_QUARANTINED"
  "exp_quarantine_path (demo_export t) = ''/srv/labs/a/quarantine/aaaa/out''"
  by (simp_all add: demo_export_def)

lemma demo_approve:
  assumes "int t < u + hours 24"
  shows "wp (serve demo_env (Approve ''aaaaaaa'' ''alice'' None))
     (\<lambda>r w'. \<exists>es. w' = demo_world [demo_approved (demo_approval u) (1 + int t)] [demo_opened (demo_export x) (3 + int t)] es
        demo_staged 9 (6 + t))
     (demo_world [demo_approval u] [demo_export x] es demo_staged 8 t)"
  using assms
  by (simp add: answer_def wp api_approve_request_def api_decide_def apply_approval_decision_def
      ensure_approval_pending_def decide_export_def demo_world_def row_get_def row_put_def Let_def replicate_demo
      later_def demo_opened_def demo_approved_def)

definition demo_released :: fs where
  "demo_released = add_entry demo_staged [''srv'', ''labs'', ''a'', ''released'', ''aaaa'', ''out''] (File ''data'')"

lemma demo_release_fs:
  "read_file demo_staged [''srv'', ''labs'', ''a'', ''quarantine'', ''aaaa'', ''out''] = Some ''data''"
  "path_exists demo_staged [''srv'', ''labs'', ''a'', ''quarantine'', ''aaaa'', ''out'']"
  "mkdir_p demo_staged [''srv'', ''labs'', ''a'', ''released'', ''aaaa''] = Inr demo_staged"
  "copy2 demo_staged [''srv'', ''labs'', ''a'', ''quarantine'', ''aaaa'', ''out'']
     [''srv'', ''labs'', ''a'', ''released'', ''aaaa'', ''out''] = Inr demo_released"
proof -
  show read: "read_file demo_staged [''srv'', ''labs'', ''a'', ''quarantine'', ''aaaa'', ''out''] = Some ''data''"
    by (rule demo_read')
  then show "path_exists demo_staged [''srv'', ''labs'', ''a'', ''quarantine'', ''aaaa'', ''out'']"
    by (auto simp: path_exists_def read_file_def split: option.splits)
  show "mkdir_p demo_staged [''srv'', ''labs'', ''a'', ''released'', ''aaaa''] = Inr demo_staged"
    by (simp add: mkdir_p_def demo_staged_def add_entry_apply demo_fs_def demo_file_def)
  show "copy2 demo_staged [''srv'', ''labs'', ''a'', ''quarantine'', ''aaaa'', ''out'']
     [''srv'', ''labs'', ''a'', ''released'', ''aaaa'', ''out''] = Inr demo_released"
    by (simp add: copy2_def read is_dir_def stat_def demo_realpath' entry_def write_file_def demo_released_def Let_def)
       (simp add: demo_staged_def add_entry_apply demo_fs_def demo_file_def)
qed

lemma demo_release_joins:
  "path_join (path_join [''srv'', ''labs'', ''a''] RELEASED_DIRNAME) ''aaaa'' = [''srv'', ''labs'', ''a'', ''released'', ''aaaa'']"
  "path_name [''srv'', ''labs'', ''a'', ''quarantine'', ''aaaa'', ''out''] = ''out''"
  by code_simp+

lemma demo_release:
  "wp (serve demo_env (ReleaseExport ''aaaa''))
     (\<lambda>r w'. \<exists>x' es k. w' = demo_world as [x'] es demo_released 10 k \<and> exp_id x' = ''aaaa'' \<and>
        exp_lab_id x' = ''a'' \<and> exp_state x' = export_value EXPORT_RELEASED)
     (demo_world as [demo_opened (demo_export x) y] es demo_staged 9 t)"
  "wp (serve demo_env (ReleaseExport ''aaaa'')) (\<lambda>r w'. \<exists>resp. r = Inr resp)
     (demo_world as [demo_opened (demo_export x) y] es demo_staged 9 t)"
  by (simp_all add: answer_def wp api_release_export_def release_export_def demo_world_def row_get_def row_put_def Let_def
      replicate_demo demo_opened_def demo_paths demo_release_fs is_file_def demo_release_joins)

subsection \<open>The run\<close>

lemma serve_step:
  "system E w \<Longrightarrow> wp (serve E req) (\<lambda>_ w'. Q w') w \<Longrightarrow> \<exists>w'. system E w' \<and> Q w'"
  using system.step [of E w req] by (auto simp: wp_def case_prod_beta)

lemma scenario_lab: "\<exists>es t. system demo_env (demo_world [] [] es demo_fs 3 t)"
  using serve_step [OF system.start demo_create_lab] by blast

lemma scenario_staged:
  "\<exists>es t. system demo_env (demo_world [demo_approval (6 + int t)] [demo_export (2 + int t)] es demo_staged 8 (11 + t))"
  using scenario_lab serve_step [OF _ demo_create_export] by blast

lemma scenario_approved:
  "\<exists>a x y es t. system demo_env (demo_world [a] [demo_opened (demo_export x) y] es demo_staged 9 t) \<and>
     apr_state a = approval_value APPROVAL_APPROVED"
proof -
  from scenario_staged obtain es t where
    w: "system demo_env (demo_world [demo_approval (6 + int t)] [demo_export (2 + int t)] es demo_staged 8 (11 + t))"
    by blast
  have due: "int (11 + t) < 6 + int t + hours 24" by (simp add: hours_def)
  have approved: "apr_state (demo_approved a u) = approval_value APPROVAL_APPROVED" for a u
    by (simp add: demo_approved_def)
  from serve_step [OF w demo_approve [OF due]] approved show ?thesis by blast
qed

lemma scenario_released:
  "\<exists>a x es k. system demo_env (demo_world [a] [x] es demo_released 10 k) \<and>
     exp_id x = ''aaaa'' \<and> exp_lab_id x = ''a'' \<and> exp_state x = export_value EXPORT_RELEASED \<and>
     apr_state a = approval_value APPROVAL_APPROVED"
proof -
  from scenario_approved obtain a x y es t where
    w: "system demo_env (demo_world [a] [demo_opened (demo_export x) y] es demo_staged 9 t)" and
    approved: "apr_state a = approval_value APPROVAL_APPROVED" by blast
  from serve_step [OF w demo_release(1)] approved show ?thesis by blast
qed

lemma demo_world_sel [simp]:
  "labs (committed (demo_world as xs es g n t)) = [demo_lab]"
  "storages (committed (demo_world as xs es g n t)) = [demo_storage]"
  "approvals (committed (demo_world as xs es g n t)) = as"
  "exports (committed (demo_world as xs es g n t)) = xs"
  "events (committed (demo_world as xs es g n t)) = es"
  "runs (committed (demo_world as xs es g n t)) = []"
  "leases (committed (demo_world as xs es g n t)) = []"
  "jobs (committed (demo_world as xs es g n t)) = []"
  "fsys (demo_world as xs es g n t) = g"
  by (simp_all add: demo_world_def Let_def)

subsection \<open>A gated lab\<close>

text \<open>A second run: a lab of the profile that requires approval on start, before and after it.\<close>

definition gated_world :: "LabRow \<Rightarrow> LabStorageRow \<Rightarrow> ApprovalRow \<Rightarrow> EventRow list \<Rightarrow> nat \<Rightarrow> nat \<Rightarrow> world" where
  "gated_world l s a es n t =
     (let d = \<lparr>labs = [l], storages = [s], runs = [], approvals = [a],
               exports = [], snapshots = [], leases = [], events = es, jobs = []\<rparr>
      in \<lparr>db = d, committed = d, fsys = demo_fs, uuids = n, ticks = t\<rparr>)"

lemma gated_world_sel [simp]:
  "labs (committed (gated_world l s a es n t)) = [l]"
  "approvals (committed (gated_world l s a es n t)) = [a]"
  by (simp_all add: gated_world_def Let_def)

lemma red_zone_sel [simp]:
  "p_name red_zone = ''red-zone''" "p_approval_on_start red_zone"
  by (simp_all add: red_zone_def)

lemma gated_create_lab:
  "wp (serve demo_env (CreateLab ''red-zone'' REQ_AGENT))
     (\<lambda>r w'. \<exists>l s a es t. w' = gated_world l s a es 5 (7 + t) \<and> lab_id l = ''a'' \<and> lab_profile_name l = ''red-zone'' \<and>
        lab_state l = lab_value LAB_PENDING_APPROVAL \<and> pending_approval ''a'' ''lab'' ''a'' a \<and> apr_id a = ''aaa'' \<and>
        apr_expires_at a = Some (plus_delta (utc (int t)) (hours 24))) (initial demo_fs)"
proof -
  have name: "name_ok ''a''" by (simp add: name_ok_def)
  have p: "DEFAULT_PROFILES ''red-zone'' = Some red_zone" by (simp add: DEFAULT_PROFILES_def)
  have gated: "approval_reasons red_zone REQ_AGENT \<noteq> []" by (simp add: approval_reasons_Nil)
  show ?thesis
    apply (simp add: answer_def wp api_create_lab_def create_lab_record_def decide_lab_request_def
      validate_request_no_overrides p gated Let_def make_decision_def demo_allocate name initial_def
      empty_database_def record_approval_request_def replicate_demo)
    apply (simp add: gated_world_def Let_def pending_approval_def)
    done
qed

lemma gated_approve:
  assumes "lab_id l = ''a''" and "pending_approval ''a'' ''lab'' ''a'' a" and "apr_id a = ''aaa''"
    and "apr_expires_at a = Some e" and "int t < instant e"
  shows "wp (serve demo_env (Approve ''aaa'' ''alice'' None))
     (\<lambda>r w'. \<exists>l' a' es n t. w' = gated_world l' s a' es n t \<and> lab_profile_name l' = lab_profile_name l \<and>
        lab_id l' = ''a'' \<and> lab_state l' = lab_value LAB_APPROVED) (gated_world l s a es n t)"
  using assms
  by (simp add: answer_def wp api_approve_request_def api_decide_def apply_approval_decision_def
      ensure_approval_pending_def decide_lab_def gated_world_def row_get_def row_put_def Let_def
      later_def pending_approval_def)

lemma scenario_gated:
  "\<exists>l s a es n t. system demo_env (gated_world l s a es n t) \<and> lab_id l = ''a'' \<and>
     lab_profile_name l = ''red-zone'' \<and> lab_state l = lab_value LAB_APPROVED"
proof -
  from serve_step [OF system.start gated_create_lab] obtain l s a es t where
    w: "system demo_env (gated_world l s a es 5 (7 + t))" and
    l: "lab_id l = ''a''" "lab_profile_name l = ''red-zone''" and
    a: "pending_approval ''a'' ''lab'' ''a'' a" "apr_id a = ''aaa''"
      "apr_expires_at a = Some (plus_delta (utc (int t)) (hours 24))" by blast
  have "int (7 + t) < instant (plus_delta (utc (int t)) (hours 24))" by (simp add: hours_def)
  from serve_step [OF w gated_approve [OF l(1) a this]] l show ?thesis by simp blast
qed

subsection \<open>A queued job\<close>

definition demo_job :: SchedulerJobCreateRequest where
  "demo_job = \<lparr>jr_action = CREATE_LAB, jr_requester_id = ''bot'', jr_profile_name = Some ''model-local'',
     jr_lab_id = None, jr_command = None, jr_scheduled_for = Some (utc 0), jr_max_attempts = 3\<rparr>"

definition queue_world :: "SchedulerJobRow list \<Rightarrow> EventRow list \<Rightarrow> nat \<Rightarrow> nat \<Rightarrow> world" where
  "queue_world js es n t =
     (let d = empty_database\<lparr>jobs := js, events := es\<rparr>
      in \<lparr>db = d, committed = d, fsys = demo_fs, uuids = n, ticks = t\<rparr>)"

lemma queue_world_sel [simp]:
  "jobs (committed (queue_world js es n t)) = js" "uuids (queue_world js es n t) = n"
  "ticks (queue_world js es n t) = t"
  by (simp_all add: queue_world_def Let_def)

definition queued_demo :: SchedulerJobRow where
  "queued_demo = queued_row demo_job ''a'' (utc 0) (utc 0) (utc 1)"

lemma queued_demo_sel [simp]:
  "job_id queued_demo = ''a''" "job_state queued_demo = job_value JOB_QUEUED"
  "job_requester_id queued_demo = ''bot''" "job_action queued_demo = action_value CREATE_LAB"
  "job_scheduled_for queued_demo = utc 0" "job_attempt_count queued_demo = 0" "job_max_attempts queued_demo = 3"
  by (simp_all add: queued_demo_def queued_row_def demo_job_def)

lemma demo_enqueue:
  "wp (serve demo_env (EnqueueJob demo_job)) (\<lambda>_ w'. \<exists>es n t. w' = queue_world [queued_demo] es n t) (initial demo_fs)"
  by (simp add: demo_job_def valid_job_request_def job_field_constraints_def validate_action_payload_def)
     (simp add: answer_def wp api_enqueue_scheduler_job_def enqueue_def initial_def empty_database_def
       pending_count_def max_pending_jobs_per_requester_def Let_def queue_world_def queued_demo_def queued_row_def
       scheduler_job_response_from_row_def demo_job_def)

lemma scenario_queue: "\<exists>es n t. system demo_env (queue_world [queued_demo] es n t)"
  using serve_step [OF system.start demo_enqueue] by blast

end
