(* ===== verification/Snapshot_Scenario.thy ===== *)
theory Snapshot_Scenario
  imports Snapshot_Restore Scenario
begin

section \<open>A snapshot of a small workspace\<close>

text \<open>
  What is on disk after a snapshot was created, in the form a restore needs, and a concrete file system
  on which a workspace is archived, damaged and restored.
\<close>

definition target_ready :: "fs \<Rightarrow> path \<Rightarrow> path \<Rightarrow> bool" where
  "target_ready fs root target \<longleftrightarrow> dir_path fs target \<and> tree_ok fs target \<and> list_all name_ok target \<and> \<not> prefix target root"

text \<open>The manager reads the workspace while the empty archive is already there.\<close>

definition while_writing :: "fs \<Rightarrow> path \<Rightarrow> fs" where
  "while_writing fs a = fs(a \<mapsto> File [])"

lemma created_is_stored:
  assumes ls: "faithful_listing (listdir E)"
    and source: "fresh_place (fsys w) root i workspace" "plain_workspace (fsys w) workspace" "list_all name_ok workspace"
      "workspace \<noteq> []"
    and rows: "sto_snapshots_path s = path_str root" "sto_workspace_path s = path_str workspace"
    and runtime: "lab_runtime_class lab = runtime_value CONTAINER"
    and create: "Snapshots.create_snapshot E i lab s rid w = (r, w1)"
  obtains g ms md where "g = while_writing (fsys w) (archive_in root i)"
    and "md = created_metadata E i lab root workspace rid ms (utc (clock E (ticks w)))" and "r = Inr md"
    and "fsys w1 = (fsys w)(archive_in root i \<mapsto> File (tar_pack E ms), manifest_in root i \<mapsto> File (manifest_text md))"
    and "tar_add (listdir E) g (archive_in root i) recursion_limit workspace ''workspace'' = Inr ms"
    and "tree_ok g workspace" and "g workspace = Some Dir" and "\<not> prefix workspace (archive_in root i)"
    and "\<And>q. g (workspace @ q) = fsys w (workspace @ q)"
proof -
  let ?a = "archive_in root i"
  define g where "g = while_writing (fsys w) ?a"
  have ws: "dir_path (fsys w) workspace" "tree_ok (fsys w) workspace" using source(2) by (simp_all add: plain_workspace_def)
  have ws_dir: "fsys w workspace = Some Dir" using dir_path_entry [OF ws(1)] source(4) by (simp add: entry_def)
  have off: "\<not> prefix workspace ?a" using source(1) ws_dir by (auto simp: fresh_place_def)
  have same: "g (workspace @ q) = fsys w (workspace @ q)" for q
  proof -
    have "workspace @ q \<noteq> ?a" using off by (metis prefixI)
    then show ?thesis by (simp only: g_def while_writing_def fun_upd_apply if_False)
  qed
  from create_snapshot_run [OF ls source(1,2,3) rows runtime, of rid] create obtain ms md where
    "tar_add (listdir E) g ?a recursion_limit workspace ''workspace'' = Inr ms" and
    "md = created_metadata E i lab root workspace rid ms (utc (clock E (ticks w)))" and "r = Inr md" and
    "fsys w1 = (fsys w)(?a \<mapsto> File (tar_pack E ms), manifest_in root i \<mapsto> File (manifest_text md))"
    by (auto simp: Let_def g_def while_writing_def)
  then show thesis
    using that [OF g_def] tree_ok_same [OF ws(2) same] same same [of "[]"] ws_dir off by simp
qed

subsection \<open>A concrete file system\<close>

definition snap_ws :: path where
  "snap_ws = [''srv'', ''a'', ''workspace'']"

definition snap_root :: path where
  "snap_root = [''srv'', ''a'', ''snapshots'']"

definition snap_fs :: "string \<Rightarrow> fs" where
  "snap_fs c = Map.empty([''srv''] \<mapsto> Dir, [''srv'', ''a''] \<mapsto> Dir, snap_ws \<mapsto> Dir, snap_root \<mapsto> Dir,
     snap_ws @ [''notes''] \<mapsto> File c)"

definition snap_storage :: LabStorageRow where
  "snap_storage = demo_storage\<lparr>sto_workspace_path := path_str snap_ws, sto_snapshots_path := path_str snap_root\<rparr>"

lemma snap_storage_sel [simp]:
  "sto_workspace_path snap_storage = path_str snap_ws" "sto_snapshots_path snap_storage = path_str snap_root"
  by (simp_all add: snap_storage_def)

lemma demo_listing: "faithful_listing (listdir demo_env)"
  by (simp add: faithful_listing_def demo_env_def)

lemma demo_codec: "tar_unpack demo_env (tar_pack demo_env ms) = Some ms"
  by (simp add: demo_env_def)

lemma snap_names: "list_all name_ok snap_ws" "list_all name_ok snap_root" "snap_ws \<noteq> []" "snapshot_name ''s1''"
  by (simp_all add: snap_ws_def snap_root_def name_ok_def snapshot_name_def)

text \<open>Two more files beside the workspace do not matter.\<close>

definition snap_later :: "string \<Rightarrow> fs \<Rightarrow> fs" where
  "snap_later c g = (snap_fs c)(archive_in snap_root ''s1'' := g (archive_in snap_root ''s1''),
     manifest_in snap_root ''s1'' := g (manifest_in snap_root ''s1''))"

lemma dir_path_snoc: "dir_path fs p \<Longrightarrow> c \<noteq> ''..'' \<Longrightarrow> fs (p @ [c]) = Some Dir \<Longrightarrow> dir_path fs (p @ [c])"
  by (auto simp: dir_path_def canonical_snoc is_link_def entry_def)

lemma snap_dir_path: "dir_path (snap_later c g) snap_ws" "dir_path (snap_later c g) snap_root"
proof -
  let ?f = "snap_later c g"
  have "dir_path ?f []" by (simp add: dir_path_def canonical_def is_link_def entry_def snap_later_def snap_fs_def snap_ws_def snap_root_def)
  from dir_path_snoc [OF this, of "''srv''"] have "dir_path ?f [''srv'']"
    by (simp add: snap_later_def snap_fs_def snap_ws_def snap_root_def)
  from dir_path_snoc [OF this, of "''a''"] have a: "dir_path ?f [''srv'', ''a'']"
    by (simp add: snap_later_def snap_fs_def snap_ws_def snap_root_def)
  from dir_path_snoc [OF a, of "''workspace''"] show "dir_path ?f snap_ws"
    by (simp add: snap_later_def snap_fs_def snap_ws_def snap_root_def)
  from dir_path_snoc [OF a, of "''snapshots''"] show "dir_path ?f snap_root"
    by (simp add: snap_later_def snap_fs_def snap_ws_def snap_root_def)
qed

lemma snap_tree: "tree_ok (snap_later c g) snap_ws"
  and snap_depth: "snap_later c g (snap_ws @ r) \<noteq> None \<Longrightarrow> length r < recursion_limit"
proof -
  have below: "snap_later c g (snap_ws @ r) = (if r = [] then Some Dir else if r = [''notes''] then Some (File c) else None)" for r
    by (simp add: snap_later_def snap_fs_def snap_ws_def snap_root_def)
  have "{r. snap_later c g (snap_ws @ r) \<noteq> None} \<subseteq> {[], [''notes'']}" by (auto simp: below split: if_splits)
  then have "finite {r. snap_later c g (snap_ws @ r) \<noteq> None}" by (rule finite_subset) simp
  then show "tree_ok (snap_later c g) snap_ws"
    by (auto simp: tree_ok_def below is_link_def entry_def name_ok_def split: if_splits)
  show "snap_later c g (snap_ws @ r) \<noteq> None \<Longrightarrow> length r < recursion_limit"
    by (auto simp: below recursion_limit_def split: if_splits)
qed

lemma snap_target: "target_ready (snap_later c g) snap_root snap_ws"
  using snap_dir_path snap_tree snap_names by (simp add: target_ready_def) (simp add: snap_ws_def snap_root_def)

lemma snap_fs_later: "snap_fs c = snap_later c (snap_fs c)"
  by (simp add: snap_later_def)

lemma snap_source:
  "fresh_place (snap_fs c) snap_root ''s1'' snap_ws" "plain_workspace (snap_fs c) snap_ws"
proof -
  show "plain_workspace (snap_fs c) snap_ws"
    using snap_dir_path(1) [of c "snap_fs c"] snap_tree [of c "snap_fs c"] snap_depth [of c "snap_fs c"]
    by (simp add: plain_workspace_def snap_fs_later [symmetric])
  have "snap_fs c (archive_in snap_root ''s1'') = None" "snap_fs c (manifest_in snap_root ''s1'') = None"
    by (simp_all add: snap_fs_def snap_root_def snap_ws_def)
  then show "fresh_place (snap_fs c) snap_root ''s1'' snap_ws"
    using snap_dir_path(2) [of c "snap_fs c"] snap_names
    by (simp add: fresh_place_def snap_fs_later [symmetric]) (simp add: snap_ws_def snap_root_def)
qed

definition snap_row :: SnapshotRow where
  "snap_row = \<lparr>created_at = unset, updated_at = unset, snap_id = ''s1'', snap_lab_id = ''a'',
     snap_backend_ref = path_str (archive_in snap_root ''s1'')\<rparr>"

lemma snap_row_sel: "snap_backend_ref snap_row = path_str (archive_in snap_root ''s1'')"
  "sto_workspace_path snap_storage = path_str ([''srv'', ''a''] @ [''workspace''])"
  by (simp_all add: snap_row_def) (simp add: snap_ws_def)

lemma snap_row_id: "snap_id snap_row = ''s1''"
  by (simp add: snap_row_def)

lemma snap_later_at:
  "snap_later c g (archive_in snap_root ''s1'') = g (archive_in snap_root ''s1'')"
  "snap_later c g (manifest_in snap_root ''s1'') = g (manifest_in snap_root ''s1'')"
  by (simp_all add: snap_later_def)

text \<open>The one file of the workspace.\<close>

definition read_entry :: "fs \<Rightarrow> node option" where
  "read_entry f = f (snap_ws @ [''notes''])"

lemma read_entry_later: "read_entry (snap_later c g) = Some (File c)"
  by (simp add: read_entry_def snap_later_def snap_fs_def snap_ws_def snap_root_def)

lemma snap_ws_split: "[''srv'', ''a''] @ [''workspace''] = snap_ws"
  by (simp add: snap_ws_def)

lemma load_metadata_db:
  assumes "load_metadata E row w = (Inr found, w)"
  shows "load_metadata E row (w\<lparr>db := d\<rparr>) = (Inr found, w\<lparr>db := d\<rparr>)"
proof -
  have "fst (load_metadata E row (w\<lparr>db := d\<rparr>)) = fst (load_metadata E row w)"
    by (simp add: load_metadata_def bnd_def liftR_def gets_def require_def returns_def split: sum.split option.split)
  then show ?thesis using assms load_metadata_pure [of E row "w\<lparr>db := d\<rparr>"] by (metis fst_conv prod.collapse)
qed

lemma load_metadata_missing:
  assumes "snap_backend_ref row = path_str (archive_in root i)" and "snapshot_name i" and "list_all name_ok root"
    and "\<not> path_exists (fsys w) (manifest_in root i)"
  shows "load_metadata E row w = (Inr None, w)"
  using manifest_path_for_archive [OF assms(2,3)] assms
  by (simp add: load_metadata_def bnd_def liftR_def gets_def returns_def)

lemma snap_missing: "\<not> path_exists (snap_fs c) (manifest_in snap_root ''s1'')"
proof -
  have "ready (snap_fs c) (manifest_in snap_root ''s1'')"
    using snap_dir_path(2) [of c "snap_fs c"] snap_source(1) [of c]
    by (intro ready_in_dir) (simp_all add: snap_fs_later [symmetric] fresh_place_def is_link_def)
  then show ?thesis using snap_source(1) [of c]
    by (simp add: path_exists_def stat_def ready_def realpath_of_canonical fresh_place_def entry_def)
qed

subsection \<open>An archive that someone replaced\<close>

definition bad_members :: "tar_member list" where
  "bad_members = [(''/x'', Dir)]"

definition bad_metadata :: SnapshotMetadata where
  "bad_metadata = created_metadata demo_env ''s1'' demo_lab snap_root snap_ws None bad_members (utc 0)"

definition snap_bad :: fs where
  "snap_bad = Map.empty(archive_in snap_root ''s1'' \<mapsto> File (tar_pack demo_env bad_members),
     manifest_in snap_root ''s1'' \<mapsto> File (manifest_text bad_metadata))"

lemma snap_bad_site:
  "restore_site demo_env (snap_later ''data'' snap_bad) snap_root ''s1'' bad_members bad_metadata snap_row demo_lab
     snap_storage [''srv'', ''a'']"
  using snap_dir_path(2) snap_target [of "''data''" snap_bad] snap_names
  unfolding restore_site_def stored_snapshot_def snap_ws_split snap_later_at target_ready_def
  by (simp add: snap_bad_def snap_row_sel snap_storage_sel bad_metadata_def name_ok_def)

lemma bad_path:
  "realpath (emptied (snap_later ''data'' snap_bad) ([''srv'', ''a''] @ [''workspace''])) (path_join [''srv'', ''a''] ''/x'') = Some [''x'']"
proof -
  have "path_join [''srv'', ''a''] ''/x'' = [''x'']" by (simp add: path_join_def startswith_def path_parts_def)
  moreover have "canonical (emptied (snap_later ''data'' snap_bad) ([''srv'', ''a''] @ [''workspace''])) [''x'']"
    by (auto simp: canonical_def is_link_def emptied_def snap_later_def snap_fs_def snap_ws_def snap_root_def prefix_Cons)
  ultimately show ?thesis by (simp add: realpath_of_canonical)
qed

end
