(* ===== verification/Atomicity.thy ===== *)
theory Atomicity
  imports System
begin

section \<open>Failed requests commit nothing\<close>

text \<open>
  \<open>fails_clean B m\<close>: when \<open>m\<close> raises anything outside \<open>B\<close>, what is committed is as before. A program
  that commits as its last act is clean when what comes before commits nothing, and that is an
  application of the rules of \<open>silent\<close>. The one handler that commits and then raises is the release
  of an export that still waits for its approval: it keeps the event of the blocked attempt.
\<close>

definition fails_clean :: "exn set \<Rightarrow> 'a prog \<Rightarrow> world \<Rightarrow> bool" where
  "fails_clean B m w \<longleftrightarrow> wp m (\<lambda>r w'. \<forall>e. r = Inl e \<longrightarrow> e \<in> B \<or> committed w' = committed w) w"

lemma fails_clean_silent: "keeps (uncommitted (committed w)) m \<Longrightarrow> fails_clean B m w"
  by (auto simp: keeps_def uncommitted_def fails_clean_def wp_def split: prod.splits)

lemma fails_clean_answer: "fails_clean B m w \<Longrightarrow> fails_clean B (answer f m) w"
  unfolding fails_clean_def answer_def wp_bnd by (elim wp_mono) (auto simp: wp split: sum.splits)

lemma fails_clean_with_session: "fails_clean B m (w\<lparr>db := committed w\<rparr>) \<Longrightarrow> fails_clean B (with_session m) w"
  by (simp add: fails_clean_def wp)

lemma fails_clean_commit: "fails_clean B (bnd commit (\<lambda>_. returns x)) w"
  by (simp add: fails_clean_def wp)

lemma fails_clean_answered: "\<exists>r. x = Inr r \<Longrightarrow> fails_clean B (bnd commit (\<lambda>_. liftR x)) w"
  by (auto simp: fails_clean_def wp)

text \<open>A first part that commits nothing, whatever it raises, and a second part that is clean.\<close>

lemma fails_clean_bnd_wp:
  assumes "wp m (\<lambda>r w'. case r of Inl e \<Rightarrow> e \<in> B \<or> committed w' = committed w
     | Inr x \<Rightarrow> committed w' = committed w \<and> P x w') w"
    and "\<And>x w'. P x w' \<Longrightarrow> fails_clean B (f x) w'"
  shows "fails_clean B (bnd m f) w"
  unfolding fails_clean_def wp_bnd
proof (rule wp_mono [OF assms(1)])
  fix r w'
  assume "case r of Inl e \<Rightarrow> e \<in> B \<or> committed w' = committed w | Inr x \<Rightarrow> committed w' = committed w \<and> P x w'"
  then show "case r of Inl e \<Rightarrow> (\<forall>e'. Inl e = Inl e' \<longrightarrow> e' \<in> B \<or> committed w' = committed w)
     | Inr x \<Rightarrow> wp (f x) (\<lambda>r w'. \<forall>e. r = Inl e \<longrightarrow> e \<in> B \<or> committed w' = committed w) w'"
    using assms(2) [of _ w', unfolded fails_clean_def] by (cases r) simp_all
qed

lemma fails_clean_bnd:
  assumes "\<And>d. keeps (uncommitted d) m" and "\<And>x w'. fails_clean B (f x) w'"
  shows "fails_clean B (bnd m f) w"
proof (rule fails_clean_bnd_wp)
  have "wp m (\<lambda>_ w'. committed w' = committed w) w"
    using assms(1) [of "committed w"] by (simp add: keeps_wp uncommitted_def)
  then show "wp m (\<lambda>r w'. case r of Inl e \<Rightarrow> e \<in> B \<or> committed w' = committed w
     | Inr x \<Rightarrow> committed w' = committed w \<and> True) w"
    by (elim wp_mono) (simp split: sum.splits)
qed (rule assms(2))

lemma fails_clean_reads: "fails_clean B (serve E ListLabs) w" "fails_clean B (serve E (GetLab i)) w"
  "fails_clean B (serve E ListRuns) w" "fails_clean B (serve E (GetRun i)) w"
  "fails_clean B (serve E ListExports) w" "fails_clean B (serve E ListApprovals) w"
  "fails_clean B (serve E (ListLeases i)) w" "fails_clean B (serve E ListJobs) w"
  "fails_clean B (serve E (ListEvents q)) w" "fails_clean B (serve E ListSnapshots) w"
  by (auto simp: api_list_labs_def api_get_lab_def api_list_runs_def api_get_run_def api_list_exports_def
      api_list_approvals_def api_list_secret_leases_def api_list_scheduler_jobs_def api_list_events_def
      list_jobs_def list_leases_def api_list_snapshots_def intro!: fails_clean_silent keep)

text \<open>The handlers whose last act is the commit.\<close>

lemma fails_clean_writes:
  "fails_clean B (serve E (CreateLab p r)) w" "fails_clean B (serve E (DestroyLab i)) w"
  "fails_clean B (serve E (CreateRun l c r)) w" "fails_clean B (serve E (CreateExport l s rid r)) w"
  "fails_clean B (serve E (DenyExport i reason)) w" "fails_clean B (serve E (Approve i actor cm)) w"
  "fails_clean B (serve E (Deny i actor cm)) w" "fails_clean B (serve E (RevokeLease i actor cm)) w"
  "fails_clean B (serve E (Reconcile inventory retry m now)) w"
  unfolding serve.simps api_create_lab_def api_destroy_lab_def api_create_run_def api_create_export_def
    api_deny_export_def api_approve_request_def api_deny_request_def api_decide_def
    api_revoke_secret_lease_def reconcile_and_commit_def
  by ((rule fails_clean_answer fails_clean_with_session fails_clean_commit | rule fails_clean_bnd
        | auto intro!: keep split: exn.splits)+)

lemma fails_clean_lease: "fails_clean B (serve E (CreateLease l s r ttl)) w"
  unfolding serve.simps api_create_secret_lease_def
  by (simp add: fails_clean_def wp_throw)
     (intro impI, fold fails_clean_def,
      (rule fails_clean_answer fails_clean_with_session fails_clean_commit | rule fails_clean_bnd
        | auto intro!: keep split: exn.splits)+)

subsection \<open>Jobs\<close>

text \<open>A row of the job table always has a response.\<close>

lemma job_row_response: "job_row_ok j \<Longrightarrow> \<exists>r. scheduler_job_response_from_row j = Inr r"
  by (auto simp: job_row_ok_def scheduler_job_response_from_row_def)

lemma fails_clean_enqueue: "fails_clean B (serve E (EnqueueJob req)) w"
proof (cases "valid_job_request req")
  case False
  then show ?thesis by (simp add: fails_clean_def wp)
next
  case True
  have resp: "\<exists>r. scheduler_job_response_from_row (queued_row req i s c u) = Inr r" for i s c u
    using True
    by (intro job_row_response) (auto simp: job_row_ok_def queued_row_def valid_job_request_def job_field_constraints_def)
  show ?thesis
    using True
    apply (simp add: api_enqueue_scheduler_job_def)
    apply (rule fails_clean_answer fails_clean_with_session)+
    apply (simp add: fails_clean_def wp)
    apply (rule wp_enqueue)
     apply (simp_all add: wp Let_def)
    using resp apply (metis Inl_Inr_False)
    done
qed

lemma run_next_row_ok:
  assumes "job_table_ok (jobs (db w))"
  shows "wp (run_next E (hook_create_lab E) (hook_create_run E) now)
     (\<lambda>r w'. \<forall>j. r = Inr (Some j) \<longrightarrow> job_row_ok j) w"
proof (rule wp_mono [OF api_hooks.wp_run_next])
  fix r w'
  assume "case next_job (dispatch_time E now w) (jobs (db w)) of
        None \<Rightarrow> r = Inr None \<and> db w' = db w
      | Some j \<Rightarrow> (\<exists>j'. r = Inr (Some j') \<and> dispatched_to j j' \<and>
                    jobs (db w') = row_put job_id j' (jobs (db w)))"
  then show "\<forall>j. r = Inr (Some j) \<longrightarrow> job_row_ok j"
    using assms unfolding job_table_ok_def
    by (auto intro: dispatched_row_ok [OF _ next_job_queued(2)] dest: next_job_queued(1) split: option.splits)
qed

lemma fails_clean_dispatch:
  assumes "job_table_ok (jobs (committed w))"
  shows "fails_clean B (serve E DispatchJob) w"
proof -
  let ?m = "run_next E (hook_create_lab E) (hook_create_run E) None" and ?w = "w\<lparr>db := committed w\<rparr>"
  have "keeps (uncommitted (committed ?w)) ?m" by (intro keep)
  then have "wp ?m (\<lambda>_ w'. committed w' = committed ?w) ?w" by (simp add: keeps_wp uncommitted_def)
  moreover have "wp ?m (\<lambda>r w'. \<forall>j. r = Inr (Some j) \<longrightarrow> job_row_ok j) ?w"
    using assms by (intro run_next_row_ok) simp
  ultimately have "wp ?m (\<lambda>r w'. case r of Inl e \<Rightarrow> e \<in> B \<or> committed w' = committed ?w
     | Inr x \<Rightarrow> committed w' = committed ?w \<and> (\<forall>j. x = Some j \<longrightarrow> job_row_ok j)) ?w"
    by (rule wp_mono [OF wp_conj]) (simp split: sum.splits)
  then show ?thesis
    unfolding serve.simps api_dispatch_next_scheduler_job_def
    apply (intro fails_clean_answer fails_clean_with_session)
    apply (erule fails_clean_bnd_wp)
    apply (auto simp: fails_clean_def wp dest!: job_row_response split: option.splits)
    done
qed

subsection \<open>The blocked release\<close>

lemma release_export_reason:
  "wp (release_export here row storage)
     (\<lambda>r w'. committed w' = committed w \<and> (\<forall>s. r = Inl (ExportPolicyError s) \<longrightarrow> s = ''export_approval_required'')) w"
  unfolding release_export_def
  by (auto simp: wp Let_def dest: enum_of_Inl copy2_Inl mkdir_p_Inl split: sum.splits)

lemma fails_clean_release:
  "fails_clean {ConflictError ''export_approval_required'' (Some ''export'')} (serve E (ReleaseExport i)) w"
proof -
  let ?B = "{ConflictError ''export_approval_required'' (Some ''export'')}"
  have gate: "wp (attempt (release_export (cwd E) row storage_row) (\<lambda>exc. case exc of
                 ExportSourceNotFoundError s \<Rightarrow> throw (ResourceNotFoundError ''export_source'')
               | ExportPolicyError s \<Rightarrow>
                   bnd (record_event E
                         (export_event ''export.release_blocked'' (exp_lab_id row) (exp_run_id row)
                            (exp_id row) [(''reason'', PStr s)])) (\<lambda>_.
                   bnd commit (\<lambda>_.
                   throw (ConflictError s (Some ''export''))))
               | ExportStateError s \<Rightarrow> throw (ConflictError s (Some ''export''))
               | _ \<Rightarrow> throw exc))
      (\<lambda>r w'. case r of Inl e \<Rightarrow> e \<in> ?B \<or> committed w' = committed w
        | Inr x \<Rightarrow> committed w' = committed w \<and> True) w" for row storage_row w
    unfolding wp_attempt
    by (rule wp_mono [OF release_export_reason]) (auto simp: wp split: sum.splits exn.splits)
  show ?thesis
    unfolding serve.simps api_release_export_def
    by ((rule fails_clean_answer fails_clean_with_session fails_clean_commit fails_clean_bnd_wp [OF gate]
          | rule fails_clean_bnd | auto intro!: keep split: exn.splits)+)
qed

subsection \<open>Snapshots\<close>

text \<open>
  The two snapshot handlers fill their answer after the commit. That cannot fail: a new manifest was never
  restored, and the timestamp of a restored one is the clock's, in the format the handler reads, as long as
  the clock stays within the years a \<open>datetime\<close> has.
\<close>

lemma restored_response:
  assumes "sm_restored_at m = Some (isoformat (utc t))" and "iso_year_ok t"
  shows "\<exists>r. snapshot_response_from_row row (Some m) = Inr r"
  using assms fromisoformat_isoformat(2) [of t 0] by (simp add: snapshot_response_from_row_def utc_def)

lemma fails_clean_create_snapshot: "fails_clean B (serve E (CreateSnapshot l rid r)) w"
proof -
  have run: "fails_clean B (bnd (attempt (Snapshots.create_snapshot E i lab s rid)
              (\<lambda>exc. case exc of UnsupportedSnapshotRuntimeError s \<Rightarrow> throw unsupported_runtime | _ \<Rightarrow> throw exc)) f) v"
    if "\<And>m v. sm_restored_at m = None \<Longrightarrow> fails_clean B (f m) v" for i lab s v and f :: "SnapshotMetadata \<Rightarrow> SnapshotResponse prog"
    by (rule fails_clean_bnd_wp [where P = "\<lambda>m _. sm_restored_at m = None", OF _ that])
       (simp only: wp_attempt, rule wp_create_manager, auto simp: wp split: exn.splits)
  show ?thesis
    unfolding serve.simps api_create_snapshot_def
    by (rule fails_clean_answer fails_clean_with_session run fails_clean_answered
          | rule fails_clean_bnd, (intro keep)[1] | erule response_without_restore)+
qed

lemma fails_clean_restore_snapshot:
  assumes "\<And>n. iso_year_ok (clock E n)"
  shows "fails_clean B (serve E (RestoreSnapshot i l r)) w"
proof -
  have run: "fails_clean B (bnd (attempt (Snapshots.restore_snapshot E row lab s)
              (\<lambda>exc. case exc of
                 UnsupportedSnapshotRuntimeError s \<Rightarrow> throw unsupported_runtime
               | SnapshotMetadataError s \<Rightarrow> throw (ConflictError s (Some ''snapshot''))
               | _ \<Rightarrow> throw exc)) f) v"
    if "\<And>m n v. sm_restored_at m = Some (isoformat (utc (clock E n))) \<Longrightarrow> fails_clean B (f m) v"
    for row lab s v and f :: "SnapshotMetadata \<Rightarrow> SnapshotResponse prog"
    by (rule fails_clean_bnd_wp [where P = "\<lambda>m _. \<exists>n. sm_restored_at m = Some (isoformat (utc (clock E n)))"])
       ((simp only: wp_attempt, rule wp_restore_manager; fastforce simp: wp split: exn.splits), use that in blast)
  show ?thesis
    unfolding serve.simps api_restore_snapshot_def
    by (rule fails_clean_answer fails_clean_with_session run fails_clean_answered
          | rule fails_clean_bnd, (intro keep)[1] | erule restored_response [OF _ assms])+
qed

lemma serve_fails_clean:
  assumes "job_table_ok (jobs (committed w))"
    and "\<And>i l r. req = RestoreSnapshot i l r \<Longrightarrow> fails_clean B (serve E req) w"
    and "\<And>i. req = ReleaseExport i \<Longrightarrow> ConflictError ''export_approval_required'' (Some ''export'') \<in> B"
  shows "fails_clean B (serve E req) w"
proof (cases req)
  case (ReleaseExport i)
  then show ?thesis
    using fails_clean_release [of E i w] assms(3) by (auto simp: fails_clean_def elim!: wp_mono)
qed (use assms(1,2) fails_clean_create_snapshot fails_clean_reads fails_clean_writes fails_clean_lease fails_clean_enqueue fails_clean_dispatch in auto)

end
