(* ===== verification/Outcomes.thy ===== *)
theory Outcomes
  imports Atomicity
begin

section \<open>What a request does, case by case\<close>

text \<open>
  The outcome of a request as the client and the database see it: what is answered, and what is
  committed. Each lemma covers every branch of its handler.
\<close>

subsection \<open>The queue\<close>

lemma sjr_id_response:
  "scheduler_job_response_from_row j = Inr r \<Longrightarrow> sjr_id r = job_id j \<and> job_state j = job_value (sjr_state r)"
  by (auto simp: scheduler_job_response_from_row_def result_bind_Inr_iff dest: enum_of_InrD)

lemma wp_dispatch:
  assumes "job_table_ok (jobs (committed w))"
  shows "wp (serve E DispatchJob) (\<lambda>r w'. case next_job (utc (clock E (ticks w))) (jobs (committed w)) of
       None \<Rightarrow> r = Inl (ResourceNotFoundError ''scheduler_job'') \<and> committed w' = committed w
     | Some j \<Rightarrow> \<exists>j' resp. r = Inr (JobR resp) \<and> sjr_id resp = job_id j \<and> dispatched_to j j' \<and>
         job_state j' = job_value (sjr_state resp) \<and>
         jobs (committed w') = row_put job_id j' (jobs (committed w))) w" (is "wp _ ?Q w")
proof -
  let ?m = "run_next E (hook_create_lab E) (hook_create_run E) None" and ?w = "w\<lparr>db := committed w\<rparr>"
  let ?j = "next_job (utc (clock E (ticks w))) (jobs (committed w))"
  have "keeps (uncommitted (committed ?w)) ?m" by (intro keep)
  then have "wp ?m (\<lambda>_ w'. committed w' = committed ?w) ?w" by (simp add: keeps_wp uncommitted_def)
  with api_hooks.wp_run_next [where E = E and now = None and w = ?w]
  have run: "wp ?m (\<lambda>r w'. committed w' = committed w \<and> (case ?j of
        None \<Rightarrow> r = Inr None \<and> db w' = committed w
      | Some j \<Rightarrow> (\<exists>j'. r = Inr (Some j') \<and> dispatched_to j j' \<and>
                    jobs (db w') = row_put job_id j' (jobs (committed w))))) ?w"
    by (rule wp_mono [OF wp_conj]) (simp add: dispatch_time_def cong: option.case_cong)
  show ?thesis
  proof (cases ?j)
    case None
    then show ?thesis
      unfolding serve.simps answer_def api_dispatch_next_scheduler_job_def wp
      by (intro wp_mono [OF run]) (auto simp: wp)
  next
    case (Some j)
    have resp: "\<exists>r. scheduler_job_response_from_row j' = Inr r \<and> sjr_id r = job_id j \<and> job_state j' = job_value (sjr_state r)"
      if "dispatched_to j j'" for j'
    proof -
      have "job_row_ok j'"
        using assms that next_job_queued [OF Some] dispatched_row_ok by (auto simp: job_table_ok_def)
      then show ?thesis
        using job_row_response sjr_id_response dispatched_to_id [OF that] by metis
    qed
    show ?thesis
      unfolding serve.simps answer_def api_dispatch_next_scheduler_job_def wp
      apply (intro wp_mono [OF run])
      apply (clarsimp simp: Some)
      apply (frule resp)
      apply (auto simp: wp Some)
      done
  qed
qed

lemma wp_enqueue_request:
  assumes "valid_job_request req"
  shows "wp (serve E (EnqueueJob req)) (\<lambda>r w'.
     if pending_count (jr_requester_id req) (jobs (committed w)) < max_pending_jobs_per_requester
     then (\<exists>s c u resp. r = Inr (JobR resp) \<and> sjr_id resp = uuid4 E (uuids w) \<and>
       (\<forall>t. jr_scheduled_for req = Some t \<longrightarrow> s = t) \<and>
       jobs (committed w') = jobs (committed w) @ [queued_row req (uuid4 E (uuids w)) s c u])
     else r = Inl (ConflictError ''scheduler_pending_job_quota_exceeded'' (Some ''scheduler_job'')) \<and>
       committed w' = committed w) w"
proof -
  have resp: "\<exists>r. scheduler_job_response_from_row (queued_row req i s c u) = Inr r \<and> sjr_id r = i" for i s c u
  proof -
    have "job_row_ok (queued_row req i s c u)"
      using assms by (auto simp: job_row_ok_def queued_row_def valid_job_request_def job_field_constraints_def)
    then obtain r where r: "scheduler_job_response_from_row (queued_row req i s c u) = Inr r"
      using job_row_response by blast
    with sjr_id_response [OF r] show ?thesis by (simp add: queued_row_def)
  qed
  show ?thesis
    using assms
    apply (simp add: answer_def api_enqueue_scheduler_job_def wp)
    apply (rule wp_enqueue)
    subgoal for s c u t
      using resp [of "uuid4 E (uuids w)" s c u] by (auto simp: wp) blast
    subgoal by (simp add: wp)
    done
qed

subsection \<open>Decisions\<close>

text \<open>What a decision makes of the approval and of the resource it guards.\<close>

definition decided_by :: "ApprovalState \<Rightarrow> string \<Rightarrow> string option \<Rightarrow> ApprovalRow \<Rightarrow> ApprovalRow \<Rightarrow> bool" where
  "decided_by s actor comment a a' \<longleftrightarrow> settles s a a' \<and> apr_decided_by a' = Some actor \<and>
     apr_decision_comment a' = comment"

definition resource_decided :: "ApprovalState \<Rightarrow> string option \<Rightarrow> ApprovalRow \<Rightarrow> database \<Rightarrow> database \<Rightarrow> bool" where
  "resource_decided s comment a d d' \<longleftrightarrow>
     (if apr_resource_type a = ''lab''
      then exports d' = exports d \<and> (\<exists>l l'. l \<in> set (labs d) \<and> lab_id l = apr_resource_id a \<and> same_lab l l' \<and>
        labs d' = row_put lab_id l' (labs d) \<and>
        lab_state l' = (if s = APPROVAL_APPROVED then lab_value LAB_APPROVED else lab_value LAB_FAILED))
      else labs d' = labs d \<and> (\<exists>x x'. x \<in> set (exports d) \<and> exp_id x = apr_resource_id a \<and> same_export x x' \<and>
        exports d' = row_put exp_id x' (exports d) \<and> export_decided s x' \<and>
        exp_denial_reason x' = (if s = APPROVAL_APPROVED then None else comment)))"

definition blank :: "string option \<Rightarrow> bool" where
  "blank comment \<longleftrightarrow> (case comment of None \<Rightarrow> True | Some c \<Rightarrow> list_all is_space c)"

lemma lab_decided:
  assumes "apr_resource_type a = ''lab''" and "l \<in> set (labs d)" and "lab_id l = apr_resource_id a"
    and "exports d' = exports d" and "labs d' = row_put lab_id (l\<lparr>lab_state := st, updated_at := u\<rparr>) (labs d)"
    and "st = (if s = APPROVAL_APPROVED then lab_value LAB_APPROVED else lab_value LAB_FAILED)"
  shows "resource_decided s comment a d d'"
proof -
  have "same_lab l (l\<lparr>lab_state := st, updated_at := u\<rparr>)"
    "lab_state (l\<lparr>lab_state := st, updated_at := u\<rparr>) = st" by (simp_all add: same_lab_def)
  then show ?thesis unfolding resource_decided_def using assms by fastforce
qed

lemma export_decided:
  assumes "apr_resource_type a = ''export''" and "x \<in> set (exports d)" and "exp_id x = apr_resource_id a"
    and "labs d' = labs d" and "exports d' = row_put exp_id x' (exports d)" and "same_export x x'"
    and "export_decided s x'" and "exp_denial_reason x' = (if s = APPROVAL_APPROVED then None else comment)"
  shows "resource_decided s comment a d d'"
  unfolding resource_decided_def using assms by fastforce

lemmas export_approved = export_decided [where s = APPROVAL_APPROVED and
    x' = "x\<lparr>exp_approval_required := False, exp_state := st, exp_denial_reason := dr, updated_at := u\<rparr>" for x st dr u]

lemmas export_rejected = export_decided [where s = APPROVAL_REJECTED and
    x' = "x\<lparr>exp_state := st, exp_denial_reason := dr, updated_at := u\<rparr>" for x st dr u]

lemma wp_decide:
  assumes E: "env_ok E" and w: "sound E w" and s: "s = APPROVAL_APPROVED \<or> s = APPROVAL_REJECTED"
  shows "wp (api_decide E s ev i actor comment) (\<lambda>r w'. case row_get apr_id i (approvals (committed w)) of
       None \<Rightarrow> r = Inl (ResourceNotFoundError ''approval'') \<and> committed w' = committed w
     | Some a \<Rightarrow>
         if apr_state a \<noteq> approval_value APPROVAL_REQUESTED
         then r = Inl (ConflictError ''approval_not_pending'' (Some ''approval'')) \<and> committed w' = committed w
         else if \<not> later (the (apr_expires_at a)) (utc (clock E (ticks w)))
         then r = Inl (ConflictError ''approval_request_expired'' (Some ''approval'')) \<and> committed w' = committed w
         else if s = APPROVAL_REJECTED \<and> blank comment
         then r = Inl (ConflictError ''approval_comment_required'' (Some ''approval'')) \<and> committed w' = committed w
         else (\<exists>a'. r = Inr (approval_response_from_row a') \<and> decided_by s actor comment a a' \<and>
           approvals (committed w') = row_put apr_id a' (approvals (committed w)) \<and>
           resource_decided s comment a (committed w) (committed w'))) w"
proof -
  have ok: "control_ok E (uuids w) (committed w)" using w control_ok by (simp add: sound_def)
  show ?thesis
  proof (cases "row_get apr_id i (approvals (committed w))")
    case None
    then show ?thesis by (simp add: api_decide_def wp)
  next
    case (Some a)
    note a = row_get_Some [OF Some]
    have row: "approval_row_ok a" using ok a by (simp add: control_ok_def approvals_ok_def)
    then obtain t where t: "apr_expires_at a = Some t" and ty: "apr_resource_type a \<in> {''lab'', ''export''}"
      by (auto simp: approval_row_ok_def)
    have lab_there: "\<exists>l. row_get lab_id (apr_resource_id a) (labs (committed w)) = Some l" if "apr_resource_type a = ''lab''"
      using ok a that row_get_None [of lab_id "apr_resource_id a" "labs (committed w)"]
      by (auto simp: control_ok_def resources_ok_def)
    have export_there: "\<exists>x. row_get exp_id (apr_resource_id a) (exports (committed w)) = Some x" if "apr_resource_type a = ''export''"
      using ok a that row_get_None [of exp_id "apr_resource_id a" "exports (committed w)"]
      by (auto simp: control_ok_def resources_ok_def export_keys_def)
    have blank: "blank comment \<longleftrightarrow> comment = None \<or> strip (the comment) = []"
      by (auto simp: blank_def strip_empty_iff split: option.splits)
    from ty consider (lab) l where "apr_resource_type a = ''lab''" "row_get lab_id (apr_resource_id a) (labs (committed w)) = Some l"
      | (export) x where "apr_resource_type a = ''export''" "row_get exp_id (apr_resource_id a) (exports (committed w)) = Some x"
      using lab_there export_there by blast
    then show ?thesis
    proof cases
      case lab
      then show ?thesis using s Some t a row_get_Some [OF lab(2)]
        by (auto simp: api_decide_def apply_approval_decision_def ensure_approval_pending_def decide_lab_def wp Let_def blank)
           (rule exI, rule conjI, rule refl, simp add: decided_by_def settles_def,
            rule lab_decided [where l = l], simp_all)+
    next
      case export
      then show ?thesis using s Some t a row_get_Some [OF export(2)]
        by (auto simp: api_decide_def apply_approval_decision_def ensure_approval_pending_def decide_export_def wp Let_def blank)
           (rule exI, rule conjI, rule refl, simp add: decided_by_def settles_def,
            (rule export_approved [where x = x] | rule export_rejected [where x = x]), simp_all add: same_export_def export_decided_def)+
    qed
  qed
qed

subsection \<open>Releases\<close>

definition released_target :: "path \<Rightarrow> LabStorageRow \<Rightarrow> ExportRow \<Rightarrow> path" where
  "released_target here storage x =
     path_join (path_join (os_path here (sto_root_path storage)) RELEASED_DIRNAME) (exp_id x) @
       [path_name (os_path here (exp_quarantine_path x))]"

text \<open>The released file is what lay in quarantine at that moment.\<close>

lemma release_export_copies:
  assumes "release_export here x storage w = (Inr res, w')" and "\<not> is_dir (fsys w') (released_target here storage x)"
  shows "\<exists>c. read_file (fsys w) (os_path here (exp_quarantine_path x)) = Some c \<and>
     read_file (fsys w') (released_target here storage x) = Some c"
proof -
  have copied: "read_file g dst = Some c"
    if "mkdir_p f dir = Inr f1" "copy2 f1 src dst = Inr g" "read_file f src = Some c" "\<not> is_dir g dst"
    for f f1 g dir src dst c
  proof -
    have "\<not> is_dir f1 dst" using that(2,4) copy2_keeps_dir by blast
    with copy2_Inr [OF that(2)] have "\<exists>c'. read_file f1 src = Some c' \<and> read_file g dst = Some c'" by blast
    then show ?thesis
      using read_file_only_adds_dirs [OF mkdir_p_only_adds_dirs [OF that(1)] that(3)] by simp
  qed
  have "wp (release_export here x storage) (\<lambda>r w1. r = Inr res \<and> w1 = w' \<longrightarrow> ?thesis) w"
    using assms(2) unfolding release_export_def released_target_def
    by (auto simp: wp Let_def is_file_def dest: copied split: sum.splits)
  then show ?thesis using assms(1) by (simp add: wp_def)
qed

lemma wp_release_export:
  "wp (api_release_export E i) (\<lambda>r w'. \<forall>resp. r = Inr resp \<longrightarrow> (\<exists>x x' s.
     row_get exp_id i (exports (committed w)) = Some x \<and>
     row_get sto_lab_id (exp_lab_id x) (storages (committed w)) = Some s \<and>
     \<not> exp_approval_required x \<and> exp_state x \<noteq> export_value EXPORT_REJECTED \<and> exp_state x \<noteq> export_value EXPORT_RELEASED \<and>
     resp = export_response_from_row x' \<and> same_export x x' \<and> exp_state x' = export_value EXPORT_RELEASED \<and>
     exp_released_path x' = Some (path_str (released_target (cwd E) s x)) \<and>
     exports (committed w') = row_put exp_id x' (exports (committed w)) \<and>
     (is_dir (fsys w') (released_target (cwd E) s x) \<or>
       (\<exists>c. read_file (fsys w) (os_path (cwd E) (exp_quarantine_path x)) = Some c \<and>
          read_file (fsys w') (released_target (cwd E) s x) = Some c)))) w"
proof (cases "row_get exp_id i (exports (committed w))")
  case None
  then show ?thesis by (simp add: api_release_export_def wp)
next
  case x: (Some x)
  show ?thesis
  proof (cases "row_get sto_lab_id (exp_lab_id x) (storages (committed w))")
    case None
    then show ?thesis using x by (simp add: api_release_export_def wp)
  next
    case s: (Some s)
    let ?w = "w\<lparr>db := committed w\<rparr>"
    obtain r g where run: "release_export (cwd E) x s ?w = (r, ?w\<lparr>fsys := g\<rparr>)"
      using release_export_frame [of "cwd E" x s] unfolding touches_fs_def by blast
    then have wp_run: "wp (release_export (cwd E) x s) Q ?w = Q r (?w\<lparr>fsys := g\<rparr>)" for Q
      by (simp add: wp_def)
    show ?thesis
    proof (cases r)
      case (Inl e)
      then show ?thesis using x s by (auto simp: api_release_export_def wp wp_run split: exn.splits)
    next
      case (Inr res)
      note done' = release_export_ok [OF run [unfolded Inr]] release_export_copies [OF run [unfolded Inr]]
      have "is_dir g (released_target (cwd E) s x) \<or>
         (\<exists>c. read_file (fsys w) (os_path (cwd E) (exp_quarantine_path x)) = Some c \<and>
            read_file g (released_target (cwd E) s x) = Some c)" using done'(2) by auto
      then show ?thesis using x s Inr done'(1)
        by (auto simp: api_release_export_def wp wp_run Let_def same_export_def released_target_def)
    qed
  qed
qed

text \<open>An open export whose file is still in quarantine is released, unless the file system refuses the copy.\<close>

lemma wp_release_open:
  assumes x: "row_get exp_id i (exports (committed w)) = Some x"
    and s: "row_get sto_lab_id (exp_lab_id x) (storages (committed w)) = Some s"
    and state: "exp_state x = export_value st" "st \<noteq> EXPORT_REJECTED" "st \<noteq> EXPORT_RELEASED" "\<not> exp_approval_required x"
    and c: "read_file (fsys w) (os_path (cwd E) (exp_quarantine_path x)) = Some c"
  shows "wp (api_release_export E i) (\<lambda>r w'. (\<exists>e. r = Inl (OSError e)) \<or>
     (\<exists>resp. r = Inr resp \<and> xr_state resp = export_value EXPORT_RELEASED)) w"
proof -
  have "path_exists (fsys w) (os_path (cwd E) (exp_quarantine_path x))"
    using c by (auto simp: path_exists_def read_file_def split: option.splits)
  then have "wp (release_export (cwd E) x s) (\<lambda>r w'. (\<exists>e. r = Inl (OSError e)) \<or>
      (\<exists>res. r = Inr res \<and> sr_state res = EXPORT_RELEASED)) (w\<lparr>db := committed w\<rparr>)"
    using state c unfolding release_export_def
    by (auto simp: wp Let_def is_file_def dest: copy2_Inl mkdir_p_Inl split: sum.splits)
  then show ?thesis
    using x s unfolding api_release_export_def wp
    by (simp add: wp) (elim wp_mono, auto simp: wp Let_def export_response_from_row_def)
qed

subsection \<open>Labs\<close>

text \<open>A new lab: gated exactly when the profile or the requester demand it, and then with its request.\<close>

definition needs_approval :: "Profile \<Rightarrow> RequesterType \<Rightarrow> bool" where
  "needs_approval p r \<longleftrightarrow> p_approval_on_start p \<or> r \<noteq> REQ_HUMAN \<and> RISK_HIGH \<le> p_risk_class p"

lemma no_reasons_iff: "approval_reasons p r = [] \<longleftrightarrow> \<not> needs_approval p r"
  by (auto simp: approval_reasons_Nil needs_approval_def)

lemma wp_create_lab:
  "wp (api_create_lab E name r) (\<lambda>res w'. only_adds_dirs (fsys w) (fsys w') \<and>
     (case policy_profiles E name of
        None \<Rightarrow> res = Inl (ResourceNotFoundError ''profile'') \<and> committed w' = committed w \<and> fsys w' = fsys w
      | Some p \<Rightarrow> (\<forall>e. res = Inl e \<longrightarrow> committed w' = committed w) \<and>
          (\<forall>resp. res = Inr resp \<longrightarrow> (\<exists>l s.
             resp = lab_response_from_row l s \<and> lab_id l = uuid4 E (uuids w) \<and> sto_lab_id s = lab_id l \<and>
             lab_profile_name l = p_name p \<and>
             lab_state l = (if needs_approval p r then lab_value LAB_PENDING_APPROVAL else lab_value LAB_APPROVED) \<and>
             labs (committed w') = labs (committed w) @ [l] \<and> storages (committed w') = storages (committed w) @ [s] \<and>
             (\<exists>as. approvals (committed w') = approvals (committed w) @ as \<and>
                (if needs_approval p r then \<exists>a. as = [a] \<and> pending_approval (lab_id l) ''lab'' (lab_id l) a else as = [])))))) w"
proof (cases "policy_profiles E name")
  case None
  then show ?thesis
    by (simp add: api_create_lab_def create_lab_record_def decide_lab_request_def wp validate_request_no_overrides)
next
  case (Some p)
  show ?thesis
  proof (cases "needs_approval p r")
    case True
    then show ?thesis using Some
      by (auto simp: api_create_lab_def create_lab_record_def decide_lab_request_def wp validate_request_no_overrides
          no_reasons_iff record_approval_request_def Let_def pending_approval_def storage_row_of_def make_decision_def
          intro!: wp_allocate)
  next
    case False
    then show ?thesis using Some
      by (auto simp: api_create_lab_def create_lab_record_def decide_lab_request_def wp validate_request_no_overrides
          no_reasons_iff Let_def storage_row_of_def make_decision_def intro!: wp_allocate)
  qed
qed

text \<open>
  Destroying a lab, whatever the answer: no entry outside the storage root changes. When it succeeds,
  the subtree the lab's root resolves to is gone, nothing else changed, and the lab is destroyed.
\<close>

lemma wp_destroy_lab:
  "wp (api_destroy_lab E i) (\<lambda>res w'. confined (storage_root E) (fsys w) (fsys w') \<and>
     (\<forall>e. res = Inl e \<longrightarrow> committed w' = committed w) \<and>
     (\<forall>resp. res = Inr resp \<longrightarrow> (\<exists>l l' s p.
        row_get lab_id i (labs (committed w)) = Some l \<and> row_get sto_lab_id i (storages (committed w)) = Some s \<and>
        lab_state l \<noteq> lab_value LAB_DESTROYED \<and> same_lab l l' \<and> lab_state l' = lab_value LAB_DESTROYED \<and>
        labs (committed w') = row_put lab_id l' (labs (committed w)) \<and> resp = lab_response_from_row l' s \<and>
        realpath (fsys w) (os_path (cwd E) (sto_root_path s)) = Some p \<and> prefix (storage_root E) p \<and>
        fsys w' = (if path_exists (fsys w) (os_path (cwd E) (sto_root_path s)) then without p (fsys w) else fsys w)))) w"
proof (cases "row_get lab_id i (labs (committed w))")
  case None
  then show ?thesis by (simp add: api_destroy_lab_def wp)
next
  case l: (Some l)
  note id = row_get_Some [OF l]
  show ?thesis
  proof (cases "row_get sto_lab_id i (storages (committed w))")
    case None
    then show ?thesis using l id by (simp add: api_destroy_lab_def wp)
  next
    case s: (Some s)
    show ?thesis
    proof (cases "storage_allocation_from_row (cwd E) s")
      case (Inl e)
      then show ?thesis using l s id by (auto simp: api_destroy_lab_def wp)
    next
      case (Inr a)
      then have root: "sa_root_path a = os_path (cwd E) (sto_root_path s)"
        by (auto simp: storage_allocation_from_row_def result_bind_Inr_iff)
      show ?thesis using l s id Inr
        apply (simp add: api_destroy_lab_def wp)
        apply (intro impI wp_mono [OF wp_destroy_storage])
        apply (auto simp: root wp Let_def same_lab_def split: sum.splits)
        apply (rule exI [of _ "l\<lparr>lab_state := lab_value LAB_DESTROYED, updated_at := utc (clock E (ticks w))\<rparr>"])
        apply auto
        done
    qed
  qed
qed

subsection \<open>Leases\<close>

lemma wp_create_lease:
  "wp (serve E (CreateLease lab s requester ttl)) (\<lambda>r w'.
     if \<not> (1 \<le> ttl \<and> ttl \<le> 24 * 60)
     then r = Inl (HTTPException 422 ''Unprocessable Entity'') \<and> committed w' = committed w
     else (case row_get lab_id lab (labs (committed w)) of
        None \<Rightarrow> r = Inl (ResourceNotFoundError ''lab'') \<and> committed w' = committed w
      | Some l \<Rightarrow> (case policy_profiles E (lab_profile_name l) of
          None \<Rightarrow> r = Inl (ResourceNotFoundError (repr_str (''unknown profile: '' @ lab_profile_name l))) \<and>
            committed w' = committed w
        | Some p \<Rightarrow>
            if s \<notin> set (p_allowed_secret_names p)
            then r = Inl (HTTPException 400 ''secret_name is not allowed by profile'') \<and> committed w' = committed w
            else (case environ E (''LABOS_SECRET_'' @ s) of
                None \<Rightarrow> r = Inl (HTTPException 400 (''secret value not found for '' @ s)) \<and> committed w' = committed w
              | Some value \<Rightarrow> (\<exists>k. r = Inr (LeaseR (secret_lease_response_from_row k)) \<and>
                  leases (committed w') = leases (committed w) @ [k] \<and> lease_lab_id k = lab \<and>
                  lease_secret_name k = s \<and> lease_revoked_at k = None \<and>
                  lease_expires_at k = plus_delta (utc (clock E (ticks w))) (minutes ttl)))))) w"
    (is "wp _ ?Q w")
proof (cases "1 \<le> ttl \<and> ttl \<le> 24 * 60")
  case False
  then show ?thesis unfolding serve.simps if_not_P [OF False] by (simp add: wp)
next
  case ttl: True
  show ?thesis
  proof (cases "row_get lab_id lab (labs (committed w))")
    case None
    with ttl show ?thesis
      by (simp add: answer_def api_create_secret_lease_def wp env_broker.wp_issue_lease)
  next
    case l: (Some l)
    show ?thesis
    proof (cases "policy_profiles E (lab_profile_name l)")
      case None
      with ttl l show ?thesis
        by (simp add: answer_def api_create_secret_lease_def wp env_broker.wp_issue_lease)
    next
      case p: (Some p)
      show ?thesis
      proof (cases "s \<in> set (p_allowed_secret_names p)")
        case False
        with ttl l p show ?thesis
          by (simp add: answer_def api_create_secret_lease_def wp env_broker.wp_issue_lease)
      next
        case True
        with ttl l p show ?thesis
          by (cases "environ E (''LABOS_SECRET_'' @ s)")
             (auto simp: answer_def api_create_secret_lease_def wp env_broker.wp_issue_lease env_resolve_def Let_def)
      qed
    qed
  qed
qed

end
