(* ===== verification/State_Machine.thy ===== *)
theory State_Machine
  imports Enums
begin

section \<open>Lifecycle state machines\<close>

text \<open>
  The transition tables of \<open>labos/core/state_machine.py\<close> and their lookup functions. The tables
  are declarative: no other module of the program consults them, so what the services really do is
  compared with them where the services are modelled. The locale \<open>one_way_lifecycle\<close> is the contract
  of a table that never goes back; run, approval, export and snapshot tables meet it, the lab table
  does not (\<open>running\<close> and \<open>stopped\<close> alternate).
\<close>

fun LAB_TRANSITIONS :: "LabState \<Rightarrow> LabState set" where
  "LAB_TRANSITIONS LAB_REQUESTED = {LAB_PENDING_APPROVAL, LAB_APPROVED, LAB_FAILED}"
| "LAB_TRANSITIONS LAB_PENDING_APPROVAL = {LAB_APPROVED, LAB_FAILED}"
| "LAB_TRANSITIONS LAB_APPROVED = {LAB_PROVISIONING, LAB_FAILED, LAB_DESTROYING}"
| "LAB_TRANSITIONS LAB_PROVISIONING = {LAB_RUNNING, LAB_FAILED, LAB_DESTROYING}"
| "LAB_TRANSITIONS LAB_RUNNING = {LAB_STOPPED, LAB_FAILED, LAB_DESTROYING}"
| "LAB_TRANSITIONS LAB_STOPPED = {LAB_RUNNING, LAB_DESTROYING, LAB_ARCHIVED}"
| "LAB_TRANSITIONS LAB_FAILED = {LAB_DESTROYING, LAB_ARCHIVED}"
| "LAB_TRANSITIONS LAB_DESTROYING = {LAB_DESTROYED}"
| "LAB_TRANSITIONS LAB_DESTROYED = {}"
| "LAB_TRANSITIONS LAB_ARCHIVED = {}"

fun RUN_TRANSITIONS :: "RunState \<Rightarrow> RunState set" where
  "RUN_TRANSITIONS RUN_QUEUED = {RUN_STARTING, RUN_CANCELLED}"
| "RUN_TRANSITIONS RUN_STARTING = {RUN_RUNNING, RUN_FAILED, RUN_CANCELLED}"
| "RUN_TRANSITIONS RUN_RUNNING = {RUN_COMPLETED, RUN_FAILED, RUN_CANCELLED, RUN_TIMED_OUT}"
| "RUN_TRANSITIONS RUN_COMPLETED = {}"
| "RUN_TRANSITIONS RUN_FAILED = {}"
| "RUN_TRANSITIONS RUN_CANCELLED = {}"
| "RUN_TRANSITIONS RUN_TIMED_OUT = {}"

fun APPROVAL_TRANSITIONS :: "ApprovalState \<Rightarrow> ApprovalState set" where
  "APPROVAL_TRANSITIONS APPROVAL_REQUESTED = {APPROVAL_APPROVED, APPROVAL_REJECTED, APPROVAL_EXPIRED}"
| "APPROVAL_TRANSITIONS APPROVAL_APPROVED = {}"
| "APPROVAL_TRANSITIONS APPROVAL_REJECTED = {}"
| "APPROVAL_TRANSITIONS APPROVAL_EXPIRED = {}"

fun EXPORT_TRANSITIONS :: "ExportState \<Rightarrow> ExportState set" where
  "EXPORT_TRANSITIONS EXPORT_REQUESTED = {EXPORT_QUARANTINED, EXPORT_REJECTED}"
| "EXPORT_TRANSITIONS EXPORT_QUARANTINED = {EXPORT_APPROVED, EXPORT_REJECTED}"
| "EXPORT_TRANSITIONS EXPORT_APPROVED = {EXPORT_RELEASED}"
| "EXPORT_TRANSITIONS EXPORT_RELEASED = {}"
| "EXPORT_TRANSITIONS EXPORT_REJECTED = {}"

fun SNAPSHOT_TRANSITIONS :: "SnapshotState \<Rightarrow> SnapshotState set" where
  "SNAPSHOT_TRANSITIONS SNAPSHOT_PENDING = {SNAPSHOT_CREATED, SNAPSHOT_FAILED}"
| "SNAPSHOT_TRANSITIONS SNAPSHOT_CREATED = {SNAPSHOT_RESTORED}"
| "SNAPSHOT_TRANSITIONS SNAPSHOT_FAILED = {}"
| "SNAPSHOT_TRANSITIONS SNAPSHOT_RESTORED = {}"

definition can_transition_lab :: "LabState \<Rightarrow> LabState \<Rightarrow> bool" where
  "can_transition_lab current target \<longleftrightarrow> target \<in> LAB_TRANSITIONS current"

definition can_transition_run :: "RunState \<Rightarrow> RunState \<Rightarrow> bool" where
  "can_transition_run current target \<longleftrightarrow> target \<in> RUN_TRANSITIONS current"

definition can_transition_approval :: "ApprovalState \<Rightarrow> ApprovalState \<Rightarrow> bool" where
  "can_transition_approval current target \<longleftrightarrow> target \<in> APPROVAL_TRANSITIONS current"

definition can_transition_export :: "ExportState \<Rightarrow> ExportState \<Rightarrow> bool" where
  "can_transition_export current target \<longleftrightarrow> target \<in> EXPORT_TRANSITIONS current"

definition can_transition_snapshot :: "SnapshotState \<Rightarrow> SnapshotState \<Rightarrow> bool" where
  "can_transition_snapshot current target \<longleftrightarrow> target \<in> SNAPSHOT_TRANSITIONS current"

lemmas can_transition_defs =
  can_transition_lab_def can_transition_run_def can_transition_approval_def
  can_transition_export_def can_transition_snapshot_def

subsection \<open>A lifecycle that never goes back\<close>

locale one_way_lifecycle =
  fixes can :: "'s \<Rightarrow> 's \<Rightarrow> bool"
    and rank :: "'s \<Rightarrow> nat"
    and top :: nat
  assumes rank_step: "can s t \<Longrightarrow> rank s < rank t"
    and rank_top: "rank s \<le> top"
begin

lemma history_ranks: "successively can xs \<Longrightarrow> sorted_wrt (\<lambda>s t. rank s < rank t) xs"
proof (induction xs)
  case Nil
  then show ?case by simp
next
  case (Cons x xs)
  show ?case
  proof (cases xs)
    case Nil
    then show ?thesis by simp
  next
    case (Cons y ys)
    with Cons.prems have "can x y" and "successively can xs" by simp_all
    with Cons.IH have "sorted_wrt (\<lambda>s t. rank s < rank t) xs" and "rank x < rank y"
      by (simp_all add: rank_step)
    with Cons show ?thesis by force
  qed
qed

lemma history_distinct: "successively can xs \<Longrightarrow> distinct xs"
proof -
  assume "successively can xs"
  then have "sorted_wrt (\<lambda>s t. rank s < rank t) xs" by (rule history_ranks)
  then show "distinct xs" by (induction xs) auto
qed

lemma history_rank_bound:
  "sorted_wrt (\<lambda>s t. rank s < rank t) (x # xs) \<Longrightarrow> rank x + length xs \<le> top"
proof (induction xs arbitrary: x)
  case Nil
  then show ?case using rank_top[of x] by simp
next
  case (Cons y ys)
  then have "rank y + length ys \<le> top" and "rank x < rank y" by simp_all
  then show ?case by simp
qed

lemma history_length: "successively can xs \<Longrightarrow> length xs \<le> Suc top"
proof (cases xs)
  case (Cons x ys)
  assume "successively can xs"
  then have "sorted_wrt (\<lambda>s t. rank s < rank t) (x # ys)" using Cons history_ranks by blast
  then show ?thesis using Cons history_rank_bound by fastforce
qed simp

lemma no_self_step: "\<not> can s s"
  using rank_step by blast

end

fun run_rank :: "RunState \<Rightarrow> nat" where
  "run_rank RUN_QUEUED = 0" | "run_rank RUN_STARTING = 1" | "run_rank RUN_RUNNING = 2"
| "run_rank RUN_COMPLETED = 3" | "run_rank RUN_FAILED = 3" | "run_rank RUN_CANCELLED = 3"
| "run_rank RUN_TIMED_OUT = 3"

fun approval_rank :: "ApprovalState \<Rightarrow> nat" where
  "approval_rank APPROVAL_REQUESTED = 0"
| "approval_rank _ = 1"

fun export_rank :: "ExportState \<Rightarrow> nat" where
  "export_rank EXPORT_REQUESTED = 0" | "export_rank EXPORT_QUARANTINED = 1"
| "export_rank EXPORT_APPROVED = 2" | "export_rank EXPORT_RELEASED = 3"
| "export_rank EXPORT_REJECTED = 3"

fun snapshot_rank :: "SnapshotState \<Rightarrow> nat" where
  "snapshot_rank SNAPSHOT_PENDING = 0" | "snapshot_rank SNAPSHOT_CREATED = 1"
| "snapshot_rank SNAPSHOT_FAILED = 2" | "snapshot_rank SNAPSHOT_RESTORED = 2"

lemma run_rank_bound: "run_rank r \<le> 3"
  by (cases r) simp_all

lemma approval_rank_bound: "approval_rank a \<le> 1"
  by (cases a) simp_all

lemma export_rank_bound: "export_rank e \<le> 3"
  by (cases e) simp_all

lemma snapshot_rank_bound: "snapshot_rank s \<le> 2"
  by (cases s) simp_all

interpretation run_life: one_way_lifecycle can_transition_run run_rank 3
proof unfold_locales
  show "can_transition_run s t \<Longrightarrow> run_rank s < run_rank t" for s t
    by (cases s; cases t) (simp_all add: can_transition_run_def)
qed (rule run_rank_bound)

interpretation approval_life: one_way_lifecycle can_transition_approval approval_rank 1
proof unfold_locales
  show "can_transition_approval s t \<Longrightarrow> approval_rank s < approval_rank t" for s t
    by (cases s; cases t) (simp_all add: can_transition_approval_def)
qed (rule approval_rank_bound)

interpretation export_life: one_way_lifecycle can_transition_export export_rank 3
proof unfold_locales
  show "can_transition_export s t \<Longrightarrow> export_rank s < export_rank t" for s t
    by (cases s; cases t) (simp_all add: can_transition_export_def)
qed (rule export_rank_bound)

interpretation snapshot_life: one_way_lifecycle can_transition_snapshot snapshot_rank 2
proof unfold_locales
  show "can_transition_snapshot s t \<Longrightarrow> snapshot_rank s < snapshot_rank t" for s t
    by (cases s; cases t) (simp_all add: can_transition_snapshot_def)
qed (rule snapshot_rank_bound)

subsection \<open>What the tables allow\<close>

lemma lab_terminal_iff:
  "(\<forall>t. \<not> can_transition_lab s t) \<longleftrightarrow> s = LAB_DESTROYED \<or> s = LAB_ARCHIVED"
  by (cases s) (auto simp: can_transition_lab_def)

text \<open>A state that only one edge enters is on every path that reaches what lies behind it.\<close>

lemma path_gate:
  assumes "successively can xs" and "xs \<noteq> []" and "t \<in> set xs" and "t \<noteq> hd xs"
  shows "\<exists>s \<in> set xs. can s t"
  using assms
proof (induction xs)
  case Nil
  then show ?case by simp
next
  case (Cons x xs)
  then have t: "t \<in> set xs" by auto
  then obtain y ys where xs: "xs = y # ys" by (cases xs) auto
  show ?case
  proof (cases "t = y")
    case True
    with Cons.prems(1) xs have "can x t" by simp
    then show ?thesis by auto
  next
    case False
    with Cons xs t show ?thesis by auto
  qed
qed

end
