(* ===== verification/Docker_Runtime.thy ===== *)
theory Docker_Runtime
  imports Runtime Py_Value
begin

section \<open>The Docker runtime\<close>

text \<open>
  \<open>labos/runtimes/docker_runtime.py\<close>. The Docker client is a record of programs on the state of the
  daemon, a parameter: each call may raise and returns what the SDK's object is used for, a network or
  volume by its name, a container with the attributes that are read. The clock that a lease is checked
  against is a program on the same state. Output of a container is ASCII text.
\<close>

record docker_container =
  dco_name :: "string option"
  dco_status :: "string option"
  dco_labels :: str_dict
  dco_attrs :: pyval

record container_config =
  cc_image :: string
  cc_name :: string
  cc_command :: "string list option"
  cc_detach :: bool
  cc_labels :: str_dict
  cc_environment :: str_dict
  cc_volumes :: "(string \<times> str_dict) list"
  cc_network :: "string option"
  cc_network_disabled :: bool
  cc_nano_cpus :: int
  cc_mem_limit :: string
  cc_read_only :: bool

record 's docker_client =
  networks_create :: "string \<Rightarrow> bool \<Rightarrow> bool \<Rightarrow> str_dict \<Rightarrow> ('s, string) program"
  networks_get :: "string \<Rightarrow> ('s, string) program"
  network_remove :: "string \<Rightarrow> ('s, unit) program"
  volumes_create :: "string \<Rightarrow> str_dict \<Rightarrow> ('s, string) program"
  volumes_get :: "string \<Rightarrow> ('s, string) program"
  volume_remove :: "string \<Rightarrow> bool \<Rightarrow> ('s, unit) program"
  containers_create :: "container_config \<Rightarrow> ('s, unit) program"
  containers_get :: "string \<Rightarrow> ('s, docker_container) program"
  containers_list :: "bool \<Rightarrow> str_dict \<Rightarrow> ('s, docker_container list) program"
  container_start :: "docker_container \<Rightarrow> ('s, unit) program"
  container_stop :: "docker_container \<Rightarrow> int \<Rightarrow> ('s, unit) program"
  container_remove :: "docker_container \<Rightarrow> bool \<Rightarrow> ('s, unit) program"
  container_reload :: "docker_container \<Rightarrow> ('s, docker_container) program"
  container_exec_run :: "docker_container \<Rightarrow> string \<Rightarrow> ('s, int \<times> string) program"
  container_logs :: "docker_container \<Rightarrow> pyval \<Rightarrow> ('s, string) program"

subsection \<open>Names and labels\<close>

definition backend_name :: string where
  "backend_name = ''docker''"

definition container_name :: "string \<Rightarrow> string" where
  "container_name lab = ''labos-'' @ lab"

definition network_name :: "string \<Rightarrow> string" where
  "network_name lab = ''labos-net-'' @ lab"

definition lab_labels :: "string \<Rightarrow> str_dict \<Rightarrow> str_dict" where
  "lab_labels lab extra_labels =
     dict_update [(''labos.managed'', ''true''), (''labos.lab_id'', lab), (''labos.runtime'', backend_name)] extra_labels"

subsection \<open>The inventory\<close>

definition inspection_of :: "docker_container \<Rightarrow> LabInspection option" where
  "inspection_of container =
     map_option (\<lambda>lab.
       \<lparr>li_lab_id = lab, li_backend = backend_name,
        li_container_name = (case dco_name container of None \<Rightarrow> container_name lab | Some n \<Rightarrow> n),
        li_status = (case dco_status container of None \<Rightarrow> ''unknown'' | Some s \<Rightarrow> s),
        li_labels = dco_labels container\<rparr>) (map_of (dco_labels container) ''labos.lab_id'')"

definition docker_list_managed_labs :: "'s docker_client \<Rightarrow> ('s, LabInspection list) program" where
  "docker_list_managed_labs C =
     bnd (containers_list C True [(''label'', ''labos.managed=true'')]) (\<lambda>containers.
     returns (sort_key li_lab_id (List.map_filter inspection_of containers)))"

subsection \<open>Creating a lab\<close>

definition add_secret :: "('s, datetime) program \<Rightarrow> str_dict \<Rightarrow> SecretLease \<Rightarrow> ('s, str_dict) program" where
  "add_secret clock_now environment lease =
     bnd (guard (sl_approved lease) (ValueError (''secret lease '' @ sl_name lease @ '' is not approved''))) (\<lambda>_.
     bnd clock_now (\<lambda>now.
     bnd (liftR (is_active lease None now)) (\<lambda>active.
     bnd (guard active (ValueError (''secret lease '' @ sl_name lease @ '' has expired''))) (\<lambda>_.
     returns (AList.update (sl_name lease) (sl_value lease) environment)))))"

definition build_environment :: "('s, datetime) program \<Rightarrow> RuntimeSpec \<Rightarrow> ('s, str_dict) program" where
  "build_environment clock_now spec = foldM (add_secret clock_now) [] (rs_secret_leases spec)"

definition build_volumes :: "ManagedMount list \<Rightarrow> (string \<times> str_dict) list" where
  "build_volumes mounts =
     fold (\<lambda>m. AList.update (mm_source m)
       [(''bind'', mm_target m), (''mode'', if mm_read_only m then ''ro'' else ''rw'')]) mounts []"

text \<open>The two local variables that the handler of the exception reads survive it: they are part of the
  state while the body of the \<open>try\<close> runs.\<close>

record create_locals =
  created_network :: "string option"
  created_volumes :: "string list"

definition outer :: "('s, 'a) program \<Rightarrow> ('s \<times> create_locals, 'a) program" where
  "outer m sl = (case m (fst sl) of (r, s') \<Rightarrow> (r, (s', snd sl)))"

definition set_locals :: "(create_locals \<Rightarrow> create_locals) \<Rightarrow> ('s \<times> create_locals, unit) program" where
  "set_locals f = modify (map_prod id f)"

definition create_body :: "'s docker_client \<Rightarrow> ('s, datetime) program \<Rightarrow> string \<Rightarrow> RuntimeSpec \<Rightarrow>
    ('s \<times> create_locals, unit) program" where
  "create_body C clock_now lab spec =
     (let network = (if rs_network_mode spec = NET_DENY then None else Some (network_name lab));
          labels = lab_labels lab (rs_labels spec)
      in bnd (case network of
            None \<Rightarrow> returns ()
          | Some n \<Rightarrow>
              bnd (outer (networks_create C n (rs_network_mode spec = NET_RESTRICTED) True labels)) (\<lambda>net.
              set_locals (created_network_update (\<lambda>_. Some net)))) (\<lambda>_.
         bnd (for_each (\<lambda>m.
            bnd (outer (volumes_create C (mm_source m) labels)) (\<lambda>vol.
            set_locals (created_volumes_update (\<lambda>vs. vs @ [vol])))) (rs_managed_mounts spec)) (\<lambda>_.
         bnd (outer (build_environment clock_now spec)) (\<lambda>environment.
         outer (containers_create C
           \<lparr>cc_image = rs_image spec, cc_name = container_name lab, cc_command = rs_command spec,
            cc_detach = True, cc_labels = labels, cc_environment = environment,
            cc_volumes = build_volumes (rs_managed_mounts spec), cc_network = network,
            cc_network_disabled = (rs_network_mode spec = NET_DENY),
            cc_nano_cpus = rs_cpu_limit spec * 1000000000, cc_mem_limit = show_int (rs_memory_mb spec) @ ''m'',
            cc_read_only = (rs_persistence_mode spec = EPHEMERAL)\<rparr>)))))"

definition roll_back :: "'s docker_client \<Rightarrow> create_locals \<Rightarrow> ('s, unit) program" where
  "roll_back C l =
     bnd (case created_network l of None \<Rightarrow> returns () | Some n \<Rightarrow> network_remove C n) (\<lambda>_.
     for_each (\<lambda>v. volume_remove C v True) (created_volumes l))"

definition docker_create_lab :: "'s docker_client \<Rightarrow> ('s, datetime) program \<Rightarrow> string \<Rightarrow> RuntimeSpec \<Rightarrow>
    ('s, ProvisionedLab) program" where
  "docker_create_lab C clock_now lab spec s =
     (case create_body C clock_now lab spec (s, \<lparr>created_network = None, created_volumes = []\<rparr>) of
        (Inl e, (s', l)) \<Rightarrow> bnd (roll_back C l) (\<lambda>_. throw e) s'
      | (Inr _, (s', l)) \<Rightarrow>
          (Inr \<lparr>pl_lab_id = lab, pl_backend = backend_name, pl_container_name = container_name lab,
                pl_network_name = (if rs_network_mode spec = NET_DENY then None else Some (network_name lab)),
                pl_volume_names = map mm_source (rs_managed_mounts spec)\<rparr>, s'))"

subsection \<open>The other operations\<close>

definition get_container :: "'s docker_client \<Rightarrow> string \<Rightarrow> ('s, docker_container) program" where
  "get_container C lab = containers_get C (container_name lab)"

definition docker_start_lab :: "'s docker_client \<Rightarrow> string \<Rightarrow> ('s, unit) program" where
  "docker_start_lab C lab = bnd (get_container C lab) (container_start C)"

definition docker_stop_lab :: "'s docker_client \<Rightarrow> string \<Rightarrow> int \<Rightarrow> ('s, unit) program" where
  "docker_stop_lab C lab timeout = bnd (get_container C lab) (\<lambda>c. container_stop C c timeout)"

text \<open>\<open>attrs.get(key, default)\<close> where \<open>attrs\<close> is a dict.\<close>

definition attr_get :: "pyval \<Rightarrow> string \<Rightarrow> pyval \<Rightarrow> exn + pyval" where
  "attr_get v key dflt =
     (case v of
        PDict kvs \<Rightarrow> Inr (case map_of kvs key of None \<Rightarrow> dflt | Some x \<Rightarrow> x)
      | _ \<Rightarrow> Inl (TypeError ''object has no attribute get''))"

fun mount_names :: "pyval list \<Rightarrow> exn + string list" where
  "mount_names [] = Inr []"
| "mount_names (m # ms) =
     result_bind (attr_get m ''Name'' PNone) (\<lambda>name.
     result_bind (mount_names ms) (\<lambda>names.
     Inr (if truthy name then py_str name # names else names)))"

definition extract_volume_names :: "docker_container \<Rightarrow> exn + string list" where
  "extract_volume_names container =
     result_bind (attr_get (dco_attrs container) ''Mounts'' (PList [])) (\<lambda>mounts.
     (case mounts of PList ms \<Rightarrow> mount_names ms | _ \<Rightarrow> Inl (TypeError ''object is not iterable'')))"

definition docker_destroy_lab :: "'s docker_client \<Rightarrow> string \<Rightarrow> bool \<Rightarrow> ('s, unit) program" where
  "docker_destroy_lab C lab remove_persistent_volume =
     bnd (get_container C lab) (\<lambda>container.
     bnd (liftR (extract_volume_names container)) (\<lambda>mounts.
     bnd (container_remove C container True) (\<lambda>_.
     bnd (attempt (bnd (networks_get C (network_name lab)) (network_remove C)) (\<lambda>_. returns ())) (\<lambda>_.
     if remove_persistent_volume
     then for_each (\<lambda>name.
       attempt (bnd (volumes_get C name) (\<lambda>v. volume_remove C v True)) (\<lambda>_. returns ())) mounts
     else returns ()))))"

definition docker_exec_run :: "'s docker_client \<Rightarrow> string \<Rightarrow> string \<Rightarrow> ('s, RunExecutionResult) program" where
  "docker_exec_run C lab command =
     bnd (get_container C lab) (\<lambda>container.
     bnd (container_exec_run C container command) (\<lambda>(exit_code, output).
     returns \<lparr>rx_exit_code = exit_code, rx_stdout = output, rx_stderr = []\<rparr>))"

definition docker_get_logs :: "'s docker_client \<Rightarrow> string \<Rightarrow> pyval \<Rightarrow> ('s, string) program" where
  "docker_get_logs C lab tail = bnd (get_container C lab) (\<lambda>container. container_logs C container tail)"

definition docker_inspect_lab :: "'s docker_client \<Rightarrow> string \<Rightarrow> ('s, LabInspection) program" where
  "docker_inspect_lab C lab =
     bnd (get_container C lab) (\<lambda>container.
     bnd (container_reload C container) (\<lambda>container.
     bnd (liftR (attr_get (dco_attrs container) ''State'' (PDict []))) (\<lambda>state.
     bnd (liftR (attr_get state ''Status'' (PStr ''unknown''))) (\<lambda>status.
     returns \<lparr>li_lab_id = lab, li_backend = backend_name, li_container_name = container_name lab,
              li_status = py_str status, li_labels = lab_labels lab []\<rparr>))))"

subsection \<open>The adapter's contract\<close>

lemma inventory_sorted:
  assumes "docker_list_managed_labs C s = (Inr found, s')"
  shows "sorted (map li_lab_id found) \<and> (\<forall>li \<in> set found. li_backend li = backend_name)"
proof -
  have "wp (docker_list_managed_labs C) (\<lambda>r _. \<forall>found. r = Inr found \<longrightarrow>
      sorted (map li_lab_id found) \<and> (\<forall>li \<in> set found. li_backend li = backend_name)) s"
    unfolding docker_list_managed_labs_def wp
    by (rule wpI) (auto simp: inspection_of_def List.map_filter_def split: sum.splits)
  then show ?thesis using assms by (simp add: wp_def)
qed

lemma provisioned_lab:
  "docker_create_lab C clock_now i spec s = (Inr lab, s') \<Longrightarrow>
   lab = \<lparr>pl_lab_id = i, pl_backend = backend_name, pl_container_name = container_name i,
          pl_network_name = (if rs_network_mode spec = NET_DENY then None else Some (network_name i)),
          pl_volume_names = map mm_source (rs_managed_mounts spec)\<rparr>"
  by (auto simp: docker_create_lab_def bnd_def throw_def split: prod.splits sum.splits)

interpretation docker: runtime_adapter backend_name "docker_list_managed_labs C" "docker_create_lab C clock_now"
  for C :: "'s docker_client" and clock_now
  by unfold_locales (auto dest: inventory_sorted provisioned_lab)

end
