(* ===== verification/Docker_Rollback.thy ===== *)
theory Docker_Rollback
  imports Docker_Runtime
begin

section \<open>What creating a lab leaves behind, and the secrets a container gets\<close>

text \<open>
  What \<open>docker_create_lab\<close> relies on of the daemon is the predicate \<open>docker_laws\<close>, over the names of the
  networks, volumes and containers there are. Under it a creation that fails is undone. The environment of
  the container is the one the leases give, and a lease that is not approved or has expired is refused. The
  last part is a small daemon that satisfies the laws.
\<close>

subsection \<open>What is relied on of the daemon\<close>

text \<open>
  Networks, volumes and containers by name. A network with a name that is taken is refused (\<open>check_duplicate\<close>);
  creating a volume that exists returns it; a call that raises changes nothing; what exists can be removed.
\<close>

definition docker_laws :: "'s docker_client \<Rightarrow> ('s, datetime) program \<Rightarrow> ('s \<Rightarrow> string set) \<Rightarrow> ('s \<Rightarrow> string set) \<Rightarrow>
    ('s \<Rightarrow> string set) \<Rightarrow> bool" where
  "docker_laws C clock_now nets vols conts \<longleftrightarrow>
     (\<forall>n i ls s. wp (networks_create C n i True ls) (\<lambda>r s'. vols s' = vols s \<and> conts s' = conts s \<and>
        (case r of Inl e \<Rightarrow> nets s' = nets s | Inr x \<Rightarrow> x = n \<and> n \<notin> nets s \<and> nets s' = insert n (nets s))) s) \<and>
     (\<forall>v ls s. wp (volumes_create C v ls) (\<lambda>r s'. nets s' = nets s \<and> conts s' = conts s \<and>
        (case r of Inl e \<Rightarrow> vols s' = vols s | Inr x \<Rightarrow> x = v \<and> vols s' = insert v (vols s))) s) \<and>
     (\<forall>c s. wp (containers_create C c) (\<lambda>r s'. nets s' = nets s \<and> vols s' = vols s \<and>
        (case r of Inl e \<Rightarrow> conts s' = conts s | Inr x \<Rightarrow> conts s' = insert (cc_name c) (conts s))) s) \<and>
     (\<forall>n s. n \<in> nets s \<longrightarrow> wp (network_remove C n) (\<lambda>r s'. r = Inr () \<and> nets s' = nets s - {n} \<and>
        vols s' = vols s \<and> conts s' = conts s) s) \<and>
     (\<forall>v s. v \<in> vols s \<longrightarrow> wp (volume_remove C v True) (\<lambda>r s'. r = Inr () \<and> vols s' = vols s - {v} \<and>
        nets s' = nets s \<and> conts s' = conts s) s) \<and>
     (\<forall>s. wp clock_now (\<lambda>r s'. nets s' = nets s \<and> vols s' = vols s \<and> conts s' = conts s) s)"

lemma docker_lawsD:
  assumes "docker_laws C clock_now nets vols conts"
  shows "wp (networks_create C n i True ls) (\<lambda>r s'. vols s' = vols s \<and> conts s' = conts s \<and>
      (case r of Inl e \<Rightarrow> nets s' = nets s | Inr x \<Rightarrow> x = n \<and> n \<notin> nets s \<and> nets s' = insert n (nets s))) s"
    and "wp (volumes_create C v ls) (\<lambda>r s'. nets s' = nets s \<and> conts s' = conts s \<and>
      (case r of Inl e \<Rightarrow> vols s' = vols s | Inr x \<Rightarrow> x = v \<and> vols s' = insert v (vols s))) s"
    and "wp (containers_create C c) (\<lambda>r s'. nets s' = nets s \<and> vols s' = vols s \<and>
      (case r of Inl e \<Rightarrow> conts s' = conts s | Inr x \<Rightarrow> conts s' = insert (cc_name c) (conts s))) s"
    and "n \<in> nets s \<Longrightarrow> wp (network_remove C n) (\<lambda>r s'. r = Inr () \<and> nets s' = nets s - {n} \<and>
      vols s' = vols s \<and> conts s' = conts s) s"
    and "v \<in> vols s \<Longrightarrow> wp (volume_remove C v True) (\<lambda>r s'. r = Inr () \<and> vols s' = vols s - {v} \<and>
      nets s' = nets s \<and> conts s' = conts s) s"
    and "wp clock_now (\<lambda>r s'. nets s' = nets s \<and> vols s' = vols s \<and> conts s' = conts s) s"
  using assms unfolding docker_laws_def by blast+

subsection \<open>A failed creation is rolled back\<close>

lemma wp_outer [wp]: "wp (outer m) Q (s, l) = wp m (\<lambda>r s'. Q r (s', l)) s"
  by (simp add: wp_def outer_def case_prod_beta)

lemma wp_set_locals [wp]: "wp (set_locals f) Q (s, l) = Q (Inr ()) (s, f l)"
  by (simp add: set_locals_def wp)

definition volume_step :: "'s docker_client \<Rightarrow> str_dict \<Rightarrow> ManagedMount \<Rightarrow> ('s \<times> create_locals, unit) program" where
  "volume_step C ls m =
     bnd (outer (volumes_create C (mm_source m) ls)) (\<lambda>vol. set_locals (created_volumes_update (\<lambda>vs. vs @ [vol])))"

lemma volumes_loop:
  assumes laws: "docker_laws C clock_now nets vols conts"
  shows "wp (for_each (volume_step C ls) ms) (\<lambda>r (s', l'). nets s' = nets s \<and> conts s' = conts s \<and>
     created_network l' = created_network l \<and>
     (\<exists>k \<le> length ms. created_volumes l' = created_volumes l @ map mm_source (take k ms) \<and>
        vols s' = vols s \<union> set (map mm_source (take k ms)) \<and> (\<forall>u. r = Inr u \<longrightarrow> k = length ms))) (s, l)"
proof (induction ms arbitrary: s l)
  case Nil
  then show ?case by (simp add: wp)
next
  case (Cons m ms)
  have "wp (volumes_create C (mm_source m) ls) (\<lambda>r s'. nets s' = nets s \<and> conts s' = conts s \<and>
      (case r of Inl e \<Rightarrow> vols s' = vols s | Inr x \<Rightarrow> x = mm_source m \<and> vols s' = insert (mm_source m) (vols s))) s"
    by (rule docker_lawsD(2) [OF laws])
  then show ?case
    unfolding for_each.simps wp volume_step_def
  proof (rule wp_mono, goal_cases)
    case (1 r s1)
    show ?case
    proof (cases r)
      case (Inl e)
      with 1 show ?thesis by (auto intro: exI [of _ 0])
    next
      case (Inr x)
      let ?l = "created_volumes_update (\<lambda>vs. vs @ [mm_source m]) l"
      from 1 Inr have s1: "x = mm_source m" "nets s1 = nets s" "conts s1 = conts s" "vols s1 = insert (mm_source m) (vols s)"
        by auto
      have "wp (for_each (volume_step C ls) ms) (\<lambda>r (s', l'). nets s' = nets s \<and> conts s' = conts s \<and>
         created_network l' = created_network l \<and>
         (\<exists>k \<le> length (m # ms). created_volumes l' = created_volumes l @ map mm_source (take k (m # ms)) \<and>
            vols s' = vols s \<union> set (map mm_source (take k (m # ms))) \<and> (\<forall>u. r = Inr u \<longrightarrow> k = length (m # ms)))) (s1, ?l)"
      proof (rule wp_mono [OF Cons.IH [of s1 ?l]])
        fix r and sl :: "'a \<times> create_locals"
        assume "case sl of (s', l') \<Rightarrow> nets s' = nets s1 \<and> conts s' = conts s1 \<and> created_network l' = created_network ?l \<and>
           (\<exists>k \<le> length ms. created_volumes l' = created_volumes ?l @ map mm_source (take k ms) \<and>
              vols s' = vols s1 \<union> set (map mm_source (take k ms)) \<and> (\<forall>u. r = Inr u \<longrightarrow> k = length ms))"
        then obtain s' l' k where sl: "sl = (s', l')" "nets s' = nets s1" "conts s' = conts s1"
          "created_network l' = created_network l" and k: "k \<le> length ms"
          "created_volumes l' = created_volumes l @ mm_source m # map mm_source (take k ms)"
          "vols s' = vols s1 \<union> set (map mm_source (take k ms))" "\<forall>u. r = Inr u \<longrightarrow> k = length ms"
          by (auto split: prod.splits)
        then show "case sl of (s', l') \<Rightarrow> nets s' = nets s \<and> conts s' = conts s \<and> created_network l' = created_network l \<and>
           (\<exists>k \<le> length (m # ms). created_volumes l' = created_volumes l @ map mm_source (take k (m # ms)) \<and>
              vols s' = vols s \<union> set (map mm_source (take k (m # ms))) \<and> (\<forall>u. r = Inr u \<longrightarrow> k = length (m # ms)))"
          using s1 by (auto intro!: exI [of _ "Suc k"])
      qed
      then show ?thesis using s1(1) Inr by (simp add: volume_step_def [symmetric] wp)
    qed
  qed
qed

lemma roll_back_volumes:
  assumes laws: "docker_laws C clock_now nets vols conts" and "distinct vs" and "set vs \<subseteq> vols s"
  shows "wp (for_each (\<lambda>v. volume_remove C v True) vs) (\<lambda>r s'. r = Inr () \<and> vols s' = vols s - set vs \<and>
     nets s' = nets s \<and> conts s' = conts s) s"
  using assms(2,3)
proof (induction vs arbitrary: s)
  case (Cons v vs)
  have "wp (volume_remove C v True) (\<lambda>r s'. r = Inr () \<and> vols s' = vols s - {v} \<and> nets s' = nets s \<and> conts s' = conts s) s"
    using Cons.prems by (intro docker_lawsD(5) [OF laws]) simp
  then show ?case
    unfolding for_each.simps wp
  proof (rule wp_mono, goal_cases)
    case (1 r s1)
    then have s1: "r = Inr ()" "vols s1 = vols s - {v}" "nets s1 = nets s" "conts s1 = conts s" by auto
    have "set vs \<subseteq> vols s1" using Cons.prems s1(2) by auto
    from Cons.IH [OF _ this] Cons.prems(1) show ?case
      unfolding s1(1) sum.case by (simp, elim wp_mono) (use s1 in auto)
  qed
qed (simp add: wp)

lemma build_environment_quiet:
  assumes laws: "docker_laws C clock_now nets vols conts"
  shows "wp (build_environment clock_now spec) (\<lambda>r s'. nets s' = nets s \<and> vols s' = vols s \<and> conts s' = conts s) s"
proof -
  let ?I = "\<lambda>s'. nets s' = nets s \<and> vols s' = vols s \<and> conts s' = conts s"
  have "wp clock_now (\<lambda>r s'. ?I s') s'" if "?I s'" for s'
    using docker_lawsD(6) [OF laws, of s'] that by simp
  then have "keeps ?I clock_now" by (simp add: keeps_wp)
  then have "keeps ?I (build_environment clock_now spec)"
    unfolding build_environment_def add_secret_def by (intro keep)
  then show ?thesis by (simp add: keeps_wp)
qed

text \<open>What the body of the \<open>try\<close> has done when it ends, either way.\<close>

definition body_done :: "('s \<Rightarrow> string set) \<Rightarrow> ('s \<Rightarrow> string set) \<Rightarrow> ('s \<Rightarrow> string set) \<Rightarrow> string \<Rightarrow> RuntimeSpec \<Rightarrow> 's \<Rightarrow>
    nat \<Rightarrow> 's \<Rightarrow> create_locals \<Rightarrow> bool" where
  "body_done nets vols conts lab spec s k s' l \<longleftrightarrow> k \<le> length (rs_managed_mounts spec) \<and>
     created_volumes l = map mm_source (take k (rs_managed_mounts spec)) \<and>
     vols s' = vols s \<union> set (created_volumes l) \<and> conts s' = conts s \<and>
     (case created_network l of
        None \<Rightarrow> nets s' = nets s
      | Some n \<Rightarrow> n = network_name lab \<and> n \<notin> nets s \<and> nets s' = insert n (nets s))"

lemma wp_create_body:
  assumes laws: "docker_laws C clock_now nets vols conts"
  shows "wp (create_body C clock_now lab spec) (\<lambda>r (s', l). case r of
       Inl e \<Rightarrow> \<exists>k. body_done nets vols conts lab spec s k s' l
     | Inr u \<Rightarrow> (\<exists>s1. body_done nets vols conts lab spec s (length (rs_managed_mounts spec)) s1 l \<and>
         (created_network l = None) = (rs_network_mode spec = NET_DENY) \<and>
         nets s' = nets s1 \<and> vols s' = vols s1 \<and> conts s' = insert (container_name lab) (conts s)))
     (s, \<lparr>created_network = None, created_volumes = []\<rparr>)" (is "wp _ ?Q (s, ?l0)")
proof -
  let ?n = "if rs_network_mode spec = NET_DENY then None else Some (network_name lab)"
  let ?ls = "lab_labels lab (rs_labels spec)" and ?ms = "rs_managed_mounts spec"
  let ?rest = "bnd (for_each (volume_step C ?ls) ?ms) (\<lambda>_.
     bnd (outer (build_environment clock_now spec)) (\<lambda>environment.
     outer (containers_create C
       \<lparr>cc_image = rs_image spec, cc_name = container_name lab, cc_command = rs_command spec,
        cc_detach = True, cc_labels = ?ls, cc_environment = environment,
        cc_volumes = build_volumes ?ms, cc_network = ?n, cc_network_disabled = (rs_network_mode spec = NET_DENY),
        cc_nano_cpus = rs_cpu_limit spec * 1000000000, cc_mem_limit = show_int (rs_memory_mb spec) @ ''m'',
        cc_read_only = (rs_persistence_mode spec = EPHEMERAL)\<rparr>)))"
  have body: "create_body C clock_now lab spec = bnd (case ?n of None \<Rightarrow> returns ()
      | Some n \<Rightarrow> bnd (outer (networks_create C n (rs_network_mode spec = NET_RESTRICTED) True ?ls)) (\<lambda>net.
          set_locals (created_network_update (\<lambda>_. Some net)))) (\<lambda>_. ?rest)"
    unfolding create_body_def volume_step_def Let_def by simp
  have make: "wp (containers_create C c) (\<lambda>r s'. nets s' = nets s1 \<and> vols s' = vols s1 \<and>
      (case r of Inl e \<Rightarrow> conts s' = conts s1 | Inr x \<Rightarrow> conts s' = insert (cc_name c) (conts s1))) s1" for c s1
    by (rule docker_lawsD(3) [OF laws])
  have rest: "wp ?rest ?Q (s0, l)"
    if "created_volumes l = []" "vols s0 = vols s" "conts s0 = conts s"
      "(created_network l = None) = (rs_network_mode spec = NET_DENY)"
      "case created_network l of None \<Rightarrow> nets s0 = nets s
       | Some n \<Rightarrow> n = network_name lab \<and> n \<notin> nets s \<and> nets s0 = insert n (nets s)" for s0 l
    unfolding wp_bnd
  proof (rule wp_mono [OF volumes_loop [OF laws]], goal_cases)
    case (1 r sl)
    obtain s1 l1 where sl: "sl = (s1, l1)" by (cases sl)
    with 1 obtain k where k: "k \<le> length ?ms" "\<forall>u. r = Inr u \<longrightarrow> k = length ?ms" and
      l1: "created_network l1 = created_network l" and
      at: "created_volumes l1 = created_volumes l @ map mm_source (take k ?ms)" "nets s1 = nets s0" "conts s1 = conts s0"
        "vols s1 = vols s0 \<union> set (map mm_source (take k ?ms))" by auto
    have b: "body_done nets vols conts lab spec s k s1 l1"
      unfolding body_done_def l1 using k(1) at that by (simp split: option.splits)
    show ?case
    proof (cases r)
      case (Inl e)
      then show ?thesis using sl b by auto
    next
      case (Inr u)
      then have b: "body_done nets vols conts lab spec s (length ?ms) s1 l1" using b k(2) by simp
      then have c1: "conts s1 = conts s" by (simp add: body_done_def)
      have same: "body_done nets vols conts lab spec s (length ?ms) s2 l1"
        if "nets s2 = nets s1" "vols s2 = vols s1" "conts s2 = conts s1" for s2
        using b that by (simp add: body_done_def split: option.splits)
      show ?thesis
        unfolding Inr sl wp_outer sum.case wp_bnd
      proof (rule wp_mono [OF build_environment_quiet [OF laws, of _ s1]], goal_cases)
        case (1 r2 s2)
        show ?case
        proof (cases r2)
          case (Inl e)
          with 1 show ?thesis using same [of s2] c1 by auto
        next
          case (Inr environment)
          show ?thesis
            unfolding Inr sum.case wp_outer
          proof (rule wp_mono [OF make], goal_cases)
            case (1 r3 s3)
            with \<open>nets s2 = _ \<and> _\<close> show ?case
              using same [of s3] b l1 that(4) c1 by (auto split: sum.splits intro: exI [of _ s1])
          qed
        qed
      qed
    qed
  qed
  show ?thesis
  proof (cases "rs_network_mode spec = NET_DENY")
    case True
    then have "wp ?rest ?Q (s, ?l0)" by (intro rest) simp_all
    then show ?thesis using True unfolding body wp_bnd by (simp add: wp_returns)
  next
    case False
    have "wp (networks_create C (network_name lab) (rs_network_mode spec = NET_RESTRICTED) True ?ls)
        (\<lambda>r s'. vols s' = vols s \<and> conts s' = conts s \<and> (case r of Inl e \<Rightarrow> nets s' = nets s
          | Inr x \<Rightarrow> x = network_name lab \<and> network_name lab \<notin> nets s \<and> nets s' = insert (network_name lab) (nets s))) s"
      by (rule docker_lawsD(1) [OF laws])
    then have first: "wp (bnd (outer (networks_create C (network_name lab) (rs_network_mode spec = NET_RESTRICTED) True ?ls)) (\<lambda>net.
          set_locals (created_network_update (\<lambda>_. Some net))))
          (\<lambda>r sl. case r of Inl e \<Rightarrow> ?Q (Inl e) sl | Inr u \<Rightarrow> R sl) (s, ?l0)"
      if R: "\<And>s0. vols s0 = vols s \<Longrightarrow> conts s0 = conts s \<Longrightarrow> network_name lab \<notin> nets s \<Longrightarrow>
        nets s0 = insert (network_name lab) (nets s) \<Longrightarrow> R (s0, ?l0\<lparr>created_network := Some (network_name lab)\<rparr>)" for R
      unfolding wp
      by (elim wp_mono) (use R in \<open>auto simp: body_done_def split: sum.splits intro: exI [of _ 0]\<close>)
    have "create_body C clock_now lab spec = bnd (bnd (outer (networks_create C (network_name lab)
        (rs_network_mode spec = NET_RESTRICTED) True ?ls)) (\<lambda>net. set_locals (created_network_update (\<lambda>_. Some net))))
        (\<lambda>_. ?rest)"
      unfolding body using False by simp
    then show ?thesis
      by (simp only:, subst wp_bnd, intro first rest) (simp_all add: False)
  qed
qed

text \<open>
  A creation that fails leaves networks and containers as they were. Of the volumes it removes those it
  asked for before it failed, also the ones that had been there before, with the data in them.
\<close>

lemma wp_docker_create_lab:
  assumes laws: "docker_laws C clock_now nets vols conts" and dist: "distinct (map mm_source (rs_managed_mounts spec))"
  shows "wp (docker_create_lab C clock_now lab spec) (\<lambda>r s'. case r of
       Inl e \<Rightarrow> nets s' = nets s \<and> conts s' = conts s \<and>
         (\<exists>k \<le> length (rs_managed_mounts spec). vols s' = vols s - set (map mm_source (take k (rs_managed_mounts spec))))
     | Inr p \<Rightarrow> nets s' = nets s \<union> set_option (pl_network_name p) \<and> vols s' = vols s \<union> set (pl_volume_names p) \<and>
         conts s' = insert (pl_container_name p) (conts s)) s"
proof -
  let ?s0 = "(s, \<lparr>created_network = None, created_volumes = []\<rparr>)"
  obtain r s' l where run: "create_body C clock_now lab spec ?s0 = (r, (s', l))" by (metis surj_pair)
  note body = wp_result [OF wp_create_body [OF laws] run]
  show ?thesis
  proof (cases r)
    case (Inl e)
    with body obtain k where b: "body_done nets vols conts lab spec s k s' l" by auto
    let ?vs = "created_volumes l"
    have "distinct ?vs" "?vs = map mm_source (take k (rs_managed_mounts spec))" "k \<le> length (rs_managed_mounts spec)"
      using b dist distinct_take [of "map mm_source (rs_managed_mounts spec)" k] by (simp_all add: body_done_def take_map)
    have volumes: "wp (for_each (\<lambda>v. volume_remove C v True) ?vs) (\<lambda>r s2. r = Inr () \<and> vols s2 = vols s - set ?vs \<and>
        nets s2 = nets s1 \<and> conts s2 = conts s1) s1" if "vols s1 = vols s \<union> set ?vs" for s1
      by (rule wp_mono [OF roll_back_volumes [OF laws \<open>distinct ?vs\<close>]]) (use that in auto)
    have "wp (roll_back C l) (\<lambda>r s2. r = Inr () \<and> nets s2 = nets s \<and> conts s2 = conts s \<and> vols s2 = vols s - set ?vs) s'"
    proof (cases "created_network l")
      case None
      with b show ?thesis
        unfolding roll_back_def wp_bnd by (simp add: wp_returns) (rule wp_mono [OF volumes], auto simp: body_done_def)
    next
      case (Some n)
      with b have "n \<in> nets s'" and n: "nets s' - {n} = nets s" "vols s' = vols s \<union> set ?vs" "conts s' = conts s"
        by (auto simp: body_done_def)
      show ?thesis
        unfolding roll_back_def wp_bnd Some option.case
        by (rule wp_mono [OF docker_lawsD(4) [OF laws \<open>n \<in> nets s'\<close>]])
           (use n in \<open>auto intro!: wp_mono [OF volumes]\<close>)
    qed
    then have "wp (bnd (roll_back C l) (\<lambda>_. throw e)) (\<lambda>r s2. r = Inl e \<and> nets s2 = nets s \<and> conts s2 = conts s \<and>
        vols s2 = vols s - set ?vs) s'"
      unfolding wp_bnd by (elim wp_mono) (simp add: wp)
    moreover have "docker_create_lab C clock_now lab spec s = bnd (roll_back C l) (\<lambda>_. throw e) s'"
      using run Inl by (simp add: docker_create_lab_def)
    ultimately obtain s2 where "docker_create_lab C clock_now lab spec s = (Inl e, s2)"
      "nets s2 = nets s" "conts s2 = conts s" "vols s2 = vols s - set ?vs"
      by (auto simp: wp_def split: prod.splits)
    then show ?thesis using \<open>?vs = _\<close> \<open>k \<le> _\<close> by (auto simp: wp_def)
  next
    case (Inr u)
    with body show ?thesis
      using run by (auto simp: wp_def docker_create_lab_def body_done_def split: option.splits if_splits)
  qed
qed

subsection \<open>The secrets of a container\<close>

text \<open>With the clock at one instant: the first lease that is not approved or has expired is named in a
  \<open>ValueError\<close>; if there is none the environment holds the value of each lease, the last one of a name.\<close>

definition lease_refusal :: "datetime \<Rightarrow> SecretLease \<Rightarrow> exn option" where
  "lease_refusal now lease =
     (if \<not> sl_approved lease then Some (ValueError (''secret lease '' @ sl_name lease @ '' is not approved''))
      else case py_less now (sl_expires_at lease) of
        Inl e \<Rightarrow> Some e
      | Inr True \<Rightarrow> None
      | Inr False \<Rightarrow> Some (ValueError (''secret lease '' @ sl_name lease @ '' has expired'')))"

lemma add_secret_run:
  "add_secret (gets (\<lambda>_. now)) environment lease s =
     (case lease_refusal now lease of
        Some e \<Rightarrow> (Inl e, s)
      | None \<Rightarrow> (Inr (AList.update (sl_name lease) (sl_value lease) environment), s))"
  by (simp add: add_secret_def lease_refusal_def is_active_def bnd_def guard_def check_def gets_def liftR_def
      returns_def split: sum.splits bool.splits)

lemma build_environment_run:
  "build_environment (gets (\<lambda>_. now)) spec s =
     (case find (\<lambda>l. lease_refusal now l \<noteq> None) (rs_secret_leases spec) of
        Some l \<Rightarrow> (Inl (the (lease_refusal now l)), s)
      | None \<Rightarrow> (Inr (dict_update [] (map (\<lambda>l. (sl_name l, sl_value l)) (rs_secret_leases spec))), s))"
proof -
  have "foldM (add_secret (gets (\<lambda>_. now))) env ls s =
     (case find (\<lambda>l. lease_refusal now l \<noteq> None) ls of
        Some l \<Rightarrow> (Inl (the (lease_refusal now l)), s)
      | None \<Rightarrow> (Inr (dict_update env (map (\<lambda>l. (sl_name l, sl_value l)) ls)), s))" for env ls
    by (induction ls arbitrary: env)
       (auto simp: dict_update_def returns_def bnd_def add_secret_run split: option.splits)
  then show ?thesis by (simp add: build_environment_def)
qed

lemma leased_value:
  assumes "\<And>l. l \<in> set ls \<Longrightarrow> f (sl_name l) = Some (sl_value l)" and "name \<in> sl_name ` set ls"
  shows "map_of (rev (map (\<lambda>l. (sl_name l, sl_value l)) ls)) name = f name"
  using assms by (induction ls rule: rev_induct) auto

subsection \<open>A small daemon\<close>

text \<open>Names only; it knows no image called \<open>missing\<close>.\<close>

record daemon =
  d_networks :: "string list"
  d_volumes :: "string list"
  d_containers :: "string list"

definition daemon_client :: "daemon docker_client" where
  "daemon_client =
     \<lparr>networks_create = (\<lambda>n i d ls s. if n \<in> set (d_networks s) then (Inl (DockerException ''conflict''), s)
        else (Inr n, s\<lparr>d_networks := n # d_networks s\<rparr>)),
      networks_get = (\<lambda>n s. if n \<in> set (d_networks s) then (Inr n, s) else (Inl (DockerException ''not found''), s)),
      network_remove = (\<lambda>n s. (Inr (), s\<lparr>d_networks := removeAll n (d_networks s)\<rparr>)),
      volumes_create = (\<lambda>v ls s. (Inr v, s\<lparr>d_volumes := List.insert v (d_volumes s)\<rparr>)),
      volumes_get = (\<lambda>v s. if v \<in> set (d_volumes s) then (Inr v, s) else (Inl (DockerException ''not found''), s)),
      volume_remove = (\<lambda>v f s. (Inr (), s\<lparr>d_volumes := removeAll v (d_volumes s)\<rparr>)),
      containers_create = (\<lambda>c s. if cc_image c = ''missing'' then (Inl (DockerException ''no such image''), s)
        else (Inr (), s\<lparr>d_containers := cc_name c # d_containers s\<rparr>)),
      containers_get = (\<lambda>n s. if n \<in> set (d_containers s)
        then (Inr \<lparr>dco_name = Some n, dco_status = Some ''created'', dco_labels = [], dco_attrs = PDict []\<rparr>, s)
        else (Inl (DockerException ''not found''), s)),
      containers_list = (\<lambda>a f s. (Inr [], s)),
      container_start = (\<lambda>c s. (Inr (), s)),
      container_stop = (\<lambda>c t s. (Inr (), s)),
      container_remove = (\<lambda>c f s. (Inr (), s\<lparr>d_containers := filter (\<lambda>n. Some n \<noteq> dco_name c) (d_containers s)\<rparr>)),
      container_reload = (\<lambda>c s. (Inr c, s)),
      container_exec_run = (\<lambda>c cmd s. (Inr (0, []), s)),
      container_logs = (\<lambda>c t s. (Inr [], s))\<rparr>"

lemma daemon_laws:
  "docker_laws daemon_client (gets (\<lambda>_. now)) (\<lambda>s. set (d_networks s)) (\<lambda>s. set (d_volumes s)) (\<lambda>s. set (d_containers s))"
  by (auto simp: docker_laws_def daemon_client_def wp_def gets_def)

end
