(* ===== verification/Docker_Probe.thy ===== *)
theory Docker_Probe
  imports Runtime Py_Value
begin

section \<open>The Docker probe\<close>

text \<open>
  \<open>labos/runtimes/docker_probe.py\<close>. What the probe asks the operating system is a record of programs on
  the state of the host: the user, the groups and their names, the socket's metadata, the environment. A
  Docker client is what its \<open>ping\<close> does; \<open>from_env\<close> and \<open>which\<close> are the defaults of the probe's arguments.
\<close>

record os_stat =
  st_uid :: int
  st_gid :: int
  st_mode :: int

record 's os_queries =
  getuser :: "('s, string) program"
  getgroups :: "('s, int list) program"
  getgrgid :: "int \<Rightarrow> ('s, string) program"
  getpwuid :: "int \<Rightarrow> ('s, string) program"
  os_path_exists :: "string \<Rightarrow> ('s, bool) program"
  os_stat_of :: "string \<Rightarrow> ('s, os_stat) program"
  os_environ :: "('s, str_dict) program"
  default_which :: "string \<Rightarrow> ('s, string option) program"
  from_env :: "('s, ('s, unit) program) program"

definition DEFAULT_DOCKER_TARGET :: string where
  "DEFAULT_DOCKER_TARGET = ''unix:///var/run/docker.sock''"

record DockerEnvironmentProbe =
  dp_cli_present :: bool
  dp_cli_path :: "string option"
  dp_daemon_reachable :: bool
  dp_daemon_error :: "string option"
  dp_detail :: string
  dp_issue_code :: string
  dp_remediation :: string
  dp_current_user :: "string option"
  dp_user_groups :: "string list"
  dp_daemon_target :: "string option"
  dp_socket_path :: "string option"
  dp_socket_exists :: "bool option"
  dp_socket_owner :: "string option"
  dp_socket_group :: "string option"
  dp_socket_mode :: "string option"
  dp_user_in_socket_group :: "bool option"

definition probe_ready :: "DockerEnvironmentProbe \<Rightarrow> bool" where
  "probe_ready p \<longleftrightarrow> dp_cli_present p \<and> dp_daemon_reachable p"

record DockerAccessContext =
  ac_current_user :: "string option"
  ac_user_groups :: "string list"
  ac_daemon_target :: string
  ac_socket_path :: "string option"
  ac_socket_exists :: "bool option"
  ac_socket_owner :: "string option"
  ac_socket_group :: "string option"
  ac_socket_mode :: "string option"
  ac_user_in_socket_group :: "bool option"

subsection \<open>Strings\<close>

text \<open>\<open>str.lower\<close> on code points below 256, \<open>in\<close> on strings, and \<open>f"{n:o}"\<close>.\<close>

definition lower_char :: "char \<Rightarrow> char" where
  "lower_char c = (let n = (of_char c :: nat)
     in if (65 \<le> n \<and> n \<le> 90) \<or> (192 \<le> n \<and> n \<le> 222 \<and> n \<noteq> 215) then char_of (n + 32) else c)"

definition lower :: "string \<Rightarrow> string" where
  "lower s = map lower_char s"

fun contains :: "string \<Rightarrow> string \<Rightarrow> bool" where
  "contains s t = (startswith s t \<or> (case s of [] \<Rightarrow> False | _ # r \<Rightarrow> contains r t))"

declare contains.simps [simp del]

lemma contains_sublist: "contains s t \<longleftrightarrow> sublist t s"
proof (induction s)
  case Nil
  then show ?case by (simp add: contains.simps startswith_def)
next
  case (Cons c s)
  then show ?case by (simp add: contains.simps [of "c # s"] startswith_def sublist_Cons_right)
qed

fun show_octal :: "nat \<Rightarrow> string" where
  "show_octal n = (if n < 8 then [char_of (48 + n)] else show_octal (n div 8) @ [char_of (48 + n mod 8)])"

declare show_octal.simps [simp del]

definition S_IMODE :: "int \<Rightarrow> int" where
  "S_IMODE mode = mode mod 4096"

subsection \<open>The probe\<close>

definition classify_daemon_error :: "string \<Rightarrow> string \<times> string" where
  "classify_daemon_error err =
     (let normalized = lower err
      in if contains normalized ''permission denied''
         then (''daemon_permission_denied'',
               ''run on a host/user that can access the Docker daemon '' @
               ''(for example via docker group membership or a rootless Docker context)'')
         else (''daemon_unreachable'', ''start a reachable Docker daemon or point the client at one''))"

definition docker_target :: "str_dict \<Rightarrow> string" where
  "docker_target env = (case map_of env ''DOCKER_HOST'' of None \<Rightarrow> DEFAULT_DOCKER_TARGET | Some t \<Rightarrow> t)"

definition socket_path_from_target :: "string \<Rightarrow> string option" where
  "socket_path_from_target daemon_target =
     (if startswith daemon_target ''unix://'' then Some (drop 7 daemon_target) else None)"

definition access_context :: "'s os_queries \<Rightarrow> str_dict \<Rightarrow> ('s, DockerAccessContext) program" where
  "access_context OS env =
     (let daemon_target = docker_target env
      in bnd (getuser OS) (\<lambda>current_user.
         bnd (getgroups OS) (\<lambda>gids.
         bnd (mapM (getgrgid OS) gids) (\<lambda>names.
         let user_groups = sort (remdups names)
         in case socket_path_from_target daemon_target of
              None \<Rightarrow> returns
                \<lparr>ac_current_user = Some current_user, ac_user_groups = user_groups, ac_daemon_target = daemon_target,
                 ac_socket_path = None, ac_socket_exists = None, ac_socket_owner = None, ac_socket_group = None,
                 ac_socket_mode = None, ac_user_in_socket_group = None\<rparr>
            | Some socket_path \<Rightarrow>
                bnd (os_path_exists OS socket_path) (\<lambda>socket_exists.
                if \<not> socket_exists then returns
                  \<lparr>ac_current_user = Some current_user, ac_user_groups = user_groups, ac_daemon_target = daemon_target,
                   ac_socket_path = Some socket_path, ac_socket_exists = Some False, ac_socket_owner = None,
                   ac_socket_group = None, ac_socket_mode = None, ac_user_in_socket_group = None\<rparr>
                else
                  bnd (os_stat_of OS socket_path) (\<lambda>stat_result.
                  bnd (getpwuid OS (st_uid stat_result)) (\<lambda>socket_owner.
                  bnd (getgrgid OS (st_gid stat_result)) (\<lambda>socket_group.
                  returns
                    \<lparr>ac_current_user = Some current_user, ac_user_groups = user_groups, ac_daemon_target = daemon_target,
                     ac_socket_path = Some socket_path, ac_socket_exists = Some True,
                     ac_socket_owner = Some socket_owner, ac_socket_group = Some socket_group,
                     ac_socket_mode = Some (show_octal (nat (S_IMODE (st_mode stat_result)))),
                     ac_user_in_socket_group = Some (socket_group \<in> set user_groups)\<rparr>))))))))"

text \<open>The fields of the three reports that come from the access context.\<close>

definition environment_probe :: "DockerAccessContext \<Rightarrow> bool \<Rightarrow> string option \<Rightarrow> bool \<Rightarrow> string option \<Rightarrow> string \<Rightarrow>
    string \<Rightarrow> string \<Rightarrow> DockerEnvironmentProbe" where
  "environment_probe ac cli_present cli_path daemon_reachable daemon_error detail issue_code remediation =
     \<lparr>dp_cli_present = cli_present, dp_cli_path = cli_path, dp_daemon_reachable = daemon_reachable,
      dp_daemon_error = daemon_error, dp_detail = detail, dp_issue_code = issue_code, dp_remediation = remediation,
      dp_current_user = ac_current_user ac, dp_user_groups = ac_user_groups ac,
      dp_daemon_target = Some (ac_daemon_target ac), dp_socket_path = ac_socket_path ac,
      dp_socket_exists = ac_socket_exists ac, dp_socket_owner = ac_socket_owner ac,
      dp_socket_group = ac_socket_group ac, dp_socket_mode = ac_socket_mode ac,
      dp_user_in_socket_group = ac_user_in_socket_group ac\<rparr>"

definition probe_docker_environment :: "'s os_queries \<Rightarrow> ('s, ('s, unit) program) program option \<Rightarrow>
    (string \<Rightarrow> ('s, string option) program) \<Rightarrow> str_dict option \<Rightarrow> ('s, DockerEnvironmentProbe) program" where
  "probe_docker_environment OS client_factory which env =
     bnd (case env of None \<Rightarrow> os_environ OS | Some e \<Rightarrow> if e = [] then os_environ OS else returns e) (\<lambda>runtime_env.
     bnd (access_context OS runtime_env) (\<lambda>ac.
     bnd (which ''docker'') (\<lambda>docker_path.
     case docker_path of
       None \<Rightarrow> returns (environment_probe ac False None False None ''docker CLI is not installed or not on PATH''
         ''cli_missing'' ''install Docker CLI and ensure it is available on PATH'')
     | Some cli \<Rightarrow>
         (let factory = (case client_factory of None \<Rightarrow> from_env OS | Some f \<Rightarrow> f)
          in bnd (captured (bnd factory (\<lambda>ping. ping))) (\<lambda>outcome.
             case outcome of
               Inl exc \<Rightarrow>
                 (case classify_daemon_error (exn_str exc) of (issue_code, remediation) \<Rightarrow>
                  returns (environment_probe ac True (Some cli) False (Some (exn_str exc))
                    (''docker daemon is not reachable: '' @ exn_str exc) issue_code remediation))
             | Inr _ \<Rightarrow> returns (environment_probe ac True (Some cli) True None
                 ''docker CLI and daemon are available'' ''ready'' ''none''))))))"

subsection \<open>What the probe reports\<close>

text \<open>Each report has one of four issue codes, and the fields agree with it.\<close>

definition probe_consistent :: "DockerEnvironmentProbe \<Rightarrow> bool" where
  "probe_consistent p \<longleftrightarrow>
     (dp_issue_code p = ''ready'' \<and> probe_ready p \<and> dp_daemon_error p = None \<and> dp_remediation p = ''none'' \<and>
        dp_cli_path p \<noteq> None) \<or>
     (dp_issue_code p = ''cli_missing'' \<and> \<not> dp_cli_present p \<and> \<not> dp_daemon_reachable p \<and> dp_cli_path p = None \<and>
        dp_daemon_error p = None \<and> dp_remediation p \<noteq> ''none'') \<or>
     (\<exists>e. dp_daemon_error p = Some e \<and> dp_detail p = ''docker daemon is not reachable: '' @ e \<and> dp_cli_present p \<and>
        \<not> dp_daemon_reachable p \<and> dp_remediation p \<noteq> ''none'' \<and>
        dp_issue_code p = (if sublist ''permission denied'' (lower e) then ''daemon_permission_denied'' else ''daemon_unreachable''))"

lemma probe_reports:
  "probe_consistent (environment_probe ac True (Some cli) True None detail ''ready'' ''none'')"
  "probe_consistent (environment_probe ac False None False None detail ''cli_missing''
     ''install Docker CLI and ensure it is available on PATH'')"
  "classify_daemon_error e = (code, remedy) \<Longrightarrow> probe_consistent (environment_probe ac True (Some cli) False (Some e)
     (''docker daemon is not reachable: '' @ e) code remedy)"
  by (auto simp: environment_probe_def probe_consistent_def probe_ready_def classify_daemon_error_def
      contains_sublist Let_def split: if_splits)

lemma probe_yields: "yields probe_consistent (probe_docker_environment OS factory which env)"
  unfolding probe_docker_environment_def
  by (intro yields_bnd yields_let yields_option yields_sum)
     (auto simp del: append.simps split: prod.splits intro!: yields_returns probe_reports)

text \<open>The system answers the probe's questions: in particular each group number has a name.\<close>

definition queries_answered :: "'s os_queries \<Rightarrow> bool" where
  "queries_answered OS \<longleftrightarrow> returning (getuser OS) \<and> returning (getgroups OS) \<and> (\<forall>g. returning (getgrgid OS g)) \<and>
     (\<forall>u. returning (getpwuid OS u)) \<and> (\<forall>p. returning (os_path_exists OS p)) \<and> (\<forall>p. returning (os_stat_of OS p)) \<and>
     returning (os_environ OS)"

lemma access_returning: "queries_answered OS \<Longrightarrow> returning (access_context OS e)"
  unfolding queries_answered_def access_context_def
  by (intro returning_let returning_bnd returning_option returning_if returning_mapM returning_returns) simp_all

text \<open>Nothing the daemon does makes the probe raise; only the questions to the system can.\<close>

lemma probe_returning:
  assumes OS: "queries_answered OS" and which: "returning (which ''docker'')"
  shows "returning (probe_docker_environment OS factory which env)"
proof -
  have "returning (os_environ OS)" using OS by (simp add: queries_answered_def)
  then show ?thesis
    unfolding probe_docker_environment_def
    by (intro returning_bnd returning_option returning_let returning_sum which access_returning [OF OS])
       (auto simp: returning_captured returning_returns split: prod.splits if_splits)
qed

text \<open>A group that has a number and no name, as in many containers, ends the probe with a \<open>KeyError\<close>.\<close>

lemma probe_nameless_group:
  assumes "getuser OS s = (Inr u, s)" "getgroups OS s = (Inr [g], s)" "getgrgid OS g s = (Inl (KeyError k), s)"
  shows "probe_docker_environment OS factory which (Some [(x, y)]) s = (Inl (KeyError k), s)"
  using assms by (simp add: probe_docker_environment_def access_context_def bnd_def Let_def returns_def)

lemma show_octal_mode: "show_octal 432 = ''660''"
  by code_simp

end
