(* ===== verification/Cli_Host.thy ===== *)
theory Cli_Host
  imports Docker_Probe Json_Roundtrip
begin

section \<open>The command line: its host and its terminal\<close>

text \<open>
  \<open>labos/cli/main.py\<close>. A command runs on a console: the host, of any type, and the text written to standard
  output and standard error. What the commands use of the host is a record of programs on it: the HTTP
  client, child processes, temporary directories, the clock, and the questions of the Docker probe.
  \<open>typer.echo\<close> appends a line; \<open>typer.Exit\<close> is the exception \<open>Exit\<close>. A command that ends with another
  exception prints a traceback, which is not modelled, and exits with status 1. JSON documents are the ones
  \<open>json_loads\<close> reads: numbers with a fraction are outside the model.
\<close>

subsection \<open>The console\<close>

record 'h console =
  host :: 'h
  stdout_text :: string
  stderr_text :: string

type_synonym ('h, 'a) cmd = "('h console, 'a) program"

definition on_host :: "('h, 'a) program \<Rightarrow> ('h, 'a) cmd" where
  "on_host m c = (case m (host c) of (r, h) \<Rightarrow> (r, c\<lparr>host := h\<rparr>))"

definition echo :: "string \<Rightarrow> ('h, unit) cmd" where
  "echo message = modify (stdout_text_update (\<lambda>s. s @ message @ [CHR 10]))"

definition echo_err :: "string \<Rightarrow> ('h, unit) cmd" where
  "echo_err message = modify (stderr_text_update (\<lambda>s. s @ message @ [CHR 10]))"

text \<open>The pair of statements every error path ends in.\<close>

definition fail_with :: "string \<Rightarrow> ('h, 'a) cmd" where
  "fail_with message = bnd (echo_err message) (\<lambda>_. throw (Exit 1))"

definition emit_json :: "pyval \<Rightarrow> ('h, unit) cmd" where
  "emit_json payload = echo (json_dumps_indent 2 payload)"

definition exit_status :: "exn + unit \<Rightarrow> nat" where
  "exit_status r = (case r of Inr _ \<Rightarrow> 0 | Inl (Exit n) \<Rightarrow> n | Inl _ \<Rightarrow> 1)"

subsection \<open>The host\<close>

record http_response =
  status_code :: nat
  response_text :: string
  status_message :: string

record completed_process =
  cp_returncode :: int
  cp_stdout :: string
  cp_stderr :: string

text \<open>Times are in microseconds. The argument of \<open>http_request\<close> before the method is the timeout.\<close>

record 'h cli_host =
  http_request :: "string \<Rightarrow> int \<Rightarrow> string \<Rightarrow> string \<Rightarrow> pyval option \<Rightarrow> ('h, http_response) program"
  subprocess_run :: "string list \<Rightarrow> str_dict option \<Rightarrow> ('h, completed_process) program"
  probe_queries :: "'h os_queries"
  sys_executable :: string
  mkdtemp :: "string \<Rightarrow> ('h, string) program"
  bound_port :: "string \<Rightarrow> ('h, nat) program"
  create_all :: "string \<Rightarrow> ('h, unit) program"
  popen :: "string list \<Rightarrow> str_dict \<Rightarrow> ('h, nat) program"
  proc_poll :: "nat \<Rightarrow> ('h, int option) program"
  proc_terminate :: "nat \<Rightarrow> ('h, unit) program"
  proc_kill :: "nat \<Rightarrow> ('h, unit) program"
  proc_wait :: "nat \<Rightarrow> int \<Rightarrow> ('h, unit) program"
  monotonic :: "('h, int) program"
  sleep_for :: "int \<Rightarrow> ('h, unit) program"
  rmtree_ignoring_errors :: "string \<Rightarrow> ('h, unit) program"

definition probe_docker :: "'h cli_host \<Rightarrow> ('h, DockerEnvironmentProbe) cmd" where
  "probe_docker H = on_host (probe_docker_environment (probe_queries H) None (default_which (probe_queries H)) None)"

subsection \<open>Strings and untyped values\<close>

definition rstrip_slash :: "string \<Rightarrow> string" where
  "rstrip_slash s = rev (dropWhile (\<lambda>c. c = CHR ''/'') (rev s))"

definition normalize_api_url :: "string \<Rightarrow> string" where
  "normalize_api_url api_url = rstrip_slash api_url"

text \<open>\<open>a or b\<close> on strings and on optional strings.\<close>

definition or_str :: "string \<Rightarrow> string \<Rightarrow> string" where
  "or_str a b = (if a = [] then b else a)"

definition opt_or :: "string option \<Rightarrow> string \<Rightarrow> string" where
  "opt_or a b = (case a of None \<Rightarrow> b | Some s \<Rightarrow> or_str s b)"

text \<open>\<open>v[key]\<close>, \<open>len(v)\<close>, \<open>[item[key] for item in v]\<close> and \<open>isinstance(v, dict) and key in v\<close> on a value
  that came from JSON.\<close>

definition item_get :: "pyval \<Rightarrow> string \<Rightarrow> exn + pyval" where
  "item_get v key =
     (case v of
        PDict kvs \<Rightarrow> (case map_of kvs key of None \<Rightarrow> Inl (KeyError key) | Some x \<Rightarrow> Inr x)
      | PList _ \<Rightarrow> Inl (TypeError ''list indices must be integers or slices, not str'')
      | PStr _ \<Rightarrow> Inl (TypeError ''string indices must be integers, not str'')
      | _ \<Rightarrow> Inl (TypeError ''object is not subscriptable''))"

definition py_len :: "pyval \<Rightarrow> exn + int" where
  "py_len v =
     (case v of
        PList xs \<Rightarrow> Inr (int (length xs)) | PDict kvs \<Rightarrow> Inr (int (length kvs)) | PStr s \<Rightarrow> Inr (int (length s))
      | _ \<Rightarrow> Inl (TypeError ''object has no len()''))"

fun results :: "('a \<Rightarrow> exn + 'b) \<Rightarrow> 'a list \<Rightarrow> exn + 'b list" where
  "results f [] = Inr []"
| "results f (x # xs) = result_bind (f x) (\<lambda>y. result_bind (results f xs) (\<lambda>ys. Inr (y # ys)))"

definition items_of :: "pyval \<Rightarrow> exn + pyval list" where
  "items_of v =
     (case v of
        PList xs \<Rightarrow> Inr xs | PDict kvs \<Rightarrow> Inr (map (\<lambda>(k, _). PStr k) kvs) | PStr s \<Rightarrow> Inr (map (\<lambda>c. PStr [c]) s)
      | _ \<Rightarrow> Inl (TypeError ''object is not iterable''))"

definition column :: "string \<Rightarrow> pyval \<Rightarrow> exn + pyval" where
  "column key v = result_bind (items_of v) (\<lambda>xs. result_bind (results (\<lambda>x. item_get x key) xs) (\<lambda>ys. Inr (PList ys)))"

definition dict_item :: "pyval \<Rightarrow> string \<Rightarrow> pyval option" where
  "dict_item v key = (case v of PDict kvs \<Rightarrow> map_of kvs key | _ \<Rightarrow> None)"

subsection \<open>Requests\<close>

definition is_success :: "http_response \<Rightarrow> bool" where
  "is_success response \<longleftrightarrow> 200 \<le> status_code response \<and> status_code response \<le> 299"

definition raise_for_status :: "http_response \<Rightarrow> exn + unit" where
  "raise_for_status response =
     check (is_success response) (HTTPStatusError (response_text response) (status_message response))"

definition loads :: "string \<Rightarrow> exn + pyval" where
  "loads s = (case json_loads s of None \<Rightarrow> Inl JSONDecodeError | Some v \<Rightarrow> Inr v)"

definition request_json :: "'h cli_host \<Rightarrow> string \<Rightarrow> string \<Rightarrow> string \<Rightarrow> pyval option \<Rightarrow> ('h, pyval) cmd" where
  "request_json H api_url method path payload =
     attempt
       (bnd (on_host (http_request H (normalize_api_url api_url) 10000000 method path payload)) (\<lambda>response.
        bnd (liftR (raise_for_status response)) (\<lambda>_.
        liftR (loads (response_text response)))))
       (\<lambda>exc. case exc of
          HTTPStatusError body message \<Rightarrow> fail_with (or_str (strip body) message)
        | HTTPError message \<Rightarrow> fail_with message
        | _ \<Rightarrow> throw exc)"

definition parse_json_object :: "string \<Rightarrow> string option \<Rightarrow> ('h, pyval) cmd" where
  "parse_json_object option_name raw_value =
     (case raw_value of
        None \<Rightarrow> returns PNone
      | Some raw \<Rightarrow>
          (case json_loads raw of
             Some (PDict kvs) \<Rightarrow> returns (PDict kvs)
           | _ \<Rightarrow> fail_with (option_name @ '' must be a valid JSON object.'')))"

subsection \<open>Child processes\<close>

definition subprocess_env :: "'h cli_host \<Rightarrow> str_dict \<Rightarrow> ('h, str_dict) cmd" where
  "subprocess_env H env_overrides =
     bnd (on_host (os_environ (probe_queries H))) (\<lambda>env.
     returns (dict_update (AList.delete ''VIRTUAL_ENV'' env) env_overrides))"

text \<open>What a failed child is reported with: its error output, or its output, or the command.\<close>

definition run_checked :: "'h cli_host \<Rightarrow> string list \<Rightarrow> str_dict \<Rightarrow> string \<Rightarrow> ('h, string) cmd" where
  "run_checked H args env_overrides failure =
     bnd (subprocess_env H env_overrides) (\<lambda>env.
     bnd (on_host (subprocess_run H args (Some env))) (\<lambda>result.
     if cp_returncode result \<noteq> 0
     then fail_with (or_str (or_str (strip (cp_stderr result)) (strip (cp_stdout result))) failure)
     else returns (cp_stdout result)))"

definition run_cli_command :: "'h cli_host \<Rightarrow> string list \<Rightarrow> str_dict \<Rightarrow> ('h, string) cmd" where
  "run_cli_command H args env_overrides =
     run_checked H ([sys_executable H, ''-m'', ''labos.cli.main''] @ args) env_overrides
       (''CLI command failed: '' @ join '' '' args)"

definition run_cli_json_command :: "'h cli_host \<Rightarrow> string list \<Rightarrow> str_dict \<Rightarrow> ('h, pyval) cmd" where
  "run_cli_json_command H args env_overrides =
     bnd (run_cli_command H args env_overrides) (\<lambda>raw_output.
     case json_loads raw_output of
       None \<Rightarrow> fail_with (''CLI command did not return valid JSON: '' @ join '' '' args)
     | Some v \<Rightarrow> returns v)"

definition run_external_command :: "'h cli_host \<Rightarrow> string list \<Rightarrow> ('h, string) cmd" where
  "run_external_command H args = run_checked H args [] (''External command failed: '' @ join '' '' args)"

end
