(* ===== verification/Cli.thy ===== *)
theory Cli
  imports Cli_Host
begin

section \<open>The commands that wrap the API\<close>

text \<open>
  The operator's commands of \<open>labos/cli/main.py\<close>: each sends one request and prints the answer as indented
  JSON. The arguments are those \<open>typer\<close> has parsed, with its defaults filled in.
\<close>

definition call_api :: "'h cli_host \<Rightarrow> string \<Rightarrow> string \<Rightarrow> string \<Rightarrow> pyval option \<Rightarrow> ('h, unit) cmd" where
  "call_api H api_url method path payload = bnd (request_json H api_url method path payload) emit_json"

definition version_command :: "string \<Rightarrow> ('h, unit) cmd" where
  "version_command current = echo current"

subsection \<open>Profiles, labs and runs\<close>

definition profiles_list :: "'h cli_host \<Rightarrow> string \<Rightarrow> ('h, unit) cmd" where
  "profiles_list H api_url = call_api H api_url ''GET'' ''/profiles'' None"

definition labs_create :: "'h cli_host \<Rightarrow> string \<Rightarrow> string \<Rightarrow> string option \<Rightarrow> string option \<Rightarrow> string \<Rightarrow> ('h, unit) cmd" where
  "labs_create H profile_name requester_type base_snapshot_id metadata api_url =
     bnd (parse_json_object ''metadata'' metadata) (\<lambda>metadata.
     call_api H api_url ''POST'' ''/labs'' (Some (PDict
       [(''profile_name'', PStr profile_name), (''requester_type'', PStr requester_type),
        (''base_snapshot_id'', opt_str base_snapshot_id), (''metadata'', metadata)])))"

definition labs_list :: "'h cli_host \<Rightarrow> string \<Rightarrow> ('h, unit) cmd" where
  "labs_list H api_url = call_api H api_url ''GET'' ''/labs'' None"

definition labs_get :: "'h cli_host \<Rightarrow> string \<Rightarrow> string \<Rightarrow> ('h, unit) cmd" where
  "labs_get H lab api_url = call_api H api_url ''GET'' (''/labs/'' @ lab) None"

definition labs_destroy :: "'h cli_host \<Rightarrow> string \<Rightarrow> string \<Rightarrow> ('h, unit) cmd" where
  "labs_destroy H lab api_url = call_api H api_url ''DELETE'' (''/labs/'' @ lab) None"

definition runs_start :: "'h cli_host \<Rightarrow> string \<Rightarrow> string \<Rightarrow> string option \<Rightarrow> string \<Rightarrow> ('h, unit) cmd" where
  "runs_start H lab command metadata api_url =
     bnd (parse_json_object ''metadata'' metadata) (\<lambda>metadata.
     call_api H api_url ''POST'' ''/runs'' (Some (PDict
       [(''lab_id'', PStr lab), (''command'', PStr command), (''metadata'', metadata)])))"

definition runs_list :: "'h cli_host \<Rightarrow> string \<Rightarrow> ('h, unit) cmd" where
  "runs_list H api_url = call_api H api_url ''GET'' ''/runs'' None"

subsection \<open>Snapshots, exports, approvals and events\<close>

definition snapshots_list :: "'h cli_host \<Rightarrow> string \<Rightarrow> ('h, unit) cmd" where
  "snapshots_list H api_url = call_api H api_url ''GET'' ''/snapshots'' None"

definition snapshots_create :: "'h cli_host \<Rightarrow> string \<Rightarrow> string option \<Rightarrow> string \<Rightarrow> string \<Rightarrow> ('h, unit) cmd" where
  "snapshots_create H lab run requester_type api_url =
     call_api H api_url ''POST'' ''/snapshots'' (Some (PDict
       [(''lab_id'', PStr lab), (''run_id'', opt_str run), (''requester_type'', PStr requester_type)]))"

definition exports_request :: "'h cli_host \<Rightarrow> string \<Rightarrow> string \<Rightarrow> string option \<Rightarrow> string \<Rightarrow> string \<Rightarrow> ('h, unit) cmd" where
  "exports_request H lab source_path run requester_type api_url =
     call_api H api_url ''POST'' ''/exports'' (Some (PDict
       [(''lab_id'', PStr lab), (''source_path'', PStr source_path), (''run_id'', opt_str run),
        (''requester_type'', PStr requester_type)]))"

definition exports_list :: "'h cli_host \<Rightarrow> string \<Rightarrow> ('h, unit) cmd" where
  "exports_list H api_url = call_api H api_url ''GET'' ''/exports'' None"

definition approvals_list :: "'h cli_host \<Rightarrow> string \<Rightarrow> ('h, unit) cmd" where
  "approvals_list H api_url = call_api H api_url ''GET'' ''/approvals'' None"

definition approvals_approve :: "'h cli_host \<Rightarrow> string \<Rightarrow> string \<Rightarrow> string option \<Rightarrow> string \<Rightarrow> ('h, unit) cmd" where
  "approvals_approve H approval actor comment api_url =
     call_api H api_url ''POST'' (''/approvals/'' @ approval @ ''/approve'')
       (Some (PDict [(''actor'', PStr actor), (''comment'', opt_str comment)]))"

definition approvals_deny :: "'h cli_host \<Rightarrow> string \<Rightarrow> string \<Rightarrow> string option \<Rightarrow> string \<Rightarrow> ('h, unit) cmd" where
  "approvals_deny H approval actor comment api_url =
     call_api H api_url ''POST'' (''/approvals/'' @ approval @ ''/deny'')
       (Some (PDict [(''actor'', PStr actor), (''comment'', opt_str comment)]))"

definition events_list :: "'h cli_host \<Rightarrow> string \<Rightarrow> ('h, unit) cmd" where
  "events_list H api_url = call_api H api_url ''GET'' ''/events'' None"

subsection \<open>The scheduler\<close>

definition scheduler_enqueue :: "'h cli_host \<Rightarrow> string \<Rightarrow> string \<Rightarrow> string option \<Rightarrow> string option \<Rightarrow> string option \<Rightarrow>
    string option \<Rightarrow> int \<Rightarrow> string \<Rightarrow> ('h, unit) cmd" where
  "scheduler_enqueue H action requester profile_name lab command scheduled_for max_attempts api_url =
     (let normalized_action = map (\<lambda>c. if c = CHR ''-'' then CHR ''_'' else c) action
      in if normalized_action \<notin> {''create_lab'', ''start_run''}
         then fail_with ''action must be one of: create-lab, start-run''
         else call_api H api_url ''POST'' ''/scheduler/jobs'' (Some (PDict
           [(''action'', PStr normalized_action), (''requester_id'', PStr requester),
            (''profile_name'', opt_str profile_name), (''lab_id'', opt_str lab), (''command'', opt_str command),
            (''scheduled_for'', opt_str scheduled_for), (''max_attempts'', PInt max_attempts)])))"

definition scheduler_list :: "'h cli_host \<Rightarrow> string \<Rightarrow> ('h, unit) cmd" where
  "scheduler_list H api_url = call_api H api_url ''GET'' ''/scheduler/jobs'' None"

definition scheduler_dispatch_next :: "'h cli_host \<Rightarrow> string \<Rightarrow> ('h, unit) cmd" where
  "scheduler_dispatch_next H api_url = call_api H api_url ''POST'' ''/scheduler/jobs/dispatch-next'' None"

end
