(* ===== verification/Http.thy ===== *)
theory Http
  imports System Cli
begin

section \<open>The API over HTTP\<close>

text \<open>
  The route decorators and exception handlers of \<open>labos/api/app.py\<close> with the request bodies of
  \<open>labos/core/models.py\<close>: from a method, a path and a JSON body to a handler, and from what it returns or
  raises to a status and a JSON document. What FastAPI and pydantic decide is a parameter: how a number or a
  date is read from JSON, how a date and a document are written, the messages of validation errors, and the
  answer to a path that no route has. Fields of a body that its model does not name are ignored, which is
  pydantic's default and what these models rely on.
\<close>

record fastapi =
  to_int :: "pyval \<Rightarrow> int option"
  to_datetime :: "pyval \<Rightarrow> datetime option"
  datetime_json :: "datetime \<Rightarrow> string"
  render :: "pyval \<Rightarrow> string"
  validation_items :: "string \<Rightarrow> string \<Rightarrow> pyval option \<Rightarrow> (string \<times> string) list"
  no_route :: "string \<Rightarrow> string \<Rightarrow> nat \<times> string"
  status_text :: "nat \<Rightarrow> string \<Rightarrow> string"

subsection \<open>Request bodies\<close>

definition str_field :: "pyval \<Rightarrow> string \<Rightarrow> string option" where
  "str_field body key = (case dict_item body key of Some (PStr s) \<Rightarrow> Some s | _ \<Rightarrow> None)"

text \<open>A field with a default, read by a function that may refuse the value.\<close>

definition default_field :: "pyval \<Rightarrow> string \<Rightarrow> 'a \<Rightarrow> (pyval \<Rightarrow> 'a option) \<Rightarrow> 'a option" where
  "default_field body key dflt read = (case dict_item body key of None \<Rightarrow> Some dflt | Some v \<Rightarrow> read v)"

definition read_opt_str :: "pyval \<Rightarrow> string option option" where
  "read_opt_str v = (case v of PNone \<Rightarrow> Some None | PStr s \<Rightarrow> Some (Some s) | _ \<Rightarrow> None)"

definition opt_str_field :: "pyval \<Rightarrow> string \<Rightarrow> string option option" where
  "opt_str_field body key = default_field body key None read_opt_str"

definition read_requester :: "pyval \<Rightarrow> RequesterType option" where
  "read_requester v =
     (case v of PStr s \<Rightarrow> (case requester_type_of s of Inl _ \<Rightarrow> None | Inr r \<Rightarrow> Some r) | _ \<Rightarrow> None)"

definition requester_field :: "pyval \<Rightarrow> RequesterType option" where
  "requester_field body = default_field body ''requester_type'' REQ_HUMAN read_requester"

record LabCreateRequest =
  lc_profile_name :: string
  lc_requester_type :: RequesterType

definition lab_create_request_of :: "pyval \<Rightarrow> LabCreateRequest option" where
  "lab_create_request_of body =
     Option.bind (str_field body ''profile_name'') (\<lambda>p.
     Option.bind (Option.bind (dict_item body ''requester_type'') read_requester) (\<lambda>r.
     Some \<lparr>lc_profile_name = p, lc_requester_type = r\<rparr>))"

record RunCreateRequest =
  rc_lab_id :: string
  rc_command :: string
  rc_requester_type :: RequesterType

definition run_create_request_of :: "pyval \<Rightarrow> RunCreateRequest option" where
  "run_create_request_of body =
     Option.bind (str_field body ''lab_id'') (\<lambda>l.
     Option.bind (str_field body ''command'') (\<lambda>c.
     Option.bind (requester_field body) (\<lambda>r.
     Some \<lparr>rc_lab_id = l, rc_command = c, rc_requester_type = r\<rparr>)))"

record SecretLeaseCreateRequest =
  lsc_secret_name :: string
  lsc_requester_type :: RequesterType
  lsc_ttl_minutes :: int

definition secret_lease_create_request_of :: "fastapi \<Rightarrow> pyval \<Rightarrow> SecretLeaseCreateRequest option" where
  "secret_lease_create_request_of F body =
     Option.bind (str_field body ''secret_name'') (\<lambda>s.
     Option.bind (requester_field body) (\<lambda>r.
     Option.bind (default_field body ''ttl_minutes'' 15 (to_int F)) (\<lambda>t.
     if 1 \<le> t \<and> t \<le> 24 * 60 then Some \<lparr>lsc_secret_name = s, lsc_requester_type = r, lsc_ttl_minutes = t\<rparr> else None)))"

record SecretLeaseRevokeRequest =
  lv_actor :: string
  lv_reason :: "string option"

definition secret_lease_revoke_request_of :: "pyval \<Rightarrow> SecretLeaseRevokeRequest option" where
  "secret_lease_revoke_request_of body =
     Option.bind (str_field body ''actor'') (\<lambda>a.
     Option.bind (opt_str_field body ''reason'') (\<lambda>r. Some \<lparr>lv_actor = a, lv_reason = r\<rparr>))"

record ApprovalDecisionRequest =
  ad_actor :: string
  ad_comment :: "string option"

definition approval_decision_request_of :: "pyval \<Rightarrow> ApprovalDecisionRequest option" where
  "approval_decision_request_of body =
     Option.bind (str_field body ''actor'') (\<lambda>a.
     Option.bind (opt_str_field body ''comment'') (\<lambda>c. Some \<lparr>ad_actor = a, ad_comment = c\<rparr>))"

record SnapshotCreateRequest =
  snc_lab_id :: string
  snc_run_id :: "string option"
  snc_requester_type :: RequesterType

definition snapshot_create_request_of :: "pyval \<Rightarrow> SnapshotCreateRequest option" where
  "snapshot_create_request_of body =
     Option.bind (str_field body ''lab_id'') (\<lambda>l.
     Option.bind (opt_str_field body ''run_id'') (\<lambda>u.
     Option.bind (requester_field body) (\<lambda>r.
     Some \<lparr>snc_lab_id = l, snc_run_id = u, snc_requester_type = r\<rparr>)))"

record SnapshotRestoreRequest =
  snx_lab_id :: string
  snx_requester_type :: RequesterType

definition snapshot_restore_request_of :: "pyval \<Rightarrow> SnapshotRestoreRequest option" where
  "snapshot_restore_request_of body =
     Option.bind (str_field body ''lab_id'') (\<lambda>l.
     Option.bind (requester_field body) (\<lambda>r. Some \<lparr>snx_lab_id = l, snx_requester_type = r\<rparr>))"

record ExportCreateRequest =
  xc_lab_id :: string
  xc_source_path :: string
  xc_run_id :: "string option"
  xc_requester_type :: RequesterType

definition export_create_request_of :: "pyval \<Rightarrow> ExportCreateRequest option" where
  "export_create_request_of body =
     Option.bind (str_field body ''lab_id'') (\<lambda>l.
     Option.bind (str_field body ''source_path'') (\<lambda>s.
     Option.bind (opt_str_field body ''run_id'') (\<lambda>u.
     Option.bind (requester_field body) (\<lambda>r.
     Some \<lparr>xc_lab_id = l, xc_source_path = s, xc_run_id = u, xc_requester_type = r\<rparr>))))"

definition job_create_request_of :: "fastapi \<Rightarrow> pyval \<Rightarrow> SchedulerJobCreateRequest option" where
  "job_create_request_of F body =
     Option.bind (Option.bind (str_field body ''action'')
       (\<lambda>s. case scheduler_action_of s of Inl _ \<Rightarrow> None | Inr a \<Rightarrow> Some a)) (\<lambda>a.
     Option.bind (str_field body ''requester_id'') (\<lambda>r.
     Option.bind (opt_str_field body ''profile_name'') (\<lambda>p.
     Option.bind (opt_str_field body ''lab_id'') (\<lambda>l.
     Option.bind (opt_str_field body ''command'') (\<lambda>c.
     Option.bind (default_field body ''scheduled_for'' None
       (\<lambda>v. if v = PNone then Some None else map_option Some (to_datetime F v))) (\<lambda>s.
     Option.bind (default_field body ''max_attempts'' 3 (to_int F)) (\<lambda>m.
     let request = \<lparr>jr_action = a, jr_requester_id = r, jr_profile_name = p, jr_lab_id = l, jr_command = c,
           jr_scheduled_for = s, jr_max_attempts = m\<rparr>
     in if valid_job_request request then Some request else None)))))))"

subsection \<open>Routes\<close>

datatype endpoint =
    Health
  | Profiles
  | ProfileNamed string
  | Api request nat

definition with_body :: "(pyval \<Rightarrow> 'b option) \<Rightarrow> ('b \<Rightarrow> request) \<Rightarrow> nat \<Rightarrow> pyval option \<Rightarrow> endpoint option" where
  "with_body read f code body = map_option (\<lambda>b. Api (f b) code) (Option.bind body read)"

definition all_events :: event_filter where
  "all_events = \<lparr>ef_event_type = None, ef_actor_type = None, ef_resource_type = None, ef_resource_id = None,
     ef_lab_id = None, ef_run_id = None\<rparr>"

text \<open>Each route: its method, the test of its path, and the endpoint, or \<open>None\<close> for a body that is refused. The
  second component of an endpoint is the status of success.\<close>

definition job_list_path :: "string list" where
  "job_list_path = [''scheduler'', ''jobs'']"

definition get_route :: "string list \<Rightarrow> endpoint option" where
  "get_route path =
     (case path of
        [a] \<Rightarrow>
          map_of [(''health'', Health), (''profiles'', Profiles), (''labs'', Api ListLabs 200), (''runs'', Api ListRuns 200),
                  (''approvals'', Api ListApprovals 200), (''snapshots'', Api ListSnapshots 200),
                  (''exports'', Api ListExports 200), (''events'', Api (ListEvents all_events) 200)] a
      | [a, b] \<Rightarrow>
          if [a, b] = job_list_path then Some (Api ListJobs 200)
          else map_of [(''profiles'', ProfileNamed b), (''labs'', Api (GetLab b) 200), (''runs'', Api (GetRun b) 200)] a
      | [a, b, c] \<Rightarrow> if a = ''labs'' \<and> c = ''secret-leases'' then Some (Api (ListLeases b) 200) else None
      | _ \<Rightarrow> None)"

definition post_route :: "fastapi \<Rightarrow> string list \<Rightarrow> pyval option \<Rightarrow> endpoint option option" where
  "post_route F path body =
     (case path of
        [a] \<Rightarrow>
          map_of [(''labs'', with_body lab_create_request_of (\<lambda>b. CreateLab (lc_profile_name b) (lc_requester_type b)) 201 body),
                  (''runs'', with_body run_create_request_of
                     (\<lambda>b. CreateRun (rc_lab_id b) (rc_command b) (rc_requester_type b)) 201 body),
                  (''snapshots'', with_body snapshot_create_request_of
                     (\<lambda>b. CreateSnapshot (snc_lab_id b) (snc_run_id b) (snc_requester_type b)) 201 body),
                  (''exports'', with_body export_create_request_of
                     (\<lambda>b. CreateExport (xc_lab_id b) (xc_source_path b) (xc_run_id b) (xc_requester_type b)) 201 body)] a
      | [a, b] \<Rightarrow>
          if [a, b] = job_list_path then Some (with_body (job_create_request_of F) EnqueueJob 201 body) else None
      | [a, b, c] \<Rightarrow>
          if [a, b, c] = job_list_path @ [''dispatch-next''] then Some (Some (Api DispatchJob 200))
          else map_of [((''labs'', ''secret-leases''), with_body (secret_lease_create_request_of F)
                     (\<lambda>q. CreateLease b (lsc_secret_name q) (lsc_requester_type q) (lsc_ttl_minutes q)) 201 body),
                  ((''secret-leases'', ''revoke''), with_body secret_lease_revoke_request_of
                     (\<lambda>q. RevokeLease b (lv_actor q) (lv_reason q)) 200 body),
                  ((''approvals'', ''approve''), with_body approval_decision_request_of
                     (\<lambda>q. Approve b (ad_actor q) (ad_comment q)) 200 body),
                  ((''approvals'', ''deny''), with_body approval_decision_request_of
                     (\<lambda>q. Deny b (ad_actor q) (ad_comment q)) 200 body),
                  ((''snapshots'', ''restore''), with_body snapshot_restore_request_of
                     (\<lambda>q. RestoreSnapshot b (snx_lab_id q) (snx_requester_type q)) 200 body),
                  ((''exports'', ''release''), Some (Api (ReleaseExport b) 200)),
                  ((''exports'', ''deny''), with_body (\<lambda>v. str_field v ''reason'') (DenyExport b) 200 body)] (a, c)
      | _ \<Rightarrow> None)"

definition route :: "fastapi \<Rightarrow> string \<Rightarrow> string \<Rightarrow> pyval option \<Rightarrow> endpoint option option" where
  "route F verb path body =
     (case split_on (CHR ''/'') path of
        [] # segments \<Rightarrow>
          if [] \<in> set segments then None
          else if verb = ''GET'' then map_option Some (get_route segments)
          else if verb = ''POST'' then post_route F segments body
          else if verb = ''DELETE''
          then (case segments of [a, b] \<Rightarrow> if a = ''labs'' then Some (Some (Api (DestroyLab b) 200)) else None | _ \<Rightarrow> None)
          else None
      | _ \<Rightarrow> None)"

subsection \<open>Response documents\<close>

definition time_json :: "fastapi \<Rightarrow> datetime \<Rightarrow> pyval" where
  "time_json F t = PStr (datetime_json F t)"

definition opt_time :: "fastapi \<Rightarrow> datetime option \<Rightarrow> pyval" where
  "opt_time F t = (case t of None \<Rightarrow> PNone | Some t \<Rightarrow> time_json F t)"

definition opt_int :: "int option \<Rightarrow> pyval" where
  "opt_int x = (case x of None \<Rightarrow> PNone | Some i \<Rightarrow> PInt i)"

definition lab_json :: "fastapi \<Rightarrow> LabResponse \<Rightarrow> pyval" where
  "lab_json F r = PDict
     [(''id'', PStr (lr_id r)), (''profile_name'', PStr (lr_profile_name r)), (''state'', PStr (lr_state r)),
      (''runtime_class'', PStr (lr_runtime_class r)),
      (''storage'', let s = lr_storage r in PDict
         [(''persistence_mode'', PStr (lsr_persistence_mode s)), (''root_path'', PStr (lsr_root_path s)),
          (''workspace_path'', PStr (lsr_workspace_path s)), (''exports_path'', PStr (lsr_exports_path s)),
          (''quarantine_path'', PStr (lsr_quarantine_path s)), (''snapshots_path'', PStr (lsr_snapshots_path s)),
          (''workspace_mount_target'', PStr (lsr_workspace_mount_target s))]),
      (''created_at'', time_json F (lr_created_at r)), (''updated_at'', time_json F (lr_updated_at r))]"

definition run_json :: "fastapi \<Rightarrow> RunResponse \<Rightarrow> pyval" where
  "run_json F r = PDict
     [(''id'', PStr (rr_id r)), (''lab_id'', PStr (rr_lab_id r)), (''state'', PStr (rr_state r)),
      (''command'', PStr (rr_command r)), (''timeout_at'', opt_time F (rr_timeout_at r)),
      (''finished_at'', opt_time F (rr_finished_at r)), (''created_at'', time_json F (rr_created_at r)),
      (''updated_at'', time_json F (rr_updated_at r))]"

definition approval_json :: "fastapi \<Rightarrow> ApprovalResponse \<Rightarrow> pyval" where
  "approval_json F r = PDict
     [(''id'', PStr (ar_id r)), (''lab_id'', opt_str (ar_lab_id r)), (''resource_type'', PStr (ar_resource_type r)),
      (''resource_id'', PStr (ar_resource_id r)), (''action'', PStr (ar_action r)), (''reason'', PStr (ar_reason r)),
      (''requested_by'', PStr (ar_requested_by r)), (''state'', PStr (ar_state r)), (''approved'', PBool (ar_approved r)),
      (''decision_comment'', opt_str (ar_decision_comment r)), (''decided_by'', opt_str (ar_decided_by r)),
      (''expires_at'', opt_time F (ar_expires_at r)), (''decided_at'', opt_time F (ar_decided_at r)),
      (''created_at'', time_json F (ar_created_at r)), (''updated_at'', time_json F (ar_updated_at r))]"

definition snapshot_json :: "fastapi \<Rightarrow> SnapshotResponse \<Rightarrow> pyval" where
  "snapshot_json F r = PDict
     [(''id'', PStr (snr_id r)), (''lab_id'', PStr (snr_lab_id r)), (''backend_ref'', PStr (snr_backend_ref r)),
      (''run_id'', opt_str (snr_run_id r)), (''profile_name'', opt_str (snr_profile_name r)),
      (''runtime_class'', opt_str (snr_runtime_class r)), (''state'', opt_str (snr_state r)),
      (''manifest_path'', opt_str (snr_manifest_path r)), (''sha256'', opt_str (snr_sha256 r)),
      (''size_bytes'', opt_int (snr_size_bytes r)), (''restored_at'', opt_time F (snr_restored_at r)),
      (''restored_lab_id'', opt_str (snr_restored_lab_id r)), (''created_at'', time_json F (snr_created_at r)),
      (''updated_at'', time_json F (snr_updated_at r))]"

definition export_json :: "fastapi \<Rightarrow> ExportResponse \<Rightarrow> pyval" where
  "export_json F r = PDict
     [(''id'', PStr (xr_id r)), (''lab_id'', PStr (xr_lab_id r)), (''run_id'', opt_str (xr_run_id r)),
      (''source_path'', PStr (xr_source_path r)), (''state'', PStr (xr_state r)),
      (''quarantine_path'', PStr (xr_quarantine_path r)), (''released_path'', opt_str (xr_released_path r)),
      (''approval_required'', PBool (xr_approval_required r)), (''sha256'', PStr (xr_sha256 r)),
      (''size_bytes'', PInt (xr_size_bytes r)), (''denial_reason'', opt_str (xr_denial_reason r)),
      (''created_at'', time_json F (xr_created_at r)), (''updated_at'', time_json F (xr_updated_at r))]"

definition lease_json :: "fastapi \<Rightarrow> SecretLeaseResponse \<Rightarrow> pyval" where
  "lease_json F r = PDict
     [(''id'', PStr (slr_id r)), (''lab_id'', PStr (slr_lab_id r)), (''secret_name'', PStr (slr_secret_name r)),
      (''approved'', PBool (slr_approved r)), (''expires_at'', time_json F (slr_expires_at r)),
      (''revoked_at'', opt_time F (slr_revoked_at r)), (''created_at'', time_json F (slr_created_at r)),
      (''updated_at'', time_json F (slr_updated_at r))]"

definition event_json :: "fastapi \<Rightarrow> EventResponse \<Rightarrow> pyval" where
  "event_json F r = PDict
     [(''id'', PStr (evr_id r)), (''lab_id'', opt_str (evr_lab_id r)), (''run_id'', opt_str (evr_run_id r)),
      (''event_type'', PStr (evr_event_type r)), (''actor_type'', PStr (actor_value (evr_actor_type r))),
      (''actor_id'', opt_str (evr_actor_id r)), (''resource_type'', opt_str (evr_resource_type r)),
      (''resource_id'', opt_str (evr_resource_id r)), (''payload_json'', PStr (evr_payload_json r)),
      (''created_at'', time_json F (evr_created_at r)), (''updated_at'', time_json F (evr_updated_at r))]"

definition job_json :: "fastapi \<Rightarrow> SchedulerJobResponse \<Rightarrow> pyval" where
  "job_json F r = PDict
     [(''id'', PStr (sjr_id r)), (''action'', PStr (action_value (sjr_action r))), (''state'', PStr (job_value (sjr_state r))),
      (''requester_id'', PStr (sjr_requester_id r)), (''profile_name'', opt_str (sjr_profile_name r)),
      (''lab_id'', opt_str (sjr_lab_id r)), (''command'', opt_str (sjr_command r)),
      (''scheduled_for'', time_json F (sjr_scheduled_for r)), (''attempt_count'', PInt (sjr_attempt_count r)),
      (''max_attempts'', PInt (sjr_max_attempts r)), (''last_error'', opt_str (sjr_last_error r)),
      (''result_resource_type'', opt_str (sjr_result_resource_type r)),
      (''result_resource_id'', opt_str (sjr_result_resource_id r)), (''dispatched_at'', opt_time F (sjr_dispatched_at r)),
      (''completed_at'', opt_time F (sjr_completed_at r)), (''created_at'', time_json F (sjr_created_at r)),
      (''updated_at'', time_json F (sjr_updated_at r))]"

text \<open>\<open>Profile.model_dump(mode="json")\<close>.\<close>

definition profile_json :: "Profile \<Rightarrow> pyval" where
  "profile_json p = PDict
     [(''name'', PStr (p_name p)), (''runtime_class'', PStr (runtime_value (p_runtime_class p))),
      (''risk_class'', PStr (risk_value (p_risk_class p))), (''network_mode'', PStr (network_value (p_network_mode p))),
      (''filesystem_mode'', PStr (filesystem_value (p_filesystem_mode p))),
      (''persistence_mode'', PStr (persistence_value (p_persistence_mode p))),
      (''export_mode'', PStr (export_mode_value (p_export_mode p))), (''cpu_limit'', PInt (p_cpu_limit p)),
      (''memory_mb'', PInt (p_memory_mb p)), (''disk_mb'', PInt (p_disk_mb p)),
      (''max_runtime_minutes'', PInt (p_max_runtime_minutes p)), (''approval_on_start'', PBool (p_approval_on_start p)),
      (''approval_on_export'', PBool (p_approval_on_export p)), (''audit_level'', PStr (audit_value (p_audit_level p))),
      (''retention_days'', PInt (p_retention_days p)), (''allow_host_mounts'', PBool (p_allow_host_mounts p)),
      (''allowed_secret_names'', PList (map PStr (p_allowed_secret_names p)))]"

fun response_json :: "fastapi \<Rightarrow> response \<Rightarrow> pyval" where
  "response_json F (LabR r) = lab_json F r"
| "response_json F (LabsR rs) = PList (map (lab_json F) rs)"
| "response_json F (RunR r) = run_json F r"
| "response_json F (RunsR rs) = PList (map (run_json F) rs)"
| "response_json F (ExportR r) = export_json F r"
| "response_json F (ExportsR rs) = PList (map (export_json F) rs)"
| "response_json F (ApprovalR r) = approval_json F r"
| "response_json F (ApprovalsR rs) = PList (map (approval_json F) rs)"
| "response_json F (LeaseR r) = lease_json F r"
| "response_json F (LeasesR rs) = PList (map (lease_json F) rs)"
| "response_json F (JobR r) = job_json F r"
| "response_json F (JobsR rs) = PList (map (job_json F) rs)"
| "response_json F (EventsR rs) = PList (map (event_json F) rs)"
| "response_json F (SnapshotR r) = snapshot_json F r"
| "response_json F (SnapshotsR rs) = PList (map (snapshot_json F) rs)"
| "response_json F (ReportR r) = PNone"

subsection \<open>Answers\<close>

definition answer_with :: "fastapi \<Rightarrow> nat \<Rightarrow> string \<Rightarrow> http_response" where
  "answer_with F code body = \<lparr>status_code = code, response_text = body, status_message = status_text F code body\<rparr>"

definition ok_answer :: "fastapi \<Rightarrow> nat \<Rightarrow> pyval \<Rightarrow> http_response" where
  "ok_answer F code v = answer_with F code (render F v)"

text \<open>An \<open>ErrorResponse\<close> has a detail and a resource, an \<open>HTTPException\<close> only a detail, and an exception without
  a handler gets a line of plain text.\<close>

definition error_answer :: "fastapi \<Rightarrow> exn \<Rightarrow> http_response" where
  "error_answer F e =
     (case error_response e of (code, detail, resource) \<Rightarrow>
        (case e of
           ResourceNotFoundError _ \<Rightarrow>
             ok_answer F code (PDict [(''detail'', PStr detail), (''resource'', opt_str resource)])
         | ConflictError _ _ \<Rightarrow>
             ok_answer F code (PDict [(''detail'', PStr detail), (''resource'', opt_str resource)])
         | HTTPException _ _ \<Rightarrow> ok_answer F code (PDict [(''detail'', PStr detail)])
         | _ \<Rightarrow> answer_with F code detail))"

definition validation_answer :: "fastapi \<Rightarrow> (string \<times> string) list \<Rightarrow> http_response" where
  "validation_answer F items =
     ok_answer F 422 (PDict
       [(''detail'', PStr ''validation_error''),
        (''errors'', PList (map (\<lambda>(fld, message). PDict [(''field'', PStr fld), (''message'', PStr message)]) items))])"

definition health :: pyval where
  "health = PDict [(''status'', PStr ''ok'')]"

definition serve_api :: "fastapi \<Rightarrow> env \<Rightarrow> request \<Rightarrow> nat \<Rightarrow> (world, http_response) program" where
  "serve_api F E req code w =
     (case serve E req w of
        (Inr resp, w') \<Rightarrow> (Inr (ok_answer F code (response_json F resp)), w')
      | (Inl e, w') \<Rightarrow> (Inr (error_answer F e), w'))"

definition serve_http :: "fastapi \<Rightarrow> env \<Rightarrow> string \<Rightarrow> string \<Rightarrow> pyval option \<Rightarrow> (world, http_response) program" where
  "serve_http F E verb path body =
     (case route F verb path body of
        None \<Rightarrow> (case no_route F verb path of (code, txt) \<Rightarrow> returns (answer_with F code txt))
      | Some None \<Rightarrow> returns (validation_answer F (validation_items F verb path body))
      | Some (Some Health) \<Rightarrow> returns (ok_answer F 200 health)
      | Some (Some Profiles) \<Rightarrow> returns (ok_answer F 200 (PList (map profile_json api_list_profiles)))
      | Some (Some (ProfileNamed name)) \<Rightarrow>
          (case api_get_profile name of
             Inl e \<Rightarrow> returns (error_answer F e)
           | Inr p \<Rightarrow> returns (ok_answer F 200 (profile_json p)))
      | Some (Some (Api req code)) \<Rightarrow> serve_api F E req code)"

end
