(* ===== verification/Api_Errors.thy ===== *)
theory Api_Errors
  imports System
begin

section \<open>What the services raise\<close>

text \<open>
  \<open>raises P m\<close>: an exception that leaves \<open>m\<close> satisfies \<open>P\<close>, from any state. With it: an \<open>HTTPException\<close> that
  a handler raises has an error status, so no failed request is answered with success.
\<close>

definition raises :: "(exn \<Rightarrow> bool) \<Rightarrow> ('s, 'a) program \<Rightarrow> bool" where
  "raises P m \<longleftrightarrow> (\<forall>w e w'. m w = (Inl e, w') \<longrightarrow> P e)"

named_theorems raise \<open>what a program raises\<close>

lemma raises_returns [raise]: "raises P (returns x)"
  and raises_gets [raise]: "raises P (gets f)"
  and raises_modify [raise]: "raises P (modify g)"
  and raises_captured [raise]: "raises P (captured m)"
  by (simp_all add: raises_def returns_def gets_def modify_def captured_def split: prod.splits)

lemma raises_throw [raise]: "P e \<Longrightarrow> raises P (throw e)"
  by (simp add: raises_def throw_def)

lemma raises_guard [raise]: "P e \<Longrightarrow> raises P (guard b e)"
  by (simp add: raises_def guard_def)

lemma raises_require [raise]: "P e \<Longrightarrow> raises P (require x e)"
  by (simp add: raises_def require_def split: option.splits)

lemma raises_liftR: "(\<And>e. r = Inl e \<Longrightarrow> P e) \<Longrightarrow> raises P (liftR r)"
  by (auto simp: raises_def liftR_def)

lemma raises_bnd [raise]:
  assumes "raises P m" and "\<And>x. raises P (f x)"
  shows "raises P (bnd m f)"
  unfolding raises_def
proof (intro allI impI)
  fix w e w'
  assume run: "bnd m f w = (Inl e, w')"
  show "P e"
  proof (cases "m w")
    case (Pair r w1)
    with run assms show ?thesis unfolding raises_def by (cases r) (auto simp: bnd_def, blast)
  qed
qed

text \<open>What a handler meets was raised by its body.\<close>

lemma raises_attempt [raise]: "raises P m \<Longrightarrow> (\<And>e. P e \<Longrightarrow> raises P (h e)) \<Longrightarrow> raises P (attempt m h)"
  unfolding raises_def attempt_def by (auto split: prod.splits sum.splits) blast

lemma raises_for_each [raise]: "(\<And>x. raises P (f x)) \<Longrightarrow> raises P (for_each f xs)"
  by (induction xs) (auto intro!: raise)

lemma raises_mapM [raise]: "(\<And>x. raises P (f x)) \<Longrightarrow> raises P (mapM f xs)"
  by (induction xs) (auto intro!: raise)

lemma raises_foldM [raise]: "(\<And>r x. raises P (f r x)) \<Longrightarrow> raises P (foldM f r xs)"
  by (induction xs arbitrary: r) (auto intro!: raise)

lemma raises_if [raise]: "raises P m \<Longrightarrow> raises P m' \<Longrightarrow> raises P (if b then m else m')"
  and raises_option [raise]: "raises P m \<Longrightarrow> (\<And>y. raises P (f y)) \<Longrightarrow> raises P (case x of None \<Rightarrow> m | Some y \<Rightarrow> f y)"
  and raises_sum [raise]: "(\<And>e. raises P (g e)) \<Longrightarrow> (\<And>y. raises P (h y)) \<Longrightarrow> raises P (case z of Inl e \<Rightarrow> g e | Inr y \<Rightarrow> h y)"
  and raises_prod [raise]: "(\<And>a b. raises P (k a b)) \<Longrightarrow> raises P (case q of (a, b) \<Rightarrow> k a b)"
  and raises_let [raise]: "(\<And>v. raises P (l v)) \<Longrightarrow> raises P (let v = u in l v)"
  by (simp_all split: option.splits sum.splits prod.splits)

subsection \<open>Error statuses\<close>

definition error_status :: "exn \<Rightarrow> bool" where
  "error_status e \<longleftrightarrow> (case e of HTTPException n d \<Rightarrow> 400 \<le> n | _ \<Rightarrow> True)"

lemma error_status_simps [simp]:
  "error_status (HTTPException n d) \<longleftrightarrow> 400 \<le> n" "error_status (KeyError s)" "error_status (ValueError s)"
  "error_status (TypeError s)" "error_status (LookupError s)" "error_status AssertionError" "error_status (RuntimeError s)"
  "error_status (OSError s)" "error_status (TarError s)" "error_status (SecretNotFoundError s)"
  "error_status (SecretLeaseStateError s)" "error_status (ExportSourceNotFoundError s)" "error_status (ExportPolicyError s)"
  "error_status (ExportStateError s)" "error_status (SnapshotMetadataError s)"
  "error_status (UnsupportedSnapshotRuntimeError s)" "error_status SchedulerQuotaExceededError"
  "error_status (ResourceNotFoundError s)" "error_status (ConflictError s r)"
  by (simp_all add: error_status_def)

lemma error_status_iff: "error_status e \<longleftrightarrow> (\<forall>n d. e = HTTPException n d \<longrightarrow> 400 \<le> n)"
  by (auto simp: error_status_def split: exn.splits)

definition proper :: "exn + 'a \<Rightarrow> bool" where
  "proper r \<longleftrightarrow> (\<forall>e. r = Inl e \<longrightarrow> error_status e)"

named_theorems proper \<open>results that hold no success status as an error\<close>

lemma proper_values [proper]: "proper (Inr x)" "error_status e \<Longrightarrow> proper (Inl e)" "error_status e \<Longrightarrow> proper (check b e)"
  by (simp_all add: proper_def check_def)

lemma proper_bind [proper]: "proper r \<Longrightarrow> (\<And>x. proper (f x)) \<Longrightarrow> proper (result_bind r f)"
  by (cases r) (auto simp: proper_def)

lemma proper_if [proper]: "proper r \<Longrightarrow> proper r' \<Longrightarrow> proper (if b then r else r')"
  and proper_option [proper]: "proper r \<Longrightarrow> (\<And>y. proper (f y)) \<Longrightarrow> proper (case x of None \<Rightarrow> r | Some y \<Rightarrow> f y)"
  and proper_list [proper]: "proper r \<Longrightarrow> (\<And>y ys. proper (g y ys)) \<Longrightarrow> proper (case xs of [] \<Rightarrow> r | y # ys \<Rightarrow> g y ys)"
  and proper_prod [proper]: "(\<And>a c. proper (k a c)) \<Longrightarrow> proper (case q of (a, c) \<Rightarrow> k a c)"
  and proper_let [proper]: "(\<And>v. proper (l v)) \<Longrightarrow> proper (let v = u in l v)"
  by (simp_all split: option.splits list.splits prod.splits)

lemma proper_check_all [proper]: "(\<And>x. proper (f x)) \<Longrightarrow> proper (check_all f xs)"
  by (induction xs) (auto intro!: proper)

lemma proper_liftR [raise]: "proper r \<Longrightarrow> raises error_status (liftR r)"
  by (rule raises_liftR) (simp add: proper_def)

lemma proper_fs_call [raise]: "(\<And>g. proper (f g)) \<Longrightarrow> raises error_status (fs_call f)"
  by (auto simp: raises_def fs_call_def proper_def split: sum.splits)

subsection \<open>The results of the program's functions\<close>

lemma proper_enum_of [proper]: "proper (enum_of val members cls s)"
  unfolding enum_of_def by (intro proper) simp

lemma proper_policy [proper]:
  "proper (get_profile ps n)" "proper (validate_request ps n ov r)" "proper (validate_export ps n s)"
proof -
  show profile: "proper (get_profile ps n)" for ps n unfolding get_profile_def by (intro proper) simp_all
  have locked: "proper (enforce_profile_locked_field ov f)" for f
    unfolding enforce_profile_locked_field_def by (auto intro!: proper)
  have entry: "proper (check_mount_entry v)" for v
    unfolding check_mount_entry_def by (auto intro!: proper split: pyval.splits)
  have mounts: "proper (validate_host_mounts v b)" for v b
    by (cases "(v, b)" rule: validate_host_mounts.cases) (auto simp: validate_host_mounts.simps intro!: proper entry)
  have secrets: "proper (check_secrets al v)" for al v
    by (cases "(al, v)" rule: check_secrets.cases) (auto simp: check_secrets.simps intro!: proper)
  show "proper (validate_request ps n ov r)"
    unfolding validate_request_def requester_type_of_def by (auto intro!: proper profile locked mounts secrets)
  show "proper (validate_export ps n s)"
    unfolding validate_export_def by (auto intro!: proper profile)
qed

text \<open>The file system calls raise \<open>OSError\<close>, an archive's also \<open>TarError\<close> and \<open>RuntimeError\<close>.\<close>

lemma proper_files [proper]:
  "proper (mkdir_p fs p)" "proper (copy2 fs p q)" "proper (rmtree fs p)" "proper (write_file fs p c)"
  "proper (unlink fs p)" "proper (make_dir fs p)" "proper (iterdir ls fs p)" "proper (rmdir ls fs p)"
  "proper (replace_path ls fs p q)"
  by (auto simp: proper_def write_file_def unlink_def make_dir_def iterdir_def rmdir_def replace_path_def
      dest!: mkdir_p_Inl copy2_Inl rmtree_Inl split: option.splits prod.splits if_splits node.splits)

lemma proper_make_link [proper]: "proper (make_link fs p t)"
  unfolding make_link_def by (intro proper) simp_all

lemma proper_concat: "(\<And>r. r \<in> set rs \<Longrightarrow> proper r) \<Longrightarrow> proper (concat_results rs)"
  by (induction rs) (auto intro!: proper)

lemma proper_tar_add: "proper (tar_add ls fs archive n p a)"
proof (induction n arbitrary: p a)
  case 0
  then show ?case by (simp add: proper)
next
  case (Suc n)
  have "proper (concat_results (map (\<lambda>c. tar_add ls fs archive n (p @ [c]) (a @ CHR ''/'' # c)) cs))" for cs
    by (rule proper_concat) (auto intro: Suc.IH)
  then show ?case by (auto intro!: proper split: option.splits node.splits)
qed

lemma proper_archive [proper]:
  "proper (tar_members ls fs archive p a)" "proper (data_filter fs dest m)" "proper (make_upper dest m fs)"
  "proper (make_member dest m fs)"
proof -
  show "proper (tar_members ls fs archive p a)"
    unfolding tar_members_def by (intro proper proper_tar_add) simp
  have inside: "proper (inside fs dest p t)" for p t unfolding inside_def by (intro proper) simp_all
  show "proper (data_filter fs dest m)"
    unfolding data_filter_def by (auto intro!: proper inside split: node.splits)
  show "proper (make_upper dest m fs)"
    unfolding make_upper_def by (intro proper)
  show "proper (make_member dest m fs)"
    unfolding make_member_def by (auto intro!: proper split: node.splits)
qed

lemma proper_snapshots [proper]:
  "proper (from_dict v)" "proper (manifest_path_for here s)" "proper (ensure_runtime_supported c)"
  "proper (snapshot_response_from_row row m)"
proof -
  have item: "proper (item v k)" for v k
    unfolding item_def by (auto intro!: proper split: pyval.splits)
  then have str_item: "proper (str_item v k)" for v k
    unfolding str_item_def by (intro proper)
  have py_int: "proper (py_int v)" for v
    unfolding py_int_def by (auto intro!: proper split: pyval.splits)
  show "proper (from_dict v)"
    unfolding from_dict_def by (intro proper str_item item py_int)
  show "proper (manifest_path_for here s)"
    unfolding manifest_path_for_def with_suffix_def by (intro proper) simp_all
  show "proper (ensure_runtime_supported c)"
    unfolding ensure_runtime_supported_def by (intro proper) simp
  have iso: "proper (fromisoformat t)" for t
    unfolding fromisoformat_def by (intro proper) simp
  show "proper (snapshot_response_from_row row m)"
    unfolding snapshot_response_from_row_def by (intro proper iso)
qed

lemma proper_rows [proper]:
  "proper (storage_allocation_from_row here row)" "proper (event_response_from_row er)"
  "proper (scheduler_job_response_from_row j)" "proper (env_resolve E s)" "proper (deny_export_gate x reason)"
  "proper (export_state_of s)" "proper (scheduler_action_of s)" "proper (py_less a b)"
proof -
  show "proper (storage_allocation_from_row here row)"
    unfolding storage_allocation_from_row_def persistence_mode_of_def by (intro proper)
  show "proper (event_response_from_row er)"
    unfolding event_response_from_row_def actor_type_of_def by (intro proper)
  show "proper (scheduler_job_response_from_row j)"
    unfolding scheduler_job_response_from_row_def scheduler_action_of_def scheduler_job_state_of_def by (intro proper)
  show "proper (env_resolve E s)"
    unfolding env_resolve_def by (intro proper) simp
  show states: "proper (export_state_of s)" "proper (scheduler_action_of s)" for s
    unfolding export_state_of_def scheduler_action_of_def by (intro proper)+
  show "proper (deny_export_gate x reason)"
    unfolding deny_export_gate_def by (intro proper states) simp_all
  show "proper (py_less a b)"
    by (cases "(a, b)" rule: py_less.cases) (simp_all add: proper)
qed

subsection \<open>The session's programs\<close>

lemma raises_session [raise]:
  "raises P (fresh_uuid E)" "raises P (utc_now E)" "raises P (set_db f)" "raises P commit" "raises P (session_get key tab k)"
  "raises P (select key' tab' Q)"
  unfolding set_db_def commit_def session_get_def select_def
  by (auto simp: raises_def fresh_uuid_def utc_now_def modify_def gets_def)

lemma raises_rows [raise]: "raises P (add_row E upd r)" "raises P (put_row E key upd' r')"
  unfolding add_row_def put_row_def by (intro raise)+

lemma raises_get_or_404 [raise]: "raises error_status (get_or_404 key tab k what)"
  unfolding get_or_404_def by (intro raise) simp

lemma raises_with_session [raise]: "raises P m \<Longrightarrow> raises P (with_session m)"
  by (auto simp: raises_def with_session_def split: prod.splits)

lemma raises_begin_nested [raise]: "raises P m \<Longrightarrow> raises P (begin_nested m)"
  by (auto simp: raises_def begin_nested_def split: prod.splits sum.splits)

lemma raises_record_event [raise]: "raises P (record_event E er)"
  unfolding record_event_def write_event_def Let_def by (intro raise)

subsection \<open>The services\<close>

lemma raises_allocate [raise]: "raises error_status (allocate root i policy)"
  unfolding allocate_def Let_def by (intro raise proper)

lemma raises_destroy_storage [raise]: "raises error_status (destroy_storage root a)"
  unfolding destroy_storage_def assert_managed_path_def by (intro raise proper) simp_all

lemma raises_create_lab_record [raise]: "raises error_status (create_lab_record E p r)"
  unfolding create_lab_record_def decide_lab_request_def record_approval_request_def Let_def
  by (intro raise proper) simp_all

lemma raises_create_run_record [raise]: "raises error_status (create_run_record E l c r)"
  unfolding create_run_record_def by (intro raise; simp)

lemma raises_labs:
  "raises error_status (api_create_lab E p r)" "raises error_status api_list_labs" "raises error_status (api_get_lab i)"
  "raises error_status (api_destroy_lab E i)" "raises error_status (api_create_run E l c r)"
  "raises error_status api_list_runs" "raises error_status (api_get_run i)"
  unfolding api_create_lab_def api_list_labs_def api_get_lab_def api_destroy_lab_def api_create_run_def api_list_runs_def
    api_get_run_def
  by (intro raise proper; simp)+

lemma raises_check_run [raise]: "error_status e \<Longrightarrow> raises error_status (check_run rid lab e)"
  unfolding check_run_def by (intro raise)

lemma raises_export_gate [raise]:
  "raises error_status (stage_export ps here i lab storage path rid)" "raises error_status (release_export here row storage)"
proof -
  have resolve: "raises error_status (resolve_path p)" for p unfolding resolve_path_def by (intro raise) simp
  have managed: "raises error_status (resolve_managed_source here storage p)" for p
    unfolding resolve_managed_source_def by (intro raise resolve) simp_all
  have reading: "raises error_status (hash_file p)" "raises error_status (stat_size p)" for p
    unfolding hash_file_def stat_size_def by (intro raise; simp)+
  show "raises error_status (stage_export ps here i lab storage path rid)"
    unfolding stage_export_def Let_def by (intro raise proper managed reading) simp_all
  show "raises error_status (release_export here row storage)"
    unfolding release_export_def Let_def by (intro raise proper) simp_all
qed

lemma raises_snapshots [raise]:
  "raises error_status (load_metadata E row)" "raises error_status (Snapshots.create_snapshot E i lab storage rid)"
  "raises error_status (Snapshots.restore_snapshot E row lab storage)"
proof -
  have resolve: "raises error_status (resolve_path p)" for p unfolding resolve_path_def by (intro raise) simp
  have reading: "raises error_status (hash_snapshot_file p)" "raises error_status (stat_size p)" for p
    unfolding hash_snapshot_file_def stat_size_def by (intro raise; simp)+
  have clear: "raises error_status (clear_directory E p)" for p
    unfolding clear_directory_def clear_entry_def by (intro raise proper)
  have loops: "raises error_status (check_member p m)" "raises error_status (extract_member p m)"
    "raises error_status (move_extracted E p q)" for p m q
    unfolding check_member_def extract_member_def move_extracted_def by (intro raise proper resolve clear; simp)+
  show load: "raises error_status (load_metadata E row)" for row
    unfolding load_metadata_def by (intro raise proper) simp_all
  show "raises error_status (Snapshots.create_snapshot E i lab storage rid)"
    unfolding Snapshots.create_snapshot_def Let_def by (intro raise proper reading)
  show "raises error_status (Snapshots.restore_snapshot E row lab storage)"
    unfolding Snapshots.restore_snapshot_def Let_def by (intro raise proper load resolve clear loops) simp_all
qed

lemma raises_leases [raise]:
  "raises error_status (issue_lease E (env_resolve E) lab name ttl)" "raises error_status (revoke_lease E i)"
  "raises error_status (list_leases lab)"
  unfolding issue_lease_def revoke_lease_def list_leases_def by (intro raise proper; simp)+

lemma raises_scheduler [raise]:
  "raises error_status (enqueue E req)" "raises error_status list_jobs" "raises error_status (run_next E f g now)"
proof -
  show "raises error_status (enqueue E req)" unfolding enqueue_def by (intro raise) simp
  show "raises error_status list_jobs" unfolding list_jobs_def by (intro raise)
  show "raises error_status (run_next E f g now)" unfolding run_next_def dispatch_job_def by (intro raise)
qed

lemma error_status_stage_failure [simp]: "error_status e \<Longrightarrow> error_status (stage_failure e)"
  by (cases e rule: stage_failure.cases) simp_all

lemma raises_governance:
  "raises error_status (api_decide E d t i actor c)" "raises error_status api_list_approvals"
  "raises error_status (api_create_export E l p rid r)" "raises error_status (api_release_export E i)"
  "raises error_status (api_deny_export E i reason)" "raises error_status api_list_exports"
  unfolding api_decide_def apply_approval_decision_def ensure_approval_pending_def decide_lab_def decide_export_def
    api_list_approvals_def api_create_export_def record_approval_request_def api_release_export_def api_deny_export_def
    api_list_exports_def Let_def
  by (auto intro!: raise proper split: exn.splits)

lemma raises_services:
  "raises error_status (api_create_secret_lease E l n r ttl)" "raises error_status (api_list_secret_leases l)"
  "raises error_status (api_revoke_secret_lease E i actor reason)" "raises error_status (api_enqueue_scheduler_job E req)"
  "raises error_status api_list_scheduler_jobs" "raises error_status (api_dispatch_next_scheduler_job E)"
  "raises error_status (api_list_events q)" "raises error_status (api_create_snapshot E l rid r)"
  "raises error_status (api_list_snapshots E)" "raises error_status (api_restore_snapshot E i l r)"
  unfolding api_create_secret_lease_def api_list_secret_leases_def api_revoke_secret_lease_def api_enqueue_scheduler_job_def
    api_list_scheduler_jobs_def api_dispatch_next_scheduler_job_def api_list_events_def api_create_snapshot_def
    api_list_snapshots_def api_restore_snapshot_def unsupported_runtime_def
  by (auto intro!: raise proper split: exn.splits)

fun over_http :: "request \<Rightarrow> bool" where
  "over_http (Reconcile inventory retry m now) = False"
| "over_http req = True"

lemma serve_raises: "over_http req \<Longrightarrow> raises error_status (serve E req)"
  by (cases req rule: over_http.cases)
     (auto simp: answer_def api_approve_request_def api_deny_request_def
        intro!: raise raises_labs raises_governance raises_services)

end
