(* ===== verification/Cli_Api.thy ===== *)
theory Cli_Api
  imports Http Api_Errors
begin

section \<open>The command line against the API\<close>

text \<open>
  The commands run on the world of the services itself: the host's HTTP client reaches \<open>serve_http\<close> and
  nothing else happens in between. \<open>connected\<close> says so of a host and a URL. \<open>framework_ok\<close> is what is relied
  on of FastAPI: an integer of a body is read as it is, and a document it renders reads back as the value, up to
  the order of the keys of its objects.
\<close>

text \<open>The characters a path is made of here: none that a URL gives a meaning of its own.\<close>

definition plain_char :: "char \<Rightarrow> bool" where
  "plain_char c \<longleftrightarrow> (let n = of_char c :: nat in 48 \<le> n \<and> n \<le> 57 \<or> 65 \<le> n \<and> n \<le> 90 \<or> 97 \<le> n \<and> n \<le> 122 \<or> n \<in> {45, 95})"

definition plain_path :: "string \<Rightarrow> bool" where
  "plain_path path \<longleftrightarrow> list_all (\<lambda>c. c = CHR ''/'' \<or> plain_char c) path"

definition connected :: "fastapi \<Rightarrow> env \<Rightarrow> world cli_host \<Rightarrow> string \<Rightarrow> bool" where
  "connected F E H api_url \<longleftrightarrow>
     (\<forall>verb path body. plain_path path \<longrightarrow>
        http_request H (normalize_api_url api_url) 10000000 verb path body = serve_http F E verb path body)"

definition framework_ok :: "fastapi \<Rightarrow> bool" where
  "framework_ok F \<longleftrightarrow> (\<forall>i. to_int F (PInt i) = Some i) \<and>
     (\<forall>v. keys_distinct v \<longrightarrow> (\<exists>v'. json_loads (render F v) = Some v' \<and> json_sorted v' = json_sorted v))"

text \<open>An identifier that a path holds as one segment.\<close>

definition segment :: "string \<Rightarrow> bool" where
  "segment i \<longleftrightarrow> i \<noteq> [] \<and> list_all plain_char i"

lemma segmentD: "segment i \<Longrightarrow> i \<noteq> [] \<and> CHR ''/'' \<notin> set i"
  by (auto simp: segment_def list_all_iff plain_char_def)

lemma segment_words [simp]:
  "segment ''labs''" "segment ''approvals''" "segment ''approve''" "segment ''deny''"
  by (simp_all add: segment_def plain_char_def)

lemma segment_plain: "segment i \<Longrightarrow> list_all (\<lambda>c. c = CHR ''/'' \<or> plain_char c) i"
  by (auto simp: segment_def list_all_iff)

lemma plain_paths:
  "plain_path ''/labs''" "plain_path ''/runs''" "plain_path ''/snapshots''" "plain_path ''/exports''"
  "plain_path ''/approvals''" "plain_path ''/events''" "plain_path ''/scheduler/jobs''"
  "plain_path ''/scheduler/jobs/dispatch-next''"
  "segment i \<Longrightarrow> plain_path (''/labs/'' @ i)" "segment i \<Longrightarrow> plain_path (''/approvals/'' @ i @ ''/approve'')"
  "segment i \<Longrightarrow> plain_path (''/approvals/'' @ i @ ''/deny'')"
  using segment_plain [of i] by (simp_all add: plain_path_def plain_char_def)

text \<open>How a command ends whose request the services answered.\<close>

definition error_text :: "fastapi \<Rightarrow> exn \<Rightarrow> string" where
  "error_text F e = or_str (strip (response_text (error_answer F e))) (status_message (error_answer F e))"

definition finished :: "fastapi \<Rightarrow> (exn + response) \<times> world \<Rightarrow> world console \<Rightarrow> (exn + unit) \<times> world console" where
  "finished F out c =
     (case out of
        (Inr resp, w) \<Rightarrow>
          (Inr (), c\<lparr>host := w, stdout_text := stdout_text c @ json_dumps_indent 2 (response_json F resp) @ [CHR 10]\<rparr>)
      | (Inl e, w) \<Rightarrow>
          (Inl (Exit 1), c\<lparr>host := w, stderr_text := stderr_text c @ error_text F e @ [CHR 10]\<rparr>))"

subsection \<open>Documents\<close>

lemma distinct_keys_responses: "keys_distinct (response_json F r)"
proof -
  have doc: "keys_distinct (lab_json F a)" "keys_distinct (run_json F b)" "keys_distinct (approval_json F d)"
    "keys_distinct (snapshot_json F s)" "keys_distinct (export_json F x)" "keys_distinct (lease_json F k)"
    "keys_distinct (event_json F ev)" "keys_distinct (job_json F j)" for a b d s x k ev j
    by (simp_all add: lab_json_def run_json_def approval_json_def snapshot_json_def export_json_def lease_json_def
        event_json_def job_json_def Let_def opt_str_def opt_time_def opt_int_def time_json_def split: option.splits)
  then show ?thesis by (cases r) (simp_all add: list_all_iff)
qed

lemma pretty_cong: "json_sorted v = json_sorted v' \<Longrightarrow> json_dumps_indent k v = json_dumps_indent k v'"
  unfolding json_dumps_indent_def by (metis pretty_sorted)

subsection \<open>One request\<close>

lemma error_answer_status: "error_status e \<Longrightarrow> \<not> is_success (error_answer F e)"
  by (cases e) (auto simp: error_answer_def ok_answer_def answer_with_def is_success_def)

text \<open>A document that was read: the value up to the order of keys.\<close>

lemma request_answered:
  assumes host: "connected F E H api_url" and F: "framework_ok F" and plain: "plain_path path"
    and answer: "serve_http F E verb path body (host c) = (Inr (ok_answer F code v), w)" "code \<in> {200, 201}"
    and keys: "keys_distinct v"
  shows "\<exists>v'. request_json H api_url verb path body c = (Inr v', c\<lparr>host := w\<rparr>) \<and> json_sorted v' = json_sorted v"
proof -
  obtain v' where v': "json_loads (render F v) = Some v'" "json_sorted v' = json_sorted v"
    using F keys by (auto simp: framework_ok_def)
  have "is_success (ok_answer F code u)" for u using answer(2) by (auto simp: ok_answer_def answer_with_def is_success_def)
  then show ?thesis
    using host plain answer(1) v'
    by (auto simp: connected_def request_json_def attempt_def bnd_def on_host_def liftR_def raise_for_status_def check_def
        ok_answer_def answer_with_def loads_def)
qed

lemma request_refused:
  assumes host: "connected F E H api_url" and plain: "plain_path path" and e: "error_status e"
    and answer: "serve_http F E verb path body (host c) = (Inr (error_answer F e), w)"
  shows "request_json H api_url verb path body c =
    (Inl (Exit 1), c\<lparr>host := w, stderr_text := stderr_text c @ error_text F e @ [CHR 10]\<rparr>)"
  using assms error_answer_status [OF e, of F]
  by (simp add: connected_def request_json_def attempt_def bnd_def on_host_def liftR_def raise_for_status_def check_def
      fail_with_def echo_err_def modify_def throw_def error_text_def)

text \<open>A request of the services, whose exceptions are answered.\<close>

lemma wp_request:
  assumes ok: "connected F E H api_url" "framework_ok F" and req: "over_http req" and plain: "plain_path path"
    and route: "route F verb path body = Some (Some (Api req code))" "code \<in> {200, 201}"
  shows "wp (request_json H api_url verb path body)
    (\<lambda>r c'. case serve E req (host c) of
        (Inl e, w) \<Rightarrow> r = Inl (Exit 1) \<and> c' = c\<lparr>host := w, stderr_text := stderr_text c @ error_text F e @ [CHR 10]\<rparr>
      | (Inr resp, w) \<Rightarrow> c' = c\<lparr>host := w\<rparr> \<and> (\<exists>v. r = Inr v \<and> json_sorted v = json_sorted (response_json F resp))) c"
proof (cases "serve E req (host c)")
  case (Pair r w)
  show ?thesis
  proof (cases r)
    case (Inl e)
    have "error_status e" using serve_raises [OF req, of E] Pair Inl by (auto simp: raises_def)
    from request_refused [OF ok(1) plain this] show ?thesis
      using route Pair Inl by (simp add: serve_http_def serve_api_def wp_def)
  next
    case (Inr resp)
    show ?thesis
      using request_answered [OF ok plain _ route(2) distinct_keys_responses, of verb body c F resp w] route(1) Pair Inr
      by (auto simp: serve_http_def serve_api_def wp_def)
  qed
qed

text \<open>What a command does whose path has a route to the services.\<close>

lemma call_api_served:
  assumes ok: "connected F E H api_url" "framework_ok F"
    and route: "route F verb path body = Some (Some (Api req code))" "code \<in> {200, 201}" and req: "over_http req"
    and plain: "plain_path path"
  shows "call_api H api_url verb path body c = finished F (serve E req (host c)) c"
proof (cases "request_json H api_url verb path body c")
  case (Pair r c')
  note asked = wp_result [OF wp_request [OF ok req plain route] Pair]
  show ?thesis
  proof (cases "fst (serve E req (host c))")
    case (Inl e)
    then show ?thesis using asked Pair by (simp add: call_api_def bnd_def finished_def split: prod.splits)
  next
    case (Inr resp)
    then obtain v where v: "r = Inr v" "json_sorted v = json_sorted (response_json F resp)"
      and c': "c' = c\<lparr>host := snd (serve E req (host c))\<rparr>" using asked by (auto split: prod.splits)
    show ?thesis
      using Pair v(1) c' Inr pretty_cong [OF v(2), of 2]
      by (cases c; cases "serve E req (host c)") (simp add: call_api_def bnd_def finished_def emit_json_def echo_def modify_def)
  qed
qed

subsection \<open>The routes the commands use\<close>

lemma path_two: "segment a \<Longrightarrow> segment b \<Longrightarrow> split_on (CHR ''/'') (''/'' @ a @ ''/'' @ b) = [[], a, b]"
  by (simp add: segmentD split_on_append split_on_no_sep_id)

lemma path_three: "segment a \<Longrightarrow> segment b \<Longrightarrow> segment d \<Longrightarrow>
    split_on (CHR ''/'') (''/'' @ a @ ''/'' @ b @ ''/'' @ d) = [[], a, b, d]"
  by (simp add: segmentD split_on_append split_on_no_sep_id)

lemma list_routes:
  "route F ''GET'' ''/labs'' None = Some (Some (Api ListLabs 200))"
  "route F ''GET'' ''/runs'' None = Some (Some (Api ListRuns 200))"
  "route F ''GET'' ''/snapshots'' None = Some (Some (Api ListSnapshots 200))"
  "route F ''GET'' ''/exports'' None = Some (Some (Api ListExports 200))"
  "route F ''GET'' ''/approvals'' None = Some (Some (Api ListApprovals 200))"
  "route F ''GET'' ''/events'' None = Some (Some (Api (ListEvents all_events) 200))"
  "route F ''GET'' ''/scheduler/jobs'' None = Some (Some (Api ListJobs 200))"
  "route F ''POST'' ''/scheduler/jobs/dispatch-next'' None = Some (Some (Api DispatchJob 200))"
  by (simp_all add: route_def get_route_def post_route_def job_list_path_def)

lemma lab_routes:
  assumes "segment i"
  shows "route F ''GET'' (''/labs/'' @ i) None = Some (Some (Api (GetLab i) 200))"
    and "route F ''DELETE'' (''/labs/'' @ i) None = Some (Some (Api (DestroyLab i) 200))"
  using path_two [of "''labs''" i] assms by (auto simp: route_def get_route_def job_list_path_def dest: segmentD)

lemma decision_routes:
  assumes "segment i"
  shows "route F ''POST'' (''/approvals/'' @ i @ ''/approve'') (Some (PDict [(''actor'', PStr actor), (''comment'', opt_str comment)])) =
      Some (Some (Api (Approve i actor comment) 200))"
    and "route F ''POST'' (''/approvals/'' @ i @ ''/deny'') (Some (PDict [(''actor'', PStr actor), (''comment'', opt_str comment)])) =
      Some (Some (Api (Deny i actor comment) 200))"
  using path_three [of "''approvals''" i "''approve''"] path_three [of "''approvals''" i "''deny''"] assms
  by (auto simp: route_def post_route_def job_list_path_def with_body_def approval_decision_request_of_def
      str_field_def opt_str_field_def default_field_def dict_item_def opt_str_def read_opt_str_def
      dest: segmentD split: option.splits)

text \<open>Bodies: what the command line sends and the model does not name is ignored.\<close>

lemmas body_defs = str_field_def opt_str_field_def requester_field_def default_field_def dict_item_def opt_str_def
  read_opt_str_def read_requester_def

lemma lab_body:
  "route F ''POST'' ''/labs'' (Some (PDict [(''profile_name'', PStr p), (''requester_type'', PStr (requester_value r)),
     (''base_snapshot_id'', snapshot), (''metadata'', metadata)])) = Some (Some (Api (CreateLab p r) 201))"
  by (simp add: route_def post_route_def with_body_def lab_create_request_of_def body_defs)

lemma run_body:
  "route F ''POST'' ''/runs'' (Some (PDict [(''lab_id'', PStr l), (''command'', PStr cmd), (''metadata'', metadata)])) =
     Some (Some (Api (CreateRun l cmd REQ_HUMAN) 201))"
  by (simp add: route_def post_route_def with_body_def run_create_request_of_def body_defs)

lemma snapshot_body:
  "route F ''POST'' ''/snapshots'' (Some (PDict [(''lab_id'', PStr l), (''run_id'', opt_str rid),
     (''requester_type'', PStr (requester_value r))])) = Some (Some (Api (CreateSnapshot l rid r) 201))"
  by (simp add: route_def post_route_def with_body_def snapshot_create_request_of_def body_defs split: option.splits)

lemma export_body:
  "route F ''POST'' ''/exports'' (Some (PDict [(''lab_id'', PStr l), (''source_path'', PStr path), (''run_id'', opt_str rid),
     (''requester_type'', PStr (requester_value r))])) = Some (Some (Api (CreateExport l path rid r) 201))"
  by (simp add: route_def post_route_def with_body_def export_create_request_of_def body_defs split: option.splits)

lemma job_body:
  assumes "framework_ok F" and "valid_job_request q" and at: "jr_scheduled_for q = Option.bind scheduled (\<lambda>s. to_datetime F (PStr s))"
    and "scheduled \<noteq> None \<Longrightarrow> jr_scheduled_for q \<noteq> None"
  shows "route F ''POST'' ''/scheduler/jobs'' (Some (PDict
     [(''action'', PStr (action_value (jr_action q))), (''requester_id'', PStr (jr_requester_id q)),
      (''profile_name'', opt_str (jr_profile_name q)), (''lab_id'', opt_str (jr_lab_id q)), (''command'', opt_str (jr_command q)),
      (''scheduled_for'', opt_str scheduled), (''max_attempts'', PInt (jr_max_attempts q))])) =
     Some (Some (Api (EnqueueJob q) 201))"
proof -
  have read: "read_opt_str (opt_str x) = Some x" for x by (cases x) (simp_all add: read_opt_str_def opt_str_def)
  have "(if opt_str scheduled = PNone then Some None else map_option Some (to_datetime F (opt_str scheduled))) =
      Some (jr_scheduled_for q)"
    using at assms(4) by (cases scheduled) (auto simp: opt_str_def)
  then have "job_create_request_of F (PDict
     [(''action'', PStr (action_value (jr_action q))), (''requester_id'', PStr (jr_requester_id q)),
      (''profile_name'', opt_str (jr_profile_name q)), (''lab_id'', opt_str (jr_lab_id q)), (''command'', opt_str (jr_command q)),
      (''scheduled_for'', opt_str scheduled), (''max_attempts'', PInt (jr_max_attempts q))]) = Some q"
    using assms(1,2) by (cases q) (simp add: job_create_request_of_def str_field_def opt_str_field_def default_field_def dict_item_def
        read framework_ok_def Let_def)
  then show ?thesis by (simp add: route_def post_route_def job_list_path_def with_body_def)
qed

subsection \<open>The commands\<close>

text \<open>An argument that is left out or is a JSON object.\<close>

definition object_or_none :: "string option \<Rightarrow> bool" where
  "object_or_none raw \<longleftrightarrow> (case raw of None \<Rightarrow> True | Some s \<Rightarrow> (\<exists>kvs. json_loads s = Some (PDict kvs)))"

lemma parse_object_or_none: "object_or_none raw \<Longrightarrow> \<exists>v. parse_json_object name raw = returns v"
  by (auto simp: object_or_none_def parse_json_object_def split: option.splits)

lemma commands_served:
  assumes ok: "connected F E H url" "framework_ok F" and i: "segment i" and metadata: "object_or_none metadata"
  shows "labs_list H url c = finished F (serve E ListLabs (host c)) c"
    "labs_get H i url c = finished F (serve E (GetLab i) (host c)) c"
    "labs_destroy H i url c = finished F (serve E (DestroyLab i) (host c)) c"
    "labs_create H p (requester_value r) snapshot metadata url c = finished F (serve E (CreateLab p r) (host c)) c"
    "runs_list H url c = finished F (serve E ListRuns (host c)) c"
    "runs_start H l command metadata url c = finished F (serve E (CreateRun l command REQ_HUMAN) (host c)) c"
    "snapshots_list H url c = finished F (serve E ListSnapshots (host c)) c"
    "snapshots_create H l rid (requester_value r) url c = finished F (serve E (CreateSnapshot l rid r) (host c)) c"
    "exports_list H url c = finished F (serve E ListExports (host c)) c"
    "exports_request H l path rid (requester_value r) url c = finished F (serve E (CreateExport l path rid r) (host c)) c"
    "approvals_list H url c = finished F (serve E ListApprovals (host c)) c"
    "approvals_approve H i actor comment url c = finished F (serve E (Approve i actor comment) (host c)) c"
    "approvals_deny H i actor comment url c = finished F (serve E (Deny i actor comment) (host c)) c"
    "events_list H url c = finished F (serve E (ListEvents all_events) (host c)) c"
    "scheduler_list H url c = finished F (serve E ListJobs (host c)) c"
    "scheduler_dispatch_next H url c = finished F (serve E DispatchJob (host c)) c"
proof -
  note serve = call_api_served [OF ok]
  show "labs_list H url c = finished F (serve E ListLabs (host c)) c"
    "runs_list H url c = finished F (serve E ListRuns (host c)) c"
    "snapshots_list H url c = finished F (serve E ListSnapshots (host c)) c"
    "exports_list H url c = finished F (serve E ListExports (host c)) c"
    "approvals_list H url c = finished F (serve E ListApprovals (host c)) c"
    "events_list H url c = finished F (serve E (ListEvents all_events) (host c)) c"
    "scheduler_list H url c = finished F (serve E ListJobs (host c)) c"
    "scheduler_dispatch_next H url c = finished F (serve E DispatchJob (host c)) c"
    unfolding labs_list_def runs_list_def snapshots_list_def exports_list_def approvals_list_def events_list_def
      scheduler_list_def scheduler_dispatch_next_def
    by (rule list_routes [THEN serve]; simp add: plain_paths)+
  show "labs_get H i url c = finished F (serve E (GetLab i) (host c)) c"
    "labs_destroy H i url c = finished F (serve E (DestroyLab i) (host c)) c"
    unfolding labs_get_def labs_destroy_def by (rule lab_routes [OF i, THEN serve]; simp add: plain_paths i del: append.simps)+
  show "approvals_approve H i actor comment url c = finished F (serve E (Approve i actor comment) (host c)) c"
    "approvals_deny H i actor comment url c = finished F (serve E (Deny i actor comment) (host c)) c"
    unfolding approvals_approve_def approvals_deny_def
    by (rule decision_routes [OF i, THEN serve]; simp add: plain_paths i del: append.simps)+
  obtain v where v: "(parse_json_object ''metadata'' metadata :: (world, pyval) cmd) = returns v"
    using parse_object_or_none [OF metadata] by blast
  show "labs_create H p (requester_value r) snapshot metadata url c = finished F (serve E (CreateLab p r) (host c)) c"
    unfolding labs_create_def v bnd_no_effect by (rule serve [OF lab_body]) (simp_all add: plain_paths)
  show "runs_start H l command metadata url c = finished F (serve E (CreateRun l command REQ_HUMAN) (host c)) c"
    unfolding runs_start_def v bnd_no_effect by (rule serve [OF run_body]) (simp_all add: plain_paths)
  show "snapshots_create H l rid (requester_value r) url c = finished F (serve E (CreateSnapshot l rid r) (host c)) c"
    unfolding snapshots_create_def by (rule serve [OF snapshot_body]) (simp_all add: plain_paths)
  show "exports_request H l path rid (requester_value r) url c = finished F (serve E (CreateExport l path rid r) (host c)) c"
    unfolding exports_request_def by (rule serve [OF export_body]) (simp_all add: plain_paths)
qed

lemma enqueue_served:
  assumes ok: "connected F E H url" "framework_ok F" and q: "valid_job_request q"
    and action: "map (\<lambda>c. if c = CHR ''-'' then CHR ''_'' else c) action = action_value (jr_action q)"
    and at: "jr_scheduled_for q = Option.bind scheduled (\<lambda>s. to_datetime F (PStr s))"
      "scheduled \<noteq> None \<Longrightarrow> jr_scheduled_for q \<noteq> None"
  shows "scheduler_enqueue H action (jr_requester_id q) (jr_profile_name q) (jr_lab_id q) (jr_command q) scheduled
      (jr_max_attempts q) url c = finished F (serve E (EnqueueJob q) (host c)) c"
proof -
  have "action_value (jr_action q) \<in> {''create_lab'', ''start_run''}" by (cases "jr_action q") (simp_all add: action_value.simps)
  then show ?thesis
    unfolding scheduler_enqueue_def action Let_def
    using call_api_served [OF ok job_body [OF ok(2) q at] _ _ plain_paths(7), of c] by simp
qed

subsection \<open>What is refused before any request\<close>

lemma enqueue_refused:
  "map (\<lambda>c. if c = CHR ''-'' then CHR ''_'' else c) action \<notin> {''create_lab'', ''start_run''} \<Longrightarrow>
   scheduler_enqueue H action requester p l command scheduled n url c =
     fail_with ''action must be one of: create-lab, start-run'' c"
  by (simp add: scheduler_enqueue_def)

lemma metadata_refused:
  assumes "\<not> object_or_none metadata"
  shows "labs_create H p r snapshot metadata url c = fail_with ''metadata must be a valid JSON object.'' c"
    and "runs_start H l command metadata url c = fail_with ''metadata must be a valid JSON object.'' c"
proof -
  have "(parse_json_object ''metadata'' metadata :: ('a, pyval) cmd) = fail_with ''metadata must be a valid JSON object.''"
    using assms by (auto simp: object_or_none_def parse_json_object_def split: option.splits pyval.splits)
  then show "labs_create H p r snapshot metadata url c = fail_with ''metadata must be a valid JSON object.'' c"
    and "runs_start H l command metadata url c = fail_with ''metadata must be a valid JSON object.'' c"
    by (simp_all add: labs_create_def runs_start_def bnd_def fail_with_def echo_err_def modify_def throw_def
        del: append.simps)
qed

subsection \<open>The commands as a table\<close>

text \<open>The commands that are registered under \<open>labs\<close>, \<open>runs\<close>, \<open>snapshots\<close>, \<open>exports\<close>, \<open>approvals\<close>, \<open>events\<close>
  and \<open>scheduler\<close>, with what each asks of the services. The requester type of \<open>runs start\<close> is the default of
  the request model.\<close>

datatype api_command =
    LabsCreate string RequesterType "string option" "string option"
  | LabsList
  | LabsGet string
  | LabsDestroy string
  | RunsStart string string "string option"
  | RunsList
  | SnapshotsList
  | SnapshotsCreate string "string option" RequesterType
  | ExportsRequest string string "string option" RequesterType
  | ExportsList
  | ApprovalsList
  | ApprovalsApprove string string "string option"
  | ApprovalsDeny string string "string option"
  | EventsList
  | SchedulerList
  | SchedulerDispatchNext

fun run_command :: "'h cli_host \<Rightarrow> string \<Rightarrow> api_command \<Rightarrow> ('h, unit) cmd" where
  "run_command H url (LabsCreate p r snapshot metadata) = labs_create H p (requester_value r) snapshot metadata url"
| "run_command H url LabsList = labs_list H url"
| "run_command H url (LabsGet i) = labs_get H i url"
| "run_command H url (LabsDestroy i) = labs_destroy H i url"
| "run_command H url (RunsStart l command metadata) = runs_start H l command metadata url"
| "run_command H url RunsList = runs_list H url"
| "run_command H url SnapshotsList = snapshots_list H url"
| "run_command H url (SnapshotsCreate l rid r) = snapshots_create H l rid (requester_value r) url"
| "run_command H url (ExportsRequest l path rid r) = exports_request H l path rid (requester_value r) url"
| "run_command H url ExportsList = exports_list H url"
| "run_command H url ApprovalsList = approvals_list H url"
| "run_command H url (ApprovalsApprove i actor comment) = approvals_approve H i actor comment url"
| "run_command H url (ApprovalsDeny i actor comment) = approvals_deny H i actor comment url"
| "run_command H url EventsList = events_list H url"
| "run_command H url SchedulerList = scheduler_list H url"
| "run_command H url SchedulerDispatchNext = scheduler_dispatch_next H url"

fun command_request :: "api_command \<Rightarrow> request" where
  "command_request (LabsCreate p r snapshot metadata) = CreateLab p r"
| "command_request LabsList = ListLabs"
| "command_request (LabsGet i) = GetLab i"
| "command_request (LabsDestroy i) = DestroyLab i"
| "command_request (RunsStart l command metadata) = CreateRun l command REQ_HUMAN"
| "command_request RunsList = ListRuns"
| "command_request SnapshotsList = ListSnapshots"
| "command_request (SnapshotsCreate l rid r) = CreateSnapshot l rid r"
| "command_request (ExportsRequest l path rid r) = CreateExport l path rid r"
| "command_request ExportsList = ListExports"
| "command_request ApprovalsList = ListApprovals"
| "command_request (ApprovalsApprove i actor comment) = Approve i actor comment"
| "command_request (ApprovalsDeny i actor comment) = Deny i actor comment"
| "command_request EventsList = ListEvents all_events"
| "command_request SchedulerList = ListJobs"
| "command_request SchedulerDispatchNext = DispatchJob"

text \<open>Identifiers that name one resource, and metadata that is a JSON object.\<close>

fun well_formed :: "api_command \<Rightarrow> bool" where
  "well_formed (LabsCreate p r snapshot metadata) = object_or_none metadata"
| "well_formed (RunsStart l command metadata) = object_or_none metadata"
| "well_formed (LabsGet i) = segment i"
| "well_formed (LabsDestroy i) = segment i"
| "well_formed (ApprovalsApprove i actor comment) = segment i"
| "well_formed (ApprovalsDeny i actor comment) = segment i"
| "well_formed _ = True"

lemma command_served:
  assumes ok: "connected F E H url" "framework_ok F" and "well_formed x"
  shows "run_command H url x c = finished F (serve E (command_request x) (host c)) c"
proof -
  have none: "segment ''labs''" "object_or_none None" by (simp_all add: object_or_none_def)
  note served = commands_served [OF ok none] commands_served [OF ok none(1)] commands_served [OF ok _ none(2)]
  show ?thesis
    using assms(3) by (cases x) (simp_all add: served del: serve.simps)
qed

end
