(* ===== verification/Cli_Release.thy ===== *)
theory Cli_Release
  imports Cli
begin

section \<open>The release commands\<close>

text \<open>
  The \<open>release\<close> and \<open>runtime\<close> commands of \<open>labos/cli/main.py\<close>: the state of the git working tree and of
  Docker as one report, and the smoke runs, which create a lab, use it and destroy it. \<open>smoke-local\<close> starts
  an API server of its own and stops it again.
\<close>

subsection \<open>Git\<close>

definition git_status_command :: "string list" where
  "git_status_command = [''git'', ''status'', ''--short'']"

definition git_status_is_clean :: "'h cli_host \<Rightarrow> ('h, bool) cmd" where
  "git_status_is_clean H =
     bnd (on_host (subprocess_run H git_status_command None)) (\<lambda>result.
     returns (cp_returncode result = 0 \<and> strip (cp_stdout result) = []))"

text \<open>\<open>str.splitlines\<close>: \<open>\r\n\<close> is one boundary, and a boundary at the end opens no line.\<close>

definition line_boundary :: "char \<Rightarrow> bool" where
  "line_boundary c \<longleftrightarrow> (of_char c :: nat) \<in> {10, 11, 12, 13, 28, 29, 30, 133}"

fun splitlines_from :: "string \<Rightarrow> string \<Rightarrow> string list" where
  "splitlines_from line [] = (if line = [] then [] else [rev line])"
| "splitlines_from line (c # s) =
     (if c = CHR 13 \<and> startswith s [CHR 10] then rev line # splitlines_from [] (tl s)
      else if line_boundary c then rev line # splitlines_from [] s
      else splitlines_from (c # line) s)"

definition splitlines :: "string \<Rightarrow> string list" where
  "splitlines s = splitlines_from [] s"

record git_entry =
  ge_path :: string
  ge_status :: string

definition git_entry_of :: "string \<Rightarrow> git_entry" where
  "git_entry_of line = \<lparr>ge_path = (if length line > 3 then drop 3 line else []), ge_status = take 2 line\<rparr>"

definition git_status_entries :: "'h cli_host \<Rightarrow> ('h, git_entry list) cmd" where
  "git_status_entries H =
     bnd (on_host (subprocess_run H git_status_command None)) (\<lambda>result.
     if cp_returncode result \<noteq> 0 then returns []
     else returns (map git_entry_of (filter (\<lambda>line. strip line \<noteq> []) (splitlines (cp_stdout result)))))"

record git_report =
  gr_clean :: bool
  gr_detail :: string
  gr_entries :: "git_entry list"
  gr_issue_code :: string
  gr_remediation :: string

definition render_entry :: "git_entry \<Rightarrow> string" where
  "render_entry e = ge_status e @ '' '' @ ge_path e"

definition git_report_of :: "git_entry list \<Rightarrow> git_report" where
  "git_report_of entries =
     (if entries = []
      then \<lparr>gr_clean = True, gr_detail = ''git working tree is clean'', gr_entries = [], gr_issue_code = ''clean'',
            gr_remediation = ''none''\<rparr>
      else \<lparr>gr_clean = False, gr_detail = ''git working tree is not clean: '' @ join '', '' (map render_entry entries),
            gr_entries = entries, gr_issue_code = ''dirty'',
            gr_remediation = ''commit, stash, or delete the reported paths before tagging''\<rparr>)"

definition git_status_payload :: "'h cli_host \<Rightarrow> ('h, git_report) cmd" where
  "git_status_payload H = bnd (git_status_entries H) (\<lambda>entries. returns (git_report_of entries))"

definition git_json :: "git_report \<Rightarrow> pyval" where
  "git_json g = PDict
     [(''clean'', PBool (gr_clean g)), (''detail'', PStr (gr_detail g)),
      (''entries'', PList (map (\<lambda>e. PDict [(''path'', PStr (ge_path e)), (''status'', PStr (ge_status e))]) (gr_entries g))),
      (''issue_code'', PStr (gr_issue_code g)), (''remediation'', PStr (gr_remediation g))]"

definition git_head_sha :: "'h cli_host \<Rightarrow> ('h, string) cmd" where
  "git_head_sha H =
     bnd (on_host (subprocess_run H [''git'', ''rev-parse'', ''HEAD''] None)) (\<lambda>result.
     returns (if cp_returncode result \<noteq> 0 then ''unknown'' else or_str (strip (cp_stdout result)) ''unknown''))"

subsection \<open>The release status\<close>

definition opt_bool :: "bool option \<Rightarrow> pyval" where
  "opt_bool x = (case x of None \<Rightarrow> PNone | Some b \<Rightarrow> PBool b)"

definition docker_probe_payload :: "DockerEnvironmentProbe \<Rightarrow> pyval" where
  "docker_probe_payload p = PDict
     [(''cli_present'', PBool (dp_cli_present p)), (''cli_path'', opt_str (dp_cli_path p)),
      (''current_user'', opt_str (dp_current_user p)), (''daemon_reachable'', PBool (dp_daemon_reachable p)),
      (''daemon_error'', opt_str (dp_daemon_error p)), (''daemon_target'', opt_str (dp_daemon_target p)),
      (''detail'', PStr (dp_detail p)), (''issue_code'', PStr (dp_issue_code p)),
      (''remediation'', PStr (dp_remediation p)), (''ready'', PBool (probe_ready p)),
      (''socket_exists'', opt_bool (dp_socket_exists p)), (''socket_group'', opt_str (dp_socket_group p)),
      (''socket_mode'', opt_str (dp_socket_mode p)), (''socket_owner'', opt_str (dp_socket_owner p)),
      (''socket_path'', opt_str (dp_socket_path p)), (''user_groups'', PList (map PStr (dp_user_groups p))),
      (''user_in_socket_group'', opt_bool (dp_user_in_socket_group p))]"

definition release_pending_steps :: "bool \<Rightarrow> bool \<Rightarrow> string list" where
  "release_pending_steps git_clean docker_ready =
     (if git_clean then [] else [''clean git working tree'']) @
     (if docker_ready then [] else [''validate local Docker integration from scratch'']) @
     [''tag first release'']"

definition release_next_action :: "bool \<Rightarrow> DockerEnvironmentProbe \<Rightarrow> string" where
  "release_next_action git_clean docker_probe =
     (if \<not> git_clean then ''clean the git working tree, then re-run labos release readiness''
      else if \<not> probe_ready docker_probe
      then dp_remediation docker_probe @ '', then re-run labos release smoke-docker and labos runtime probe-docker''
      else ''tag the verified v0.1.0 release once changelog/release notes are finalized'')"

record release_status =
  st_blockers :: "string list"
  st_docker :: DockerEnvironmentProbe
  st_git :: git_report
  st_git_clean :: bool
  st_next_action :: string
  st_pending_steps :: "string list"
  st_ready :: bool
  st_tag_ready :: bool
  st_commit :: "string option"

definition release_status_of :: "git_report \<Rightarrow> DockerEnvironmentProbe \<Rightarrow> string option \<Rightarrow> release_status" where
  "release_status_of git docker_probe commit =
     (let git_clean = gr_clean git;
          blockers = (if git_clean then [] else [gr_detail git]) @
            (if probe_ready docker_probe then [] else [dp_detail docker_probe])
      in \<lparr>st_blockers = blockers, st_docker = docker_probe, st_git = git, st_git_clean = git_clean,
          st_next_action = release_next_action git_clean docker_probe,
          st_pending_steps = release_pending_steps git_clean (probe_ready docker_probe),
          st_ready = (blockers = []), st_tag_ready = (git_clean \<and> probe_ready docker_probe), st_commit = commit\<rparr>)"

definition release_status_payload :: "'h cli_host \<Rightarrow> bool \<Rightarrow> ('h, release_status) cmd" where
  "release_status_payload H include_commit =
     bnd (git_status_payload H) (\<lambda>git.
     bnd (probe_docker H) (\<lambda>docker_probe.
     bnd (if include_commit then bnd (git_head_sha H) (\<lambda>sha. returns (Some sha)) else returns None) (\<lambda>commit.
     returns (release_status_of git docker_probe commit))))"

definition status_items :: "release_status \<Rightarrow> (string \<times> pyval) list" where
  "status_items st =
     [(''blockers'', PList (map PStr (st_blockers st))), (''docker'', docker_probe_payload (st_docker st)),
      (''git'', git_json (st_git st)), (''git_clean'', PBool (st_git_clean st)),
      (''next_action'', PStr (st_next_action st)), (''pending_steps'', PList (map PStr (st_pending_steps st))),
      (''ready'', PBool (st_ready st)), (''tag_ready'', PBool (st_tag_ready st))] @
     (case st_commit st of None \<Rightarrow> [] | Some sha \<Rightarrow> [(''commit'', PStr sha)])"

definition runtime_probe_docker :: "'h cli_host \<Rightarrow> ('h, unit) cmd" where
  "runtime_probe_docker H =
     bnd (probe_docker H) (\<lambda>probe.
     bnd (emit_json (docker_probe_payload probe)) (\<lambda>_.
     if probe_ready probe then returns () else throw (Exit 1)))"

definition release_readiness :: "'h cli_host \<Rightarrow> ('h, unit) cmd" where
  "release_readiness H =
     bnd (release_status_payload H False) (\<lambda>st.
     bnd (emit_json (PDict (status_items st))) (\<lambda>_.
     if st_blockers st = [] then returns () else throw (Exit 1)))"

definition docs_validated :: "string list" where
  "docs_validated = [''README.md'', ''docs/api.md'', ''docs/cli.md'', ''docs/release-checklist.md'']"

definition yes_no :: "bool \<Rightarrow> string" where
  "yes_no b = (if b then ''yes'' else ''no'')"

definition evidence_template :: "release_status \<Rightarrow> bool \<Rightarrow> (string \<times> string) list" where
  "evidence_template st honesty_boundary_confirmed =
     (let git = st_git st; docker = st_docker st
      in [(''API smoke'', ''labos release smoke-docs''), (''CLI smoke'', ''labos release smoke-cli''),
          (''Docker smoke'', ''labos release smoke-docker''), (''Commit'', the (st_commit st)),
          (''Git detail'', gr_detail git),
          (''Git entries'', or_str (join ''; '' (map render_entry (gr_entries git))) ''clean''),
          (''Git issue code'', gr_issue_code git), (''Git remediation'', gr_remediation git),
          (''Docker CLI path'', opt_or (dp_cli_path docker) ''unknown''),
          (''Docker current user'', opt_or (dp_current_user docker) ''unknown''),
          (''Docker daemon error'', opt_or (dp_daemon_error docker) ''n/a''),
          (''Docker daemon target'', opt_or (dp_daemon_target docker) ''unknown''),
          (''Docker issue code'', dp_issue_code docker), (''Docker integration notes'', dp_detail docker),
          (''Docker remediation'', dp_remediation docker),
          (''Docker socket path'', opt_or (dp_socket_path docker) ''n/a''),
          (''Docker socket owner'', opt_or (dp_socket_owner docker) ''n/a''),
          (''Docker socket group'', opt_or (dp_socket_group docker) ''n/a''),
          (''Docker socket mode'', opt_or (dp_socket_mode docker) ''n/a''),
          (''Docker socket exists'', yes_no (dp_socket_exists docker = Some True)),
          (''Docker user groups'', or_str (join '', '' (dp_user_groups docker)) ''none''),
          (''Docker user in socket group'',
             (case dp_user_in_socket_group docker of None \<Rightarrow> ''unknown'' | Some b \<Rightarrow> yes_no b)),
          (''Docs validated'', join '', '' docs_validated),
          (''Honesty boundary confirmed'', yes_no honesty_boundary_confirmed),
          (''Install smoke'', ''uv sync --extra dev''), (''Lint'', ''uv run ruff check .''),
          (''Next action'', st_next_action st), (''Pending steps'', join ''; '' (st_pending_steps st)),
          (''Tag ready'', yes_no (st_tag_ready st)), (''Tests'', ''uv run pytest -q''), (''Types'', ''uv run mypy'')])"

definition release_evidence :: "'h cli_host \<Rightarrow> ('h, unit) cmd" where
  "release_evidence H =
     bnd (release_status_payload H True) (\<lambda>st.
     let honesty_boundary_confirmed = st_tag_ready st
     in emit_json (PDict (status_items st @
          [(''docs_validated'', PList (map PStr docs_validated)),
           (''honesty_boundary_confirmed'', PBool honesty_boundary_confirmed),
           (''template'', PDict (map (map_prod id PStr) (evidence_template st honesty_boundary_confirmed)))])))"

subsection \<open>What the reports say\<close>

lemma status_yields:
  "yields (\<lambda>st. \<exists>entries p. st = release_status_of (git_report_of entries) p None) (release_status_payload H False)"
proof -
  have git: "yields (\<lambda>g. \<exists>entries. g = git_report_of entries) (git_status_payload H)"
    unfolding git_status_payload_def by (intro yields_bnd yields_returns) blast
  show ?thesis
    unfolding yields_def
  proof (intro allI impI)
    fix c st c'
    assume run: "release_status_payload H False c = (Inr st, c')"
    then obtain g p c1 where "git_status_payload H c = (Inr g, c1)" "st = release_status_of g p None"
      by (auto simp: release_status_payload_def bnd_def returns_def split: prod.splits sum.splits)
    with yieldsD [OF git] show "\<exists>entries p. st = release_status_of (git_report_of entries) p None" by blast
  qed
qed

lemma status_facts:
  fixes entries p commit
  defines "st \<equiv> release_status_of (git_report_of entries) p commit"
  shows "st_ready st \<longleftrightarrow> entries = [] \<and> probe_ready p" "st_tag_ready st = st_ready st"
    "st_blockers st = [] \<longleftrightarrow> st_ready st" "gr_entries (st_git st) = entries" "st_docker st = p" "st_commit st = commit"
  by (auto simp: st_def release_status_of_def git_report_of_def Let_def)

lemma status_keys: "st_commit st = None \<Longrightarrow> keys_distinct (PDict (status_items st))"
  by (simp add: status_items_def docker_probe_payload_def git_json_def opt_str_def opt_bool_def list_all_iff
      split: option.splits)

text \<open>A \<open>git status\<close> that fails, as outside a repository, is reported as a clean tree.\<close>

lemma failed_git_status_is_clean:
  assumes "subprocess_run H git_status_command None (host c) = (Inr p, h)" and "cp_returncode p \<noteq> 0"
  shows "git_status_payload H c = (Inr (git_report_of []), c\<lparr>host := h\<rparr>)" and "gr_clean (git_report_of [])"
  using assms
  by (simp_all add: git_status_payload_def git_status_entries_def bnd_def on_host_def returns_def git_report_of_def
      del: append.simps)

end
