(* ===== verification/Cli_Smoke.thy ===== *)
theory Cli_Smoke
  imports Cli_Release
begin

section \<open>The smoke runs\<close>

text \<open>
  The commands of \<open>labos/cli/main.py\<close> that use a live API end to end. The variable \<open>created_lab\<close> is set by
  one statement, so the body of the \<open>try\<close> is written as what comes before it, which the handler has nothing to
  clean up for, and what comes after. A \<open>finally\<close> runs whether its body returns or raises, and an exception
  of its own replaces the body's.
\<close>

definition with_cleanup :: "('s, 'a) program \<Rightarrow> ('s, unit) program \<Rightarrow> ('s, 'a) program" where
  "with_cleanup m cleanup = bnd (captured m) (\<lambda>r. bnd cleanup (\<lambda>_. liftR r))"

subsection \<open>Cleaning up\<close>

text \<open>\<open>with suppress(Exception)\<close>, and a result that counts only if it is an object.\<close>

definition only_dict :: "pyval \<Rightarrow> pyval option" where
  "only_dict v = (case v of PDict kvs \<Rightarrow> Some v | _ \<Rightarrow> None)"

definition best_effort_destroy_lab_via_api :: "'h cli_host \<Rightarrow> string \<Rightarrow> string \<Rightarrow> ('h, pyval option) cmd" where
  "best_effort_destroy_lab_via_api H api_url lab =
     attempt (bnd (request_json H api_url ''DELETE'' (''/labs/'' @ lab) None) (\<lambda>v. returns (only_dict v)))
       (\<lambda>_. returns None)"

definition best_effort_destroy_lab_via_cli :: "'h cli_host \<Rightarrow> str_dict \<Rightarrow> string \<Rightarrow> ('h, pyval option) cmd" where
  "best_effort_destroy_lab_via_cli H env_overrides lab =
     attempt (bnd (run_cli_json_command H [''labs'', ''destroy'', lab] env_overrides) (\<lambda>v. returns (only_dict v)))
       (\<lambda>_. returns None)"

text \<open>The handler of the smoke runs: destroy what has an identifier, then raise again.\<close>

definition or_destroy :: "('h, 'a) cmd \<Rightarrow> pyval \<Rightarrow> (string \<Rightarrow> ('h, pyval option) cmd) \<Rightarrow> ('h, 'a) cmd" where
  "or_destroy m created_lab destroy =
     attempt m (\<lambda>exc.
       bnd (case dict_item created_lab ''id'' of None \<Rightarrow> returns None | Some i \<Rightarrow> destroy (py_str i)) (\<lambda>_.
       throw exc))"

subsection \<open>smoke-docs\<close>

definition smoke_docs_body :: "'h cli_host \<Rightarrow> string \<Rightarrow> pyval \<Rightarrow> ('h, pyval \<times> pyval) cmd" where
  "smoke_docs_body H api_url created_lab =
     bnd (request_json H api_url ''GET'' ''/labs'' None) (\<lambda>labs.
     bnd (liftR (item_get created_lab ''id'')) (\<lambda>i.
     bnd (request_json H api_url ''DELETE'' (''/labs/'' @ py_str i) None) (\<lambda>destroyed_lab.
     returns (labs, destroyed_lab))))"

definition release_smoke_docs :: "'h cli_host \<Rightarrow> string \<Rightarrow> string \<Rightarrow> string \<Rightarrow> ('h, unit) cmd" where
  "release_smoke_docs H api_url profile requester_type =
     bnd (request_json H api_url ''GET'' ''/health'' None) (\<lambda>health.
     bnd (request_json H api_url ''GET'' ''/profiles'' None) (\<lambda>profiles.
     bnd (request_json H api_url ''POST'' ''/labs'' (Some (PDict
       [(''profile_name'', PStr profile), (''requester_type'', PStr requester_type), (''base_snapshot_id'', PNone),
        (''metadata'', PDict [(''source'', PStr ''release-smoke-docs'')])]))) (\<lambda>created_lab.
     bnd (or_destroy (smoke_docs_body H api_url created_lab) created_lab
           (best_effort_destroy_lab_via_api H api_url)) (\<lambda>(labs, destroyed_lab).
     bnd (liftR (py_len labs)) (\<lambda>n.
     bnd (liftR (column ''name'' profiles)) (\<lambda>names.
     emit_json (PDict
       [(''api_url'', PStr (normalize_api_url api_url)), (''created_lab'', created_lab),
        (''destroyed_lab'', destroyed_lab), (''health'', health), (''labs_list_count'', PInt n),
        (''profile_names'', names), (''profile_requested'', PStr profile),
        (''requester_type'', PStr requester_type)])))))))"

subsection \<open>smoke-cli\<close>

text \<open>An argument of a child process has to be a string.\<close>

definition cli_arg :: "pyval \<Rightarrow> exn + string" where
  "cli_arg v = (case v of PStr s \<Rightarrow> Inr s | _ \<Rightarrow> Inl (TypeError ''expected str, bytes or os.PathLike object''))"

definition lab_command :: "'h cli_host \<Rightarrow> str_dict \<Rightarrow> string \<Rightarrow> pyval \<Rightarrow> ('h, pyval) cmd" where
  "lab_command H env_overrides verb created_lab =
     bnd (liftR (item_get created_lab ''id'')) (\<lambda>i.
     bnd (liftR (cli_arg i)) (\<lambda>i.
     run_cli_json_command H [''labs'', verb, i] env_overrides))"

definition smoke_cli_body :: "'h cli_host \<Rightarrow> str_dict \<Rightarrow> pyval \<Rightarrow> ('h, pyval \<times> pyval \<times> pyval) cmd" where
  "smoke_cli_body H env_overrides created_lab =
     bnd (run_cli_json_command H [''labs'', ''list''] env_overrides) (\<lambda>labs.
     bnd (lab_command H env_overrides ''get'' created_lab) (\<lambda>retrieved_lab.
     bnd (lab_command H env_overrides ''destroy'' created_lab) (\<lambda>destroyed_lab.
     returns (labs, retrieved_lab, destroyed_lab))))"

definition release_smoke_cli :: "'h cli_host \<Rightarrow> string \<Rightarrow> string \<Rightarrow> string \<Rightarrow> ('h, unit) cmd" where
  "release_smoke_cli H api_url profile requester_type =
     (let env_overrides = [(''LABOS_API_URL'', normalize_api_url api_url)]
      in bnd (run_cli_command H [''--help''] env_overrides) (\<lambda>help_output.
     let help_verified = contains help_output ''LabOS operator CLI''
     in bnd (run_cli_json_command H [''profiles'', ''list''] env_overrides) (\<lambda>profiles.
     bnd (run_cli_json_command H
       [''labs'', ''create'', profile, ''--requester-type'', requester_type, ''--metadata'',
        json_dumps (PDict [(''source'', PStr ''release-smoke-cli'')])] env_overrides) (\<lambda>created_lab.
     bnd (or_destroy (smoke_cli_body H env_overrides created_lab) created_lab
           (best_effort_destroy_lab_via_cli H env_overrides)) (\<lambda>(labs, retrieved_lab, destroyed_lab).
     bnd (liftR (item_get created_lab ''id'')) (\<lambda>i.
     bnd (liftR (py_len labs)) (\<lambda>n.
     bnd (liftR (column ''name'' profiles)) (\<lambda>names.
     emit_json (PDict
       [(''api_url'', PStr (normalize_api_url api_url)),
        (''commands_validated'', PList (map PStr
           [''labos --help'', ''labos profiles list'',
            ''labos labs create '' @ profile @ '' --requester-type '' @ requester_type, ''labos labs list'',
            ''labos labs get '' @ py_str i, ''labos labs destroy '' @ py_str i])),
        (''created_lab'', created_lab), (''destroyed_lab'', destroyed_lab), (''help_verified'', PBool help_verified),
        (''listed_lab_count'', PInt n), (''profile_names'', names), (''profile_requested'', PStr profile),
        (''requester_type'', PStr requester_type), (''retrieved_lab'', retrieved_lab)])))))))))"

subsection \<open>smoke-docker\<close>

definition docker_smoke_command :: "string list" where
  "docker_smoke_command = [''uv'', ''run'', ''pytest'', ''-q'', ''tests/integration/test_docker_runtime_smoke.py'']"

definition release_smoke_docker_payload :: "'h cli_host \<Rightarrow> ('h, pyval \<times> bool) cmd" where
  "release_smoke_docker_payload H =
     bnd (probe_docker H) (\<lambda>docker_probe.
     bnd (if probe_ready docker_probe
          then bnd (run_external_command H docker_smoke_command) (\<lambda>out. returns (Some (strip out)))
          else returns None) (\<lambda>output.
     returns (PDict
       [(''command'', PStr (join '' '' docker_smoke_command)), (''docker'', docker_probe_payload docker_probe),
        (''output'', opt_str output), (''ready'', PBool (probe_ready docker_probe))], probe_ready docker_probe)))"

definition release_smoke_docker :: "'h cli_host \<Rightarrow> ('h, unit) cmd" where
  "release_smoke_docker H =
     bnd (release_smoke_docker_payload H) (\<lambda>(payload, ready).
     bnd (emit_json payload) (\<lambda>_.
     if ready then returns () else throw (Exit 1)))"

subsection \<open>smoke-local: the server\<close>

text \<open>
  \<open>urlparse(url).hostname\<close> and \<open>.port\<close>, for a URL with a scheme and no brackets: the network location is what
  follows \<open>//\<close> up to the path, the query or the fragment; user data ends at the last \<open>@\<close>; a port is decimal and
  below 65536. A bracketed host is refused here, although the library reads it.
\<close>

definition url_netloc :: "string \<Rightarrow> string" where
  "url_netloc url =
     (let rest = tl (dropWhile (\<lambda>c. c \<noteq> CHR '':'') url)
      in if startswith rest ''//'' then takeWhile (\<lambda>c. c \<notin> {CHR ''/'', CHR ''?'', CHR ''#''}) (drop 2 rest) else [])"

definition url_hostinfo :: "string \<Rightarrow> string" where
  "url_hostinfo url = rev (takeWhile (\<lambda>c. c \<noteq> CHR ''@'') (rev (url_netloc url)))"

definition url_hostname :: "string \<Rightarrow> string option" where
  "url_hostname url =
     (let name = takeWhile (\<lambda>c. c \<noteq> CHR '':'') (url_hostinfo url)
      in if name = [] then None
         else Some (lower (takeWhile (\<lambda>c. c \<noteq> CHR ''%'') name) @ dropWhile (\<lambda>c. c \<noteq> CHR ''%'') name))"

definition url_port :: "string \<Rightarrow> exn + nat option" where
  "url_port url =
     (let hostinfo = url_hostinfo url; port = tl (dropWhile (\<lambda>c. c \<noteq> CHR '':'') hostinfo)
      in if CHR ''['' \<in> set hostinfo then Inl (ValueError ''Invalid IPv6 URL'')
         else if port = [] then Inr None
         else if \<not> list_all is_digit port
         then Inl (ValueError (''Port could not be cast to integer value as '' @ repr_str port))
         else if nat_of_digits port \<le> 65535 then Inr (Some (nat_of_digits port))
         else Inl (ValueError ''Port out of range 0-65535''))"

definition find_free_tcp_port :: "'h cli_host \<Rightarrow> ('h, nat) cmd" where
  "find_free_tcp_port H = on_host (bound_port H ''127.0.0.1'')"

record smoke_environment =
  se_api_url :: string
  se_database_url :: string
  se_storage_root :: string
  se_smoke_root :: string

definition prepare_release_smoke_local_environment :: "'h cli_host \<Rightarrow> ('h, smoke_environment) cmd" where
  "prepare_release_smoke_local_environment H =
     bnd (on_host (mkdtemp H ''labos-release-smoke-'')) (\<lambda>root.
     bnd (find_free_tcp_port H) (\<lambda>port.
     returns
       \<lparr>se_api_url = ''http://127.0.0.1:'' @ show_nat port,
        se_database_url = ''sqlite+pysqlite:///'' @ root @ ''/labos-release.db'',
        se_storage_root = root @ ''/storage'', se_smoke_root = root\<rparr>))"

definition env_overrides_of :: "smoke_environment \<Rightarrow> str_dict" where
  "env_overrides_of e =
     [(''LABOS_DATABASE_URL'', se_database_url e), (''LABOS_MANAGED_STORAGE_ROOT'', se_storage_root e),
      (''LABOS_RELEASE_SMOKE_ROOT'', se_smoke_root e)]"

definition initialize_database :: "'h cli_host \<Rightarrow> string \<Rightarrow> ('h, unit) cmd" where
  "initialize_database H database_url = on_host (create_all H database_url)"

definition start_local_api_server :: "'h cli_host \<Rightarrow> string \<Rightarrow> str_dict \<Rightarrow> ('h, nat) cmd" where
  "start_local_api_server H api_url env_overrides =
     (let hostname = opt_or (url_hostname api_url) ''127.0.0.1''
      in bnd (liftR (url_port api_url)) (\<lambda>port.
         case port of
           None \<Rightarrow> fail_with (''release smoke local API URL must include a port: '' @ api_url)
         | Some n \<Rightarrow>
             bnd (subprocess_env H env_overrides) (\<lambda>env.
             on_host (popen H
               [sys_executable H, ''-m'', ''uvicorn'', ''labos.api.app:app'', ''--host'', hostname, ''--port'', show_nat n]
               env))))"

text \<open>One turn of the waiting loop ends it or names the last error. A turn that goes on sleeps for 0.2 seconds.\<close>

definition ask_health :: "'h cli_host \<Rightarrow> string \<Rightarrow> ('h, string option) cmd" where
  "ask_health H api_url =
     attempt
       (bnd (on_host (http_request H (normalize_api_url api_url) 2000000 ''GET'' ''/health'' None)) (\<lambda>response.
        bnd (liftR (raise_for_status response)) (\<lambda>_. returns None)))
       (\<lambda>exc. case exc of
          HTTPStatusError body message \<Rightarrow> bnd (on_host (sleep_for H 200000)) (\<lambda>_. returns (Some message))
        | HTTPError message \<Rightarrow> bnd (on_host (sleep_for H 200000)) (\<lambda>_. returns (Some message))
        | _ \<Rightarrow> throw exc)"

fun wait_loop :: "nat \<Rightarrow> 'h cli_host \<Rightarrow> string \<Rightarrow> int \<Rightarrow> string option \<Rightarrow> ('h, unit) cmd" where
  "wait_loop 0 H api_url deadline last_error = throw OutOfFuel"
| "wait_loop (Suc n) H api_url deadline last_error =
     bnd (on_host (monotonic H)) (\<lambda>now.
     if now < deadline
     then bnd (ask_health H api_url) (\<lambda>err.
       case err of None \<Rightarrow> returns () | Some message \<Rightarrow> wait_loop n H api_url deadline (Some message))
     else fail_with (opt_or last_error ''timed out waiting for local LabOS API''))"

text \<open>15 seconds hold at most 75 turns of 0.2 seconds.\<close>

definition wait_for_api_ready :: "'h cli_host \<Rightarrow> string \<Rightarrow> ('h, unit) cmd" where
  "wait_for_api_ready H api_url =
     bnd (on_host (monotonic H)) (\<lambda>start. wait_loop 76 H api_url (start + 15000000) None)"

definition stop_process :: "'h cli_host \<Rightarrow> nat \<Rightarrow> ('h, unit) cmd" where
  "stop_process H process =
     bnd (on_host (proc_poll H process)) (\<lambda>code.
     if code \<noteq> None then returns ()
     else
       bnd (on_host (proc_terminate H process)) (\<lambda>_.
       attempt (on_host (proc_wait H process 5)) (\<lambda>exc.
         case exc of
           TimeoutExpired \<Rightarrow>
             bnd (on_host (proc_kill H process)) (\<lambda>_. on_host (proc_wait H process 5))
         | _ \<Rightarrow> throw exc)))"

subsection \<open>smoke-local: the command\<close>

definition smoke_local_cleanup :: "'h cli_host \<Rightarrow> smoke_environment \<Rightarrow> nat option \<Rightarrow> ('h, unit) cmd" where
  "smoke_local_cleanup H e process =
     bnd (case process of None \<Rightarrow> returns () | Some p \<Rightarrow> stop_process H p) (\<lambda>_.
     if se_smoke_root e = [] then returns () else on_host (rmtree_ignoring_errors H (se_smoke_root e)))"

definition smoke_local_runs :: "'h cli_host \<Rightarrow> string \<Rightarrow> ('h, pyval \<times> pyval \<times> pyval \<times> bool) cmd" where
  "smoke_local_runs H api_url =
     bnd (wait_for_api_ready H api_url) (\<lambda>_.
     bnd (run_cli_json_command H [''release'', ''smoke-docs'', ''--api-url'', api_url] []) (\<lambda>docs_smoke.
     bnd (run_cli_json_command H [''release'', ''smoke-cli'', ''--api-url'', api_url] []) (\<lambda>cli_smoke.
     bnd (release_smoke_docker_payload H) (\<lambda>(docker_smoke, ready).
     returns (docs_smoke, cli_smoke, docker_smoke, ready)))))"

text \<open>The variable \<open>process\<close> of the \<open>finally\<close> is set once the server has started.\<close>

definition smoke_local_body :: "'h cli_host \<Rightarrow> smoke_environment \<Rightarrow> ('h, pyval \<times> pyval \<times> pyval \<times> bool) cmd" where
  "smoke_local_body H e =
     bnd (attempt
           (bnd (initialize_database H (se_database_url e)) (\<lambda>_.
            start_local_api_server H (se_api_url e) (env_overrides_of e)))
           (\<lambda>exc. bnd (smoke_local_cleanup H e None) (\<lambda>_. throw exc))) (\<lambda>process.
     with_cleanup (smoke_local_runs H (se_api_url e)) (smoke_local_cleanup H e (Some process)))"

definition release_smoke_local :: "'h cli_host \<Rightarrow> ('h, unit) cmd" where
  "release_smoke_local H =
     bnd (prepare_release_smoke_local_environment H) (\<lambda>e.
     bnd (smoke_local_body H e) (\<lambda>(docs_smoke, cli_smoke, docker_smoke, ready).
     bnd (emit_json (PDict
       [(''api_url'', PStr (se_api_url e)), (''cli_smoke'', cli_smoke), (''docker_smoke'', docker_smoke),
        (''docs_smoke'', docs_smoke),
        (''environment'', PDict [(''database_url'', PStr (se_database_url e)),
                                (''managed_storage_root'', PStr (se_storage_root e))]),
        (''ready'', PBool ready)])) (\<lambda>_.
     if ready then returns () else throw (Exit 1))))"

end
