(* ===== verification/Smoke_Docs.thy ===== *)
theory Smoke_Docs
  imports Cli_Api Cli_Smoke Outcomes
begin

section \<open>The documentation smoke run against the API\<close>

text \<open>
  \<open>labos release smoke-docs\<close> with the API's own services behind the URL: it creates a lab, lists the labs and
  destroys the one it created, and destroys it as well when a later step fails. What the run leaves in the
  database is the lab it created, destroyed, or that lab as it is when the services refuse to destroy it.
\<close>

subsection \<open>Reading what was sent\<close>

lemma list_read:
  assumes "json_sorted v = json_sorted (PList xs)"
  shows "\<exists>ys. v = PList ys \<and> map json_sorted ys = map json_sorted xs"
  using assms by (cases v) simp_all

lemma item_read:
  assumes same: "json_sorted v = json_sorted (PDict kvs)" and dist: "distinct (map fst kvs)" and key: "map_of kvs k = Some x"
  shows "\<exists>y. item_get v k = Inr y \<and> dict_item v k = Some y \<and> json_sorted y = json_sorted x"
proof -
  let ?f = "map (map_prod id json_sorted)"
  obtain us where v: "v = PDict us" using same by (cases v) simp_all
  have eq: "sort_key fst (?f us) = sort_key fst (?f kvs)" using same v by simp
  have keys: "mset (map fst us) = mset (map fst kvs)"
    using arg_cong [OF eq, of "\<lambda>xs. mset (map fst xs)"] by (simp add: multiset.map_comp comp_def)
  have "distinct (map fst us)" using mset_eq_imp_distinct_iff [OF keys] dist by simp
  moreover have "set (?f us) = set (?f kvs)" using arg_cong [OF eq, of set] by simp
  ultimately have "map_of (?f us) = map_of (?f kvs)"
    using dist by (intro map_of_inject_set [THEN iffD2]) (simp_all add: comp_def)
  then have "map_option json_sorted (map_of us k) = map_option json_sorted (map_of kvs k)"
    by (auto simp: map_prod_def id_def map_of_map dest: fun_cong [of _ _ k])
  then show ?thesis using key v by (auto simp: item_get_def dict_item_def)
qed

lemma str_read: "json_sorted y = PStr s \<longleftrightarrow> y = PStr s"
  by (cases y) simp_all

lemma results_read: "(\<And>x. x \<in> set xs \<Longrightarrow> \<exists>y. f x = Inr y) \<Longrightarrow> \<exists>ys. results f xs = Inr ys"
proof (induction xs)
  case (Cons x xs)
  then obtain y ys where "f x = Inr y" "results f xs = Inr ys" by force
  then show ?case by (simp add: result_bind_def)
qed simp

lemma column_read:
  assumes same: "json_sorted v = json_sorted (PList (map d xs))"
    and doc: "\<And>x. x \<in> set xs \<Longrightarrow> \<exists>kvs y. d x = PDict kvs \<and> distinct (map fst kvs) \<and> map_of kvs k = Some y"
  shows "\<exists>ns. column k v = Inr ns"
proof -
  obtain ys where ys: "v = PList ys" "map json_sorted ys = map (json_sorted \<circ> d) xs" using list_read [OF same] by auto
  have "\<exists>z. item_get y k = Inr z" if y: "y \<in> set ys" for y
  proof -
    have "json_sorted y \<in> set (map (json_sorted \<circ> d) xs)" using y unfolding ys(2) [symmetric] by simp
    then obtain x where x: "x \<in> set xs" "json_sorted y = json_sorted (d x)" by auto
    then show ?thesis using doc [OF x(1)] item_read [of y] by fastforce
  qed
  then show ?thesis
    using results_read [of ys "\<lambda>x. item_get x k"] ys(1) by (auto simp: column_def items_of_def result_bind_def)
qed

subsection \<open>The requests of the run\<close>

text \<open>What a request does to the services, and what its caller gets.\<close>

abbreviation asked :: "fastapi \<Rightarrow> env \<Rightarrow> request \<Rightarrow> world \<Rightarrow> exn + pyval \<Rightarrow> world console \<Rightarrow> bool" where
  "asked F E req w r c' \<equiv> host c' = snd (serve E req w) \<and>
     (case fst (serve E req w) of Inl e \<Rightarrow> r = Inl (Exit 1)
      | Inr resp \<Rightarrow> \<exists>v. r = Inr v \<and> json_sorted v = json_sorted (response_json F resp))"

lemma wp_asked:
  assumes "connected F E H url" "framework_ok F" "over_http req" "plain_path path"
    and "route F verb path body = Some (Some (Api req code))" "code \<in> {200, 201}"
  shows "wp (request_json H url verb path body) (asked F E req (host c)) c"
  by (rule wp_mono [OF wp_request [OF assms]]) (auto split: prod.splits sum.splits)

lemma wp_destroy_request:
  assumes ok: "connected F E H url" "framework_ok F" and i: "segment i"
  shows "wp (request_json H url ''DELETE'' (''/labs/'' @ i) None) (asked F E (DestroyLab i) (host c)) c"
  by (rule wp_asked [OF ok _ _ lab_routes(2) [OF i]]) (simp_all add: plain_paths i del: append.simps)

lemma wp_best_effort:
  assumes ok: "connected F E H url" "framework_ok F" and i: "segment i"
  shows "wp (best_effort_destroy_lab_via_api H url i)
    (\<lambda>r c'. (\<exists>x. r = Inr x) \<and> host c' = snd (serve E (DestroyLab i) (host c))) c"
  unfolding best_effort_destroy_lab_via_api_def wp_attempt wp_bnd
  by (rule wp_mono [OF wp_destroy_request [OF ok i]]) (auto simp: wp_returns split: sum.splits)

subsection \<open>After the creation\<close>

definition smoke_end :: "env \<Rightarrow> string \<Rightarrow> world \<Rightarrow> bool \<Rightarrow> world \<Rightarrow> bool" where
  "smoke_end E i w ok w' \<longleftrightarrow>
     (case serve E ListLabs w of
        (Inl _, w2) \<Rightarrow> \<not> ok \<and> w' = snd (serve E (DestroyLab i) w2)
      | (Inr _, w2) \<Rightarrow>
          (case serve E (DestroyLab i) w2 of
             (Inr _, w3) \<Rightarrow> ok \<and> w' = w3
           | (Inl _, w3) \<Rightarrow> \<not> ok \<and> w' = snd (serve E (DestroyLab i) w3)))"

text \<open>The handler runs on what the body left, and raises again.\<close>

lemma wp_or_destroy:
  assumes ok: "connected F E H url" "framework_ok F" and i: "segment i" and id: "dict_item created ''id'' = Some (PStr i)"
    and body: "wp m (\<lambda>r c'. case r of Inl e \<Rightarrow> e = Exit 1 \<and> Q (Inl (Exit 1)) (snd (serve E (DestroyLab i) (host c')))
      | Inr x \<Rightarrow> Q (Inr x) (host c')) c"
  shows "wp (or_destroy m created (best_effort_destroy_lab_via_api H url)) (\<lambda>r c'. Q r (host c')) c"
  unfolding or_destroy_def wp_attempt
proof (rule wp_mono [OF body], goal_cases)
  case (1 r c1)
  then show ?case
  proof (cases r)
    case (Inl e)
    show ?thesis
      unfolding Inl sum.case id option.case py_str_simps wp_bnd
      by (rule wp_mono [OF wp_best_effort [OF ok i]]) (use 1 Inl in \<open>auto simp: wp_throw\<close>)
  qed simp
qed

lemma wp_smoke_docs_body:
  assumes ok: "connected F E H url" "framework_ok F" and i: "segment i" and id: "item_get created ''id'' = Inr (PStr i)"
  shows "wp (smoke_docs_body H url created)
    (\<lambda>r c'. case r of Inl e \<Rightarrow> e = Exit 1 \<and> smoke_end E i (host c) False (snd (serve E (DestroyLab i) (host c')))
      | Inr x \<Rightarrow> smoke_end E i (host c) True (host c') \<and> (\<exists>ls. fst x = PList ls)) c"
  unfolding smoke_docs_body_def wp_bnd [of "request_json H url ''GET'' ''/labs'' None"]
proof (rule wp_mono [OF wp_asked [OF ok _ _ list_routes(1)]], goal_cases)
  case (4 r c1)
  show ?case
  proof (cases "fst (serve E ListLabs (host c))")
    case (Inl e)
    then show ?thesis using 4 by (auto simp: smoke_end_def split: prod.splits simp del: serve.simps)
  next
    case (Inr resp)
    then obtain rs where resp: "resp = LabsR rs"
      by (auto simp: answer_def bnd_def returns_def split: prod.splits sum.splits)
    obtain v where v: "r = Inr v" "json_sorted v = json_sorted (response_json F resp)" using 4 Inr by auto
    then obtain ls where ls: "v = PList ls" using list_read [of v "map (lab_json F) rs"] resp by auto
    show ?thesis
      unfolding v(1) sum.case id wp_bnd [of "liftR _"] wp_liftR py_str_simps wp_bnd [of "request_json _ _ _ _ _"]
      by (rule wp_mono [OF wp_destroy_request [OF ok i]])
        (use 4 Inr ls in \<open>auto simp: smoke_end_def wp_returns split: prod.splits sum.splits simp del: serve.simps\<close>)
  qed
qed (simp_all add: plain_paths)

subsection \<open>The run\<close>

lemma fixed_routes:
  "serve_http F E ''GET'' ''/health'' None w = (Inr (ok_answer F 200 health), w)"
  "serve_http F E ''GET'' ''/profiles'' None w = (Inr (ok_answer F 200 (PList (map profile_json api_list_profiles))), w)"
  by (simp_all add: serve_http_def route_def get_route_def job_list_path_def returns_def)

lemma profiles_distinct: "keys_distinct (PList (map profile_json ps))"
  by (simp add: profile_json_def list_all_iff)

lemma profile_names: "json_sorted v = json_sorted (PList (map profile_json ps)) \<Longrightarrow> \<exists>ns. column ''name'' v = Inr ns"
  by (rule column_read) (auto simp: profile_json_def)

lemma wp_fixed:
  assumes ok: "connected F E H url" "framework_ok F"
  shows "wp (request_json H url ''GET'' ''/health'' None) (\<lambda>r c'. (\<exists>v. r = Inr v) \<and> host c' = host c) c"
    and "wp (request_json H url ''GET'' ''/profiles'' None)
      (\<lambda>r c'. (\<exists>v ns. r = Inr v \<and> column ''name'' v = Inr ns) \<and> host c' = host c) c"
proof -
  have plain: "plain_path ''/health''" "plain_path ''/profiles''" by (simp_all add: plain_path_def plain_char_def)
  show "wp (request_json H url ''GET'' ''/health'' None) (\<lambda>r c'. (\<exists>v. r = Inr v) \<and> host c' = host c) c"
    using request_answered [OF ok plain(1) fixed_routes(1), of c] by (auto simp: wp_def health_def)
  show "wp (request_json H url ''GET'' ''/profiles'' None)
      (\<lambda>r c'. (\<exists>v ns. r = Inr v \<and> column ''name'' v = Inr ns) \<and> host c' = host c) c"
    using request_answered [OF ok plain(2) fixed_routes(2) _ profiles_distinct, of c] profile_names
    by (fastforce simp: wp_def)
qed

lemma wp_smoke_docs:
  assumes ok: "connected F E H url" "framework_ok F"
    and ids: "\<And>lab. fst (serve E (CreateLab p q) (host c)) = Inr (LabR lab) \<Longrightarrow> segment (lr_id lab)"
  shows "wp (release_smoke_docs H url p (requester_value q)) (\<lambda>r c'.
    case serve E (CreateLab p q) (host c) of
      (Inl e, w) \<Rightarrow> r = Inl (Exit 1) \<and> host c' = w
    | (Inr resp, w) \<Rightarrow> \<exists>lab. resp = LabR lab \<and> (r = Inr () \<or> r = Inl (Exit 1)) \<and>
        smoke_end E (lr_id lab) w (r = Inr ()) (host c')) c"
proof -
  let ?P = "\<lambda>r c'. case serve E (CreateLab p q) (host c) of
      (Inl e, w) \<Rightarrow> r = Inl (Exit 1) \<and> host c' = w
    | (Inr resp, w) \<Rightarrow> \<exists>lab. resp = LabR lab \<and> (r = Inr () \<or> r = Inl (Exit 1)) \<and>
        smoke_end E (lr_id lab) w (r = Inr ()) (host c')"
  let ?body = "\<lambda>profiles created_lab. bnd (or_destroy (smoke_docs_body H url created_lab) created_lab
      (best_effort_destroy_lab_via_api H url))"
  have rest: "wp (bnd (or_destroy (smoke_docs_body H url created) created (best_effort_destroy_lab_via_api H url))
      (\<lambda>(labs, destroyed_lab). bnd (liftR (py_len labs)) (\<lambda>n. bnd (liftR (column ''name'' profiles)) (\<lambda>names.
        emit_json (payload labs destroyed_lab n names))))) ?P c1"
    if made: "serve E (CreateLab p q) (host c) = (Inr (LabR lab), host c1)"
      and created: "json_sorted created = json_sorted (lab_json F lab)" and names: "column ''name'' profiles = Inr ns"
    for created profiles lab ns c1 payload
  proof -
    have i: "segment (lr_id lab)" using ids made by simp
    have id: "item_get created ''id'' = Inr (PStr (lr_id lab))" "dict_item created ''id'' = Some (PStr (lr_id lab))"
      using item_read [OF created [unfolded lab_json_def], of "''id''" "PStr (lr_id lab)"] by (auto simp: str_read)
    have ended: "wp (or_destroy (smoke_docs_body H url created) created (best_effort_destroy_lab_via_api H url))
        (\<lambda>r c'. case r of Inl e \<Rightarrow> e = Exit 1 \<and> smoke_end E (lr_id lab) (host c1) False (host c')
          | Inr x \<Rightarrow> smoke_end E (lr_id lab) (host c1) True (host c') \<and> (\<exists>ls. fst x = PList ls)) c1"
      by (rule wp_or_destroy [OF ok i id(2), where Q = "\<lambda>r w. case r of
            Inl e \<Rightarrow> e = Exit 1 \<and> smoke_end E (lr_id lab) (host c1) False w
          | Inr x \<Rightarrow> smoke_end E (lr_id lab) (host c1) True w \<and> (\<exists>ls. fst x = PList ls)"])
        (rule wp_mono [OF wp_smoke_docs_body [OF ok i id(1)]], auto split: sum.splits)
    show ?thesis
      unfolding wp_bnd [of "or_destroy _ _ _"]
      by (rule wp_mono [OF ended])
        (use made names in \<open>auto simp: wp_bnd wp_liftR py_len_def emit_json_def echo_def wp_modify split: sum.splits\<close>)
  qed
  show ?thesis
    unfolding release_smoke_docs_def wp_bnd [of "request_json H url ''GET'' ''/health'' None"]
  proof (rule wp_mono [OF wp_fixed(1) [OF ok]], goal_cases)
    case (1 r1 c1)
    then obtain h where h: "r1 = Inr h" "host c1 = host c" by auto
    show ?case
      unfolding h(1) sum.case wp_bnd [of "request_json H url ''GET'' ''/profiles'' None"]
    proof (rule wp_mono [OF wp_fixed(2) [OF ok]], goal_cases)
      case (1 r2 c2)
      then obtain profiles ns where ps: "r2 = Inr profiles" "column ''name'' profiles = Inr ns" "host c2 = host c" using h by auto
      show ?case
        unfolding ps(1) sum.case wp_bnd [of "request_json H url ''POST'' _ _"]
      proof (rule wp_mono [OF wp_asked [OF ok _ _ lab_body [where snapshot = PNone]]], goal_cases)
        case (4 r3 c3)
        show ?case
        proof (cases "fst (serve E (CreateLab p q) (host c))")
          case (Inl e)
          then show ?thesis using 4 ps(3) by (auto split: prod.splits simp del: serve.simps)
        next
          case (Inr resp)
          then obtain lab where lab: "resp = LabR lab"
            by (auto simp: answer_def bnd_def returns_def split: prod.splits sum.splits)
          obtain v where v: "r3 = Inr v" "json_sorted v = json_sorted (lab_json F lab)" using 4 Inr lab ps(3) by auto
          have "serve E (CreateLab p q) (host c) = (Inr (LabR lab), host c3)"
            using 4 Inr lab ps(3) by (simp add: prod_eq_iff del: serve.simps)
          from rest [OF this v(2) ps(2)] show ?thesis unfolding v(1) sum.case .
        qed
      qed (simp_all add: plain_paths)
    qed
  qed
qed

subsection \<open>What the run leaves\<close>

lemma answerD: "answer f m w = (Inr resp, w') \<Longrightarrow> \<exists>x. m w = (Inr x, w') \<and> resp = f x"
  by (auto simp: answer_def bnd_def returns_def split: prod.splits sum.splits)

lemma answer_Inl: "answer f m w = (Inl e, w') \<Longrightarrow> m w = (Inl e, w')"
  by (auto simp: answer_def bnd_def returns_def split: prod.splits sum.splits)

lemma list_labs_commits_nothing: "wp api_list_labs (\<lambda>_ w'. committed w' = committed w) w"
  unfolding api_list_labs_def
  by (simp add: wp) (rule wp_mapM_pure, auto simp: bnd_def require_def returns_def split: sum.splits option.splits)

lemma smoke_end_leaves:
  assumes fresh: "i \<notin> lab_id ` set t" and w: "labs (committed w) = t @ [l]" and l: "lab_id l = i"
    and end_: "smoke_end E i w ok w'"
  shows "\<exists>l'. labs (committed w') = t @ [l'] \<and> same_lab l l' \<and> (ok \<longrightarrow> lab_state l' = lab_value LAB_DESTROYED) \<and>
     (lab_state l' = lab_value LAB_DESTROYED \<or> l' = l \<and> (\<exists>v e. serve E (DestroyLab i) v = (Inl e, w')))"
proof -
  obtain listed w2 where listed: "serve E ListLabs w = (listed, w2)" by fastforce
  have w2: "labs (committed w2) = t @ [l]"
  proof (cases listed)
    case (Inl e)
    then show ?thesis
      using wp_result [OF list_labs_commits_nothing [of w]] answer_Inl [of LabsR api_list_labs w e w2] listed w by fastforce
  next
    case (Inr resp)
    then show ?thesis
      using wp_result [OF list_labs_commits_nothing [of w]] answerD [of LabsR api_list_labs w resp w2] listed w by fastforce
  qed
  have destroyed: "\<exists>l'. labs (committed v') = t @ [l'] \<and> same_lab l l' \<and> lab_state l' = lab_value LAB_DESTROYED"
    if v: "labs (committed v) = t @ [l]" and gone: "serve E (DestroyLab i) v = (Inr resp, v')" for v v' resp
  proof -
    obtain x where "api_destroy_lab E i v = (Inr x, v')" using answerD [of LabR "api_destroy_lab E i" v resp v'] gone by auto
    from wp_result [OF wp_destroy_lab this] obtain l1 l' where
      l1: "row_get lab_id i (labs (committed v)) = Some l1" "same_lab l1 l'" "lab_state l' = lab_value LAB_DESTROYED"
      "labs (committed v') = row_put lab_id l' (labs (committed v))" by blast
    have "l1 = l" using l1(1) v fresh l by (simp add: row_get_append row_get_None [THEN iffD2])
    moreover have "row_put lab_id l' (t @ [l]) = t @ [l']"
      using row_put_absent [of lab_id l' t] fresh l l1(2) \<open>l1 = l\<close> by (simp add: row_put_def same_lab_def)
    ultimately show ?thesis using l1 v by auto
  qed
  have refused: "labs (committed v') = t @ [l]"
    if v: "labs (committed v) = t @ [l]" and failed: "serve E (DestroyLab i) v = (Inl e, v')" for v v' e
  proof -
    have "api_destroy_lab E i v = (Inl e, v')" using answer_Inl [of LabR "api_destroy_lab E i" v e v'] failed by simp
    from wp_result [OF wp_destroy_lab this] show ?thesis using v by auto
  qed
  have same: "same_lab l l" by (simp add: same_lab_def)
  have once: "\<exists>l'. labs (committed (snd (serve E (DestroyLab i) v))) = t @ [l'] \<and> same_lab l l' \<and>
     (lab_state l' = lab_value LAB_DESTROYED \<or> l' = l \<and> (\<exists>u e. serve E (DestroyLab i) u = (Inl e, snd (serve E (DestroyLab i) v))))"
    if v: "labs (committed v) = t @ [l]" for v
  proof (cases "serve E (DestroyLab i) v")
    case (Pair r v')
    then show ?thesis using destroyed [OF v] refused [OF v] same by (cases r) (fastforce simp del: serve.simps)+
  qed
  show ?thesis
  proof (cases listed)
    case (Inl e)
    then show ?thesis using end_ once [OF w2] listed by (auto simp: smoke_end_def simp del: serve.simps)
  next
    case (Inr resp)
    show ?thesis
    proof (cases "serve E (DestroyLab i) w2")
      case (Pair r3 w3)
      then show ?thesis
        using end_ listed Inr destroyed [OF w2] once [OF refused [OF w2]]
        by (cases r3) (fastforce simp: smoke_end_def simp del: serve.simps)+
    qed
  qed
qed

text \<open>The lab of the run is the only change to the table of labs.\<close>

lemma smoke_docs_leaves:
  assumes ok: "connected F E H url" "framework_ok F" "env_ok E" "sound E (host c)" and ids: "\<And>n. segment (uuid4 E n)"
    and run: "release_smoke_docs H url p (requester_value q) c = (r, c')"
  shows "(r = Inr () \<or> r = Inl (Exit 1)) \<and>
    (labs (committed (host c')) = labs (committed (host c)) \<and> r = Inl (Exit 1) \<or>
     (\<exists>l. labs (committed (host c')) = labs (committed (host c)) @ [l] \<and> lab_id l = uuid4 E (uuids (host c)) \<and>
        lab_profile_name l = p \<and> (r = Inr () \<longrightarrow> lab_state l = lab_value LAB_DESTROYED) \<and>
        (lab_state l = lab_value LAB_DESTROYED \<or> (\<exists>v e. serve E (DestroyLab (lab_id l)) v = (Inl e, host c')))))"
proof -
  obtain out w where made: "serve E (CreateLab p q) (host c) = (out, w)" by fastforce
  have new: "\<exists>l. labs (committed w) = labs (committed (host c)) @ [l] \<and> lab_id l = uuid4 E (uuids (host c)) \<and>
      lr_id lab = lab_id l \<and> lab_profile_name l = p" if "out = Inr (LabR lab)" for lab
  proof -
    have "api_create_lab E p q (host c) = (Inr lab, w)"
      using answerD [of LabR "api_create_lab E p q" "host c" "LabR lab" w] made that by auto
    from wp_result [OF wp_create_lab this] obtain pr l s where
      "policy_profiles E p = Some pr" "lab = lab_response_from_row l s" "lab_id l = uuid4 E (uuids (host c))"
      "lab_profile_name l = p_name pr" "labs (committed w) = labs (committed (host c)) @ [l]"
      by (auto split: option.splits)
    then show ?thesis using ok(3) by (auto simp: env_ok_def lab_response_from_row_def)
  qed
  have ids': "segment (lr_id lab)" if "fst (serve E (CreateLab p q) (host c)) = Inr (LabR lab)" for lab
    using new [of lab] ids that made by auto
  note result = wp_result [OF wp_smoke_docs [OF ok(1,2) ids'] run, unfolded made prod.case]
  show ?thesis
  proof (cases out)
    case (Inl e)
    have "api_create_lab E p q (host c) = (Inl e, w)"
      using answer_Inl [of LabR "api_create_lab E p q" "host c" e w] made Inl by simp
    from wp_result [OF wp_create_lab this] have "committed w = committed (host c)" by (auto split: option.splits)
    then show ?thesis using result Inl by simp
  next
    case (Inr resp)
    then obtain lab where lab: "resp = LabR lab" "r = Inr () \<or> r = Inl (Exit 1)"
      "smoke_end E (lr_id lab) w (r = Inr ()) (host c')" using result by auto
    with new [of lab] Inr obtain l where
      l: "labs (committed w) = labs (committed (host c)) @ [l]" "lab_id l = uuid4 E (uuids (host c))" "lr_id lab = lab_id l"
        "lab_profile_name l = p" by auto
    have "lab_id l \<notin> lab_id ` set (labs (committed (host c)))"
      using reach_fresh(1) [of E "uuids (host c)" "committed (host c)" "uuids (host c)"] ok(3,4) l(2)
      by (simp add: sound_def env_ok_def)
    from smoke_end_leaves [OF this l(1) refl lab(3) [unfolded l(3)]] lab(2) l(2,4) show ?thesis
      by (auto simp: same_lab_def simp del: serve.simps)
  qed
qed

end
