(* ===== verification/Cli_Hygiene.thy ===== *)
theory Cli_Hygiene
  imports Cli_Smoke
begin

section \<open>What the smoke runs leave behind, and that they end\<close>

text \<open>
  What is relied on of the host, over the set of running child processes and the set of temporary trees:
  \<open>popen\<close> starts one process, \<open>wait\<close> returns when the process has ended and else raises \<open>TimeoutExpired\<close>, a
  killed process is gone when it is waited for, and nothing else starts a process that outlives the call.
  Of the clock: it does not run backwards, and \<open>sleep\<close> takes at least its time.
\<close>

definition quiet :: "('h \<Rightarrow> 'r set) \<Rightarrow> ('h, 'a) program \<Rightarrow> bool" where
  "quiet held m \<longleftrightarrow> (\<forall>h. held (snd (m h)) \<subseteq> held h)"

definition process_laws :: "'h cli_host \<Rightarrow> ('h \<Rightarrow> nat set) \<Rightarrow> bool" where
  "process_laws H running \<longleftrightarrow>
     (\<forall>args env h. wp (popen H args env)
        (\<lambda>r h'. running h' \<subseteq> running h \<union> (case r of Inl e \<Rightarrow> {} | Inr p \<Rightarrow> {p})) h) \<and>
     (\<forall>p h. wp (proc_poll H p)
        (\<lambda>r h'. running h' \<subseteq> running h \<and> (\<exists>code. r = Inr code \<and> (code \<noteq> None \<longrightarrow> p \<notin> running h'))) h) \<and>
     (\<forall>p h. wp (proc_terminate H p) (\<lambda>r h'. r = Inr () \<and> running h' \<subseteq> running h) h) \<and>
     (\<forall>p t h. wp (proc_wait H p t)
        (\<lambda>r h'. running h' \<subseteq> running h \<and> (r = Inr () \<and> p \<notin> running h' \<or> r = Inl TimeoutExpired)) h) \<and>
     (\<forall>p h. wp (proc_kill H p)
        (\<lambda>r h'. r = Inr () \<and> running h' \<subseteq> running h \<and> (\<forall>t. fst (proc_wait H p t h') = Inr ())) h)"

definition tree_laws :: "'h cli_host \<Rightarrow> ('h \<Rightarrow> string set) \<Rightarrow> bool" where
  "tree_laws H trees \<longleftrightarrow>
     (\<forall>pre h. wp (mkdtemp H pre)
        (\<lambda>r h'. trees h' \<subseteq> trees h \<union> (case r of Inl e \<Rightarrow> {} | Inr root \<Rightarrow> {root}) \<and> r \<noteq> Inr []) h) \<and>
     (\<forall>root h. wp (rmtree_ignoring_errors H root) (\<lambda>r h'. r = Inr () \<and> trees h' \<subseteq> trees h - {root}) h) \<and>
     (\<forall>a. returning (bound_port H a))"

text \<open>The calls that neither start nor stop anything the smoke run holds.\<close>

definition calls_quiet :: "'h cli_host \<Rightarrow> ('h \<Rightarrow> 'r set) \<Rightarrow> bool" where
  "calls_quiet H held \<longleftrightarrow>
     (\<forall>url t verb path body. quiet held (http_request H url t verb path body)) \<and>
     (\<forall>args env. quiet held (subprocess_run H args env)) \<and> (\<forall>a. quiet held (bound_port H a)) \<and>
     (\<forall>u. quiet held (create_all H u)) \<and> quiet held (monotonic H) \<and> (\<forall>d. quiet held (sleep_for H d)) \<and>
     quiet held (os_environ (probe_queries H)) \<and>
     quiet held (probe_docker_environment (probe_queries H) None (default_which (probe_queries H)) None)"

definition servers_quiet :: "'h cli_host \<Rightarrow> ('h \<Rightarrow> string set) \<Rightarrow> bool" where
  "servers_quiet H trees \<longleftrightarrow>
     (\<forall>args env. quiet trees (popen H args env)) \<and> (\<forall>p. quiet trees (proc_poll H p)) \<and>
     (\<forall>p. quiet trees (proc_terminate H p)) \<and> (\<forall>p. quiet trees (proc_kill H p)) \<and>
     (\<forall>p t. quiet trees (proc_wait H p t))"

definition trees_quiet :: "'h cli_host \<Rightarrow> ('h \<Rightarrow> nat set) \<Rightarrow> bool" where
  "trees_quiet H running \<longleftrightarrow> (\<forall>s. quiet running (mkdtemp H s)) \<and> (\<forall>p. quiet running (rmtree_ignoring_errors H p))"

subsection \<open>Stopping the server\<close>

lemma wp_on_host [wp]: "wp (on_host m) Q c = wp m (\<lambda>r h. Q r (c\<lparr>host := h\<rparr>)) (host c)"
  by (simp add: wp_def on_host_def split: prod.splits)

lemma process_lawsD:
  assumes "process_laws H running"
  shows polled: "wp (proc_poll H p) (\<lambda>r h'. running h' \<subseteq> running h \<and> (\<exists>code. r = Inr code \<and> (code \<noteq> None \<longrightarrow> p \<notin> running h'))) h"
    and terminated: "wp (proc_terminate H p) (\<lambda>r h'. r = Inr () \<and> running h' \<subseteq> running h) h"
    and waited: "wp (proc_wait H p t) (\<lambda>r h'. running h' \<subseteq> running h \<and> (r = Inr () \<and> p \<notin> running h' \<or> r = Inl TimeoutExpired)) h"
    and killed: "wp (proc_kill H p) (\<lambda>r h'. r = Inr () \<and> running h' \<subseteq> running h \<and> (\<forall>t. fst (proc_wait H p t h') = Inr ())) h"
    and started: "wp (popen H args env) (\<lambda>r h'. running h' \<subseteq> running h \<union> (case r of Inl e \<Rightarrow> {} | Inr p \<Rightarrow> {p})) h"
proof -
  note laws = assms [unfolded process_laws_def]
  note started = laws [THEN conjunct1] and rest = laws [THEN conjunct2]
  note polled = rest [THEN conjunct1] and rest = rest [THEN conjunct2]
  note terminated = rest [THEN conjunct1] and rest = rest [THEN conjunct2]
  note waited = rest [THEN conjunct1] and killed = rest [THEN conjunct2]
  show "wp (proc_poll H p) (\<lambda>r h'. running h' \<subseteq> running h \<and> (\<exists>code. r = Inr code \<and> (code \<noteq> None \<longrightarrow> p \<notin> running h'))) h"
    by (rule polled [rule_format])
  show "wp (proc_terminate H p) (\<lambda>r h'. r = Inr () \<and> running h' \<subseteq> running h) h"
    by (rule terminated [rule_format])
  show "wp (proc_wait H p t) (\<lambda>r h'. running h' \<subseteq> running h \<and> (r = Inr () \<and> p \<notin> running h' \<or> r = Inl TimeoutExpired)) h"
    by (rule waited [rule_format])
  show "wp (proc_kill H p) (\<lambda>r h'. r = Inr () \<and> running h' \<subseteq> running h \<and> (\<forall>t. fst (proc_wait H p t h') = Inr ())) h"
    by (rule killed [THEN spec, THEN spec])
  show "wp (popen H args env) (\<lambda>r h'. running h' \<subseteq> running h \<union> (case r of Inl e \<Rightarrow> {} | Inr p \<Rightarrow> {p})) h"
    by (rule started [rule_format])
qed

lemma reaped:
  assumes "process_laws H running" "\<forall>t. fst (proc_wait H p t h) = Inr ()"
  shows "wp (proc_wait H p t) (\<lambda>r h'. r = Inr () \<and> p \<notin> running h' \<and> running h' \<subseteq> running h) h"
proof (rule wpI)
  fix r h'
  assume run: "proc_wait H p t h = (r, h')"
  then have "r = Inr ()" using assms(2) by (metis fst_conv)
  then show "r = Inr () \<and> p \<notin> running h' \<and> running h' \<subseteq> running h"
    using wp_result [OF waited [OF assms(1)] run] by simp
qed

abbreviation stopped :: "('h \<Rightarrow> nat set) \<Rightarrow> nat \<Rightarrow> 'h console \<Rightarrow> exn + unit \<Rightarrow> 'h console \<Rightarrow> bool" where
  "stopped running p c r c' \<equiv> r = Inr () \<and> p \<notin> running (host c') \<and> running (host c') \<subseteq> running (host c)"

lemma kill_stops:
  assumes laws: "process_laws H running"
  shows "wp (bnd (on_host (proc_kill H p)) (\<lambda>_. on_host (proc_wait H p t))) (stopped running p c) c"
  unfolding wp_bnd wp_on_host
proof (rule wp_mono [OF killed [OF laws]], goal_cases)
  case (1 r h1)
  then have "wp (proc_wait H p t) (\<lambda>r h'. r = Inr () \<and> p \<notin> running h' \<and> running h' \<subseteq> running h1) h1"
    by (intro reaped [OF laws]) blast
  then show ?case using 1 by (auto simp: wp_on_host elim!: wp_mono)
qed

lemma stop_process_stops:
  assumes laws: "process_laws H running"
  shows "wp (stop_process H p) (stopped running p c) c"
  unfolding stop_process_def wp_bnd wp_on_host
proof (rule wp_mono [OF polled [OF laws, of p]], goal_cases)
  case (1 r h1)
  then obtain code where code: "r = Inr code" "running h1 \<subseteq> running (host c)" "code \<noteq> None \<longrightarrow> p \<notin> running h1" by blast
  have "wp (bnd (on_host (proc_terminate H p)) (\<lambda>_. attempt (on_host (proc_wait H p 5)) (\<lambda>exc. case exc of
        TimeoutExpired \<Rightarrow> bnd (on_host (proc_kill H p)) (\<lambda>_. on_host (proc_wait H p 5)) | _ \<Rightarrow> throw exc)))
      (stopped running p c) (c\<lparr>host := h1\<rparr>)"
    unfolding wp_bnd [of "on_host (proc_terminate H p)"] wp_on_host
  proof (rule wp_mono [OF terminated [OF laws, of p]], goal_cases)
    case (1 r2 h2)
    then have r2: "r2 = Inr ()" and h2: "running h2 \<subseteq> running (host c)" using code(2) by auto
    show ?case
      unfolding r2 sum.case wp_attempt wp_on_host
    proof (rule wp_mono [OF waited [OF laws, of p 5]], goal_cases)
      case (1 r3 h3)
      then have h3: "running h3 \<subseteq> running (host c)" using h2 by auto
      show ?case
      proof (cases "r3 = Inl TimeoutExpired")
        case True
        show ?thesis
          unfolding True sum.case exn.case
          by (rule wp_mono [OF kill_stops [OF laws]]) (use h3 in auto)
      next
        case False
        then show ?thesis using 1 h3 by auto
      qed
    qed
  qed
  then show ?case using code by (simp add: wp)
qed

subsection \<open>What the other steps of the run keep\<close>

abbreviation within :: "('h \<Rightarrow> 'r set) \<Rightarrow> 'r set \<Rightarrow> 'h console \<Rightarrow> bool" where
  "within held R c \<equiv> held (host c) \<subseteq> R"

lemma keeps_on_host [keep]: "quiet held m \<Longrightarrow> keeps (within held R) (on_host m)"
  by (fastforce simp: quiet_def keeps_def on_host_def split: prod.splits)

lemma keeps_console [keep]:
  "keeps (within held R) (echo s)" "keeps (within held R) (echo_err s)"
  "keeps (within held R) (fail_with s)" "keeps (within held R) (emit_json v)"
  by (simp_all add: keeps_def echo_def echo_err_def emit_json_def fail_with_def bnd_def modify_def throw_def)

lemma calls_quietD [keep]:
  assumes "calls_quiet H held"
  shows "quiet held (http_request H url t verb path body)" "quiet held (subprocess_run H args env)"
    "quiet held (bound_port H a)" "quiet held (create_all H u)" "quiet held (monotonic H)" "quiet held (sleep_for H d)"
    "quiet held (os_environ (probe_queries H))"
    "quiet held (probe_docker_environment (probe_queries H) None (default_which (probe_queries H)) None)"
  using assms unfolding calls_quiet_def by simp_all

lemma keeps_exn [keep]:
  "(\<And>b m. keeps I (f b m)) \<Longrightarrow> (\<And>m. keeps I (g m)) \<Longrightarrow> keeps I k \<Longrightarrow>
   keeps I (case exc of HTTPStatusError b m \<Rightarrow> f b m | HTTPError m \<Rightarrow> g m | _ \<Rightarrow> k)"
  by (cases exc) simp_all

lemma run_checked_keeps [keep]: "calls_quiet H held \<Longrightarrow> keeps (within held R) (run_checked H args env failure)"
  unfolding run_checked_def subprocess_env_def by (intro keep)

lemma run_commands_keep [keep]:
  assumes "calls_quiet H held"
  shows "keeps (within held R) (run_cli_json_command H args env)" "keeps (within held R) (run_external_command H args)"
  unfolding run_cli_json_command_def run_cli_command_def run_external_command_def by (intro keep assms)+

lemma ask_health_keeps [keep]: "calls_quiet H held \<Longrightarrow> keeps (within held R) (ask_health H url)"
  unfolding ask_health_def by (intro keep)

lemma wait_loop_keeps [keep]: "calls_quiet H held \<Longrightarrow> keeps (within held R) (wait_loop n H url deadline err)"
  by (induction n arbitrary: err) (simp, intro keep | simp)+

lemma docker_payload_keeps [keep]: "calls_quiet H held \<Longrightarrow> keeps (within held R) (release_smoke_docker_payload H)"
  unfolding release_smoke_docker_payload_def probe_docker_def by (intro keep)

lemma smoke_local_runs_keeps: "calls_quiet H held \<Longrightarrow> keeps (within held R) (smoke_local_runs H url)"
  unfolding smoke_local_runs_def wait_for_api_ready_def by (intro keep)

subsection \<open>The cleanup of \<open>smoke-local\<close>\<close>

lemma stop_process_keeps_trees: "servers_quiet H trees \<Longrightarrow> keeps (within trees T) (stop_process H p)"
  unfolding stop_process_def servers_quiet_def by (intro keep) (auto intro!: keep split: exn.splits)

lemma wp_keeps: "keeps (within held R) m \<Longrightarrow> within held R c \<Longrightarrow> wp m (\<lambda>_ c'. within held R c') c"
  by (simp add: keeps_wp)

lemma cleanup_stops:
  assumes laws: "process_laws H running" "trees_quiet H running"
    and c: "within running (R \<union> set_option p) c"
  shows "wp (smoke_local_cleanup H e p) (\<lambda>_ c'. within running R c') c"
proof -
  have rest: "keeps (within running R) (if se_smoke_root e = [] then returns () else on_host (rmtree_ignoring_errors H (se_smoke_root e)))"
    using laws(2) unfolding trees_quiet_def by (intro keep) blast
  show ?thesis
  proof (cases p)
    case None
    then show ?thesis using c wp_keeps [OF rest] by (simp add: smoke_local_cleanup_def wp_bnd wp_returns)
  next
    case (Some n)
    show ?thesis
      unfolding smoke_local_cleanup_def Some option.case wp_bnd [of "stop_process H n"]
    proof (rule wp_mono [OF stop_process_stops [OF laws(1)]], goal_cases)
      case (1 r c1)
      then have "within running R c1" using c Some by auto
      then show ?case using 1 wp_keeps [OF rest] by simp
    qed
  qed
qed

lemma tree_lawsD:
  assumes "tree_laws H trees"
  shows "wp (mkdtemp H pre) (\<lambda>r h'. trees h' \<subseteq> trees h \<union> (case r of Inl e \<Rightarrow> {} | Inr root \<Rightarrow> {root}) \<and> r \<noteq> Inr []) h"
    and "wp (rmtree_ignoring_errors H root) (\<lambda>r h'. r = Inr () \<and> trees h' \<subseteq> trees h - {root}) h"
    and "returning (bound_port H a)"
  using assms unfolding tree_laws_def by simp_all

lemma cleanup_removes:
  assumes laws: "tree_laws H trees" "servers_quiet H trees" "process_laws H running"
    and c: "within trees (insert (se_smoke_root e) T) c" and root: "se_smoke_root e \<noteq> []"
  shows "wp (smoke_local_cleanup H e p) (\<lambda>_ c'. within trees T c') c"
proof -
  have last: "wp (if se_smoke_root e = [] then returns () else on_host (rmtree_ignoring_errors H (se_smoke_root e)))
      (\<lambda>_ c'. within trees T c') c1" if "within trees (insert (se_smoke_root e) T) c1" for c1
    using root that by (auto simp: wp_on_host intro: wp_mono [OF tree_lawsD(2) [OF laws(1)]])
  have first: "wp (case p of None \<Rightarrow> returns () | Some n \<Rightarrow> stop_process H n)
      (\<lambda>r c1. r = Inr () \<and> within trees (insert (se_smoke_root e) T) c1) c"
  proof (cases p)
    case (Some n)
    have "wp (stop_process H n) (\<lambda>r _. r = Inr ()) c"
      by (rule wp_mono [OF stop_process_stops [OF laws(3)]]) blast
    then show ?thesis
      using wp_keeps [OF stop_process_keeps_trees [OF laws(2)] c] unfolding Some option.case by (rule wp_conj)
  qed (simp add: wp_returns c)
  show ?thesis
    unfolding smoke_local_cleanup_def wp_bnd [of "case p of None \<Rightarrow> _ | Some n \<Rightarrow> _ n"]
    by (rule wp_mono [OF first]) (use last in auto)
qed

lemma wp_with_cleanup:
  assumes "wp m (\<lambda>_ c'. wp cleanup (\<lambda>_ c''. P c'') c') c"
  shows "wp (with_cleanup m cleanup) (\<lambda>_ c'. P c') c"
  unfolding with_cleanup_def wp_bnd wp_captured sum.case
  by (rule wp_mono [OF assms], erule wp_mono) (auto simp: wp_liftR split: sum.splits)

lemma start_server_starts:
  assumes laws: "process_laws H running" "calls_quiet H running" and c: "within running R c"
  shows "wp (start_local_api_server H url env) (\<lambda>r c'. within running (case r of Inl e \<Rightarrow> R | Inr p \<Rightarrow> insert p R) c') c"
proof -
  have spawn: "wp (on_host (popen H args vars)) (\<lambda>r c'. within running (case r of Inl e \<Rightarrow> R | Inr p \<Rightarrow> insert p R) c') c1"
    if "within running R c1" for c1 :: "'a console" and args vars
    unfolding wp_on_host by (rule wp_mono [OF started [OF laws(1)]]) (use that in \<open>auto split: sum.splits\<close>)
  have vars: "wp (subprocess_env H env) (\<lambda>_ c'. within running R c') c"
    unfolding subprocess_env_def by (rule wp_keeps [where held = running and R = R]) (intro keep laws c)+
  have said: "wp (fail_with s) (\<lambda>r c'. within running (case r of Inl e \<Rightarrow> R | Inr p \<Rightarrow> insert p R) c') c" for s
    using c by (simp add: fail_with_def echo_err_def wp)
  show ?thesis
    unfolding start_local_api_server_def Let_def wp_bnd [of "liftR _"] wp_liftR
  proof (cases "url_port url", goal_cases)
    case (2 port)
    show ?case
    proof (cases port)
      case (Some n)
      show ?thesis
        unfolding 2 Some sum.case option.case wp_bnd
        by (rule wp_mono [OF vars]) (use spawn in \<open>auto split: sum.splits\<close>)
    qed (use 2 said in simp)
  qed (use c in simp)
qed

lemma server_keeps_trees:
  assumes "calls_quiet H trees" "servers_quiet H trees"
  shows "keeps (within trees T) (start_local_api_server H url env)"
  unfolding start_local_api_server_def subprocess_env_def
  by (intro keep assms) (use assms(2) in \<open>auto simp: servers_quiet_def intro: keep\<close>)

subsection \<open>Nothing is left\<close>

lemma body_leaves_no_process:
  assumes laws: "process_laws H running" "trees_quiet H running" "calls_quiet H running"
    and c: "within running R c"
  shows "wp (smoke_local_body H e) (\<lambda>_ c'. within running R c') c"
proof -
  have clean: "wp (smoke_local_cleanup H e p) (\<lambda>_ c'. within running R c') c1"
    if "within running (R \<union> set_option p) c1" for p c1
    using cleanup_stops [OF laws(1,2) that] .
  have init: "wp (initialize_database H (se_database_url e)) (\<lambda>_ c'. within running R c') c"
    unfolding initialize_database_def by (rule wp_keeps [where held = running and R = R]) (intro keep laws c)+
  have serve: "wp (with_cleanup (smoke_local_runs H (se_api_url e)) (smoke_local_cleanup H e (Some p)))
      (\<lambda>_ c'. within running R c') c1" if "within running (insert p R) c1" for p c1
    by (rule wp_with_cleanup, rule wp_mono [OF wp_keeps [OF smoke_local_runs_keeps [OF laws(3)] that]], rule clean) simp
  have failed: "wp (bnd (smoke_local_cleanup H e None) (\<lambda>_. throw exc)) (\<lambda>_ c'. within running R c') c1"
    if "within running R c1" for exc :: exn and c1
    unfolding wp_bnd by (rule wp_mono [OF clean]) (use that in \<open>auto simp: wp_throw split: sum.splits\<close>)
  have start: "wp (bnd (initialize_database H (se_database_url e)) (\<lambda>_. start_local_api_server H (se_api_url e) (env_overrides_of e)))
      (\<lambda>r c'. within running (case r of Inl e \<Rightarrow> R | Inr p \<Rightarrow> insert p R) c') c"
    unfolding wp_bnd
    by (rule wp_mono [OF init]) (auto split: sum.splits intro: start_server_starts [OF laws(1,3)] cong: sum.case_cong)
  show ?thesis
    unfolding smoke_local_body_def wp_bnd [of "attempt _ _"] wp_attempt
    by (rule wp_mono [OF start]) (auto intro: serve failed wp_mono [OF failed] split: sum.splits)
qed

lemma body_leaves_no_tree:
  assumes laws: "tree_laws H trees" "servers_quiet H trees" "process_laws H running" "calls_quiet H trees"
    and c: "within trees (insert (se_smoke_root e) T) c" and root: "se_smoke_root e \<noteq> []"
  shows "wp (smoke_local_body H e) (\<lambda>_ c'. within trees T c') c"
proof -
  let ?all = "insert (se_smoke_root e) T"
  have clean: "wp (smoke_local_cleanup H e p) (\<lambda>_ c'. within trees T c') c1" if "within trees ?all c1" for p c1
    using cleanup_removes [OF laws(1-3) that root] .
  have start: "wp (bnd (initialize_database H (se_database_url e)) (\<lambda>_. start_local_api_server H (se_api_url e) (env_overrides_of e)))
      (\<lambda>_ c'. within trees ?all c') c"
    unfolding initialize_database_def
    by (rule wp_keeps [where held = trees and R = ?all]) (intro keep laws c server_keeps_trees)+
  have serve: "wp (with_cleanup (smoke_local_runs H (se_api_url e)) (smoke_local_cleanup H e (Some p)))
      (\<lambda>_ c'. within trees T c') c1" if "within trees ?all c1" for p c1
    by (rule wp_with_cleanup, rule wp_mono [OF wp_keeps [OF smoke_local_runs_keeps [OF laws(4)] that]], rule clean)
  have failed: "wp (bnd (smoke_local_cleanup H e None) (\<lambda>_. throw exc)) (\<lambda>_ c'. within trees T c') c1"
    if "within trees ?all c1" for exc :: exn and c1
    unfolding wp_bnd by (rule wp_mono [OF clean]) (use that in \<open>auto simp: wp_throw split: sum.splits\<close>)
  show ?thesis
    unfolding smoke_local_body_def wp_bnd [of "attempt _ _"] wp_attempt
    by (rule wp_mono [OF start]) (auto intro: serve wp_mono [OF failed] split: sum.splits)
qed

lemma ending_keeps:
  assumes "within held R c"
  shows "case r of Inl exc \<Rightarrow> within held R c
    | Inr x \<Rightarrow> wp (case x of (docs_smoke, cli_smoke, docker_smoke, ready) \<Rightarrow>
        bnd (emit_json (payload docs_smoke cli_smoke docker_smoke ready)) (\<lambda>_. if ready then returns () else throw (Exit 1)))
        (\<lambda>_ c'. within held R c') c"
proof (cases r)
  case (Inr x)
  show ?thesis
    unfolding Inr sum.case by (rule wp_keeps [where held = held and R = R]) (intro keep assms)+
qed (simp add: assms)

text \<open>Whatever fails on the way, and whether the server answers or not.\<close>

lemma smoke_local_leaves_no_process:
  assumes laws: "process_laws H running" "trees_quiet H running" "calls_quiet H running"
  shows "wp (release_smoke_local H) (\<lambda>_ c'. within running (running (host c)) c') c"
proof -
  have prepared: "wp (prepare_release_smoke_local_environment H) (\<lambda>_ c'. within running (running (host c)) c') c"
    unfolding prepare_release_smoke_local_environment_def find_free_tcp_port_def
    by (rule wp_keeps [where held = running and R = "running (host c)"])
      (use laws(2) in \<open>auto simp: trees_quiet_def intro!: keep laws\<close>)
  show ?thesis
    unfolding release_smoke_local_def wp_bnd [of "prepare_release_smoke_local_environment H"] wp_bnd [of "smoke_local_body H _"]
  proof (rule wp_mono [OF prepared], goal_cases)
    case (1 r c1)
    then show ?case
    proof (cases r)
      case (Inr e)
      show ?thesis
        unfolding Inr sum.case
        by (rule wp_mono [OF body_leaves_no_process [OF laws 1]], rule ending_keeps)
    qed simp
  qed
qed

lemma smoke_local_leaves_no_tree:
  assumes laws: "tree_laws H trees" "servers_quiet H trees" "process_laws H running" "calls_quiet H trees"
  shows "wp (release_smoke_local H) (\<lambda>_ c'. within trees (trees (host c)) c') c"
proof -
  let ?T = "trees (host c)"
  have port: "wp (find_free_tcp_port H) (\<lambda>r c'. (\<exists>port. r = Inr port) \<and> within trees R c') c1"
    if "within trees R c1" for R and c1
  proof (rule wp_conj)
    show "wp (find_free_tcp_port H) (\<lambda>r _. \<exists>port. r = Inr port) c1"
      using tree_lawsD(3) [OF laws(1), of "''127.0.0.1''"] unfolding find_free_tcp_port_def wp_on_host
      by (auto simp: returning_def wp_def split: prod.splits dest!: spec [of _ "host c1"])
    show "wp (find_free_tcp_port H) (\<lambda>_ c'. within trees R c') c1"
      unfolding find_free_tcp_port_def
      by (rule wp_keeps [where held = trees and R = R]) (intro keep laws that)+
  qed
  have prepared: "wp (prepare_release_smoke_local_environment H)
      (\<lambda>r c'. case r of Inl exc \<Rightarrow> within trees ?T c'
         | Inr e \<Rightarrow> within trees (insert (se_smoke_root e) ?T) c' \<and> se_smoke_root e \<noteq> []) c"
    unfolding prepare_release_smoke_local_environment_def wp_bnd [of "on_host _"] wp_on_host
  proof (rule wp_mono [OF tree_lawsD(1) [OF laws(1)]], goal_cases)
    case (1 r h1)
    then show ?case
    proof (cases r)
      case (Inr root)
      show ?thesis
        unfolding Inr sum.case wp_bnd [of "find_free_tcp_port H"]
        by (rule wp_mono [OF port [where R = "insert root ?T"]])
          (use 1 Inr in \<open>auto simp: wp_returns simp del: append.simps\<close>)
    qed simp
  qed
  show ?thesis
    unfolding release_smoke_local_def wp_bnd [of "prepare_release_smoke_local_environment H"] wp_bnd [of "smoke_local_body H _"]
  proof (rule wp_mono [OF prepared], goal_cases)
    case (1 r c1)
    then show ?case
    proof (cases r)
      case (Inr e)
      then have c1: "within trees (insert (se_smoke_root e) ?T) c1" "se_smoke_root e \<noteq> []" using 1 by simp_all
      show ?thesis
        unfolding Inr sum.case
        by (rule wp_mono [OF body_leaves_no_tree [OF laws c1]], rule ending_keeps)
    qed simp
  qed
qed

subsection \<open>The wait for the server ends\<close>

text \<open>\<open>clock h\<close> is the time on the host; a request may take time but does not set the clock back.\<close>

definition clock_laws :: "'h cli_host \<Rightarrow> ('h \<Rightarrow> int) \<Rightarrow> bool" where
  "clock_laws H clock \<longleftrightarrow>
     (\<forall>h. wp (monotonic H) (\<lambda>r h'. \<exists>t. r = Inr t \<and> clock h \<le> t \<and> t \<le> clock h') h) \<and>
     (\<forall>d h. wp (sleep_for H d) (\<lambda>r h'. r = Inr () \<and> clock h + d \<le> clock h') h) \<and>
     (\<forall>url t verb path body h. wp (http_request H url t verb path body)
        (\<lambda>r h'. r \<noteq> Inl OutOfFuel \<and> clock h \<le> clock h') h)"

lemma clock_lawsD:
  assumes "clock_laws H clock"
  shows "wp (monotonic H) (\<lambda>r h'. \<exists>t. r = Inr t \<and> clock h \<le> t \<and> t \<le> clock h') h"
    and "wp (sleep_for H d) (\<lambda>r h'. r = Inr () \<and> clock h + d \<le> clock h') h"
    and "wp (http_request H url t verb path body) (\<lambda>r h'. r \<noteq> Inl OutOfFuel \<and> clock h \<le> clock h') h"
  using assms unfolding clock_laws_def by blast+

lemma ask_health_advances:
  assumes "clock_laws H clock"
  shows "wp (ask_health H url) (\<lambda>r c'. r \<noteq> Inl OutOfFuel \<and> ((\<exists>m. r = Inr (Some m)) \<longrightarrow> clock (host c) + 200000 \<le> clock (host c'))) c"
proof -
  note sleeps = clock_lawsD(2) [OF assms, of 200000]
  have slept: "wp (bnd (on_host (sleep_for H 200000)) (\<lambda>_. returns (Some m)))
      (\<lambda>r c'. r \<noteq> Inl OutOfFuel \<and> ((\<exists>m. r = Inr (Some m)) \<longrightarrow> clock (host c) + 200000 \<le> clock (host c'))) c1"
    if "clock (host c) \<le> clock (host c1)" for m :: string and c1
    unfolding wp_bnd wp_on_host by (rule wp_mono [OF sleeps]) (use that in \<open>auto simp: wp_returns\<close>)
  show ?thesis
    unfolding ask_health_def wp_attempt wp_bnd [of "on_host _"] wp_bnd [of "liftR _"] wp_on_host wp_liftR
  proof (rule wp_mono [OF clock_lawsD(3) [OF assms]], goal_cases)
    case (1 r h1)
    then show ?case
      by (cases r) (auto simp: raise_for_status_def check_def wp_returns wp_throw intro!: slept split: exn.splits)
  qed
qed

lemma wait_loop_ends:
  assumes "clock_laws H clock"
  shows "deadline \<le> clock (host c) + 200000 * int n \<Longrightarrow> wp (wait_loop (Suc n) H url deadline err) (\<lambda>r _. r \<noteq> Inl OutOfFuel) c"
proof (induction n arbitrary: c err)
  case 0
  show ?case
    unfolding wait_loop.simps wp_bnd [of "on_host _"] wp_on_host
    by (rule wp_mono [OF clock_lawsD(1) [OF assms]]) (use 0 in \<open>auto simp: fail_with_def echo_err_def wp\<close>)
next
  case (Suc n)
  show ?case
    unfolding wait_loop.simps(2) [of "Suc n"] wp_bnd [of "on_host _"] wp_on_host
  proof (rule wp_mono [OF clock_lawsD(1) [OF assms]], goal_cases)
    case (1 r h1)
    then obtain t where t: "r = Inr t" "clock (host c) \<le> clock h1" by force
    have "wp (bnd (ask_health H url) (\<lambda>e. case e of None \<Rightarrow> returns () | Some m \<Rightarrow> wait_loop (Suc n) H url deadline (Some m)))
        (\<lambda>r _. r \<noteq> Inl OutOfFuel) (c\<lparr>host := h1\<rparr>)"
      unfolding wp_bnd
    proof (rule wp_mono [OF ask_health_advances [OF assms]], goal_cases)
      case (1 r2 c2)
      then show ?case
        using Suc.prems t by (auto simp: wp_returns split: sum.splits option.splits intro!: Suc.IH simp del: wait_loop.simps)
    qed
    then show ?case using t by (simp add: fail_with_def echo_err_def wp del: wait_loop.simps)
  qed
qed

text \<open>15 seconds hold 75 pauses of 0.2 seconds; the last turn only reads the clock.\<close>

lemma wait_for_api_ready_ends:
  assumes "clock_laws H clock"
  shows "wp (wait_for_api_ready H url) (\<lambda>r _. r \<noteq> Inl OutOfFuel) c"
  unfolding wait_for_api_ready_def wp_bnd wp_on_host
proof (rule wp_mono [OF clock_lawsD(1) [OF assms]], goal_cases)
  case (1 r h1)
  then obtain t where "r = Inr t" "t \<le> clock h1" by blast
  then show ?case
    using wait_loop_ends [OF assms, of "t + 15000000" "c\<lparr>host := h1\<rparr>" 75] by simp
qed

end
