(* ===== verification/Cli_Scenario.thy ===== *)
theory Cli_Scenario
  imports Smoke_Docs Cli_Hygiene Scenario
begin

section \<open>Concrete hosts for the command line\<close>

text \<open>
  Two hosts that the properties of the command line are applied to: one whose HTTP client reaches the API of
  the development, and one whose server never answers and ignores the request to end, so that the smoke run
  has to kill it.
\<close>

definition answering_queries :: "'h os_queries" where
  "answering_queries = \<lparr>getuser = returns ''op'', getgroups = returns [10], getgrgid = (\<lambda>g. returns ''docker''),
     getpwuid = (\<lambda>u. returns ''root''), os_path_exists = (\<lambda>p. returns False),
     os_stat_of = (\<lambda>p. returns \<lparr>st_uid = 0, st_gid = 10, st_mode = 432\<rparr>), os_environ = returns [],
     default_which = (\<lambda>p. returns (Some ''/usr/bin/docker'')),
     from_env = throw (DockerException ''Permission denied'')\<rparr>"

lemma queries_answer: "queries_answered answering_queries" "returning (default_which answering_queries p)"
  by (simp_all add: queries_answered_def answering_queries_def returning_returns)

lemma quiet_returns: "quiet held (returns x)" "quiet held (throw e)"
  by (simp_all add: quiet_def returns_def throw_def)

lemma quiet_keeps: "(\<And>R. keeps (\<lambda>h. held h \<subseteq> R) m) \<Longrightarrow> quiet held m"
  unfolding keeps_def quiet_def by blast

lemma bnd_throw: "bnd (throw e) f = throw e"
  by (simp add: bnd_def throw_def fun_eq_iff)

lemma quiet_probe: "quiet held (probe_docker_environment answering_queries None (default_which answering_queries) None)"
proof (rule quiet_keeps)
  fix R
  show "keeps (\<lambda>h. held h \<subseteq> R) (probe_docker_environment answering_queries None (default_which answering_queries) None)"
    unfolding probe_docker_environment_def access_context_def Let_def option.case
    by (auto simp: answering_queries_def bnd_throw intro!: keep split: prod.splits)
qed

subsection \<open>The API behind the URL\<close>

definition plain_framework :: fastapi where
  "plain_framework = \<lparr>to_int = (\<lambda>v. case v of PInt i \<Rightarrow> Some i | _ \<Rightarrow> None), to_datetime = (\<lambda>v. None),
     datetime_json = (\<lambda>t. ''2026-05-13T00:00:00Z''), render = json_dumps_indent 0,
     validation_items = (\<lambda>verb path body. []), no_route = (\<lambda>verb path. (404, ''Not Found'')),
     status_text = (\<lambda>code body. body)\<rparr>"

lemma plain_framework_ok: "framework_ok plain_framework"
  using json_loads_pretty [of _ 0] canonical_sorted [OF sorted_canonical]
  by (auto simp: framework_ok_def plain_framework_def)

definition loopback :: "fastapi \<Rightarrow> env \<Rightarrow> world cli_host" where
  "loopback F E = \<lparr>http_request = (\<lambda>url timeout. serve_http F E),
     subprocess_run = (\<lambda>args env. returns \<lparr>cp_returncode = 0, cp_stdout = [], cp_stderr = []\<rparr>),
     probe_queries = answering_queries, sys_executable = ''python'', mkdtemp = (\<lambda>pre. returns (''/tmp/'' @ pre)),
     bound_port = (\<lambda>a. returns 8000), create_all = (\<lambda>u. returns ()), popen = (\<lambda>args env. returns 1),
     proc_poll = (\<lambda>p. returns (Some 0)), proc_terminate = (\<lambda>p. returns ()), proc_kill = (\<lambda>p. returns ()),
     proc_wait = (\<lambda>p t. returns ()), monotonic = returns 0, sleep_for = (\<lambda>d. returns ()),
     rmtree_ignoring_errors = (\<lambda>p. returns ())\<rparr>"

lemma loopback_connected: "connected F E (loopback F E) url"
  by (simp add: connected_def loopback_def)

lemma demo_ids: "segment (uuid4 demo_env n)"
  by (simp add: segment_def plain_char_def list_all_iff)

subsection \<open>A desk with a stubborn server\<close>

record desk =
  desk_clock :: int
  desk_running :: "nat list"
  desk_trees :: "string list"

definition desk_host :: "desk cli_host" where
  "desk_host = \<lparr>http_request = (\<lambda>url timeout verb path body. throw (HTTPError ''connection refused'')),
     subprocess_run = (\<lambda>args env. returns \<lparr>cp_returncode = 0, cp_stdout = '' M README.md'', cp_stderr = []\<rparr>),
     probe_queries = answering_queries, sys_executable = ''python'',
     mkdtemp = (\<lambda>pre. bnd (modify (desk_trees_update ((#) (''/tmp/'' @ pre)))) (\<lambda>_. returns (''/tmp/'' @ pre))),
     bound_port = (\<lambda>a. returns 8000), create_all = (\<lambda>u. returns ()),
     popen = (\<lambda>args env. bnd (gets (\<lambda>d. length (desk_running d))) (\<lambda>n.
       bnd (modify (desk_running_update ((#) n))) (\<lambda>_. returns n))),
     proc_poll = (\<lambda>p. gets (\<lambda>d. if p \<in> set (desk_running d) then None else Some 0)),
     proc_terminate = (\<lambda>p. returns ()),
     proc_kill = (\<lambda>p. modify (desk_running_update (filter (\<lambda>q. q \<noteq> p)))),
     proc_wait = (\<lambda>p t. bnd (gets (\<lambda>d. p \<in> set (desk_running d))) (\<lambda>alive.
       if alive then throw TimeoutExpired else returns ())),
     monotonic = gets desk_clock, sleep_for = (\<lambda>d. modify (desk_clock_update (\<lambda>t. t + d))),
     rmtree_ignoring_errors = (\<lambda>p. modify (desk_trees_update (filter (\<lambda>q. q \<noteq> p))))\<rparr>"

abbreviation desk_processes :: "desk \<Rightarrow> nat set" where
  "desk_processes d \<equiv> set (desk_running d)"

abbreviation desk_directories :: "desk \<Rightarrow> string set" where
  "desk_directories d \<equiv> set (desk_trees d)"

lemma desk_processes_laws: "process_laws desk_host desk_processes"
  by (simp add: process_laws_def desk_host_def wp) (auto simp: wp_def bnd_def gets_def returns_def)

lemma desk_tree_laws: "tree_laws desk_host desk_directories"
  by (auto simp: tree_laws_def desk_host_def wp returning_returns)

lemma desk_quiet:
  "trees_quiet desk_host desk_processes" "servers_quiet desk_host desk_directories"
  "calls_quiet desk_host desk_processes" "calls_quiet desk_host desk_directories"
  by (simp_all add: trees_quiet_def servers_quiet_def calls_quiet_def desk_host_def quiet_probe quiet_returns)
     (auto simp: quiet_def bnd_def gets_def modify_def returns_def throw_def answering_queries_def)

lemma desk_clock_laws: "clock_laws desk_host desk_clock"
  by (simp add: clock_laws_def desk_host_def wp)

definition desk_console :: "desk console" where
  "desk_console = \<lparr>host = \<lparr>desk_clock = 0, desk_running = [], desk_trees = [''/tmp/other'']\<rparr>,
     stdout_text = [], stderr_text = []\<rparr>"

end
