(* ===== verification/Entities.thy ===== *)
theory Entities
  imports Enums Datetime
begin

section \<open>Entity records\<close>

text \<open>
  \<open>labos/core/entities.py\<close>: the entities with the fields that no update may change. The classes extend one
  another, so their records do; a class is the list of its fields, read from a record, and the names in
  \<open>immutable_fields\<close>. Python compares aware datetimes by the instant, a naive one equals no aware one.
\<close>

datatype field =
    FStr string
  | FOpt "string option"
  | FBool bool
  | FTime datetime

fun time_eq :: "datetime \<Rightarrow> datetime \<Rightarrow> bool" where
  "time_eq (Naive a) (Naive b) = (a = b)"
| "time_eq (Aware a x) (Aware b y) = (a - x = b - y)"
| "time_eq _ _ = False"

fun field_eq :: "field \<Rightarrow> field \<Rightarrow> bool" where
  "field_eq (FTime a) (FTime b) = time_eq a b"
| "field_eq a b = (a = b)"

type_synonym 'r entity_class = "(string \<times> ('r \<Rightarrow> field)) list"

definition changed_fields :: "'r entity_class \<Rightarrow> string list \<Rightarrow> 'r \<Rightarrow> 'r \<Rightarrow> string list" where
  "changed_fields cls immutable_fields self previous =
     map fst (filter (\<lambda>(n, f). n \<in> set immutable_fields \<and> \<not> field_eq (f self) (f previous)) cls)"

definition validate_update_from :: "'r entity_class \<Rightarrow> string list \<Rightarrow> 'r \<Rightarrow> 'r \<Rightarrow> exn + unit" where
  "validate_update_from cls immutable_fields self previous =
     (let changed = changed_fields cls immutable_fields self previous
      in check (changed = []) (ValueError (''immutable fields changed: '' @ join '', '' (sort changed))))"

subsection \<open>The classes\<close>

record EntityRecord =
  e_id :: string
  e_created_at :: datetime
  e_updated_at :: datetime

definition entity_fields :: "'a EntityRecord_scheme entity_class" where
  "entity_fields = [(''id'', \<lambda>r. FStr (e_id r)), (''created_at'', \<lambda>r. FTime (e_created_at r)),
     (''updated_at'', \<lambda>r. FTime (e_updated_at r))]"

definition entity_immutable :: "string list" where
  "entity_immutable = [''id'', ''created_at'']"

text \<open>The defaults of a new record: a fresh identifier and two readings of the clock.\<close>

definition new_entity :: "string \<Rightarrow> int \<Rightarrow> int \<Rightarrow> EntityRecord" where
  "new_entity uuid now1 now2 = \<lparr>e_id = uuid, e_created_at = utc now1, e_updated_at = utc now2\<rparr>"

record ProfileRecord = EntityRecord +
  prec_name :: string
  prec_runtime_class :: string
  prec_network_mode :: string
  prec_filesystem_mode :: string
  prec_persistence_mode :: string
  prec_export_mode :: string
  prec_approval_required :: bool
  prec_audit_level :: AuditLevel

definition profile_fields :: "ProfileRecord entity_class" where
  "profile_fields = entity_fields @
     [(''name'', \<lambda>r. FStr (prec_name r)), (''runtime_class'', \<lambda>r. FStr (prec_runtime_class r)),
      (''network_mode'', \<lambda>r. FStr (prec_network_mode r)), (''filesystem_mode'', \<lambda>r. FStr (prec_filesystem_mode r)),
      (''persistence_mode'', \<lambda>r. FStr (prec_persistence_mode r)), (''export_mode'', \<lambda>r. FStr (prec_export_mode r)),
      (''approval_required'', \<lambda>r. FBool (prec_approval_required r)),
      (''audit_level'', \<lambda>r. FStr (audit_value (prec_audit_level r)))]"

definition profile_immutable :: "string list" where
  "profile_immutable = entity_immutable @ [''name'']"

record LabRecord = EntityRecord +
  lrec_profile_name :: string
  lrec_state :: LabState

definition lab_fields :: "LabRecord entity_class" where
  "lab_fields = entity_fields @
     [(''profile_name'', \<lambda>r. FStr (lrec_profile_name r)), (''state'', \<lambda>r. FStr (lab_value (lrec_state r)))]"

definition lab_immutable :: "string list" where
  "lab_immutable = entity_immutable @ [''profile_name'']"

record RunRecord = EntityRecord +
  rrec_lab_id :: string
  rrec_state :: RunState

definition run_fields :: "RunRecord entity_class" where
  "run_fields = entity_fields @
     [(''lab_id'', \<lambda>r. FStr (rrec_lab_id r)), (''state'', \<lambda>r. FStr (run_value (rrec_state r)))]"

definition run_immutable :: "string list" where
  "run_immutable = entity_immutable @ [''lab_id'']"

record ApprovalRequestRecord = EntityRecord +
  arec_lab_id :: string
  arec_requester :: string
  arec_state :: ApprovalState
  arec_reason :: string

definition approval_fields :: "ApprovalRequestRecord entity_class" where
  "approval_fields = entity_fields @
     [(''lab_id'', \<lambda>r. FStr (arec_lab_id r)), (''requester'', \<lambda>r. FStr (arec_requester r)),
      (''state'', \<lambda>r. FStr (approval_value (arec_state r))), (''reason'', \<lambda>r. FStr (arec_reason r))]"

definition approval_immutable :: "string list" where
  "approval_immutable = entity_immutable @ [''lab_id'', ''requester'', ''reason'']"

record SnapshotRecord = EntityRecord +
  srec_lab_id :: string
  srec_state :: SnapshotState
  srec_storage_uri :: "string option"

definition snapshot_fields :: "SnapshotRecord entity_class" where
  "snapshot_fields = entity_fields @
     [(''lab_id'', \<lambda>r. FStr (srec_lab_id r)), (''state'', \<lambda>r. FStr (snapshot_value (srec_state r))),
      (''storage_uri'', \<lambda>r. FOpt (srec_storage_uri r))]"

definition snapshot_immutable :: "string list" where
  "snapshot_immutable = entity_immutable @ [''lab_id'']"

record ExportRequestRecord = EntityRecord +
  xrec_lab_id :: string
  xrec_artifact_path :: string
  xrec_state :: ExportState
  xrec_checksum_sha256 :: "string option"

definition export_fields :: "ExportRequestRecord entity_class" where
  "export_fields = entity_fields @
     [(''lab_id'', \<lambda>r. FStr (xrec_lab_id r)), (''artifact_path'', \<lambda>r. FStr (xrec_artifact_path r)),
      (''state'', \<lambda>r. FStr (export_value (xrec_state r))), (''checksum_sha256'', \<lambda>r. FOpt (xrec_checksum_sha256 r))]"

definition export_immutable :: "string list" where
  "export_immutable = entity_immutable @ [''lab_id'', ''artifact_path'']"

record AuditEventRecord = EntityRecord +
  aerec_lab_id :: "string option"
  aerec_run_id :: "string option"
  aerec_actor :: string
  aerec_action :: string
  aerec_detail :: string

definition audit_fields :: "AuditEventRecord entity_class" where
  "audit_fields = entity_fields @
     [(''lab_id'', \<lambda>r. FOpt (aerec_lab_id r)), (''run_id'', \<lambda>r. FOpt (aerec_run_id r)), (''actor'', \<lambda>r. FStr (aerec_actor r)),
      (''action'', \<lambda>r. FStr (aerec_action r)), (''detail'', \<lambda>r. FStr (aerec_detail r))]"

record SecretLeaseRecord = EntityRecord +
  slrec_lab_id :: string
  slrec_secret_name :: string
  slrec_expires_at :: datetime

definition lease_fields :: "SecretLeaseRecord entity_class" where
  "lease_fields = entity_fields @
     [(''lab_id'', \<lambda>r. FStr (slrec_lab_id r)), (''secret_name'', \<lambda>r. FStr (slrec_secret_name r)),
      (''expires_at'', \<lambda>r. FTime (slrec_expires_at r))]"

definition lease_immutable :: "string list" where
  "lease_immutable = entity_immutable @ [''lab_id'', ''secret_name'', ''expires_at'']"

record SchedulerJobRecord = EntityRecord +
  jrec_profile_name :: string
  jrec_cron :: string
  jrec_enabled :: bool

definition job_fields :: "SchedulerJobRecord entity_class" where
  "job_fields = entity_fields @
     [(''profile_name'', \<lambda>r. FStr (jrec_profile_name r)), (''cron'', \<lambda>r. FStr (jrec_cron r)),
      (''enabled'', \<lambda>r. FBool (jrec_enabled r))]"

definition job_immutable :: "string list" where
  "job_immutable = entity_immutable @ [''profile_name'', ''cron'']"

subsection \<open>Updates\<close>

lemma time_eq_iff: "time_eq a b \<longleftrightarrow> is_aware a = is_aware b \<and> instant a = instant b"
  by (cases a; cases b) auto

lemma field_eq_refl [simp]: "field_eq a a"
  by (cases a) (simp_all add: time_eq_iff)

lemma field_eq_trans: "field_eq a b \<Longrightarrow> field_eq b c \<Longrightarrow> field_eq a c"
  by (cases a; cases b; cases c) (auto simp: time_eq_iff)

lemma accepted_iff:
  "validate_update_from cls imm self previous = Inr () \<longleftrightarrow>
     (\<forall>(n, f) \<in> set cls. n \<in> set imm \<longrightarrow> field_eq (f self) (f previous))"
  by (auto simp: validate_update_from_def changed_fields_def filter_empty_conv Let_def)

lemma refused_with:
  assumes "validate_update_from cls imm self previous = Inl e" and "distinct (map fst cls)"
  obtains names where "e = ValueError (''immutable fields changed: '' @ join '', '' names)" "sorted names" "distinct names"
    "set names = {n \<in> set imm. \<exists>f. (n, f) \<in> set cls \<and> \<not> field_eq (f self) (f previous)}" "names \<noteq> []"
proof
  let ?c = "changed_fields cls imm self previous"
  have "e = ValueError (''immutable fields changed: '' @ join '', '' (sort ?c)) \<and> ?c \<noteq> []"
    using assms(1) by (auto simp: validate_update_from_def Let_def simp del: append.simps)
  then show "e = ValueError (''immutable fields changed: '' @ join '', '' (sort ?c))" "sort ?c \<noteq> []"
    using set_empty [of "sort ?c"] by auto
  show "distinct (sort ?c)"
    using assms(2) by (auto simp: changed_fields_def distinct_map_filter)
  show "set (sort ?c) = {n \<in> set imm. \<exists>f. (n, f) \<in> set cls \<and> \<not> field_eq (f self) (f previous)}"
    by (force simp: changed_fields_def image_iff)
qed simp

end
