(* ===== verification/Settings.thy ===== *)
theory Settings
  imports Refinement Snapshots Runtime
begin

section \<open>Configuration\<close>

text \<open>
  \<open>labos/config/settings.py\<close> and the part of \<open>create_app\<close> in \<open>labos/api/app.py\<close> that turns the settings into
  what the handlers use. The argument is the process environment; a path is kept as its text, which the
  allocator resolves. The parameters of the development's environment that are not configured (identifiers,
  clock, working directory, archive format) are those of the environment that is given.
\<close>

record Settings =
  set_app_name :: string
  set_database_url :: string
  set_managed_storage_root :: string
  set_default_run_timeout_minutes :: int

definition getenv :: "(string \<Rightarrow> string option) \<Rightarrow> string \<Rightarrow> string \<Rightarrow> string" where
  "getenv environment key dflt = (case environment key of None \<Rightarrow> dflt | Some v \<Rightarrow> v)"

definition load_settings :: "(string \<Rightarrow> string option) \<Rightarrow> exn + Settings" where
  "load_settings environment =
     result_bind (py_int (PStr (getenv environment ''LABOS_DEFAULT_RUN_TIMEOUT_MINUTES'' ''60''))) (\<lambda>minutes.
     Inr \<lparr>set_app_name = getenv environment ''LABOS_APP_NAME'' ''LabOS'',
          set_database_url = getenv environment ''LABOS_DATABASE_URL'' ''sqlite+pysqlite:///./labos.db'',
          set_managed_storage_root = getenv environment ''LABOS_MANAGED_STORAGE_ROOT'' ''./.labos/storage'',
          set_default_run_timeout_minutes = minutes\<rparr>)"

text \<open>\<open>create_app()\<close> with its defaults: the settings, the allocator's root and the built-in profiles.\<close>

definition create_app :: "env \<Rightarrow> fs \<Rightarrow> exn + env" where
  "create_app E files =
     result_bind (load_settings (environ E)) (\<lambda>settings.
     result_bind (allocator_init files (cwd E) (set_managed_storage_root settings)) (\<lambda>root.
     Inr (E\<lparr>storage_root := root, default_run_timeout_minutes := set_default_run_timeout_minutes settings,
            policy_profiles := DEFAULT_PROFILES\<rparr>)))"

text \<open>The environment of the services meets what their properties assume.\<close>

lemma created_app_ok:
  assumes "create_app E files = Inr E'" and "inj (uuid4 E)"
  shows "env_ok E'"
  using assms by (auto simp: create_app_def result_bind_def env_ok_def builtin_defs elim!: default_profiles_cases split: sum.splits)

lemma default_settings:
  "load_settings Map.empty = Inr \<lparr>set_app_name = ''LabOS'', set_database_url = ''sqlite+pysqlite:///./labos.db'',
     set_managed_storage_root = ''./.labos/storage'', set_default_run_timeout_minutes = 60\<rparr>"
  by code_simp

text \<open>The mount a runtime gets for a lab's workspace.\<close>

definition runtime_mount :: "StorageAllocation \<Rightarrow> ManagedMount" where
  "runtime_mount a = \<lparr>mm_source = path_str (sa_workspace_path a), mm_target = sa_workspace_mount_target a, mm_read_only = False\<rparr>"

end
