(* ===== verification/Migrations.thy ===== *)
theory Migrations
  imports Prelude "HOL-Library.AList"
begin

section \<open>Migrations\<close>

text \<open>
  The revisions under \<open>alembic/versions\<close> as data, and the tables \<open>labos/db/schema.py\<close> declares, as far as a
  database catalogue holds them: columns with their types, constraints and indexes. An operation is read as
  what the statement it issues does to the catalogue; \<open>batch_alter_table\<close> applies its operations one after another. The rows of a
  table are not part of it. A column with a foreign key and no type of its own has the type of the key, and
  \<open>index=True\<close> names an index after its table and column.
\<close>

datatype sql_type = SString nat | SText | SBoolean | SInteger | SDateTime

record column_def =
  cd_name :: string
  cd_type :: sql_type
  cd_nullable :: bool
  cd_server_default :: "string option"

abbreviation Column :: "string \<Rightarrow> sql_type \<Rightarrow> bool \<Rightarrow> string option \<Rightarrow> column_def" where
  "Column n t nullable dflt \<equiv> \<lparr>cd_name = n, cd_type = t, cd_nullable = nullable, cd_server_default = dflt\<rparr>"

datatype table_constraint =
    PrimaryKey "string list"
  | ForeignKey "string list" string "string list" string
  | Unique "string list"

record table_def =
  td_columns :: "column_def list"
  td_constraints :: "table_constraint list"
  td_indexes :: "(string \<times> string list \<times> bool) list"

type_synonym catalogue = "(string \<times> table_def) list"

subsection \<open>Operations\<close>

datatype table_op =
    AddColumn column_def
  | DropColumn string
  | AlterDefault string "string option"
  | CreateIndex string "string list" bool
  | DropIndex string

datatype migration_op =
    CreateTable string table_def
  | DropTable string
  | AlterTable string "table_op list"

definition column_names :: "table_def \<Rightarrow> string list" where
  "column_names t = map cd_name (td_columns t)"

definition indexed :: "table_def \<Rightarrow> string \<Rightarrow> bool" where
  "indexed t n \<longleftrightarrow> (\<exists>(_, cols, _) \<in> set (td_indexes t). n \<in> set cols)"

fun apply_table_op :: "table_op \<Rightarrow> table_def \<Rightarrow> exn + table_def" where
  "apply_table_op (AddColumn c) t =
     result_bind (check (cd_name c \<notin> set (column_names t)) (RuntimeError (''duplicate column name: '' @ cd_name c))) (\<lambda>_.
     Inr (t\<lparr>td_columns := td_columns t @ [c]\<rparr>))"
| "apply_table_op (DropColumn n) t =
     result_bind (check (n \<in> set (column_names t) \<and> \<not> indexed t n) (RuntimeError (''cannot drop column: '' @ n))) (\<lambda>_.
     Inr (t\<lparr>td_columns := filter (\<lambda>c. cd_name c \<noteq> n) (td_columns t)\<rparr>))"
| "apply_table_op (AlterDefault n d) t =
     result_bind (check (n \<in> set (column_names t)) (RuntimeError (''no such column: '' @ n))) (\<lambda>_.
     Inr (t\<lparr>td_columns := map (\<lambda>c. if cd_name c = n then c\<lparr>cd_server_default := d\<rparr> else c) (td_columns t)\<rparr>))"
| "apply_table_op (CreateIndex i cols u) t =
     result_bind (check (i \<notin> set (map fst (td_indexes t)) \<and> set cols \<subseteq> set (column_names t))
       (RuntimeError (''cannot create index: '' @ i))) (\<lambda>_.
     Inr (t\<lparr>td_indexes := td_indexes t @ [(i, cols, u)]\<rparr>))"
| "apply_table_op (DropIndex i) t =
     result_bind (check (i \<in> set (map fst (td_indexes t))) (RuntimeError (''no such index: '' @ i))) (\<lambda>_.
     Inr (t\<lparr>td_indexes := filter (\<lambda>x. fst x \<noteq> i) (td_indexes t)\<rparr>))"

fun apply_all :: "('o \<Rightarrow> 's \<Rightarrow> exn + 's) \<Rightarrow> 'o list \<Rightarrow> 's \<Rightarrow> exn + 's" where
  "apply_all f [] s = Inr s"
| "apply_all f (x # xs) s = result_bind (f x s) (apply_all f xs)"

fun apply_op :: "migration_op \<Rightarrow> catalogue \<Rightarrow> exn + catalogue" where
  "apply_op (CreateTable n t) s =
     (case map_of s n of None \<Rightarrow> Inr (s @ [(n, t)]) | Some _ \<Rightarrow> Inl (RuntimeError (''table exists: '' @ n)))"
| "apply_op (DropTable n) s =
     (case map_of s n of None \<Rightarrow> Inl (RuntimeError (''no such table: '' @ n)) | Some _ \<Rightarrow> Inr (filter (\<lambda>x. fst x \<noteq> n) s))"
| "apply_op (AlterTable n ops) s =
     (case map_of s n of
        None \<Rightarrow> Inl (RuntimeError (''no such table: '' @ n))
      | Some t \<Rightarrow> result_bind (apply_all apply_table_op ops t) (\<lambda>t'. Inr (AList.update n t' s)))"

record migration =
  mig_revision :: string
  mig_down_revision :: "string option"
  mig_upgrade :: "migration_op list"
  mig_downgrade :: "migration_op list"

definition upgrade :: "migration \<Rightarrow> catalogue \<Rightarrow> exn + catalogue" where
  "upgrade m = apply_all apply_op (mig_upgrade m)"

definition downgrade :: "migration \<Rightarrow> catalogue \<Rightarrow> exn + catalogue" where
  "downgrade m = apply_all apply_op (mig_downgrade m)"

text \<open>The revisions from one on, each the one that names its predecessor; a script is used at most once.\<close>

fun revision_path :: "nat \<Rightarrow> migration list \<Rightarrow> string option \<Rightarrow> migration list" where
  "revision_path 0 ms at = []"
| "revision_path (Suc n) ms at =
     (case find (\<lambda>m. mig_down_revision m = at) ms of
        None \<Rightarrow> [] | Some m \<Rightarrow> m # revision_path n ms (Some (mig_revision m)))"

definition upgrade_head :: "migration list \<Rightarrow> catalogue \<Rightarrow> exn + catalogue" where
  "upgrade_head ms = apply_all upgrade (revision_path (length ms) ms None)"

definition downgrade_base :: "migration list \<Rightarrow> catalogue \<Rightarrow> exn + catalogue" where
  "downgrade_base ms = apply_all downgrade (rev (revision_path (length ms) ms None))"

subsection \<open>The revisions\<close>

definition initial_schema :: migration where
  "initial_schema = \<lparr>mig_revision = ''20260513_0001'', mig_down_revision = None,
   mig_upgrade =
   [CreateTable ''labs''
    \<lparr>td_columns =
       [Column ''id'' (SString 64) False None,
        Column ''profile_name'' (SString 128) False None,
        Column ''state'' (SString 32) False None,
        Column ''runtime_class'' (SString 32) False None,
        Column ''created_at'' SDateTime False None,
        Column ''updated_at'' SDateTime False None],
     td_constraints = [PrimaryKey [''id'']], td_indexes = []\<rparr>,
    CreateTable ''runs''
    \<lparr>td_columns =
       [Column ''id'' (SString 64) False None,
        Column ''lab_id'' (SString 64) False None,
        Column ''state'' (SString 32) False None,
        Column ''command'' SText False None,
        Column ''created_at'' SDateTime False None,
        Column ''updated_at'' SDateTime False None],
     td_constraints = [ForeignKey [''lab_id''] ''labs'' [''id''] ''CASCADE'', PrimaryKey [''id'']], td_indexes = []\<rparr>,
    CreateTable ''approvals''
    \<lparr>td_columns =
       [Column ''id'' (SString 64) False None,
        Column ''lab_id'' (SString 64) True None,
        Column ''action'' (SString 128) False None,
        Column ''approved'' SBoolean False None,
        Column ''created_at'' SDateTime False None,
        Column ''updated_at'' SDateTime False None],
     td_constraints = [ForeignKey [''lab_id''] ''labs'' [''id''] ''SET NULL'', PrimaryKey [''id'']], td_indexes = []\<rparr>,
    CreateTable ''exports''
    \<lparr>td_columns =
       [Column ''id'' (SString 64) False None,
        Column ''lab_id'' (SString 64) False None,
        Column ''source_path'' (SString 512) False None,
        Column ''sha256'' (SString 64) False None,
        Column ''created_at'' SDateTime False None,
        Column ''updated_at'' SDateTime False None],
     td_constraints = [ForeignKey [''lab_id''] ''labs'' [''id''] ''CASCADE'', PrimaryKey [''id'']], td_indexes = []\<rparr>,
    CreateTable ''snapshots''
    \<lparr>td_columns =
       [Column ''id'' (SString 64) False None,
        Column ''lab_id'' (SString 64) False None,
        Column ''backend_ref'' (SString 512) False None,
        Column ''created_at'' SDateTime False None,
        Column ''updated_at'' SDateTime False None],
     td_constraints = [ForeignKey [''lab_id''] ''labs'' [''id''] ''CASCADE'', PrimaryKey [''id'']], td_indexes = []\<rparr>,
    CreateTable ''events''
    \<lparr>td_columns =
       [Column ''id'' (SString 64) False None,
        Column ''lab_id'' (SString 64) True None,
        Column ''run_id'' (SString 64) True None,
        Column ''event_type'' (SString 128) False None,
        Column ''payload_json'' SText False None,
        Column ''created_at'' SDateTime False None,
        Column ''updated_at'' SDateTime False None],
     td_constraints = [ForeignKey [''lab_id''] ''labs'' [''id''] ''SET NULL'', ForeignKey [''run_id''] ''runs'' [''id''] ''SET NULL'', PrimaryKey [''id'']], td_indexes = []\<rparr>],
   mig_downgrade =
   [DropTable ''events'',
    DropTable ''snapshots'',
    DropTable ''exports'',
    DropTable ''approvals'',
    DropTable ''runs'',
    DropTable ''labs'']\<rparr>"

definition lab_storage_metadata :: migration where
  "lab_storage_metadata = \<lparr>mig_revision = ''20260514_0002'', mig_down_revision = Some ''20260513_0001'',
   mig_upgrade =
   [CreateTable ''lab_storage''
    \<lparr>td_columns =
       [Column ''id'' (SString 64) False None,
        Column ''lab_id'' (SString 64) False None,
        Column ''persistence_mode'' (SString 32) False None,
        Column ''root_path'' (SString 512) False None,
        Column ''workspace_path'' (SString 512) False None,
        Column ''exports_path'' (SString 512) False None,
        Column ''quarantine_path'' (SString 512) False None,
        Column ''snapshots_path'' (SString 512) False None,
        Column ''workspace_mount_target'' (SString 128) False None,
        Column ''created_at'' SDateTime False None,
        Column ''updated_at'' SDateTime False None],
     td_constraints = [ForeignKey [''lab_id''] ''labs'' [''id''] ''CASCADE'', PrimaryKey [''id''], Unique [''lab_id'']], td_indexes = []\<rparr>],
   mig_downgrade =
   [DropTable ''lab_storage'']\<rparr>"

definition export_quarantine :: migration where
  "export_quarantine = \<lparr>mig_revision = ''20260514_0003'', mig_down_revision = Some ''20260514_0002'',
   mig_upgrade =
   [AlterTable ''exports''
      [AddColumn (Column ''run_id'' (SString 64) True None),
       AddColumn (Column ''state'' (SString 32) False (Some ''quarantined'')),
       AddColumn (Column ''quarantine_path'' (SString 512) False (Some '''')),
       AddColumn (Column ''released_path'' (SString 512) True None),
       AddColumn (Column ''approval_required'' SBoolean False (Some ''false'')),
       AddColumn (Column ''size_bytes'' SInteger False (Some ''0'')),
       AddColumn (Column ''denial_reason'' SText True None)]],
   mig_downgrade =
   [AlterTable ''exports''
      [DropColumn ''denial_reason'',
       DropColumn ''size_bytes'',
       DropColumn ''approval_required'',
       DropColumn ''released_path'',
       DropColumn ''quarantine_path'',
       DropColumn ''state'',
       DropColumn ''run_id'']]\<rparr>"

definition event_metadata :: migration where
  "event_metadata = \<lparr>mig_revision = ''20260514_0004'', mig_down_revision = Some ''20260514_0003'',
   mig_upgrade =
   [AlterTable ''events''
      [AddColumn (Column ''actor_type'' (SString 32) False (Some ''system'')),
       AddColumn (Column ''actor_id'' (SString 128) True None),
       AddColumn (Column ''resource_type'' (SString 32) True None),
       AddColumn (Column ''resource_id'' (SString 64) True None),
       CreateIndex ''ix_events_actor_type'' [''actor_type''] False,
       CreateIndex ''ix_events_event_type'' [''event_type''] False,
       CreateIndex ''ix_events_lab_id'' [''lab_id''] False,
       CreateIndex ''ix_events_resource_id'' [''resource_id''] False,
       CreateIndex ''ix_events_resource_type'' [''resource_type''] False,
       CreateIndex ''ix_events_run_id'' [''run_id''] False]],
   mig_downgrade =
   [AlterTable ''events''
      [DropIndex ''ix_events_run_id'',
       DropIndex ''ix_events_resource_type'',
       DropIndex ''ix_events_resource_id'',
       DropIndex ''ix_events_lab_id'',
       DropIndex ''ix_events_event_type'',
       DropIndex ''ix_events_actor_type'',
       DropColumn ''resource_id'',
       DropColumn ''resource_type'',
       DropColumn ''actor_id'',
       DropColumn ''actor_type'']]\<rparr>"

definition secret_leases_tracking :: migration where
  "secret_leases_tracking = \<lparr>mig_revision = ''20260514_0005'', mig_down_revision = Some ''20260514_0004'',
   mig_upgrade =
   [CreateTable ''secret_leases''
    \<lparr>td_columns =
       [Column ''id'' (SString 64) False None,
        Column ''lab_id'' (SString 64) False None,
        Column ''secret_name'' (SString 128) False None,
        Column ''approved'' SBoolean False (Some ''true''),
        Column ''expires_at'' SDateTime False None,
        Column ''revoked_at'' SDateTime True None,
        Column ''created_at'' SDateTime False None,
        Column ''updated_at'' SDateTime False None],
     td_constraints = [ForeignKey [''lab_id''] ''labs'' [''id''] ''CASCADE'', PrimaryKey [''id'']], td_indexes = []\<rparr>,
    AlterTable ''secret_leases''
      [CreateIndex ''ix_secret_leases_lab_id'' [''lab_id''] False]],
   mig_downgrade =
   [AlterTable ''secret_leases''
      [DropIndex ''ix_secret_leases_lab_id''],
    DropTable ''secret_leases'']\<rparr>"

definition run_timeouts :: migration where
  "run_timeouts = \<lparr>mig_revision = ''20260514_0006'', mig_down_revision = Some ''20260514_0005'',
   mig_upgrade =
   [AlterTable ''runs''
      [AddColumn (Column ''timeout_at'' SDateTime True None),
       AddColumn (Column ''finished_at'' SDateTime True None)]],
   mig_downgrade =
   [AlterTable ''runs''
      [DropColumn ''finished_at'',
       DropColumn ''timeout_at'']]\<rparr>"

definition destroy_retry_tracking :: migration where
  "destroy_retry_tracking = \<lparr>mig_revision = ''20260514_0007'', mig_down_revision = Some ''20260514_0006'',
   mig_upgrade =
   [AlterTable ''labs''
      [AddColumn (Column ''destroy_attempts'' SInteger False (Some ''0'')),
       AddColumn (Column ''last_destroy_error'' SText True None)],
    AlterTable ''labs''
      [AlterDefault ''destroy_attempts'' None]],
   mig_downgrade =
   [AlterTable ''labs''
      [DropColumn ''last_destroy_error'',
       DropColumn ''destroy_attempts'']]\<rparr>"

definition MIGRATIONS :: "migration list" where
  "MIGRATIONS = [initial_schema, lab_storage_metadata, export_quarantine, event_metadata, secret_leases_tracking,
     run_timeouts, destroy_retry_tracking]"

lemmas migration_defs = initial_schema_def lab_storage_metadata_def export_quarantine_def event_metadata_def
  secret_leases_tracking_def run_timeouts_def destroy_retry_tracking_def

subsection \<open>The declared tables\<close>

definition timestamp_columns :: "column_def list" where
  "timestamp_columns = [Column ''created_at'' SDateTime False None, Column ''updated_at'' SDateTime False None]"

definition lab_table :: "string \<times> table_def" where
  "lab_table = (''labs'',
    \<lparr>td_columns =
       [Column ''id'' (SString 64) False None,
        Column ''profile_name'' (SString 128) False None,
        Column ''state'' (SString 32) False None,
        Column ''runtime_class'' (SString 32) False None,
        Column ''destroy_attempts'' SInteger False None,
        Column ''last_destroy_error'' SText True None] @ timestamp_columns,
     td_constraints = [PrimaryKey [''id'']],
     td_indexes = []\<rparr>)"

definition storage_table :: "string \<times> table_def" where
  "storage_table = (''lab_storage'',
    \<lparr>td_columns =
       [Column ''id'' (SString 64) False None,
        Column ''lab_id'' (SString 64) False None,
        Column ''persistence_mode'' (SString 32) False None,
        Column ''root_path'' (SString 512) False None,
        Column ''workspace_path'' (SString 512) False None,
        Column ''exports_path'' (SString 512) False None,
        Column ''quarantine_path'' (SString 512) False None,
        Column ''snapshots_path'' (SString 512) False None,
        Column ''workspace_mount_target'' (SString 128) False None] @ timestamp_columns,
     td_constraints = [PrimaryKey [''id''], ForeignKey [''lab_id''] ''labs'' [''id''] ''CASCADE'', Unique [''lab_id'']],
     td_indexes = []\<rparr>)"

definition run_table :: "string \<times> table_def" where
  "run_table = (''runs'',
    \<lparr>td_columns =
       [Column ''id'' (SString 64) False None,
        Column ''lab_id'' (SString 64) False None,
        Column ''state'' (SString 32) False None,
        Column ''command'' SText False None,
        Column ''timeout_at'' SDateTime True None,
        Column ''finished_at'' SDateTime True None] @ timestamp_columns,
     td_constraints = [PrimaryKey [''id''], ForeignKey [''lab_id''] ''labs'' [''id''] ''CASCADE''],
     td_indexes = []\<rparr>)"

definition approval_table :: "string \<times> table_def" where
  "approval_table = (''approvals'',
    \<lparr>td_columns =
       [Column ''id'' (SString 64) False None,
        Column ''lab_id'' (SString 64) True None,
        Column ''resource_type'' (SString 32) False None,
        Column ''resource_id'' (SString 64) False None,
        Column ''action'' (SString 128) False None,
        Column ''reason'' SText False None,
        Column ''requested_by'' (SString 64) False None,
        Column ''state'' (SString 32) False None,
        Column ''approved'' SBoolean False None,
        Column ''decision_comment'' SText True None,
        Column ''decided_by'' (SString 64) True None,
        Column ''expires_at'' SDateTime True None,
        Column ''decided_at'' SDateTime True None] @ timestamp_columns,
     td_constraints = [PrimaryKey [''id''], ForeignKey [''lab_id''] ''labs'' [''id''] ''SET NULL''],
     td_indexes = []\<rparr>)"

definition export_table :: "string \<times> table_def" where
  "export_table = (''exports'',
    \<lparr>td_columns =
       [Column ''id'' (SString 64) False None,
        Column ''lab_id'' (SString 64) False None,
        Column ''run_id'' (SString 64) True None,
        Column ''source_path'' (SString 512) False None,
        Column ''state'' (SString 32) False None,
        Column ''quarantine_path'' (SString 512) False None,
        Column ''released_path'' (SString 512) True None,
        Column ''approval_required'' SBoolean False None,
        Column ''sha256'' (SString 64) False None,
        Column ''size_bytes'' SInteger False None,
        Column ''denial_reason'' SText True None] @ timestamp_columns,
     td_constraints = [PrimaryKey [''id''], ForeignKey [''lab_id''] ''labs'' [''id''] ''CASCADE''],
     td_indexes = []\<rparr>)"

definition snapshot_table :: "string \<times> table_def" where
  "snapshot_table = (''snapshots'',
    \<lparr>td_columns =
       [Column ''id'' (SString 64) False None,
        Column ''lab_id'' (SString 64) False None,
        Column ''backend_ref'' (SString 512) False None] @ timestamp_columns,
     td_constraints = [PrimaryKey [''id''], ForeignKey [''lab_id''] ''labs'' [''id''] ''CASCADE''],
     td_indexes = []\<rparr>)"

definition lease_table :: "string \<times> table_def" where
  "lease_table = (''secret_leases'',
    \<lparr>td_columns =
       [Column ''id'' (SString 64) False None,
        Column ''lab_id'' (SString 64) False None,
        Column ''secret_name'' (SString 128) False None,
        Column ''approved'' SBoolean False None,
        Column ''expires_at'' SDateTime False None,
        Column ''revoked_at'' SDateTime True None] @ timestamp_columns,
     td_constraints = [PrimaryKey [''id''], ForeignKey [''lab_id''] ''labs'' [''id''] ''CASCADE''],
     td_indexes = [(''ix_secret_leases_lab_id'', [''lab_id''], False)]\<rparr>)"

definition event_table :: "string \<times> table_def" where
  "event_table = (''events'',
    \<lparr>td_columns =
       [Column ''id'' (SString 64) False None,
        Column ''lab_id'' (SString 64) True None,
        Column ''run_id'' (SString 64) True None,
        Column ''event_type'' (SString 128) False None,
        Column ''actor_type'' (SString 32) False None,
        Column ''actor_id'' (SString 128) True None,
        Column ''resource_type'' (SString 32) True None,
        Column ''resource_id'' (SString 64) True None,
        Column ''payload_json'' SText False None] @ timestamp_columns,
     td_constraints = [PrimaryKey [''id''], ForeignKey [''lab_id''] ''labs'' [''id''] ''SET NULL'', ForeignKey [''run_id''] ''runs'' [''id''] ''SET NULL''],
     td_indexes = [(''ix_events_lab_id'', [''lab_id''], False), (''ix_events_run_id'', [''run_id''], False), (''ix_events_event_type'', [''event_type''], False), (''ix_events_actor_type'', [''actor_type''], False), (''ix_events_resource_type'', [''resource_type''], False), (''ix_events_resource_id'', [''resource_id''], False)]\<rparr>)"

definition job_table :: "string \<times> table_def" where
  "job_table = (''scheduler_jobs'',
    \<lparr>td_columns =
       [Column ''id'' (SString 64) False None,
        Column ''action'' (SString 32) False None,
        Column ''state'' (SString 32) False None,
        Column ''requester_id'' (SString 128) False None,
        Column ''profile_name'' (SString 128) True None,
        Column ''lab_id'' (SString 64) True None,
        Column ''command'' SText True None,
        Column ''scheduled_for'' SDateTime False None,
        Column ''attempt_count'' SInteger False None,
        Column ''max_attempts'' SInteger False None,
        Column ''last_error'' SText True None,
        Column ''result_resource_type'' (SString 32) True None,
        Column ''result_resource_id'' (SString 64) True None,
        Column ''dispatched_at'' SDateTime True None,
        Column ''completed_at'' SDateTime True None] @ timestamp_columns,
     td_constraints = [PrimaryKey [''id''], ForeignKey [''lab_id''] ''labs'' [''id''] ''SET NULL''],
     td_indexes = [(''ix_scheduler_jobs_state'', [''state''], False), (''ix_scheduler_jobs_requester_id'', [''requester_id''], False), (''ix_scheduler_jobs_lab_id'', [''lab_id''], False), (''ix_scheduler_jobs_scheduled_for'', [''scheduled_for''], False)]\<rparr>)"

definition declared_tables :: catalogue where
  "declared_tables = [lab_table, storage_table, run_table, approval_table, export_table, snapshot_table, lease_table, event_table, job_table]"

subsection \<open>A downgrade undoes its upgrade\<close>

definition table_ok :: "table_def \<Rightarrow> bool" where
  "table_ok t \<longleftrightarrow> (\<forall>(_, cols, _) \<in> set (td_indexes t). set cols \<subseteq> set (column_names t))"

definition catalogue_ok :: "catalogue \<Rightarrow> bool" where
  "catalogue_ok s \<longleftrightarrow> (\<forall>(_, t) \<in> set s. table_ok t)"

lemma apply_all_append: "apply_all f (xs @ ys) s = result_bind (apply_all f xs s) (apply_all f ys)"
  by (induction xs arbitrary: s) (auto simp: result_bind_def split: sum.splits)

lemma apply_all_single: "apply_all f [x] s = f x s"
  by (simp add: result_bind_def split: sum.splits)

text \<open>What an operation did, another undoes.\<close>

definition undoes :: "('s \<Rightarrow> bool) \<Rightarrow> ('o \<Rightarrow> 's \<Rightarrow> exn + 's) \<Rightarrow> ('o \<Rightarrow> 's \<Rightarrow> exn + 's) \<Rightarrow> 'o \<Rightarrow> 'o \<Rightarrow> bool" where
  "undoes ok f g un op \<longleftrightarrow> (\<forall>s s'. ok s \<longrightarrow> f op s = Inr s' \<longrightarrow> ok s' \<and> g un s' = Inr s)"

lemma undoesI: "(\<And>s s'. ok s \<Longrightarrow> f op s = Inr s' \<Longrightarrow> ok s' \<and> g un s' = Inr s) \<Longrightarrow> undoes ok f g un op"
  by (simp add: undoes_def)

lemma undoesD: "undoes ok f g un op \<Longrightarrow> ok s \<Longrightarrow> f op s = Inr s' \<Longrightarrow> ok s' \<and> g un s' = Inr s"
  by (simp add: undoes_def)

lemma undoes_all:
  assumes "list_all2 (undoes ok f g) uns ops"
  shows "ok s \<Longrightarrow> apply_all f ops s = Inr s' \<Longrightarrow> ok s' \<and> apply_all g (rev uns) s' = Inr s"
  using assms
proof (induction uns ops arbitrary: s rule: list_all2_induct)
  case (Cons un uns op ops)
  from Cons.prems(2) obtain s1 where s1: "f op s = Inr s1" "apply_all f ops s1 = Inr s'"
    by (auto simp: result_bind_def split: sum.splits)
  with Cons.hyps(1) Cons.prems(1) have "ok s1" "g un s1 = Inr s" using undoesD by fast+
  with Cons.IH [OF _ s1(2)] show ?case by (simp add: apply_all_append result_bind_def)
qed simp

lemma drop_absent: "n \<notin> set (column_names t) \<Longrightarrow> filter (\<lambda>c. cd_name c \<noteq> n) (td_columns t) = td_columns t"
  by (auto simp: column_names_def filter_id_conv image_iff)

lemma absent_not_indexed: "table_ok t \<Longrightarrow> n \<notin> set (column_names t) \<Longrightarrow> \<not> indexed t n"
  by (fastforce simp: table_ok_def indexed_def)

lemma indexed_columns [simp]: "indexed (t\<lparr>td_columns := cs\<rparr>) n = indexed t n"
  by (simp add: indexed_def)

lemma column_names_update [simp]: "column_names (t\<lparr>td_columns := cs\<rparr>) = map cd_name cs"
  "column_names (t\<lparr>td_indexes := is\<rparr>) = column_names t"
  by (simp_all add: column_names_def)

lemma table_ok_more: "table_ok t \<Longrightarrow> set (column_names t) \<subseteq> set (map cd_name cs) \<Longrightarrow> table_ok (t\<lparr>td_columns := cs\<rparr>)"
  by (fastforce simp: table_ok_def)

lemma undo_add:
  assumes "cd_name c = n"
  shows "undoes table_ok apply_table_op apply_table_op (DropColumn n) (AddColumn c)"
proof (rule undoesI)
  fix t t' assume ok: "table_ok t" and run: "apply_table_op (AddColumn c) t = Inr t'"
  from run assms have n: "n \<notin> set (column_names t)" and t': "t' = t\<lparr>td_columns := td_columns t @ [c]\<rparr>"
    by (auto simp: check_def result_bind_def split: if_splits)
  have "table_ok t'" unfolding t' by (rule table_ok_more [OF ok]) (auto simp: column_names_def)
  then show "table_ok t' \<and> apply_table_op (DropColumn n) t' = Inr t"
    using drop_absent [OF n] absent_not_indexed [OF ok n] assms by (simp add: t' check_def result_bind_def)
qed

lemma undo_index: "undoes table_ok apply_table_op apply_table_op (DropIndex i) (CreateIndex i cols u)"
proof (rule undoesI)
  fix t t' assume ok: "table_ok t" and run: "apply_table_op (CreateIndex i cols u) t = Inr t'"
  from run have t': "t' = t\<lparr>td_indexes := td_indexes t @ [(i, cols, u)]\<rparr>" and i: "i \<notin> set (map fst (td_indexes t))"
    and cols: "set cols \<subseteq> set (column_names t)"
    by (auto simp: check_def result_bind_def split: if_splits)
  from i have "filter (\<lambda>x. fst x \<noteq> i) (td_indexes t) = td_indexes t" by (auto simp: filter_id_conv image_iff)
  then show "table_ok t' \<and> apply_table_op (DropIndex i) t' = Inr t"
    using ok cols by (auto simp: t' table_ok_def check_def result_bind_def)
qed

lemma undo_create: "table_ok t \<Longrightarrow> undoes catalogue_ok apply_op apply_op (DropTable n) (CreateTable n t)"
  by (rule undoesI) (auto simp: catalogue_ok_def map_of_eq_None_iff filter_id_conv image_iff split: option.splits)

lemma update_entries: "set (AList.update k v xs) \<subseteq> insert (k, v) (set xs)"
  by (induction xs) auto

lemma apply_alterD:
  assumes ok: "catalogue_ok s" and run: "apply_op (AlterTable n ops) s = Inr s'"
  obtains t t' where "map_of s n = Some t" "table_ok t" "apply_all apply_table_op ops t = Inr t'" "s' = AList.update n t' s"
proof -
  from run obtain t t' where t: "map_of s n = Some t" "apply_all apply_table_op ops t = Inr t'" "s' = AList.update n t' s"
    by (auto simp: result_bind_def split: option.splits sum.splits)
  moreover have "table_ok t" using ok map_of_SomeD [OF t(1)] by (auto simp: catalogue_ok_def)
  ultimately show thesis using that by blast
qed

lemma alter_updated:
  assumes "catalogue_ok s" "map_of s n = Some t" "table_ok t'" "apply_all apply_table_op ops t' = Inr t"
  shows "catalogue_ok (AList.update n t' s) \<and> apply_op (AlterTable n ops) (AList.update n t' s) = Inr s"
  using assms update_entries [of n t' s]
  by (auto simp: catalogue_ok_def update_conv' result_bind_def update_triv)

lemma undo_alter:
  assumes "list_all2 (undoes table_ok apply_table_op apply_table_op) uns ops"
  shows "undoes catalogue_ok apply_op apply_op (AlterTable n (rev uns)) (AlterTable n ops)"
proof (rule undoesI)
  fix s s' assume ok: "catalogue_ok s" and run: "apply_op (AlterTable n ops) s = Inr s'"
  from ok run obtain t t' where t: "map_of s n = Some t" "table_ok t" "apply_all apply_table_op ops t = Inr t'"
      "s' = AList.update n t' s"
    by (rule apply_alterD)
  from undoes_all [OF assms t(2) t(3)] show "catalogue_ok s' \<and> apply_op (AlterTable n (rev uns)) s' = Inr s"
    unfolding t(4) using alter_updated [OF ok t(1)] by blast
qed

text \<open>The last revision drops a default it has just set: it is the one whose downgrade is not its mirror image.\<close>

lemma alter_default_absent:
  assumes "n \<notin> set (column_names t)"
  shows "map (\<lambda>x. if cd_name x = n then x\<lparr>cd_server_default := d\<rparr> else x) (td_columns t) = td_columns t"
proof (rule map_idI)
  fix x assume "x \<in> set (td_columns t)"
  then have "cd_name x \<in> set (column_names t)" by (simp add: column_names_def)
  with assms have "cd_name x \<noteq> n" by metis
  then show "(if cd_name x = n then x\<lparr>cd_server_default := d\<rparr> else x) = x" by simp
qed

lemmas undo_intros = undo_add undo_index undo_create undo_alter [of "rev uns" for uns, simplified]

lemma mirrored:
  assumes "list_all2 (undoes catalogue_ok apply_op apply_op) (rev (mig_downgrade m)) (mig_upgrade m)"
  shows "undoes catalogue_ok upgrade downgrade m m"
  by (rule undoesI) (use undoes_all [OF assms] in \<open>simp add: upgrade_def downgrade_def\<close>)

lemma mirror_revisions:
  "m \<in> {initial_schema, lab_storage_metadata, export_quarantine, event_metadata, secret_leases_tracking, run_timeouts} \<Longrightarrow>
   undoes catalogue_ok upgrade downgrade m m"
  by (rule mirrored) (auto simp: migration_defs table_ok_def intro!: undo_intros)

abbreviation destroy_columns :: "string option \<Rightarrow> table_op list" where
  "destroy_columns d \<equiv> [AddColumn (Column ''destroy_attempts'' SInteger False d), AddColumn (Column ''last_destroy_error'' SText True None)]"

lemma default_of_added:
  assumes run: "apply_all apply_table_op [AddColumn c, AddColumn c'] t = Inr t1"
    and alter: "apply_table_op (AlterDefault (cd_name c) d) t1 = Inr t2"
  shows "apply_all apply_table_op [AddColumn (c\<lparr>cd_server_default := d\<rparr>), AddColumn c'] t = Inr t2"
proof -
  from run have new: "cd_name c \<notin> set (column_names t)" "cd_name c' \<notin> set (column_names t)" "cd_name c' \<noteq> cd_name c"
    and t1: "t1 = t\<lparr>td_columns := td_columns t @ [c, c']\<rparr>"
    by (auto simp: check_def result_bind_def column_names_def split: if_splits)
  from alter have "t2 = t\<lparr>td_columns := td_columns t @ [c\<lparr>cd_server_default := d\<rparr>, c']\<rparr>"
    using new(3) alter_default_absent [OF new(1)] by (simp add: t1 check_def result_bind_def)
  then show ?thesis using new by (simp add: check_def result_bind_def column_names_def)
qed

lemma alter_twice:
  "apply_all apply_op [AlterTable n ops, AlterTable n ops'] s = Inr s' \<Longrightarrow>
   \<exists>t t1 t2. map_of s n = Some t \<and> apply_all apply_table_op ops t = Inr t1 \<and> apply_all apply_table_op ops' t1 = Inr t2 \<and>
     s' = AList.update n t2 s"
  by (auto simp: result_bind_def update_conv' split: option.splits sum.splits)

lemma destroy_retry_as_one:
  assumes "upgrade destroy_retry_tracking s = Inr s'"
  shows "apply_op (AlterTable ''labs'' (destroy_columns None)) s = Inr s'"
proof -
  let ?c = "Column ''destroy_attempts'' SInteger False (Some ''0'')"
  have "apply_all apply_op [AlterTable ''labs'' (destroy_columns (Some ''0'')), AlterTable ''labs'' [AlterDefault (cd_name ?c) None]] s
      = Inr s'"
    using assms by (simp only: upgrade_def destroy_retry_tracking_def migration.simps column_def.simps)
  from alter_twice [OF this]
  obtain t t1 t2 where t: "map_of s ''labs'' = Some t" "apply_all apply_table_op (destroy_columns (Some ''0'')) t = Inr t1"
      "apply_all apply_table_op [AlterDefault (cd_name ?c) None] t1 = Inr t2" "s' = AList.update ''labs'' t2 s"
    by (elim exE conjE) (rule that)
  from t(3) have "apply_table_op (AlterDefault (cd_name ?c) None) t1 = Inr t2" by (simp only: apply_all_single)
  from default_of_added [OF t(2) this] show ?thesis using t(1,4) by (simp add: result_bind_def)
qed

lemma undo_destroy_retry: "undoes catalogue_ok upgrade downgrade destroy_retry_tracking destroy_retry_tracking"
proof (rule undoesI)
  fix s s' assume ok: "catalogue_ok s" and run: "upgrade destroy_retry_tracking s = Inr s'"
  have "undoes catalogue_ok apply_op apply_op (AlterTable ''labs'' [DropColumn ''last_destroy_error'', DropColumn ''destroy_attempts''])
      (AlterTable ''labs'' (destroy_columns None))"
    by (auto intro!: undo_intros)
  from undoesD [OF this, OF ok destroy_retry_as_one [OF run]]
  show "catalogue_ok s' \<and> downgrade destroy_retry_tracking s' = Inr s"
    by (simp only: downgrade_def destroy_retry_tracking_def migration.simps apply_all_single simp_thms)
qed

lemma undo_revision: "m \<in> set MIGRATIONS \<Longrightarrow> undoes catalogue_ok upgrade downgrade m m"
  unfolding MIGRATIONS_def using mirror_revisions undo_destroy_retry by auto

lemma path_of_all: "revision_path (length MIGRATIONS) MIGRATIONS None = MIGRATIONS"
  by code_simp

lemma undo_chain:
  "catalogue_ok s \<Longrightarrow> upgrade_head MIGRATIONS s = Inr s' \<Longrightarrow> catalogue_ok s' \<and> downgrade_base MIGRATIONS s' = Inr s"
  unfolding upgrade_head_def downgrade_base_def path_of_all
  by (rule undoes_all) (simp_all add: list_all2_same undo_revision)

subsection \<open>The migrated database and the declared tables\<close>

definition column_shape :: "column_def \<Rightarrow> string \<times> sql_type \<times> bool" where
  "column_shape c = (cd_name c, cd_type c, cd_nullable c)"

definition same_shape :: "table_def \<Rightarrow> table_def \<Rightarrow> bool" where
  "same_shape t t' \<longleftrightarrow>
     length (td_columns t) = length (td_columns t') \<and>
     list_all (\<lambda>c. column_shape c \<in> set (map column_shape (td_columns t'))) (td_columns t) \<and>
     set (td_constraints t) = set (td_constraints t') \<and> set (td_indexes t) = set (td_indexes t')"

definition as_declared :: "catalogue \<Rightarrow> string \<times> table_def \<Rightarrow> bool" where
  "as_declared s d = (case map_of s (fst d) of None \<Rightarrow> False | Some t \<Rightarrow> same_shape t (snd d))"

definition missing_columns :: "catalogue \<Rightarrow> string \<times> table_def \<Rightarrow> string list" where
  "missing_columns s d = (case map_of s (fst d) of
     None \<Rightarrow> column_names (snd d) | Some t \<Rightarrow> filter (\<lambda>n. n \<notin> set (column_names t)) (column_names (snd d)))"

fun fills_rows :: "migration_op \<Rightarrow> bool" where
  "fills_rows (AlterTable n ops) =
     list_all (\<lambda>x. case x of AddColumn c \<Rightarrow> cd_nullable c \<or> cd_server_default c \<noteq> None | _ \<Rightarrow> True) ops"
| "fills_rows _ = True"

definition migrated_head :: catalogue where
  "migrated_head = (case upgrade_head MIGRATIONS [] of Inr s \<Rightarrow> s | Inl _ \<Rightarrow> [])"

lemma head_reached: "upgrade_head MIGRATIONS [] = Inr migrated_head"
  by code_simp

end
