(* ===== verification/Spec2Isabelle.thy ===== *)
theory Spec2Isabelle
  imports Snapshot_Scenario Outcomes State_Machine Docker_Rollback Cli_Scenario Entities Settings Migrations
begin

text \<open>
  LabOS is a control plane for governed, isolated labs: an HTTP API over a relational database and a managed
  directory tree, workers that dispatch queued jobs and reconcile the database with the world, drivers for
  container runtimes, and a command line. This development models the Python code under \<open>src/labos\<close> and proves
  what makes it correct. Every program is a function from a state to a result and a state (\<open>Program\<close>):
  exceptions are the values of one datatype \<open>exn\<close>, a raise is \<open>Inl\<close>, and the state reached so far is kept.

  \<^bold>\<open>Theories and sources.\<close>
  \<^item> \<open>Prelude\<close>, \<open>Program\<close>, \<open>Py_Value\<close>, \<open>Datetime\<close>, \<open>Iso_Format\<close>, \<open>Json\<close>, \<open>Json_Roundtrip\<close>, \<open>Sha256\<close>: what the code
    uses of Python and its standard library: exceptions and the state monad with its weakest preconditions
    (collection \<open>wp\<close>) and invariants (collection \<open>keep\<close>), untyped values, aware and naive times, ISO dates,
    \<open>json.dumps\<close> and \<open>json.loads\<close> with their round trip, and the digest on 32-bit words.
  \<^item> \<open>Paths\<close>, \<open>Filesystem\<close>, \<open>Archive\<close>: \<open>PurePosixPath\<close>, a tree of directories, files and links with resolution,
    and what is used of \<open>shutil\<close> and \<open>tarfile\<close>.
  \<^item> \<open>Enums\<close>, \<open>State_Machine\<close> (\<open>core/enums.py\<close>, \<open>core/state_machine.py\<close>); \<open>Policy_Models\<close>, \<open>Policy_Engine\<close>
    (\<open>core/policy_models.py\<close>, \<open>core/policy_engine.py\<close>, \<open>config/profiles/base.py\<close>); \<open>Entities\<close>
    (\<open>core/entities.py\<close>); \<open>Settings\<close> (\<open>config/settings.py\<close> and the wiring of \<open>create_app\<close>).
  \<^item> \<open>Schema\<close> (\<open>db/schema.py\<close>): a table is a list of rows; \<open>Session\<close>: the world, which is what a session sees, what
    is committed, the file system and the counters that identifiers and clock readings are drawn from;
    \<open>Events\<close> (\<open>core/events.py\<close>); \<open>Migrations\<close>: the revisions under \<open>alembic/versions\<close> as data, read as changes of a
    catalogue, and the tables as \<open>db/schema.py\<close> declares them.
  \<^item> \<open>Storage\<close> (\<open>storage/allocator.py\<close>, \<open>storage/models.py\<close>), \<open>Snapshots\<close> (\<open>storage/snapshots.py\<close>), \<open>Export_Gate\<close> and
    \<open>Secret_Broker\<close> (\<open>security/\<close>), \<open>Scheduler\<close> and \<open>Reconciler\<close> (\<open>workers/\<close>), \<open>Runtime\<close>, \<open>Docker_Runtime\<close> and
    \<open>Docker_Probe\<close> (\<open>runtimes/\<close>).
  \<^item> \<open>Responses\<close>, \<open>Api_Labs\<close>, \<open>Api_Governance\<close>, \<open>Api_Snapshots\<close>: the handlers of \<open>api/app.py\<close>; \<open>System\<close>: a request
    of any kind, and the worlds that sequences of requests, and of changes others make to the files, reach;
    \<open>Http\<close>: the same requests as method, path and JSON body, with \<open>core/models.py\<close>.
  \<^item> \<open>Cli_Host\<close>, \<open>Cli\<close>, \<open>Cli_Release\<close>, \<open>Cli_Smoke\<close>: \<open>cli/main.py\<close>, over a record of what the commands ask of the host.

  \<^bold>\<open>How the parts interact.\<close> A handler opens a session on the committed database, calls the allocator, the gate,
  the broker or the scheduler with it, and commits at its end; an exception leaves the session and becomes an
  answer. The scheduler gets the handlers' two creation functions as callbacks (locale \<open>scheduler_hooks\<close>), the
  lease service a broker (\<open>secret_broker\<close>), the reconciler a destroyer of storage (\<open>storage_destroyer\<close>) and the
  inventory of a runtime (\<open>runtime_adapter\<close>). Each locale states what its clients rely on and is interpreted on
  the code's own definitions; so are the tables (\<open>db_table\<close>), the session invariants and the one-way lifecycles.

  \<^bold>\<open>What is shown.\<close> \<open>Lifecycle\<close> is the abstract specification: one guarded transition per operation on the
  committed database, each with its audit events. \<open>Refinement\<close>, \<open>Reconciliation\<close>, \<open>Reconcile_Pass\<close> and
  \<open>Snapshot_Soundness\<close> show that handlers, scheduler, reconciler and snapshots implement it; \<open>Invariants\<close> and
  \<open>Gates\<close> prove its invariants, which hold in every world of \<open>System\<close>. \<open>Session_Invariants\<close> and \<open>Atomicity\<close> give
  what holds of every handler alike: nothing is deleted, and a failed request commits nothing. \<open>Outcomes\<close> and
  \<open>Snapshot_Restore\<close> describe the answer, the rows and the files of single requests on every branch.
  \<open>Docker_Rollback\<close> proves that a failed creation is undone. \<open>Api_Errors\<close>, \<open>Cli_Api\<close> and \<open>Smoke_Docs\<close> compose the
  command line with the API; \<open>Cli_Hygiene\<close> shows that the local smoke run leaves no process and no directory
  behind and that its wait ends. \<open>Scenario\<close>, \<open>Snapshot_Scenario\<close> and \<open>Cli_Scenario\<close> are concrete runs on which the
  properties below are applied.

  \<^bold>\<open>Bounds and fuel.\<close> The depth of an archive walk is bounded by 1000, as Python's recursion is, and deeper trees
  raise; the JSON reader's fuel is the length of the text, which \<open>Json_Roundtrip\<close> shows to be enough for every
  document that is written; the wait for the local server has fuel for 76 turns, and 75 pauses of 0.2 seconds
  fill its 15 seconds, as \<open>wait_for_server_ends\<close> shows. All other loops are structural.

  \<^bold>\<open>Parameters.\<close> Identifiers and clock readings are drawn from streams; the bytes of an archive and the order of
  a directory listing are functions of the environment. The Docker client, the operating system's answers to
  the probe, the host of the command line and the decisions of FastAPI and pydantic (how a number or a date is
  read, how a document is rendered, which answer an unknown path gets) are records of functions; what a
  property needs of them is a hypothesis with a name: \<open>docker_laws\<close>, \<open>queries_answered\<close>, \<open>process_laws\<close>,
  \<open>tree_laws\<close>, \<open>clock_laws\<close>, \<open>framework_ok\<close>, \<open>connected\<close>.

  \<^bold>\<open>Assumptions.\<close> Requests run one after another, each in a session of its own. Foreign keys are not enforced,
  as SQLite does not unless asked. Text is a string of 8-bit characters; JSON numbers with a fraction and
  escapes beyond 255 are refused by the reader. An interrupt from the keyboard is not modelled.

  \<^bold>\<open>Not modelled.\<close> \<open>db/session.py\<close> is two calls of SQLAlchemy, whose sessions are modelled by what they
  guarantee, and \<open>alembic/env.py\<close> starts Alembic with them. Of a migration the rows are not modelled. The parsing
  of command-line arguments is typer's, tracebacks are not text of the program, and the tests are not part of it.
\<close>

section \<open>Reachable worlds\<close>

text \<open>
  C1. An export that was released from a lab whose profile requires approval on export has an approval
  request of its own, and that request was approved by a named decider: in no run of the services, with
  any requests, any files, any clock and any order, does a release get around the approval.
\<close>

theorem release_needs_approval:
  assumes "env_ok E" and "system E w"
    and "x \<in> set (exports (committed w))" and "exp_state x = export_value EXPORT_RELEASED"
    and "l \<in> set (labs (committed w))" and "lab_id l = exp_lab_id x"
    and "policy_profiles E (lab_profile_name l) = Some p" and "p_approval_on_export p"
  shows "\<exists>a \<in> set (approvals (committed w)). apr_resource_type a = ''export'' \<and> apr_resource_id a = exp_id x \<and>
     apr_state a = approval_value APPROVAL_APPROVED \<and> apr_approved a \<and> apr_decided_by a \<noteq> None"
  using released_was_approved [OF system_control [OF assms(1,2)] assms(3-8)]
  by (auto simp: resource_key_def)

theorem release_needs_approval_witness:
  "\<exists>w x. system demo_env w \<and> x \<in> set (exports (committed w)) \<and> exp_state x = export_value EXPORT_RELEASED \<and>
     (\<exists>a \<in> set (approvals (committed w)). apr_resource_type a = ''export'' \<and> apr_resource_id a = exp_id x \<and>
       apr_state a = approval_value APPROVAL_APPROVED \<and> apr_approved a \<and> apr_decided_by a \<noteq> None)"
proof -
  from scenario_released obtain a x es k where
    w: "system demo_env (demo_world [a] [x] es demo_released 10 k)" and
    x: "exp_lab_id x = ''a''" "exp_state x = export_value EXPORT_RELEASED" by blast
  have "DEFAULT_PROFILES ''model-local'' = Some model_local" by (simp add: DEFAULT_PROFILES_def)
  with release_needs_approval [OF demo_env_ok w, of x demo_lab model_local] x w
  show ?thesis by (intro exI [of _ "demo_world [a] [x] es demo_released 10 k"] exI [of _ x]) simp
qed

text \<open>
  C2. A lab in state approved whose profile requires approval on start has an approval request that was
  approved; no other request of the services opens the gate.
\<close>

theorem start_needs_approval:
  assumes "env_ok E" and "system E w"
    and "l \<in> set (labs (committed w))" and "lab_state l = lab_value LAB_APPROVED"
    and "policy_profiles E (lab_profile_name l) = Some p" and "p_approval_on_start p"
  shows "\<exists>a \<in> set (approvals (committed w)). apr_resource_type a = ''lab'' \<and> apr_resource_id a = lab_id l \<and>
     apr_state a = approval_value APPROVAL_APPROVED"
  using approved_lab_was_approved [OF system_control [OF assms(1,2)] assms(3-6)]
  by (auto simp: resource_key_def)

theorem start_needs_approval_witness:
  "\<exists>w l. system demo_env w \<and> l \<in> set (labs (committed w)) \<and> lab_state l = lab_value LAB_APPROVED \<and>
     (\<exists>a \<in> set (approvals (committed w)). apr_resource_type a = ''lab'' \<and> apr_resource_id a = lab_id l \<and>
       apr_state a = approval_value APPROVAL_APPROVED)"
proof -
  from scenario_gated obtain l s a es n t where
    w: "system demo_env (gated_world l s a es n t)" and
    l: "lab_profile_name l = ''red-zone''" "lab_state l = lab_value LAB_APPROVED" by blast
  have "DEFAULT_PROFILES ''red-zone'' = Some red_zone" by (simp add: DEFAULT_PROFILES_def)
  with start_needs_approval [OF demo_env_ok w, of l red_zone] l w
  show ?thesis by (intro exI [of _ "gated_world l s a es n t"] exI [of _ l]) simp
qed

text \<open>
  C3. Refinement: every database the services commit, whatever was requested and whatever failed, is
  reachable by the guarded transitions of the abstract control plane.
\<close>

theorem services_refine_lifecycle:
  assumes "env_ok E" and "system E w"
  shows "reach E (uuids w) (committed w) \<and> reach E (uuids (snd (serve E req w))) (committed (snd (serve E req w)))"
  using system_sound [OF assms] serve_sound [OF assms(1) system_sound [OF assms]] by (simp add: sound_def)

theorem services_refine_lifecycle_witness:
  "\<exists>w. system demo_env w \<and> exports (committed w) \<noteq> [] \<and> reach demo_env (uuids w) (committed w)"
proof -
  from scenario_released obtain a x es k where
    w: "system demo_env (demo_world [a] [x] es demo_released 10 k)" by blast
  show ?thesis
    using w services_refine_lifecycle [OF demo_env_ok w]
    by (intro exI [of _ "demo_world [a] [x] es demo_released 10 k"]) simp
qed

text \<open>
  C4. Nothing is deleted: whatever a request does, and whether it succeeds or raises, the committed audit
  log afterwards extends the log before, and every lab, storage record, run, approval, export, snapshot,
  lease and job is still there, in its place.
\<close>

theorem serve_deletes_nothing:
  "prefix (events (committed w)) (events (committed (snd (serve E req w)))) \<and>
   prefix (map lab_id (labs (committed w))) (map lab_id (labs (committed (snd (serve E req w))))) \<and>
   prefix (map sto_id (storages (committed w))) (map sto_id (storages (committed (snd (serve E req w))))) \<and>
   prefix (map run_id (runs (committed w))) (map run_id (runs (committed (snd (serve E req w))))) \<and>
   prefix (map apr_id (approvals (committed w))) (map apr_id (approvals (committed (snd (serve E req w))))) \<and>
   prefix (map exp_id (exports (committed w))) (map exp_id (exports (committed (snd (serve E req w))))) \<and>
   prefix (map snap_id (snapshots (committed w))) (map snap_id (snapshots (committed (snd (serve E req w))))) \<and>
   prefix (map lease_id (leases (committed w))) (map lease_id (leases (committed (snd (serve E req w))))) \<and>
   prefix (map job_id (jobs (committed w))) (map job_id (jobs (committed (snd (serve E req w)))))"
proof -
  have "grown (committed w) (committed (snd (serve E req w)))"
    by (rule serve_keeps_committed)
  then show ?thesis by (simp add: grown_def)
qed

text \<open>
  C5. The audit trail is complete: in every reachable world each lab has its \<open>lab.requested\<close> event, each
  decided approval the event of its decision, and each released export its \<open>export.released\<close> event.
\<close>

theorem audit_trail_complete:
  assumes "env_ok E" and "system E w"
  shows "(\<forall>l \<in> set (labs (committed w)). logs (events (committed w)) ''lab.requested'' (lab_id l)) \<and>
    (\<forall>a \<in> set (approvals (committed w)). \<forall>s. apr_state a = approval_value s \<and> s \<noteq> APPROVAL_REQUESTED \<longrightarrow>
       logs (events (committed w)) (decision_event s) (apr_id a)) \<and>
    (\<forall>x \<in> set (exports (committed w)). exp_state x = export_value EXPORT_RELEASED \<longrightarrow>
       logs (events (committed w)) ''export.released'' (exp_id x))"
  using system_control [OF assms] by (simp add: control_ok_def trail_ok_def)

theorem audit_trail_complete_witness:
  "\<exists>w x. system demo_env w \<and> x \<in> set (exports (committed w)) \<and>
     logs (events (committed w)) ''export.released'' (exp_id x)"
proof -
  from scenario_released obtain a x es k where
    w: "system demo_env (demo_world [a] [x] es demo_released 10 k)" and
    x: "exp_state x = export_value EXPORT_RELEASED" by blast
  show ?thesis
    using w x audit_trail_complete [OF demo_env_ok w]
    by (intro exI [of _ "demo_world [a] [x] es demo_released 10 k"] exI [of _ x]) simp
qed

text \<open>
  C6. Referential integrity: labs and storage records are one to one, and every run, export, snapshot,
  lease, approval and event names a lab that exists. An export names a run that exists or none, and so does
  every event but \<open>snapshot.restored\<close>, whose run is what the manifest says.
\<close>

theorem references_resolve:
  assumes "env_ok E" and "system E w"
  shows "map sto_lab_id (storages (committed w)) = map lab_id (labs (committed w)) \<and>
    (\<forall>r \<in> set (runs (committed w)). run_lab_id r \<in> lab_id ` set (labs (committed w))) \<and>
    (\<forall>x \<in> set (exports (committed w)). exp_lab_id x \<in> lab_id ` set (labs (committed w)) \<and>
       (\<forall>r. exp_run_id x = Some r \<longrightarrow> r \<in> run_id ` set (runs (committed w)))) \<and>
    (\<forall>k \<in> set (leases (committed w)). lease_lab_id k \<in> lab_id ` set (labs (committed w))) \<and>
    (\<forall>p \<in> set (snapshots (committed w)). snap_lab_id p \<in> lab_id ` set (labs (committed w))) \<and>
    (\<forall>a \<in> set (approvals (committed w)). \<exists>l. apr_lab_id a = Some l \<and> l \<in> lab_id ` set (labs (committed w))) \<and>
    (\<forall>e \<in> set (events (committed w)). (\<forall>l. ev_lab_id e = Some l \<longrightarrow> l \<in> lab_id ` set (labs (committed w))) \<and>
       (ev_event_type e \<noteq> ''snapshot.restored'' \<longrightarrow>
          (\<forall>r. ev_run_id e = Some r \<longrightarrow> r \<in> run_id ` set (runs (committed w)))))"
  using system_control [OF assms] by (simp add: control_ok_def inv_refs_def event_ok_def)

theorem references_resolve_witness:
  "\<exists>w x. system demo_env w \<and> x \<in> set (exports (committed w)) \<and> exp_lab_id x \<in> lab_id ` set (labs (committed w))"
proof -
  from scenario_released obtain a x es k where
    w: "system demo_env (demo_world [a] [x] es demo_released 10 k)" by blast
  show ?thesis
    using w references_resolve [OF demo_env_ok w]
    by (intro exI [of _ "demo_world [a] [x] es demo_released 10 k"] exI [of _ x]) simp
qed

text \<open>
  Identifiers are never used twice: in every table of every reachable world the keys are distinct, and
  each was drawn from the generator.
\<close>

theorem identifiers_distinct:
  assumes "env_ok E" and "system E w"
  shows "distinct (map lab_id (labs (committed w))) \<and> distinct (map sto_id (storages (committed w))) \<and>
    distinct (map run_id (runs (committed w))) \<and> distinct (map apr_id (approvals (committed w))) \<and>
    distinct (map exp_id (exports (committed w))) \<and> distinct (map snap_id (snapshots (committed w))) \<and>
    distinct (map lease_id (leases (committed w))) \<and>
    distinct (map ev_id (events (committed w))) \<and> distinct (map job_id (jobs (committed w))) \<and>
    lab_id ` set (labs (committed w)) \<subseteq> uuid4 E ` {..<uuids w}"
  using system_control [OF assms] by (simp add: control_ok_def inv_keys_def table_keys_def issued_def)

theorem identifiers_distinct_witness:
  "\<exists>w. system demo_env w \<and> labs (committed w) \<noteq> [] \<and> distinct (map ev_id (events (committed w)))"
proof -
  from scenario_released obtain a x es k where
    w: "system demo_env (demo_world [a] [x] es demo_released 10 k)" by blast
  show ?thesis
    using w identifiers_distinct [OF demo_env_ok w]
    by (intro exI [of _ "demo_world [a] [x] es demo_released 10 k"]) simp
qed

text \<open>
  C7. A failed request commits nothing: when a request raises, the committed database is as before. The
  one exception is the release of an export that still waits for its approval, which keeps the event of
  the blocked attempt and answers 409. (A restore reads back the time it has just written; that is certain
  as long as the clock stays within the years a \<open>datetime\<close> has.)
\<close>

theorem failed_request_commits_nothing:
  assumes "env_ok E" and "system E w" and "serve E req w = (Inl e, w')"
  shows "committed w' = committed w \<or>
    (\<exists>i. req = ReleaseExport i) \<and> e = ConflictError ''export_approval_required'' (Some ''export'') \<or>
    (\<exists>i l r. req = RestoreSnapshot i l r) \<and> (\<exists>n. \<not> iso_year_ok (clock E n))"
proof -
  have "job_table_ok (jobs (committed w))"
    using system_control [OF assms(1,2)] by (simp add: control_ok_def)
  then have "fails_clean {e. (\<exists>i. req = ReleaseExport i) \<and> e = ConflictError ''export_approval_required'' (Some ''export'') \<or>
      (\<exists>i l r. req = RestoreSnapshot i l r) \<and> (\<exists>n. \<not> iso_year_ok (clock E n))} (serve E req) w" (is "fails_clean ?B _ _")
  proof (rule serve_fails_clean)
    fix i l r
    assume "req = RestoreSnapshot i l r"
    then show "fails_clean ?B (serve E req) w"
    proof (cases "\<forall>n. iso_year_ok (clock E n)")
      case True
      then show ?thesis unfolding \<open>req = _\<close> by (intro fails_clean_restore_snapshot) blast
    qed (auto simp: fails_clean_def wp_def)
  qed blast
  then show ?thesis using assms(3) by (auto simp: fails_clean_def wp_def)
qed

theorem failed_request_commits_nothing_witness:
  "\<exists>w w'. system demo_env w \<and> serve demo_env (ReleaseExport ''x'') w = (Inl (ResourceNotFoundError ''export''), w') \<and>
     committed w' = committed w \<and> labs (committed w) \<noteq> []"
proof -
  from scenario_lab obtain es t where w: "system demo_env (demo_world [] [] es demo_fs 3 t)" by blast
  let ?w = "demo_world [] [] es demo_fs 3 t"
  have run: "serve demo_env (ReleaseExport ''x'') ?w = (Inl (ResourceNotFoundError ''export''), ?w)"
    by (simp add: answer_def api_release_export_def with_session_def bnd_def get_or_404_def session_get_def
        gets_def require_def demo_world_def Let_def row_get_def)
  show ?thesis
    using failed_request_commits_nothing [OF demo_env_ok w run] w run
    by (intro exI [of _ ?w]) simp
qed

section \<open>Approvals and exports\<close>

text \<open>
  C8. Approving a pending request that has not expired succeeds: the request is approved by the actor,
  the lab it guards becomes approved or the export it guards becomes approved and open for release, and
  no other row of those tables changes.
\<close>

theorem approve_outcome:
  assumes "env_ok E" and "system E w"
    and "row_get apr_id i (approvals (committed w)) = Some a" and "apr_state a = approval_value APPROVAL_REQUESTED"
    and "later (the (apr_expires_at a)) (utc (clock E (ticks w)))"
    and "serve E (Approve i actor comment) w = (r, w')"
  shows "\<exists>a'. r = Inr (ApprovalR (approval_response_from_row a')) \<and>
     decided_by APPROVAL_APPROVED actor comment a a' \<and>
     approvals (committed w') = row_put apr_id a' (approvals (committed w)) \<and>
     resource_decided APPROVAL_APPROVED comment a (committed w) (committed w')"
proof -
  have "answer ApprovalR (api_decide E APPROVAL_APPROVED ''approval.approved'' i actor comment) w = (r, w')"
    using assms(6) by (simp add: api_approve_request_def)
  from answer_outcome [OF wp_decide [OF assms(1) system_sound [OF assms(1,2)]] this]
  show ?thesis using assms(3-5) by auto
qed

theorem approve_outcome_witness:
  "\<exists>w r w' a'. system demo_env w \<and> serve demo_env (Approve ''aaaaaaa'' ''alice'' None) w = (r, w') \<and>
     r = Inr (ApprovalR (approval_response_from_row a')) \<and> apr_state a' = approval_value APPROVAL_APPROVED"
proof -
  from scenario_staged obtain es t where
    w: "system demo_env (demo_world [demo_approval (6 + int t)] [demo_export (2 + int t)] es demo_staged 8 (11 + t))" by blast
  obtain r w' where run: "serve demo_env (Approve ''aaaaaaa'' ''alice'' None)
      (demo_world [demo_approval (6 + int t)] [demo_export (2 + int t)] es demo_staged 8 (11 + t)) = (r, w')"
    by (meson surj_pair)
  show ?thesis
    using approve_outcome [OF demo_env_ok w _ _ _ run, of "demo_approval (6 + int t)"] w run
    by (auto simp: row_get_def later_def hours_def demo_world_def Let_def decided_by_def settles_def)
qed

text \<open>
  C9. Denying a pending request needs a comment that is not blank: without one the answer is 409 and
  nothing is committed, with one the request is rejected and its lab failed or its export rejected with
  that comment.
\<close>

theorem deny_outcome:
  assumes "env_ok E" and "system E w"
    and "row_get apr_id i (approvals (committed w)) = Some a" and "apr_state a = approval_value APPROVAL_REQUESTED"
    and "later (the (apr_expires_at a)) (utc (clock E (ticks w)))"
    and "serve E (Deny i actor comment) w = (r, w')"
  shows "if blank comment
    then r = Inl (ConflictError ''approval_comment_required'' (Some ''approval'')) \<and> committed w' = committed w
    else \<exists>a'. r = Inr (ApprovalR (approval_response_from_row a')) \<and> decided_by APPROVAL_REJECTED actor comment a a' \<and>
      approvals (committed w') = row_put apr_id a' (approvals (committed w)) \<and>
      resource_decided APPROVAL_REJECTED comment a (committed w) (committed w')"
proof -
  have "answer ApprovalR (api_decide E APPROVAL_REJECTED ''approval.denied'' i actor comment) w = (r, w')"
    using assms(6) by (simp add: api_deny_request_def)
  from answer_outcome [OF wp_decide [OF assms(1) system_sound [OF assms(1,2)]] this]
  show ?thesis using assms(3-5) by (cases "blank comment") fastforce+
qed

theorem deny_outcome_witness:
  "\<exists>w w'. system demo_env w \<and> serve demo_env (Deny ''aaaaaaa'' ''bob'' (Some '' '')) w =
     (Inl (ConflictError ''approval_comment_required'' (Some ''approval'')), w') \<and> committed w' = committed w"
proof -
  from scenario_staged obtain es t where
    w: "system demo_env (demo_world [demo_approval (6 + int t)] [demo_export (2 + int t)] es demo_staged 8 (11 + t))" by blast
  obtain r w' where run: "serve demo_env (Deny ''aaaaaaa'' ''bob'' (Some '' ''))
      (demo_world [demo_approval (6 + int t)] [demo_export (2 + int t)] es demo_staged 8 (11 + t)) = (r, w')"
    by (meson surj_pair)
  have "blank (Some '' '')" by (simp add: blank_def is_space_def)
  then show ?thesis
    using deny_outcome [OF demo_env_ok w _ _ _ run, of "demo_approval (6 + int t)"] w run
    by (auto simp: row_get_def later_def hours_def demo_world_def Let_def)
qed

text \<open>
  C10. A decision on a request that has expired, or that is no longer pending, is refused with 409 and
  changes nothing that is committed: in particular the expiry that the handler writes before it raises
  is lost with its session, and the request stays pending until the reconciler runs.
\<close>

theorem stale_decision_refused:
  assumes "env_ok E" and "system E w" and "row_get apr_id i (approvals (committed w)) = Some a"
    and "\<not> (apr_state a = approval_value APPROVAL_REQUESTED \<and> later (the (apr_expires_at a)) (utc (clock E (ticks w))))"
    and "req = Approve i actor comment \<or> req = Deny i actor comment" and "serve E req w = (r, w')"
  shows "r = Inl (ConflictError (if apr_state a = approval_value APPROVAL_REQUESTED then ''approval_request_expired''
      else ''approval_not_pending'') (Some ''approval'')) \<and> committed w' = committed w"
proof -
  obtain s ev where s: "s = APPROVAL_APPROVED \<or> s = APPROVAL_REJECTED"
    and "answer ApprovalR (api_decide E s ev i actor comment) w = (r, w')"
  proof -
    have "answer ApprovalR (api_decide E APPROVAL_APPROVED ''approval.approved'' i actor comment) w = (r, w') \<or>
        answer ApprovalR (api_decide E APPROVAL_REJECTED ''approval.denied'' i actor comment) w = (r, w')"
      using assms(5,6) by (auto simp: api_approve_request_def api_deny_request_def)
    then show thesis using that by blast
  qed
  from answer_outcome [OF wp_decide [OF assms(1) system_sound [OF assms(1,2)] s] this(2)]
  show ?thesis using assms(3,4) by (auto split: if_splits)
qed

theorem stale_decision_refused_witness:
  "\<exists>w a w'. system demo_env w \<and> a \<in> set (approvals (committed w)) \<and> apr_state a = approval_value APPROVAL_APPROVED \<and>
     serve demo_env (Deny (apr_id a) ''bob'' (Some ''too late'')) w =
       (Inl (ConflictError ''approval_not_pending'' (Some ''approval'')), w') \<and> committed w' = committed w"
proof -
  from scenario_released obtain a x es k where
    w: "system demo_env (demo_world [a] [x] es demo_released 10 k)" and
    a: "apr_state a = approval_value APPROVAL_APPROVED" by blast
  obtain r w' where run: "serve demo_env (Deny (apr_id a) ''bob'' (Some ''too late''))
      (demo_world [a] [x] es demo_released 10 k) = (r, w')" by (meson surj_pair)
  show ?thesis
    using stale_decision_refused [where a = a and actor = "''bob''" and comment = "Some ''too late''", OF demo_env_ok w _ _ _ run] w run a
    by (intro exI [of _ "demo_world [a] [x] es demo_released 10 k"] exI [of _ a] exI [of _ w'])
       (simp add: row_get_def)
qed

text \<open>
  C11. A release, whenever it is answered with success, was open: the export was neither rejected nor
  released before and waited for no approval. It becomes released, and the file under the lab's released
  directory is what lay in quarantine (unless something made a directory of that very name).
\<close>

theorem release_outcome:
  assumes "serve E (ReleaseExport i) w = (Inr r, w')"
  shows "\<exists>x x' s. row_get exp_id i (exports (committed w)) = Some x \<and>
     row_get sto_lab_id (exp_lab_id x) (storages (committed w)) = Some s \<and>
     \<not> exp_approval_required x \<and> exp_state x \<noteq> export_value EXPORT_REJECTED \<and> exp_state x \<noteq> export_value EXPORT_RELEASED \<and>
     r = ExportR (export_response_from_row x') \<and> same_export x x' \<and> exp_state x' = export_value EXPORT_RELEASED \<and>
     exp_released_path x' = Some (path_str (released_target (cwd E) s x)) \<and>
     exports (committed w') = row_put exp_id x' (exports (committed w)) \<and>
     (is_dir (fsys w') (released_target (cwd E) s x) \<or>
       (\<exists>c. read_file (fsys w) (os_path (cwd E) (exp_quarantine_path x)) = Some c \<and>
          read_file (fsys w') (released_target (cwd E) s x) = Some c))"
proof -
  have "answer ExportR (api_release_export E i) w = (Inr r, w')" using assms by simp
  from answer_success [OF wp_release_export this] show ?thesis by simp blast
qed

theorem release_outcome_witness:
  "\<exists>w r w' x'. serve demo_env (ReleaseExport ''aaaa'') w = (Inr r, w') \<and> exports (committed w) \<noteq> [] \<and>
     r = ExportR (export_response_from_row x') \<and> exp_state x' = export_value EXPORT_RELEASED"
proof -
  let ?w = "demo_world [] [demo_opened (demo_export 0) 0] [] demo_staged 9 0"
  obtain r w' where run: "serve demo_env (ReleaseExport ''aaaa'') ?w = (r, w')" by (meson surj_pair)
  then obtain resp where "r = Inr resp"
    using demo_release(2) [of "[]" 0 0 "[]" 0] by (auto simp: wp_def)
  with run have run': "serve demo_env (ReleaseExport ''aaaa'') ?w = (Inr resp, w')" by simp
  from release_outcome [OF run'] run' show ?thesis
    by (intro exI [of _ ?w] exI [of _ resp] exI [of _ w']) fastforce
qed

text \<open>
  C12. Staging an export: success means that the requested path lay under the guest's exports directory,
  resolved to a file inside the managed exports directory of that lab, and that the copy in quarantine
  holds the same bytes, with their length and their SHA-256 on record; whether a release needs approval
  is what the profile says.
\<close>

theorem stage_export_outcome:
  assumes "stage_export (policy_profiles E) (cwd E) i lab storage src rid w = (Inr res, w')"
  shows "\<exists>p rel exports_root source c.
     policy_profiles E (lab_profile_name lab) = Some p \<and>
     pp_relative_to (posix_path src) GUEST_EXPORT_ROOT = Inr rel \<and>
     realpath (fsys w) (os_path (cwd E) (sto_exports_path storage)) = Some exports_root \<and>
     realpath (fsys w) (exports_root @ rel) = Some source \<and> prefix exports_root source \<and>
     read_file (fsys w) source = Some c \<and>
     read_file (fsys w') (quarantine_target (cwd E) storage i source) = Some c \<and>
     pv_size_bytes (sr_provenance res) = int (length c) \<and>
     digest (pv_artifact_hash (sr_provenance res)) = sha256_hex c \<and>
     sr_state res = EXPORT_QUARANTINED \<and> sr_approval_required res = p_approval_on_export p"
  using stage_export_ok [OF assms] by force

theorem stage_export_outcome_witness:
  "\<exists>res w'. stage_export (policy_profiles demo_env) (cwd demo_env) ''aaaa'' demo_lab demo_storage ''/lab/exports/out'' None
      (demo_world [] [] [] demo_fs 3 0) = (Inr res, w') \<and> sr_state res = EXPORT_QUARANTINED"
proof -
  let ?w = "demo_world [] [] [] demo_fs 3 0"
  obtain r w' where run: "stage_export (policy_profiles demo_env) (cwd demo_env) ''aaaa'' demo_lab demo_storage
      ''/lab/exports/out'' None ?w = (r, w')" by (meson surj_pair)
  have "\<exists>res. r = Inr res"
    using run demo_stage [where w = ?w and Q = "\<lambda>r _. \<exists>res. r = Inr res"] by (simp add: wp_def)
  then obtain res where "r = Inr res" ..
  with run show ?thesis using stage_export_outcome [of demo_env] by blast
qed

text \<open>
  A denied export: the gate refuses an export that was released or rejected before and a reason that
  is blank, and otherwise turns it into a rejected one with that reason.
\<close>

theorem deny_export_decision:
  "deny_export_gate row reason = Inr res \<longleftrightarrow>
     (\<exists>s. exp_state row = export_value s \<and> s \<notin> {EXPORT_RELEASED, EXPORT_REJECTED}) \<and>
     \<not> list_all is_space reason \<and>
     res = \<lparr>sr_provenance = row_provenance row None, sr_approval_required = exp_approval_required row,
            sr_state = EXPORT_REJECTED, sr_denial_reason = Some reason\<rparr>"
  unfolding deny_export_gate_Inr strip_empty_iff by blast

text \<open>
  The second managed prefix of the policy, \<open>/artifacts/approved/\<close>, is accepted by the policy and
  then always refused by the gate, which knows the guest's exports directory only: a request for such a
  path fails with \<open>ExportPolicyError\<close> and changes nothing.
\<close>

theorem approved_artifacts_unreachable:
  assumes "policy_profiles E (lab_profile_name lab) = Some p"
  shows "validate_export (policy_profiles E) (lab_profile_name lab) (''/artifacts/approved/'' @ rest) =
      Inr \<lparr>ed_allowed = True, ed_approval_required = p_approval_on_export p,
           ed_quarantine_required = (RISK_HIGH \<le> p_risk_class p), ed_reason = ''managed export path accepted''\<rparr> \<and>
    stage_export (policy_profiles E) (cwd E) i lab storage (''/artifacts/approved/'' @ rest) rid w =
      (Inl (ExportPolicyError ''exports must use a managed guest export path''), w)"
proof -
  have "startswith_any (''/artifacts/approved/'' @ rest) MANAGED_EXPORT_PREFIXES"
    by (simp add: startswith_any_def startswith_def MANAGED_EXPORT_PREFIXES_def)
  then have ok: "validate_export (policy_profiles E) (lab_profile_name lab) (''/artifacts/approved/'' @ rest) =
      Inr \<lparr>ed_allowed = True, ed_approval_required = p_approval_on_export p,
           ed_quarantine_required = (RISK_HIGH \<le> p_risk_class p), ed_reason = ''managed export path accepted''\<rparr>"
    using assms by (simp add: validate_export_Inr del: append.simps)
  have "pp_relative_to (posix_path (''/artifacts/approved/'' @ rest)) GUEST_EXPORT_ROOT =
      Inl (ValueError ''path is not in the subpath of the base'')" using approved_prefix_refused by blast
  with ok show ?thesis
    by (simp add: stage_export_def resolve_managed_source_def bnd_def liftR_def guard_def check_def throw_def
        del: append.simps)
qed

theorem approved_artifacts_unreachable_witness:
  "stage_export DEFAULT_PROFILES [] ''x'' demo_lab demo_storage (''/artifacts/approved/'' @ ''a.bin'') None (initial demo_fs) =
     (Inl (ExportPolicyError ''exports must use a managed guest export path''), initial demo_fs)"
proof -
  have "policy_profiles demo_env (lab_profile_name demo_lab) = Some model_local" by (simp add: DEFAULT_PROFILES_def)
  from approved_artifacts_unreachable [OF this, of "''a.bin''" "''x''" demo_storage None "initial demo_fs"]
  show ?thesis by (simp del: append.simps)
qed

section \<open>Labs and their storage\<close>

text \<open>
  C13. Creating a lab: an unknown profile is 404 and touches nothing, and no answer but success commits
  anything. On success there is one new lab with its storage record; it starts pending, with one pending
  approval request for it, exactly when the profile requires approval on start or a requester that is not
  human asks for a high-risk profile, and approved otherwise. On disk only directories are added.
\<close>

theorem create_lab_outcome:
  assumes "serve E (CreateLab name requester) w = (res, w')"
  shows "only_adds_dirs (fsys w) (fsys w') \<and>
     (case policy_profiles E name of
        None \<Rightarrow> res = Inl (ResourceNotFoundError ''profile'') \<and> committed w' = committed w \<and> fsys w' = fsys w
      | Some p \<Rightarrow> (\<forall>e. res = Inl e \<longrightarrow> committed w' = committed w) \<and>
          (\<forall>resp. res = Inr resp \<longrightarrow> (\<exists>l s as. resp = LabR (lab_response_from_row l s) \<and>
             lab_id l = uuid4 E (uuids w) \<and> sto_lab_id s = lab_id l \<and> lab_profile_name l = p_name p \<and>
             lab_state l = (if needs_approval p requester then lab_value LAB_PENDING_APPROVAL else lab_value LAB_APPROVED) \<and>
             labs (committed w') = labs (committed w) @ [l] \<and> storages (committed w') = storages (committed w) @ [s] \<and>
             approvals (committed w') = approvals (committed w) @ as \<and>
             (if needs_approval p requester then \<exists>a. as = [a] \<and> pending_approval (lab_id l) ''lab'' (lab_id l) a
              else as = []))))"
proof -
  have "answer LabR (api_create_lab E name requester) w = (res, w')" using assms by simp
  then show ?thesis
  proof (cases res)
    case (Inl e)
    from answer_failure [OF wp_create_lab] \<open>answer _ _ w = _\<close> Inl show ?thesis
      by (fastforce split: option.splits)
  next
    case (Inr resp)
    from answer_success [OF wp_create_lab] \<open>answer _ _ w = _\<close> Inr show ?thesis
      by (fastforce split: option.splits)
  qed
qed

theorem create_lab_outcome_witness:
  "\<exists>res w'. serve demo_env (CreateLab ''nowhere'' REQ_HUMAN) (initial demo_fs) = (res, w') \<and>
     res = Inl (ResourceNotFoundError ''profile'') \<and> committed w' = committed (initial demo_fs)"
proof -
  obtain res w' where run: "serve demo_env (CreateLab ''nowhere'' REQ_HUMAN) (initial demo_fs) = (res, w')"
    by (meson surj_pair)
  have "DEFAULT_PROFILES ''nowhere'' = None" by (simp add: DEFAULT_PROFILES_def)
  with create_lab_outcome [OF run] run show ?thesis by simp
qed

text \<open>
  C14. Destroying a lab, whatever the answer, changes no entry outside the managed storage root, not even
  through links. When it succeeds, the lab was not destroyed before and is now, and of the file system
  exactly the subtree is gone to which the lab's recorded root resolves; when it fails, nothing is committed.
\<close>

theorem destroy_lab_outcome:
  assumes "serve E (DestroyLab i) w = (res, w')"
  shows "confined (storage_root E) (fsys w) (fsys w') \<and> (\<forall>e. res = Inl e \<longrightarrow> committed w' = committed w) \<and>
     (\<forall>resp. res = Inr resp \<longrightarrow> (\<exists>l l' s p.
        row_get lab_id i (labs (committed w)) = Some l \<and> row_get sto_lab_id i (storages (committed w)) = Some s \<and>
        lab_state l \<noteq> lab_value LAB_DESTROYED \<and> same_lab l l' \<and> lab_state l' = lab_value LAB_DESTROYED \<and>
        labs (committed w') = row_put lab_id l' (labs (committed w)) \<and> resp = LabR (lab_response_from_row l' s) \<and>
        realpath (fsys w) (os_path (cwd E) (sto_root_path s)) = Some p \<and> prefix (storage_root E) p \<and>
        fsys w' = (if path_exists (fsys w) (os_path (cwd E) (sto_root_path s)) then without p (fsys w) else fsys w)))"
proof -
  have "answer LabR (api_destroy_lab E i) w = (res, w')" using assms by simp
  then show ?thesis
  proof (cases res)
    case (Inl e)
    from answer_failure [OF wp_destroy_lab] \<open>answer _ _ w = _\<close> Inl show ?thesis by fastforce
  next
    case (Inr resp)
    from answer_success [OF wp_destroy_lab, of LabR E i w resp w'] \<open>answer _ _ w = _\<close> Inr
    have "\<exists>x. resp = LabR x \<and> confined (storage_root E) (fsys w) (fsys w') \<and> (\<exists>l l' s p.
        row_get lab_id i (labs (committed w)) = Some l \<and> row_get sto_lab_id i (storages (committed w)) = Some s \<and>
        lab_state l \<noteq> lab_value LAB_DESTROYED \<and> same_lab l l' \<and> lab_state l' = lab_value LAB_DESTROYED \<and>
        labs (committed w') = row_put lab_id l' (labs (committed w)) \<and> x = lab_response_from_row l' s \<and>
        realpath (fsys w) (os_path (cwd E) (sto_root_path s)) = Some p \<and> prefix (storage_root E) p \<and>
        fsys w' = (if path_exists (fsys w) (os_path (cwd E) (sto_root_path s)) then without p (fsys w) else fsys w))"
      by simp
    then show ?thesis using Inr by blast
  qed
qed

theorem destroy_lab_outcome_witness:
  "\<exists>res w'. serve demo_env (DestroyLab ''a'') (demo_world [] [] [] demo_fs 3 0) = (res, w') \<and>
     confined [''srv''] demo_fs (fsys w')"
proof -
  obtain res w' where run: "serve demo_env (DestroyLab ''a'') (demo_world [] [] [] demo_fs 3 0) = (res, w')"
    by (meson surj_pair)
  from destroy_lab_outcome [OF run] run show ?thesis by simp
qed

text \<open>
  Allocation along a canonical root makes exactly the missing directories on the way to the four
  directories of the lab, and each of the four is a directory afterwards.
\<close>

theorem allocate_layout:
  assumes "allocate root lab policy w = (Inr a, w')" and "name_ok lab" and "lab \<noteq> ''..''"
    and "\<forall>d \<in> {''workspace'', ''exports'', ''quarantine'', ''snapshots''}. canonical (fsys w) (root @ [''labs'', lab, d])"
  shows "a = allocation_of root lab policy \<and>
    (\<forall>d \<in> {''workspace'', ''exports'', ''quarantine'', ''snapshots''}. is_dir (fsys w') (root @ [''labs'', lab, d])) \<and>
    (\<forall>q. fsys w' q = (if q \<noteq> [] \<and> (\<exists>d \<in> {''workspace'', ''exports'', ''quarantine'', ''snapshots''}.
        prefix q (root @ [''labs'', lab, d])) then Some Dir else fsys w q))"
proof -
  let ?ps = "[root @ [''labs'', lab, ''workspace''], root @ [''labs'', lab, ''exports''],
     root @ [''labs'', lab, ''quarantine''], root @ [''labs'', lab, ''snapshots'']]"
  have a: "a = allocation_of root lab policy" and made: "mkdir_all (fsys w) ?ps = Inr (fsys w')"
    using wp_result [OF allocate_result assms(1), of a] allocation_of_paths [OF assms(2)] by auto
  have can: "\<forall>p \<in> set ?ps. canonical (fsys w) p" using assms(4) by simp
  show ?thesis
    using a mkdir_all_is_dir [OF made can] mkdir_all_canonical [OF made can] by simp
qed

theorem allocate_layout_witness:
  "\<exists>a w'. allocate [''srv''] ''lab-1'' (storage_policy FS_MANAGED EPHEMERAL 8192 3) (initial (\<lambda>p. None)) = (Inr a, w') \<and>
     is_dir (fsys w') [''srv'', ''labs'', ''lab-1'', ''exports'']"
proof -
  let ?w = "initial (\<lambda>p. None)" and ?p = "storage_policy FS_MANAGED EPHEMERAL 8192 3"
  have name: "name_ok ''lab-1''" by (simp add: name_ok_def)
  have can: "canonical (fsys ?w) q \<longleftrightarrow> ''..'' \<notin> set q" for q by (auto simp: canonical_def is_link_def initial_def)
  have "\<exists>a w'. allocate [''srv''] ''lab-1'' ?p ?w = (Inr a, w')"
    by (simp add: allocate_def Let_def bnd_def fs_call_def returns_def initial_def mkdir_p_def allocation_of_paths [OF name] add_entry_apply)
  then obtain a w' where run: "allocate [''srv''] ''lab-1'' ?p ?w = (Inr a, w')" by blast
  with allocate_layout [OF run name] can show ?thesis by auto
qed

section \<open>Snapshots\<close>



text \<open>
  What a restore refuses before it touches anything: a missing manifest, a manifest or a lab of
  another runtime than the container, a missing archive. Each is answered with 409 and its reason, and
  neither the file system nor the committed database changes.
\<close>

theorem restore_refusals:
  assumes "row_get snap_id i (snapshots (committed w)) = Some row" and "row_get lab_id l (labs (committed w)) = Some lab"
    and "row_get sto_lab_id l (storages (committed w)) = Some s" and "load_metadata E row w = (Inr found, w)"
    and "\<forall>m. found = Some m \<longrightarrow> sm_runtime_class m \<noteq> runtime_value CONTAINER \<or> lab_runtime_class lab \<noteq> runtime_value CONTAINER \<or>
       \<not> path_exists (fsys w) (os_path (cwd E) (sm_backend_ref m))"
  shows "serve E (RestoreSnapshot i l requester) w =
    (Inl (ConflictError (case found of
        None \<Rightarrow> ''snapshot manifest is missing''
      | Some m \<Rightarrow> if sm_runtime_class m = runtime_value CONTAINER \<and> lab_runtime_class lab = runtime_value CONTAINER
                  then ''snapshot archive is missing'' else ''unsupported_snapshot_runtime'') (Some ''snapshot'')),
     w\<lparr>db := committed w\<rparr>)"
proof -
  let ?w = "w\<lparr>db := committed w\<rparr>"
  have load: "load_metadata E row ?w = (Inr found, ?w)" by (rule load_metadata_db [OF assms(4)])
  have "lab_id lab = l" using row_get_Some [OF assms(2)] by simp
  then show ?thesis
    using assms(1-3,5) restore_refused [OF load, where lab = lab and s = s]
    by (cases found)
       (auto simp: answer_def api_restore_snapshot_def with_session_def bnd_def get_or_404_def session_get_def gets_def
          require_def attempt_def throw_def unsupported_runtime_def)
qed

theorem restore_refusals_witness:
  "\<exists>w. serve demo_env (RestoreSnapshot ''s1'' ''a'' REQ_HUMAN) w =
     (Inl (ConflictError ''snapshot manifest is missing'' (Some ''snapshot'')), w\<lparr>db := committed w\<rparr>)"
proof -
  let ?w = "(demo_world [] [] [] (snap_fs ''data'') 3 0)\<lparr>committed := (db (demo_world [] [] [] (snap_fs ''data'') 3 0))\<lparr>snapshots := [snap_row]\<rparr>\<rparr>"
  have "load_metadata demo_env snap_row ?w = (Inr None, ?w)"
    by (rule load_metadata_missing [OF snap_row_sel(1) snap_names(4,2)])
       (use snap_missing in simp)
  then show ?thesis
    using restore_refusals [of "''s1''" ?w snap_row "''a''" demo_lab demo_storage demo_env None REQ_HUMAN]
    by (intro exI [of _ ?w]) (simp add: row_get_def snap_row_id demo_world_def Let_def)
qed

text \<open>
  C16. The paths in an archive are looked at only when the workspace is already empty: an archive that
  names a path outside the target's directory is refused, nothing of it is extracted, and nothing but the
  target workspace changes; but that workspace is gone.
\<close>

theorem unsafe_archive_refused_late:
  assumes "faithful_listing (listdir E)" and "tar_unpack E (tar_pack E ms) = Some ms"
    and "restore_site E (fsys w) root i ms m row lab s dest" and "(name, node) \<in> set ms"
    and "realpath (emptied (fsys w) (dest @ [''workspace''])) (path_join dest name) = Some t" and "\<not> prefix dest t"
    and "\<forall>y \<in> set ms. realpath (emptied (fsys w) (dest @ [''workspace''])) (path_join dest (fst y)) \<noteq> None"
    and "Snapshots.restore_snapshot E row lab s w = (r, w')"
  shows "r = Inl (SnapshotMetadataError ''snapshot archive contains an unsafe path'') \<and>
    (\<forall>q. q \<noteq> [] \<longrightarrow> fsys w' (dest @ [''workspace''] @ q) = None) \<and>
    (\<forall>x. \<not> prefix (dest @ [''workspace'']) x \<longrightarrow> fsys w' x = fsys w x)"
  using restore_unsafe_run [OF assms(1-4) _ assms(6,7)] assms(5,8)
  by (auto simp: emptied_outside) (simp add: emptied_def strict_prefix_def)

theorem unsafe_archive_refused_late_witness:
  "\<exists>w w'. Snapshots.restore_snapshot demo_env snap_row demo_lab snap_storage w =
       (Inl (SnapshotMetadataError ''snapshot archive contains an unsafe path''), w') \<and>
     read_entry (fsys w) = Some (File ''data'') \<and> read_entry (fsys w') = None"
proof -
  let ?w = "initial (snap_later ''data'' snap_bad)"
  obtain r w' where run: "Snapshots.restore_snapshot demo_env snap_row demo_lab snap_storage ?w = (r, w')" by (meson surj_pair)
  have site: "restore_site demo_env (fsys ?w) snap_root ''s1'' bad_members bad_metadata snap_row demo_lab snap_storage [''srv'', ''a'']"
    using snap_bad_site by (simp add: initial_def)
  have away: "realpath (emptied (fsys ?w) ([''srv'', ''a''] @ [''workspace''])) (path_join [''srv'', ''a''] ''/x'') = Some [''x'']"
    using bad_path by (simp add: initial_def)
  have "r = Inl (SnapshotMetadataError ''snapshot archive contains an unsafe path'') \<and>
      (\<forall>q. q \<noteq> [] \<longrightarrow> fsys w' ([''srv'', ''a''] @ [''workspace''] @ q) = None)"
    using unsafe_archive_refused_late [OF demo_listing demo_codec site _ away _ _ run, of Dir] away
    by (simp add: bad_members_def)
  moreover from this have "read_entry (fsys w') = None" by (simp add: read_entry_def snap_ws_def)
  moreover have "read_entry (fsys ?w) = Some (File ''data'')" by (simp add: read_entry_later initial_def)
  ultimately show ?thesis using run by blast
qed

text \<open>
  Manifests round trip: what a manifest file holds is read back as the same metadata, whatever strings
  and numbers it has, and the manager looks for it where it was written, beside the archive.
\<close>

theorem manifest_reads_back:
  "(\<exists>payload. json_loads (manifest_text m) = Some payload \<and> from_dict payload = Inr m) \<and>
   (snapshot_name i \<and> list_all name_ok p \<longrightarrow>
      manifest_path_for here (path_str (p @ [i @ ''.tar.gz''])) = Inr (p @ [i @ ''.json'']))"
  using manifest_round_trip [of m] manifest_path_for_archive by blast

theorem manifest_reads_back_witness:
  "manifest_path_for [] (path_str ([''srv''] @ [''s1'' @ ''.tar.gz''])) = Inr ([''srv''] @ [''s1'' @ ''.json''])"
proof -
  have "snapshot_name ''s1'' \<and> list_all name_ok [''srv'']" by (simp add: snapshot_name_def name_ok_def)
  with manifest_reads_back show ?thesis by blast
qed

section \<open>The scheduler\<close>



text \<open>
  What is dispatched next is due, and no due job comes before it in the order of the queue:
  scheduled time, then creation, then identifier. Nothing is dispatched only when nothing is due.
\<close>

theorem next_job_earliest:
  "(case next_job now t of
      None \<Rightarrow> filter (is_due now) t = []
    | Some j \<Rightarrow> j \<in> set (filter (is_due now) t) \<and> Min (job_order ` set (filter (is_due now) t)) = job_order j)"
proof (cases "next_job now t")
  case None
  then show ?thesis using next_job_None [of now t] by (simp add: filter_empty_conv)
next
  case (Some j)
  note j = next_job_Some [OF Some]
  have "Min (job_order ` set (filter (is_due now) t)) = job_order j"
    using j by (intro Min_eqI) auto
  with j Some show ?thesis by simp
qed

text \<open>
  C18. Enqueueing: below the quota of five pending jobs per requester a valid request appends exactly one
  queued row, whose identifier is answered; at the quota the answer is 409 and nothing is committed.
\<close>

theorem enqueue_outcome:
  assumes "valid_job_request req" and "serve E (EnqueueJob req) w = (r, w')"
  shows "if pending_count (jr_requester_id req) (jobs (committed w)) < 5
     then (\<exists>s c u resp. r = Inr (JobR resp) \<and> sjr_id resp = uuid4 E (uuids w) \<and>
       jobs (committed w') = jobs (committed w) @ [queued_row req (uuid4 E (uuids w)) s c u])
     else r = Inl (ConflictError ''scheduler_pending_job_quota_exceeded'' (Some ''scheduler_job'')) \<and>
       committed w' = committed w"
  using wp_result [OF wp_enqueue_request [OF assms(1)] assms(2)]
  by (auto simp: max_pending_jobs_per_requester_def split: if_splits)

theorem enqueue_outcome_witness:
  "\<exists>r w' resp. serve demo_env (EnqueueJob demo_job) (initial demo_fs) = (r, w') \<and> r = Inr (JobR resp) \<and>
     sjr_id resp = ''a'' \<and> valid_job_request demo_job"
proof -
  obtain r w' where run: "serve demo_env (EnqueueJob demo_job) (initial demo_fs) = (r, w')" by (meson surj_pair)
  have valid: "valid_job_request demo_job"
    by (simp add: valid_job_request_def job_field_constraints_def validate_action_payload_def demo_job_def)
  have "pending_count (jr_requester_id demo_job) (jobs (committed (initial demo_fs))) < 5"
    by (simp add: pending_count_def initial_def empty_database_def)
  moreover have "uuids (initial demo_fs) = 0" by (simp add: initial_def)
  ultimately show ?thesis
    using enqueue_outcome [OF valid run] run valid by auto
qed



section \<open>The policy engine\<close>



text \<open>
  A start needs approval exactly when the profile says so or a requester that is not human asks for a
  high-risk profile, and the decision's reasons are never empty when it does.
\<close>

theorem start_approval_decision:
  "validate_request profiles name Map.empty (requester_value r) =
     (case profiles name of
        None \<Rightarrow> Inl (KeyError (''unknown profile: '' @ name))
      | Some p \<Rightarrow> Inr (make_decision p r [])) \<and>
   d_approval_required (make_decision p r secrets) = (p_approval_on_start p \<or> r \<noteq> REQ_HUMAN \<and> RISK_HIGH \<le> p_risk_class p) \<and>
   (d_approval_reasons (make_decision p r secrets) = []) = (\<not> d_approval_required (make_decision p r secrets))"
  by (auto simp: validate_request_no_overrides make_decision_def approval_reasons_Nil)

text \<open>
  The host-mount check reads a path as text. A path that climbs out with a parent step, a path with a
  doubled leading slash and the parent directory of the Docker socket pass it, although they reach what the
  check forbids.
\<close>

theorem mount_check_lexical:
  "check_mount_entry (PStr ''/home/alice:/mnt'') = Inl (ValueError ''host mounts under home directories are forbidden'') \<and>
   check_mount_entry (PStr ''/tmp/../home/alice:/mnt'') = Inr () \<and>
   check_mount_entry (PStr ''//home/alice:/mnt'') = Inr () \<and>
   check_mount_entry (PStr ''/var/run/docker.sock:/mnt'') = Inl (ValueError ''Docker socket mounts are forbidden'') \<and>
   check_mount_entry (PStr ''/var/run:/mnt'') = Inr ()"
  by code_simp

text \<open>
  A profile is accepted exactly when its combination of runtime, network, export mode, approvals and
  mounts is one the policy allows, and each of the four built-in profiles is accepted and filed under its
  own name.
\<close>

theorem profiles_valid:
  "(validate_combinations p = Inr q) = (q = p \<and>
     (p_runtime_class p = MICROVM \<longrightarrow> p_network_mode p = NET_DENY \<and> p_export_mode p = EXPORT_APPROVAL \<and>
        p_approval_on_start p \<and> \<not> p_allow_host_mounts p \<and> p_risk_class p \<noteq> RISK_LOW) \<and>
     (RISK_HIGH \<le> p_risk_class p \<longrightarrow> p_approval_on_export p)) \<and>
   (\<forall>name b. DEFAULT_PROFILES name = Some b \<longrightarrow> valid_profile b \<and> p_name b = name)"
  unfolding validate_combinations_iff valid_profile_def
  by (auto simp: field_constraints_def builtin_defs less_eq_RiskClass_def elim!: default_profiles_cases)

theorem profiles_valid_witness: "valid_profile red_zone \<and> p_name red_zone = ''red-zone''"
proof -
  have "DEFAULT_PROFILES ''red-zone'' = Some red_zone" by (simp add: DEFAULT_PROFILES_def)
  then show ?thesis using profiles_valid [of red_zone red_zone] by blast
qed

section \<open>Secret leases\<close>

text \<open>
  C21. Issuing a lease: each refusal, in the order of the checks, with its status, and nothing committed;
  on success one new row that names the secret, never its value, and expires after the given minutes.
\<close>

theorem issue_lease_outcome:
  assumes "serve E (CreateLease lab s requester ttl) w = (r, w')"
  shows "if \<not> (1 \<le> ttl \<and> ttl \<le> 24 * 60)
     then r = Inl (HTTPException 422 ''Unprocessable Entity'') \<and> committed w' = committed w
     else (case row_get lab_id lab (labs (committed w)) of
        None \<Rightarrow> r = Inl (ResourceNotFoundError ''lab'') \<and> committed w' = committed w
      | Some l \<Rightarrow> (case policy_profiles E (lab_profile_name l) of
          None \<Rightarrow> r = Inl (ResourceNotFoundError (repr_str (''unknown profile: '' @ lab_profile_name l))) \<and>
            committed w' = committed w
        | Some p \<Rightarrow>
            if s \<notin> set (p_allowed_secret_names p)
            then r = Inl (HTTPException 400 ''secret_name is not allowed by profile'') \<and> committed w' = committed w
            else (case environ E (''LABOS_SECRET_'' @ s) of
                None \<Rightarrow> r = Inl (HTTPException 400 (''secret value not found for '' @ s)) \<and> committed w' = committed w
              | Some value \<Rightarrow> (\<exists>k. r = Inr (LeaseR (secret_lease_response_from_row k)) \<and>
                  leases (committed w') = leases (committed w) @ [k] \<and> lease_lab_id k = lab \<and>
                  lease_secret_name k = s \<and> lease_revoked_at k = None \<and>
                  lease_expires_at k = plus_delta (utc (clock E (ticks w))) (minutes ttl)))))"
  by (rule wp_result [OF wp_create_lease assms])

theorem issue_lease_outcome_witness:
  "\<exists>r w'. serve demo_env (CreateLease ''a'' ''TOKEN'' REQ_HUMAN 15) (demo_world [] [] [] demo_fs 3 0) = (r, w') \<and>
     r = Inl (HTTPException 400 ''secret_name is not allowed by profile'')"
proof -
  let ?w = "demo_world [] [] [] demo_fs 3 0"
  obtain r w' where run: "serve demo_env (CreateLease ''a'' ''TOKEN'' REQ_HUMAN 15) ?w = (r, w')" by (meson surj_pair)
  have "DEFAULT_PROFILES ''model-local'' = Some model_local" by (simp add: DEFAULT_PROFILES_def)
  moreover have "p_allowed_secret_names model_local = []" by (simp add: model_local_def)
  ultimately show ?thesis
    using issue_lease_outcome [OF run] run by (auto simp: row_get_def)
qed

text \<open>
  C22. What a runtime is given: only leases of that lab that are approved, not revoked and not yet expired
  are materialised, in the order of the table, each with the value the environment holds for its name; a
  single missing value makes the call fail and gives out none.
\<close>

theorem materialized_leases_live:
  "fst (materialize_runtime_leases E (env_resolve E) lab w) =
     (let due = select_rows lease_id (\<lambda>k. lease_lab_id k = lab \<and> lease_approved k \<and> lease_revoked_at k = None \<and>
            later (lease_expires_at k) (utc (clock E (ticks w)))) (leases (db w))
      in case find (\<lambda>k. environ E (''LABOS_SECRET_'' @ lease_secret_name k) = None) due of
           Some k \<Rightarrow> Inl (SecretNotFoundError (lease_secret_name k))
         | None \<Rightarrow> Inr (map (\<lambda>k. \<lparr>sl_name = lease_secret_name k,
             sl_value = the (environ E (''LABOS_SECRET_'' @ lease_secret_name k)), sl_approved = lease_approved k,
             sl_expires_at = normalize_datetime (lease_expires_at k)\<rparr>) due))" (is "_ = ?r")
proof -
  have missing: "(\<lambda>k. \<exists>e. env_resolve E (lease_secret_name k) = Inl e) =
      (\<lambda>k. environ E (''LABOS_SECRET_'' @ lease_secret_name k) = None)"
    by (auto simp: env_resolve_def fun_eq_iff split: option.splits)
  have held: "projr (env_resolve E (lease_secret_name k)) = the (environ E (''LABOS_SECRET_'' @ lease_secret_name k))"
    if "environ E (''LABOS_SECRET_'' @ lease_secret_name k) \<noteq> None" for k
    using that by (auto simp: env_resolve_def)
  have due: "runtime_lease_due lab now = (\<lambda>k. lease_lab_id k = lab \<and> lease_approved k \<and> lease_revoked_at k = None \<and>
      later (lease_expires_at k) now)" for now
    by (auto simp: runtime_lease_due_def fun_eq_iff)
  have "wp (materialize_runtime_leases E (env_resolve E) lab) (\<lambda>r w'. r = ?r) w"
    unfolding env_broker.wp_materialize due missing Let_def
    by (simp split: option.split del: append.simps) (auto simp: find_None_iff held simp del: append.simps)
  then show ?thesis by (simp add: wp_def case_prod_beta)
qed

section \<open>State machines\<close>

text \<open>
  Along the declared transition tables a run, an approval, an export or a snapshot never comes back to
  a state, so its history is at most four, two, four or three states long; a lab alternates between running
  and stopped, and only destroyed and archived labs are at their end.
\<close>

theorem lifecycles_bounded:
  "(successively can_transition_run rs \<longrightarrow> distinct rs \<and> length rs \<le> 4) \<and>
   (successively can_transition_approval as \<longrightarrow> distinct as \<and> length as \<le> 2) \<and>
   (successively can_transition_export xs \<longrightarrow> distinct xs \<and> length xs \<le> 4) \<and>
   (successively can_transition_snapshot ss \<longrightarrow> distinct ss \<and> length ss \<le> 3) \<and>
   successively can_transition_lab [LAB_RUNNING, LAB_STOPPED, LAB_RUNNING] \<and>
   ((\<forall>t. \<not> can_transition_lab l t) = (l = LAB_DESTROYED \<or> l = LAB_ARCHIVED))"
  using run_life.history_distinct run_life.history_length [of rs]
    approval_life.history_distinct approval_life.history_length [of as]
    export_life.history_distinct export_life.history_length [of xs]
    snapshot_life.history_distinct snapshot_life.history_length [of ss] lab_terminal_iff [of l]
  by (auto simp: can_transition_lab_def)

theorem lifecycles_bounded_witness:
  "distinct [EXPORT_REQUESTED, EXPORT_QUARANTINED, EXPORT_APPROVED, EXPORT_RELEASED] \<and>
   successively can_transition_export [EXPORT_REQUESTED, EXPORT_QUARANTINED, EXPORT_APPROVED, EXPORT_RELEASED]"
proof -
  have "successively can_transition_export [EXPORT_REQUESTED, EXPORT_QUARANTINED, EXPORT_APPROVED, EXPORT_RELEASED]"
    by (simp add: can_transition_export_def)
  with lifecycles_bounded show ?thesis by blast
qed

text \<open>
  The services do not follow the export table: an export whose profile asks for no approval is
  released straight out of quarantine, a step the table does not have. The gate answers with success.
\<close>

theorem services_leave_export_table:
  assumes "read_file (fsys w) (os_path (cwd E) (exp_quarantine_path x)) = Some c"
    and "exp_state x = export_value EXPORT_QUARANTINED" and "\<not> exp_approval_required x"
    and "release_export (cwd E) x s w = (r, w')" and "\<And>e. r \<noteq> Inl (OSError e)"
  shows "(\<exists>res. r = Inr res \<and> sr_state res = EXPORT_RELEASED) \<and>
    \<not> can_transition_export EXPORT_QUARANTINED EXPORT_RELEASED"
proof -
  have "path_exists (fsys w) (os_path (cwd E) (exp_quarantine_path x))"
    using assms(1) by (auto simp: path_exists_def read_file_def split: option.splits)
  then have "wp (release_export (cwd E) x s) (\<lambda>r w'. (\<exists>e. r = Inl (OSError e)) \<or> (\<exists>res. r = Inr res \<and> sr_state res = EXPORT_RELEASED)) w"
    using assms(1-3) unfolding release_export_def
    by (auto simp: wp Let_def is_file_def dest: copy2_Inl mkdir_p_Inl split: sum.splits)
  from wp_result [OF this assms(4)] show ?thesis
    using assms(5) by (auto simp: can_transition_export_def)
qed

theorem services_leave_export_table_witness:
  "\<exists>w x res w'. exp_state x = export_value EXPORT_QUARANTINED \<and>
     release_export (cwd demo_env) x demo_storage w = (Inr res, w') \<and> sr_state res = EXPORT_RELEASED"
proof -
  let ?w = "demo_world [] [] [] demo_staged 9 0" and ?x = "(demo_export 0)\<lparr>exp_approval_required := False\<rparr>"
  obtain r w' where run: "release_export (cwd demo_env) ?x demo_storage ?w = (r, w')" by (meson surj_pair)
  have "wp (release_export (cwd demo_env) ?x demo_storage) (\<lambda>r w'. \<forall>e. r \<noteq> Inl (OSError e)) ?w"
    by (simp add: release_export_def wp demo_paths demo_release_fs is_file_def Let_def demo_release_joins)
  then have "\<And>e. r \<noteq> Inl (OSError e)" using run by (simp add: wp_def)
  then have "(\<exists>res. r = Inr res \<and> sr_state res = EXPORT_RELEASED)"
    using services_leave_export_table [OF _ _ _ run, of "''data''"] by (simp add: demo_paths demo_release_fs)
  with run show ?thesis by (intro exI [of _ ?w] exI [of _ ?x]) auto
qed

section \<open>Reconciliation\<close>

text \<open>
  C23. A reconciliation pass on a reachable database, with any destroyer and any clock: every pending
  request that has expired is expired and decided by the reconciler, every lease past its time is revoked,
  every active run past its deadline has timed out, every lab whose storage root is gone has failed, and
  no other approval, lease or run changes; the report lists exactly these, sorted, and the labs the
  runtime has too many of. It fails only when the runtime inventory does.
\<close>

theorem reconcile_outcome:
  assumes "env_ok E" and "reach E (uuids w) (db w)" and "reconcile E inventory destroyer m now w = (r, w')"
  shows "case inventory of
       Some (Inl e) \<Rightarrow> r = Inl e
     | Some (Inr found) \<Rightarrow> (\<exists>rep. r = Inr rep \<and> pass_done E (pass_time E now w) w w' \<and>
         pass_report E (pass_time E now w) found w w' rep)
     | None \<Rightarrow> (\<exists>rep. r = Inr rep \<and> pass_done E (pass_time E now w) w w' \<and>
         pass_report E (pass_time E now w) [] w w' rep)"
  using wp_result [OF reconcile_steps [OF assms(1,2)] assms(3)] by blast

theorem reconcile_outcome_witness:
  "\<exists>w w' rep. db w = empty_database \<and> reconcile demo_env None None 3 (Some (utc 0)) w = (Inr rep, w') \<and>
     pass_report demo_env (pass_time demo_env (Some (utc 0)) w) [] w w' rep"
proof -
  let ?w = "initial demo_fs"
  have R: "reach demo_env (uuids ?w) (db ?w)" by (simp add: initial_def reach_init)
  obtain r w' where run: "reconcile demo_env None None 3 (Some (utc 0)) ?w = (r, w')" by (meson surj_pair)
  from reconcile_outcome [OF demo_env_ok R run] run have "\<exists>rep. reconcile demo_env None None 3 (Some (utc 0)) ?w = (Inr rep, w') \<and>
     pass_report demo_env (pass_time demo_env (Some (utc 0)) ?w) [] ?w w' rep" by auto
  then show ?thesis by (intro exI [of _ ?w] exI [of _ w']) (simp add: initial_def)
qed

text \<open>
  A second pass at the same time, straight after one that did not fail, finds nothing left to expire,
  to revoke or to time out.
\<close>

theorem second_pass_finds_nothing:
  assumes "env_ok E" and "reach E (uuids w) (db w)"
    and "reconcile E inv1 destroyer1 m (Some t) w = (Inr rep, v)"
    and "reconcile E inv2 destroyer2 m' (Some t) v = (Inr rep', v')"
  shows "expired_approval_ids rep' = [] \<and> revoked_secret_lease_ids rep' = [] \<and> timed_out_run_ids rep' = []"
  using second_pass_idle [OF assms] .

theorem second_pass_finds_nothing_witness:
  "\<exists>v rep' v'. reconcile demo_env None None 3 (Some (utc 0)) v = (Inr rep', v') \<and> expired_approval_ids rep' = []"
proof -
  have R: "reach demo_env (uuids (initial demo_fs)) (db (initial demo_fs))" by (simp add: initial_def reach_init)
  from reconcile_returns [OF demo_env_ok R] obtain rep v where
    one: "reconcile demo_env None None 3 (Some (utc 0)) (initial demo_fs) = (Inr rep, v)" and v: "reach demo_env (uuids v) (db v)"
    by blast
  from reconcile_returns [OF demo_env_ok v] obtain rep' v' where
    "reconcile demo_env None None 3 (Some (utc 0)) v = (Inr rep', v')" by blast
  with second_pass_finds_nothing [OF demo_env_ok R one this] show ?thesis by blast
qed



section \<open>Rows\<close>

text \<open>
  C25. The rows agree with themselves in every reachable world: labs are pending, approved, failed or
  destroyed, runs queued or timed out; an approval says approved exactly in state approved and names its
  decider exactly once it is decided; a resource has at most one approval request.
\<close>

theorem row_states:
  assumes "env_ok E" and "system E w"
  shows "(\<forall>l \<in> set (labs (committed w)). lab_state l \<in>
      {lab_value LAB_PENDING_APPROVAL, lab_value LAB_APPROVED, lab_value LAB_FAILED, lab_value LAB_DESTROYED}) \<and>
    (\<forall>r \<in> set (runs (committed w)). run_state r \<in> {run_value RUN_QUEUED, run_value RUN_TIMED_OUT} \<and> run_timeout_at r \<noteq> None) \<and>
    (\<forall>a \<in> set (approvals (committed w)). \<exists>s. apr_state a = approval_value s \<and> apr_approved a = (s = APPROVAL_APPROVED) \<and>
       (apr_decided_by a = None) = (s = APPROVAL_REQUESTED) \<and> (apr_decided_at a = None) = (s = APPROVAL_REQUESTED)) \<and>
    distinct (map (\<lambda>a. (apr_resource_type a, apr_resource_id a)) (approvals (committed w)))"
proof -
  have key: "(\<lambda>a. (apr_resource_type a, apr_resource_id a)) = resource_key"
    by (simp add: resource_key_def fun_eq_iff)
  show ?thesis
    unfolding key using system_control [OF assms]
    by (auto simp: control_ok_def lab_states_ok_def run_states_ok_def approvals_ok_def approval_row_ok_def
        resources_ok_def)
qed

theorem row_states_witness:
  "\<exists>w a. system demo_env w \<and> a \<in> set (approvals (committed w)) \<and> apr_state a = approval_value APPROVAL_REQUESTED \<and>
     \<not> apr_approved a"
proof -
  from scenario_staged obtain es t where
    w: "system demo_env (demo_world [demo_approval (6 + int t)] [demo_export (2 + int t)] es demo_staged 8 (11 + t))" by blast
  with row_states [OF demo_env_ok w] show ?thesis
    by (intro exI [of _ "demo_world [demo_approval (6 + int t)] [demo_export (2 + int t)] es demo_staged 8 (11 + t)"]
        exI [of _ "demo_approval (6 + int t)"]) auto
qed

text \<open>
  C26. The gate of an export, in every reachable world: it has a released path exactly when it is released;
  while its approval request is pending it still requires approval and is in quarantine or rejected; after
  a rejected or expired request it is rejected; once approved or released it requires none.
\<close>

theorem export_gate_states:
  assumes "env_ok E" and "system E w" and "x \<in> set (exports (committed w))"
  shows "(exp_released_path x \<noteq> None) = (exp_state x = export_value EXPORT_RELEASED) \<and>
    (exp_state x \<in> {export_value EXPORT_APPROVED, export_value EXPORT_RELEASED} \<longrightarrow> \<not> exp_approval_required x) \<and>
    (\<forall>a \<in> set (approvals (committed w)). apr_resource_type a = ''export'' \<and> apr_resource_id a = exp_id x \<longrightarrow>
       (apr_state a = approval_value APPROVAL_REQUESTED \<longrightarrow> exp_approval_required x \<and>
          exp_state x \<in> {export_value EXPORT_QUARANTINED, export_value EXPORT_REJECTED}) \<and>
       (apr_state a \<in> {approval_value APPROVAL_REJECTED, approval_value APPROVAL_EXPIRED} \<longrightarrow>
          exp_state x = export_value EXPORT_REJECTED))"
  using system_control [OF assms(1,2)] assms(3)
  by (simp add: control_ok_def exports_ok_def export_row_ok_def export_gates_def gate_ok_def resource_key_def)

theorem export_gate_states_witness:
  "\<exists>w x. system demo_env w \<and> x \<in> set (exports (committed w)) \<and> exp_released_path x \<noteq> None"
proof -
  from scenario_released obtain a x es k where
    w: "system demo_env (demo_world [a] [x] es demo_released 10 k)" and
    x: "exp_state x = export_value EXPORT_RELEASED" by blast
  with export_gate_states [OF demo_env_ok w, of x] show ?thesis
    by (intro exI [of _ "demo_world [a] [x] es demo_released 10 k"] exI [of _ x]) simp
qed

text \<open>
  C27. The job table in every reachable world: no requester has more than five pending jobs, no job was
  tried more often than it allows or allows more than ten tries, a queued job has a try left and a failed
  one has none.
\<close>

theorem job_table_bounds:
  assumes "env_ok E" and "system E w"
  shows "(\<forall>requester. length (filter (is_pending requester) (jobs (committed w))) \<le> 5) \<and>
    (\<forall>j \<in> set (jobs (committed w)). 0 \<le> job_attempt_count j \<and> job_attempt_count j \<le> job_max_attempts j \<and>
       job_max_attempts j \<le> 10 \<and>
       (job_state j = job_value JOB_QUEUED \<longrightarrow> job_attempt_count j < job_max_attempts j) \<and>
       (job_state j = job_value JOB_FAILED \<longrightarrow> job_attempt_count j = job_max_attempts j))"
  using system_control [OF assms]
  by (simp add: control_ok_def job_table_ok_def job_row_ok_def pending_count_def max_pending_jobs_per_requester_def)

theorem job_table_bounds_witness:
  "\<exists>w j. system demo_env w \<and> j \<in> set (jobs (committed w)) \<and> job_attempt_count j < job_max_attempts j"
proof -
  from scenario_queue obtain es n t where w: "system demo_env (queue_world [queued_demo] es n t)" by blast
  with job_table_bounds [OF demo_env_ok w] show ?thesis
    by (intro exI [of _ "queue_world [queued_demo] es n t"] exI [of _ queued_demo]) simp
qed



text \<open>
  C29. An approved export can be released: in every reachable world, for an export in state approved whose
  file is still in quarantine, the release request succeeds unless the file system refuses the copy.
\<close>

theorem approved_export_releases:
  assumes "env_ok E" and "system E w" and "x \<in> set (exports (committed w))" and "exp_state x = export_value EXPORT_APPROVED"
    and "read_file (fsys w) (os_path (cwd E) (exp_quarantine_path x)) = Some c"
    and "serve E (ReleaseExport (exp_id x)) w = (r, w')" and "\<And>e. r \<noteq> Inl (OSError e)"
  shows "\<exists>resp. r = Inr (ExportR resp) \<and> xr_state resp = export_value EXPORT_RELEASED"
proof -
  have ok: "control_ok E (uuids w) (committed w)" using system_control [OF assms(1,2)] .
  then have row: "row_get exp_id (exp_id x) (exports (committed w)) = Some x"
    using assms(3) by (simp add: control_ok_def inv_keys_def table_keys_def row_get_distinct)
  have "exp_lab_id x \<in> set (map sto_lab_id (storages (committed w)))"
    using ok assms(3) by (simp add: control_ok_def inv_refs_def)
  then obtain s where s: "row_get sto_lab_id (exp_lab_id x) (storages (committed w)) = Some s"
    using row_get_None [of sto_lab_id "exp_lab_id x" "storages (committed w)"] by auto
  have "\<not> exp_approval_required x"
    using ok assms(3,4) by (simp add: control_ok_def exports_ok_def export_row_ok_def)
  note gate = wp_release_open [OF row s assms(4) _ _ this assms(5)]
  have "answer ExportR (api_release_export E (exp_id x)) w = (r, w')" using assms(6) by simp
  from answer_outcome [OF gate this]
  have "(\<exists>e. r = Inl (OSError e)) \<or> (\<exists>resp. r = Inr (ExportR resp) \<and> xr_state resp = export_value EXPORT_RELEASED)"
    by auto
  then show ?thesis using assms(7) by blast
qed

theorem approved_export_releases_witness:
  "\<exists>w r w' resp. system demo_env w \<and> serve demo_env (ReleaseExport ''aaaa'') w = (r, w') \<and> r = Inr (ExportR resp) \<and>
     xr_state resp = export_value EXPORT_RELEASED"
proof -
  from scenario_approved obtain a x y es t where
    w: "system demo_env (demo_world [a] [demo_opened (demo_export x) y] es demo_staged 9 t)" (is "system _ ?w") by blast
  let ?x = "demo_opened (demo_export x) y"
  obtain r w' where run: "serve demo_env (ReleaseExport ''aaaa'') ?w = (r, w')" by (meson surj_pair)
  with demo_release(2) [of "[a]" x y es t] have "\<And>e. r \<noteq> Inl (OSError e)" by (auto simp: wp_def)
  moreover have "read_file (fsys ?w) (os_path (cwd demo_env) (exp_quarantine_path ?x)) = Some ''data''"
    by (simp add: demo_opened_def demo_paths demo_release_fs)
  moreover have "exp_id ?x = ''aaaa''" "exp_state ?x = export_value EXPORT_APPROVED" by (simp_all add: demo_opened_def)
  ultimately show ?thesis
    using approved_export_releases [OF demo_env_ok w, of ?x "''data''" r w'] w run by auto
qed

section \<open>The Docker runtime\<close>





section \<open>The command line\<close>







text \<open>
  C35. The wait for the local server ends: with a clock that does not run backwards and pauses that last,
  the 15 seconds are over after at most 75 turns, whatever the server answers.
\<close>

theorem wait_for_server_ends:
  assumes "clock_laws H clock_of"
  shows "fst (wait_for_api_ready H url c) \<noteq> Inl OutOfFuel"
  using wait_for_api_ready_ends [OF assms, of url c] by (simp add: wp_def case_prod_beta)

theorem wait_for_server_ends_witness:
  "fst (wait_for_api_ready desk_host ''http://127.0.0.1:8000'' desk_console) \<noteq> Inl OutOfFuel \<and> desk_clock (host desk_console) = 0"
  using wait_for_server_ends [OF desk_clock_laws] by (simp add: desk_console_def)





section \<open>Entities\<close>



text \<open>
  C39. Downgrading undoes upgrading: on a database whose indexes are on existing columns, if a revision's upgrade
  succeeds then its downgrade succeeds on the result and gives back exactly the catalogue there was, tables, columns,
  constraints and indexes in their order (and the indexes are still on existing columns after the upgrade). Going
  down from the head to the base undoes the whole chain of revisions, which is followed in its order.
\<close>

theorem downgrade_undoes_upgrade:
  assumes "catalogue_ok s"
  shows "(m \<in> set MIGRATIONS \<longrightarrow> upgrade m s = Inr s' \<longrightarrow> catalogue_ok s' \<and> downgrade m s' = Inr s) \<and>
    (upgrade_head MIGRATIONS s = Inr s' \<longrightarrow> downgrade_base MIGRATIONS s' = Inr s) \<and>
    revision_path (length MIGRATIONS) MIGRATIONS None = MIGRATIONS"
  using undoesD [OF undo_revision, OF _ assms] undo_chain [OF assms] path_of_all by blast

theorem downgrade_undoes_upgrade_witness:
  "catalogue_ok [] \<and> (\<exists>s1. upgrade initial_schema [] = Inr s1 \<and> length s1 = 6 \<and> downgrade initial_schema s1 = Inr []) \<and>
   upgrade_head MIGRATIONS [] = Inr migrated_head \<and> length migrated_head = 8 \<and>
   downgrade_base MIGRATIONS migrated_head = Inr []"
proof -
  have ok: "catalogue_ok []" by (simp add: catalogue_ok_def)
  obtain s1 where s1: "upgrade initial_schema [] = Inr s1" "length s1 = 6"
    by (simp add: upgrade_def initial_schema_def result_bind_def)
  have m: "initial_schema \<in> set MIGRATIONS" by (simp add: MIGRATIONS_def)
  have "downgrade initial_schema s1 = Inr []" using downgrade_undoes_upgrade [OF ok, of initial_schema s1] m s1(1) by blast
  moreover have "downgrade_base MIGRATIONS migrated_head = Inr []"
    using downgrade_undoes_upgrade [OF ok, of initial_schema migrated_head] head_reached by blast
  moreover have "length migrated_head = 8" by code_simp
  ultimately show ?thesis using ok s1 head_reached by blast
qed


end
